(* ===== verification/Prelude.thy ===== *)
theory Prelude
  imports Complex_Main "HOL-Library.Word" "HOL-Library.DAList" "HOL-Library.Char_ord"
begin

text \<open>
  What every component of the development shares:

  \<^item> decimal printing and parsing of unsigned integers, as Rust's \<open>Display\<close> and \<open>FromStr\<close> of \<open>u64\<close>
    do it, with their round trip;
  \<^item> 64-bit words with checked addition;
  \<^item> the outcome of a handler (a value, an error, a panic), the state-and-error procedures the
    engine's \<open>async fn\<close>s become, and their compositional invariant rules;
  \<^item> facts on association lists and lists used by several components.
\<close>

section \<open>Collections of facts\<close>

named_theorems row_simps \<open>what a storage read returns after a storage write\<close>
named_theorems pres \<open>introduction rules for procedures that preserve an invariant\<close>
named_theorems run_simps \<open>unfolding of the procedure combinators on a state\<close>

section \<open>UTF-8\<close>

text \<open>\<open>std::str::from_utf8\<close>: which byte strings are texts. No surrogates, no overlong forms, nothing
  above U+10FFFF.\<close>

definition byte_in :: "nat \<Rightarrow> nat \<Rightarrow> char \<Rightarrow> bool" where
  "byte_in lo hi c \<longleftrightarrow> lo \<le> (of_char c :: nat) \<and> (of_char c :: nat) \<le> hi"

definition cont_byte :: "char \<Rightarrow> bool" where
  "cont_byte = byte_in 0x80 0xBF"

fun valid_utf8 :: "string \<Rightarrow> bool" where
  "valid_utf8 [] = True"
| "valid_utf8 (a # r) =
     (if byte_in 0 0x7F a then valid_utf8 r
      else if byte_in 0xC2 0xDF a then (case r of b # s \<Rightarrow> cont_byte b \<and> valid_utf8 s | [] \<Rightarrow> False)
      else if byte_in 0xE0 0xEF a then
        (case r of b # c # s \<Rightarrow>
             byte_in (if a = CHR 0xE0 then 0xA0 else 0x80) (if a = CHR 0xED then 0x9F else 0xBF) b
             \<and> cont_byte c \<and> valid_utf8 s
         | _ \<Rightarrow> False)
      else if byte_in 0xF0 0xF4 a then
        (case r of b # c # d # s \<Rightarrow>
             byte_in (if a = CHR 0xF0 then 0x90 else 0x80) (if a = CHR 0xF4 then 0x8F else 0xBF) b
             \<and> cont_byte c \<and> cont_byte d \<and> valid_utf8 s
         | _ \<Rightarrow> False)
      else False)"

lemma valid_utf8_ascii: "list_all (\<lambda>c. of_char c < (128 :: nat)) s \<Longrightarrow> valid_utf8 s"
  by (induction s) (simp_all add: byte_in_def)

section \<open>Decimal numbers\<close>

definition digit_char :: "nat \<Rightarrow> char" where
  "digit_char d = char_of (48 + d)"

definition is_digit :: "char \<Rightarrow> bool" where
  "is_digit c \<longleftrightarrow> 48 \<le> (of_char c :: nat) \<and> (of_char c :: nat) \<le> 57"

definition digit_val :: "char \<Rightarrow> nat" where
  "digit_val c = of_char c - 48"

fun show_nat :: "nat \<Rightarrow> string" where
  "show_nat n = (if n < 10 then [digit_char n] else show_nat (n div 10) @ [digit_char (n mod 10)])"

declare show_nat.simps [simp del]

definition dec_value :: "string \<Rightarrow> nat" where
  "dec_value s = foldl (\<lambda>acc c. 10 * acc + digit_val c) 0 s"

text \<open>\<open>str::parse::<u64>\<close>: an optional plus sign, at least one digit, no overflow.\<close>

definition parse_u64 :: "string \<Rightarrow> nat option" where
  "parse_u64 s =
     (let ds = (case s of [] \<Rightarrow> [] | c # r \<Rightarrow> if c = CHR ''+'' then r else s) in
      if ds = [] \<or> \<not> list_all is_digit ds then None
      else if dec_value ds < 2 ^ 64 then Some (dec_value ds) else None)"

lemma of_char_digit_char [simp]: "d < 10 \<Longrightarrow> (of_char (digit_char d) :: nat) = 48 + d"
  by (simp add: digit_char_def)

lemma is_digit_digit_char [simp]: "d < 10 \<Longrightarrow> is_digit (digit_char d)"
  by (simp add: is_digit_def)

lemma digit_val_digit_char [simp]: "d < 10 \<Longrightarrow> digit_val (digit_char d) = d"
  by (simp add: digit_val_def)

lemma not_is_digit_plus [simp]: "\<not> is_digit CHR ''+''"
  by (simp add: is_digit_def)

lemma not_is_digit_dash [simp]: "\<not> is_digit CHR ''-''"
  by (simp add: is_digit_def)

lemma not_is_digit_slash [simp]: "\<not> is_digit CHR ''/''"
  by (simp add: is_digit_def)

lemma show_nat_not_Nil [simp]: "show_nat n \<noteq> []"
  by (subst show_nat.simps) simp

lemma show_nat_digits: "list_all is_digit (show_nat n)"
  by (induction n rule: show_nat.induct) (subst show_nat.simps, simp)

lemma show_nat_is_digit: "c \<in> set (show_nat n) \<Longrightarrow> is_digit c"
  using show_nat_digits [of n] by (simp add: list_all_iff)

lemma dec_value_snoc [simp]: "dec_value (s @ [c]) = 10 * dec_value s + digit_val c"
  by (simp add: dec_value_def)

lemma dec_value_show_nat [simp]: "dec_value (show_nat n) = n"
proof (induction n rule: show_nat.induct)
  case (1 n)
  show ?case
  proof (cases "n < 10")
    case True
    then show ?thesis by (simp add: show_nat.simps [of n] dec_value_def)
  next
    case False
    then have "dec_value (show_nat n) = 10 * (n div 10) + n mod 10"
      using 1 by (simp add: show_nat.simps [of n])
    then show ?thesis by simp
  qed
qed

lemma show_nat_inject [simp]: "show_nat m = show_nat n \<longleftrightarrow> m = n"
  using dec_value_show_nat by metis

lemma parse_u64_show_nat [simp]: "n < 2 ^ 64 \<Longrightarrow> parse_u64 (show_nat n) = Some n"
proof -
  assume n: "n < 2 ^ 64"
  obtain c r where cr: "show_nat n = c # r" by (cases "show_nat n") simp_all
  then have "is_digit c" using show_nat_is_digit [of c n] by simp
  then have "c \<noteq> CHR ''+''" by auto
  then show ?thesis
    using n cr show_nat_digits [of n] dec_value_show_nat [of n]
    by (simp add: parse_u64_def Let_def)
qed

lemma parse_u64_bound: "parse_u64 s = Some n \<Longrightarrow> n < 2 ^ 64"
  by (auto simp: parse_u64_def Let_def split: if_splits)

text \<open>A text between single quotes, as the messages of the code print it.\<close>

definition quoted :: "string \<Rightarrow> string" where
  "quoted s = CHR 0x27 # s @ [CHR 0x27]"

text \<open>A text as \<open>{:?}\<close> prints it: between double quotes, with the escapes of \<open>char::escape_debug\<close> for
  ASCII. Bytes outside ASCII are kept as they are.\<close>

definition hex_digit :: "nat \<Rightarrow> char" where
  "hex_digit n = (if n < 10 then digit_char n else char_of (87 + n))"

definition escape_debug :: "char \<Rightarrow> string" where
  "escape_debug c =
     (let n = of_char c in
      if n = (0 :: nat) then [CHR 0x5C, CHR ''0'']
      else if n = 9 then [CHR 0x5C, CHR ''t'']
      else if n = 10 then [CHR 0x5C, CHR ''n'']
      else if n = 13 then [CHR 0x5C, CHR ''r'']
      else if n = 34 \<or> n = 92 then [CHR 0x5C, c]
      else if n < 32 \<or> n = 127 then
        [CHR 0x5C, CHR ''u'', CHR 0x7B] @ (if n < 16 then [] else [hex_digit (n div 16)]) @ [hex_digit (n mod 16), CHR 0x7D]
      else [c])"

definition debug_str :: "string \<Rightarrow> string" where
  "debug_str s = CHR 0x22 # concat (map escape_debug s) @ [CHR 0x22]"

definition is_alnum :: "char \<Rightarrow> bool" where
  "is_alnum c \<longleftrightarrow> is_digit c
     \<or> (65 \<le> (of_char c :: nat) \<and> (of_char c :: nat) \<le> 90)
     \<or> (97 \<le> (of_char c :: nat) \<and> (of_char c :: nat) \<le> 122)"

section \<open>Machine words\<close>

type_synonym u64 = "64 word"
type_synonym u32 = "32 word"

definition u64_max :: nat where
  "u64_max = 2 ^ 64 - 1"

lemma unat_of_nat_u64: "n < 2 ^ 64 \<Longrightarrow> unat (of_nat n :: u64) = n"
  by (simp add: unat_of_nat)

lemma unat_u64_lt: "unat (w :: u64) < 2 ^ 64"
proof -
  have "unat w < 2 ^ LENGTH(64)" by (rule unsigned_less)
  then show ?thesis by simp
qed

text \<open>\<open>u64::checked_add\<close>.\<close>

definition checked_add_u64 :: "u64 \<Rightarrow> u64 \<Rightarrow> u64 option" where
  "checked_add_u64 a b = (if unat a + unat b < 2 ^ 64 then Some (a + b) else None)"

lemma checked_add_u64_Some:
  "checked_add_u64 a b = Some c \<longleftrightarrow> unat a + unat b < 2 ^ 64 \<and> unat c = unat a + unat b"
proof -
  have *: "unat a + unat b < 2 ^ 64 \<Longrightarrow> unat (a + b) = unat a + unat b"
    by (subst unat_plus_if_size) (simp add: word_size)
  show ?thesis
    using * by (auto simp: checked_add_u64_def intro: word_unat_eq_iff [THEN iffD2])
qed

lemma checked_add_u64_None:
  "checked_add_u64 a b = None \<longleftrightarrow> 2 ^ 64 \<le> unat a + unat b"
  by (simp add: checked_add_u64_def not_less)

lemma checked_add_u64_mono: "checked_add_u64 a b = Some c \<Longrightarrow> a \<le> c"
  by (simp add: checked_add_u64_Some word_le_nat_alt)

section \<open>Procedures: state passing with errors and panics\<close>

text \<open>
  An \<open>async fn\<close> of the engine that returns a \<open>Result\<close> is a function of the processing state. It
  ends with a value, with an error (the \<open>Err\<close> that \<open>?\<close> propagates), or with a panic (\<open>expect\<close>,
  \<open>unreachable!\<close>, a failing \<open>assert!\<close>, an out-of-range slice). The state is returned in every case, so
  that what an early return leaves behind is visible.
\<close>

datatype ('e, 'a) outcome = Done 'a | Err 'e | Panicked string

type_synonym ('s, 'e, 'a) proc = "'s \<Rightarrow> ('e, 'a) outcome \<times> 's"

definition ret :: "'a \<Rightarrow> ('s, 'e, 'a) proc" where
  "ret x = (\<lambda>s. (Done x, s))"

definition throw :: "'e \<Rightarrow> ('s, 'e, 'a) proc" where
  "throw e = (\<lambda>s. (Err e, s))"

definition panic :: "string \<Rightarrow> ('s, 'e, 'a) proc" where
  "panic w = (\<lambda>s. (Panicked w, s))"

definition gets :: "('s \<Rightarrow> 'a) \<Rightarrow> ('s, 'e, 'a) proc" where
  "gets f = (\<lambda>s. (Done (f s), s))"

definition modify :: "('s \<Rightarrow> 's) \<Rightarrow> ('s, 'e, unit) proc" where
  "modify f = (\<lambda>s. (Done (), f s))"

definition bnd :: "('s, 'e, 'a) proc \<Rightarrow> ('a \<Rightarrow> ('s, 'e, 'b) proc) \<Rightarrow> ('s, 'e, 'b) proc" where
  "bnd m f = (\<lambda>s. case m s of
       (Done x, s') \<Rightarrow> f x s'
     | (Err e, s') \<Rightarrow> (Err e, s')
     | (Panicked w, s') \<Rightarrow> (Panicked w, s'))"

definition seq :: "('s, 'e, 'a) proc \<Rightarrow> ('s, 'e, 'b) proc \<Rightarrow> ('s, 'e, 'b) proc" where
  "seq m n = bnd m (\<lambda>_. n)"

definition whenp :: "bool \<Rightarrow> ('s, 'e, unit) proc \<Rightarrow> ('s, 'e, unit) proc" where
  "whenp b m = (if b then m else ret ())"

text \<open>A \<open>match\<close> on the result of a call that handles the error itself.\<close>

definition handle :: "('s, 'e, 'a) proc \<Rightarrow> ('e \<Rightarrow> ('s, 'e, 'a) proc) \<Rightarrow> ('s, 'e, 'a) proc" where
  "handle m h = (\<lambda>s. case m s of
       (Done x, s') \<Rightarrow> (Done x, s')
     | (Err e, s') \<Rightarrow> h e s'
     | (Panicked w, s') \<Rightarrow> (Panicked w, s'))"

text \<open>\<open>for x in xs { ... }\<close>, and the loop that collects a value per element.\<close>

fun each :: "('a \<Rightarrow> ('s, 'e, unit) proc) \<Rightarrow> 'a list \<Rightarrow> ('s, 'e, unit) proc" where
  "each f [] = ret ()"
| "each f (x # xs) = seq (f x) (each f xs)"

fun mapp :: "('a \<Rightarrow> ('s, 'e, 'b) proc) \<Rightarrow> 'a list \<Rightarrow> ('s, 'e, 'b list) proc" where
  "mapp f [] = ret []"
| "mapp f (x # xs) = bnd (f x) (\<lambda>y. bnd (mapp f xs) (\<lambda>ys. ret (y # ys)))"

lemma ret_run [run_simps]: "ret x s = (Done x, s)"
  by (simp add: ret_def)

lemma throw_run [run_simps]: "throw e s = (Err e, s)"
  by (simp add: throw_def)

lemma panic_run [run_simps]: "panic w s = (Panicked w, s)"
  by (simp add: panic_def)

lemma gets_run [run_simps]: "gets f s = (Done (f s), s)"
  by (simp add: gets_def)

lemma modify_run [run_simps]: "modify f s = (Done (), f s)"
  by (simp add: modify_def)

lemma bnd_run [run_simps]:
  "m s = (Done x, s') \<Longrightarrow> bnd m f s = f x s'"
  "m s = (Err e, s') \<Longrightarrow> bnd m f s = (Err e, s')"
  "m s = (Panicked w, s') \<Longrightarrow> bnd m f s = (Panicked w, s')"
  by (simp_all add: bnd_def)

lemma seq_run [run_simps]:
  "m s = (Done x, s') \<Longrightarrow> seq m n s = n s'"
  "m s = (Err e, s') \<Longrightarrow> seq m n s = (Err e, s')"
  "m s = (Panicked w, s') \<Longrightarrow> seq m n s = (Panicked w, s')"
  by (simp_all add: seq_def bnd_def)

lemma whenp_run [run_simps]:
  "whenp True m s = m s" "whenp False m s = (Done (), s)"
  by (simp_all add: whenp_def ret_def)

lemma bnd_ret [simp]: "bnd (ret x) f = f x"
  by (simp add: bnd_def ret_def)

lemma bnd_throw [simp]: "bnd (throw e) f = throw e"
  by (simp add: bnd_def throw_def)

lemma bnd_panic [simp]: "bnd (panic w) f = panic w"
  by (simp add: bnd_def panic_def)

lemma bnd_assoc: "bnd (bnd m f) g = bnd m (\<lambda>x. bnd (f x) g)"
  by (rule ext) (simp add: bnd_def split: prod.split outcome.split)

subsection \<open>Invariants of procedures\<close>

text \<open>\<open>preserves I m\<close>: whatever the outcome of \<open>m\<close>, it keeps \<open>I\<close>.\<close>

definition preserves :: "('s \<Rightarrow> bool) \<Rightarrow> ('s, 'e, 'a) proc \<Rightarrow> bool" where
  "preserves I m \<longleftrightarrow> (\<forall>s. I s \<longrightarrow> I (snd (m s)))"

lemma preservesD: "preserves I m \<Longrightarrow> m s = (r, s') \<Longrightarrow> I s \<Longrightarrow> I s'"
  unfolding preserves_def by (metis snd_conv)

lemma preserves_ret [pres]: "preserves I (ret x)"
  by (simp add: preserves_def ret_def)

lemma preserves_throw [pres]: "preserves I (throw e)"
  by (simp add: preserves_def throw_def)

lemma preserves_panic [pres]: "preserves I (panic w)"
  by (simp add: preserves_def panic_def)

lemma preserves_gets [pres]: "preserves I (gets f)"
  by (simp add: preserves_def gets_def)

lemma preserves_bnd [pres]:
  assumes "preserves I m" "\<And>x. preserves I (f x)"
  shows "preserves I (bnd m f)"
  unfolding preserves_def
proof (intro allI impI)
  fix s assume "I s"
  then have "I (snd (m s))" using assms(1) by (simp add: preserves_def)
  then show "I (snd (bnd m f s))"
    using assms(2) by (auto simp: bnd_def preserves_def split: prod.split outcome.split)
qed

lemma preserves_seq [pres]: "preserves I m \<Longrightarrow> preserves I n \<Longrightarrow> preserves I (seq m n)"
  by (simp add: seq_def preserves_bnd)

lemma preserves_whenp [pres]: "(b \<Longrightarrow> preserves I m) \<Longrightarrow> preserves I (whenp b m)"
  by (simp add: whenp_def preserves_ret)

lemma preserves_handle [pres]:
  assumes "preserves I m" "\<And>e. preserves I (h e)"
  shows "preserves I (handle m h)"
  unfolding preserves_def
proof (intro allI impI)
  fix s assume "I s"
  then have "I (snd (m s))" using assms(1) by (simp add: preserves_def)
  then show "I (snd (handle m h s))"
    using assms(2) by (auto simp: handle_def preserves_def split: prod.split outcome.split)
qed

lemma preserves_each [pres]: "(\<And>x. preserves I (f x)) \<Longrightarrow> preserves I (each f xs)"
  by (induction xs) (auto intro: pres)

lemma preserves_mapp [pres]: "(\<And>x. preserves I (f x)) \<Longrightarrow> preserves I (mapp f xs)"
  by (induction xs) (auto intro: pres)

lemma preserves_if [pres]:
  "(b \<Longrightarrow> preserves I m) \<Longrightarrow> (\<not> b \<Longrightarrow> preserves I n) \<Longrightarrow> preserves I (if b then m else n)"
  by simp

lemma preserves_Let [pres]: "(\<And>y. y = x \<Longrightarrow> preserves I (f y)) \<Longrightarrow> preserves I (Let x f)"
  by simp

lemma preserves_option [pres]:
  "(x = None \<Longrightarrow> preserves I m) \<Longrightarrow> (\<And>y. x = Some y \<Longrightarrow> preserves I (f y)) \<Longrightarrow>
   preserves I (case x of None \<Rightarrow> m | Some y \<Rightarrow> f y)"
  by (cases x) simp_all

lemma preserves_sum [pres]:
  "(\<And>y. x = Inl y \<Longrightarrow> preserves I (f y)) \<Longrightarrow> (\<And>y. x = Inr y \<Longrightarrow> preserves I (g y)) \<Longrightarrow>
   preserves I (case x of Inl y \<Rightarrow> f y | Inr y \<Rightarrow> g y)"
  by (cases x) simp_all

lemma preserves_prod [pres]:
  "(\<And>a b. x = (a, b) \<Longrightarrow> preserves I (f a b)) \<Longrightarrow> preserves I (case x of (a, b) \<Rightarrow> f a b)"
  by (cases x) simp

lemma preserves_list [pres]:
  "(x = [] \<Longrightarrow> preserves I m) \<Longrightarrow> (\<And>y ys. x = y # ys \<Longrightarrow> preserves I (f y ys)) \<Longrightarrow>
   preserves I (case x of [] \<Rightarrow> m | y # ys \<Rightarrow> f y ys)"
  by (cases x) simp_all

subsection \<open>What a successful run establishes\<close>

text \<open>\<open>post m Q s\<close>: if \<open>m\<close> returns a value from \<open>s\<close>, then \<open>Q\<close> holds of it and of the state left.\<close>

definition post :: "('s, 'e, 'a) proc \<Rightarrow> ('a \<Rightarrow> 's \<Rightarrow> bool) \<Rightarrow> 's \<Rightarrow> bool" where
  "post m Q s \<longleftrightarrow> (case m s of (Done x, s') \<Rightarrow> Q x s' | _ \<Rightarrow> True)"

lemma post_ret [simp]: "post (ret x) Q s \<longleftrightarrow> Q x s"
  by (simp add: post_def ret_def)

lemma post_throw [simp]: "post (throw e) Q s"
  by (simp add: post_def throw_def)

lemma post_panic [simp]: "post (panic w) Q s"
  by (simp add: post_def panic_def)

lemma post_gets [simp]: "post (gets f) Q s \<longleftrightarrow> Q (f s) s"
  by (simp add: post_def gets_def)

lemma post_modify [simp]: "post (modify f) Q s \<longleftrightarrow> Q () (f s)"
  by (simp add: post_def modify_def)

lemma post_bnd [simp]: "post (bnd m f) Q s \<longleftrightarrow> post m (\<lambda>x. post (f x) Q) s"
  by (simp add: post_def bnd_def split: prod.split outcome.split)

lemma post_seq [simp]: "post (seq m n) Q s \<longleftrightarrow> post m (\<lambda>_. post n Q) s"
  by (simp add: seq_def)

lemma post_whenp [simp]: "post (whenp b m) Q s \<longleftrightarrow> (if b then post m Q s else Q () s)"
  by (simp add: whenp_def)

lemma postD: "post m Q s \<Longrightarrow> m s = (Done x, s') \<Longrightarrow> Q x s'"
  by (simp add: post_def)

lemma postI: "(\<And>x s'. m s = (Done x, s') \<Longrightarrow> Q x s') \<Longrightarrow> post m Q s"
  by (simp add: post_def split: prod.split outcome.split)

lemma post_mono: "post m Q s \<Longrightarrow> (\<And>x s'. Q x s' \<Longrightarrow> R x s') \<Longrightarrow> post m R s"
  by (auto simp: post_def split: prod.splits outcome.splits)

lemma post_preserves: "preserves I m \<Longrightarrow> I s \<Longrightarrow> post m (\<lambda>_. I) s"
  by (rule postI) (rule preservesD)

end
