(* ===== verification/Names.thy ===== *)
theory Names
  imports Prelude
begin

text \<open>
  The leaf kernel \<open>src/crates/machinery\<close>: validated object names (\<open>name.rs\<close>), wall-clock instants
  (\<open>timestamp.rs\<close>), the manual clock (\<open>clock.rs\<close>) and the counting id generator (\<open>id.rs\<close>).

  A Rust \<open>str\<close> is its list of bytes.
\<close>

section \<open>Object names\<close>

datatype name_error = Invalid string

datatype plain_name = PlainName string

type_synonym scope_name = plain_name
type_synonym flow_name = plain_name

definition valid_plain :: "string \<Rightarrow> bool" where
  "valid_plain raw \<longleftrightarrow> 4 \<le> length raw \<and> length raw \<le> 64 \<and> is_alnum (raw ! 0)
     \<and> list_all (\<lambda>b. is_alnum b \<or> b = CHR ''_'') raw"

definition plain_new :: "string \<Rightarrow> name_error + plain_name" where
  "plain_new raw =
     (if valid_plain raw then Inr (PlainName raw)
      else Inl (Invalid (''invalid plain object name '' @ debug_str raw @ '': must be 4..=64 chars of A-Za-z0-9_; ''
        @ quoted ''-'' @ '' is reserved for generated names'')))"

fun plain_as_str :: "plain_name \<Rightarrow> string" where
  "plain_as_str (PlainName s) = s"

text \<open>The suffix is a \<open>u64\<close>; it is kept as the natural number it stands for.\<close>

record generated_name =
  g_base :: plain_name
  g_suffix :: nat

datatype object_name = Plain plain_name | Generated generated_name

definition generated_from_key :: "plain_name \<Rightarrow> nat \<Rightarrow> object_name" where
  "generated_from_key p key = Generated \<lparr> g_base = p, g_suffix = key \<rparr>"

definition object_name_plain :: "string \<Rightarrow> name_error + object_name" where
  "object_name_plain raw = (case plain_new raw of Inl e \<Rightarrow> Inl e | Inr p \<Rightarrow> Inr (Plain p))"

fun base :: "object_name \<Rightarrow> plain_name" where
  "base (Plain p) = p"
| "base (Generated g) = g_base g"

fun suffix :: "object_name \<Rightarrow> nat option" where
  "suffix (Plain _) = None"
| "suffix (Generated g) = Some (g_suffix g)"

fun as_plain :: "object_name \<Rightarrow> plain_name option" where
  "as_plain (Plain p) = Some p"
| "as_plain (Generated _) = None"

fun is_generated :: "object_name \<Rightarrow> bool" where
  "is_generated (Plain _) = False"
| "is_generated (Generated _) = True"

fun as_str :: "object_name \<Rightarrow> string" where
  "as_str (Plain p) = plain_as_str p"
| "as_str (Generated g) = plain_as_str (g_base g) @ ''-'' @ show_nat (g_suffix g)"

text \<open>\<open>str::split_once\<close> with a one-byte separator.\<close>

definition split_once :: "char \<Rightarrow> string \<Rightarrow> (string \<times> string) option" where
  "split_once sep s =
     (case dropWhile (\<lambda>c. c \<noteq> sep) s of
        [] \<Rightarrow> None
      | _ # rest \<Rightarrow> Some (takeWhile (\<lambda>c. c \<noteq> sep) s, rest))"

definition from_parsed :: "string \<Rightarrow> name_error + object_name" where
  "from_parsed raw =
     (if \<not> (raw \<noteq> [] \<and> is_alnum (raw ! 0)
             \<and> list_all (\<lambda>b. is_alnum b \<or> b = CHR ''_'' \<or> b = CHR ''-'') raw)
      then Inl (Invalid (''invalid object name '' @ debug_str raw @ '' in address''))
      else case split_once CHR ''-'' raw of
        Some (b, sfx) \<Rightarrow>
          (case parse_u64 sfx of
             None \<Rightarrow> Inl (Invalid (''invalid generateName suffix '' @ debug_str sfx @ '': must be a decimal u64''))
           | Some n \<Rightarrow>
               (case plain_new b of Inl e \<Rightarrow> Inl e | Inr p \<Rightarrow> Inr (generated_from_key p n)))
      | None \<Rightarrow> (case plain_new raw of Inl e \<Rightarrow> Inl e | Inr p \<Rightarrow> Inr (Plain p)))"

text \<open>What the constructors of the code guarantee of a name: it went through \<open>plain_new\<close>, and a
  suffix is a 64-bit number.\<close>

fun wf_name :: "object_name \<Rightarrow> bool" where
  "wf_name (Plain p) \<longleftrightarrow> valid_plain (plain_as_str p)"
| "wf_name (Generated g) \<longleftrightarrow> valid_plain (plain_as_str (g_base g)) \<and> g_suffix g < 2 ^ 64"

lemma plain_name_eq_iff: "p = q \<longleftrightarrow> plain_as_str p = plain_as_str q"
  by (cases p; cases q) simp

lemma plain_new_Inr [simp]: "plain_new s = Inr p \<longleftrightarrow> valid_plain s \<and> p = PlainName s"
  by (auto simp: plain_new_def)

lemma plain_new_as_str [simp]: "valid_plain (plain_as_str p) \<Longrightarrow> plain_new (plain_as_str p) = Inr p"
  by (cases p) (simp add: plain_new_def)

lemma is_alnum_not_sep [simp]: "is_alnum c \<Longrightarrow> c \<noteq> CHR ''-'' \<and> c \<noteq> CHR ''/''"
  by (auto simp: is_alnum_def)

lemma digit_is_alnum: "is_digit c \<Longrightarrow> is_alnum c"
  by (simp add: is_alnum_def)

lemma valid_plain_chars:
  "valid_plain s \<Longrightarrow> c \<in> set s \<Longrightarrow> is_alnum c \<or> c = CHR ''_''"
  by (simp add: valid_plain_def list_all_iff)

lemma valid_plain_no_sep:
  assumes "valid_plain s"
  shows "CHR ''-'' \<notin> set s" "CHR ''/'' \<notin> set s"
  using valid_plain_chars [OF assms] by (auto dest!: is_alnum_not_sep)

lemma valid_plain_hd: "valid_plain s \<Longrightarrow> s \<noteq> [] \<and> is_alnum (s ! 0)"
  by (auto simp: valid_plain_def)

lemma split_once_Some [simp]: "sep \<notin> set a \<Longrightarrow> split_once sep (a @ sep # b) = Some (a, b)"
proof -
  assume a: "sep \<notin> set a"
  then have "dropWhile (\<lambda>c. c \<noteq> sep) (a @ sep # b) = sep # b"
    by (induction a) auto
  moreover have "takeWhile (\<lambda>c. c \<noteq> sep) (a @ sep # b) = a"
    using a by (induction a) auto
  ultimately show ?thesis by (simp add: split_once_def)
qed

lemma split_once_None [simp]: "sep \<notin> set a \<Longrightarrow> split_once sep a = None"
proof -
  assume "sep \<notin> set a"
  then have "dropWhile (\<lambda>c. c \<noteq> sep) a = []" by (induction a) auto
  then show ?thesis by (simp only: split_once_def list.case)
qed

lemma split_once_eq: "split_once sep s = Some (a, b) \<Longrightarrow> s = a @ sep # b \<and> sep \<notin> set a"
proof (induction s arbitrary: a)
  case Nil
  then show ?case by (simp add: split_once_def)
next
  case (Cons c s)
  show ?case
  proof (cases "c = sep")
    case True
    then show ?thesis using Cons.prems by (simp add: split_once_def)
  next
    case False
    then obtain a' where "split_once sep s = Some (a', b)" "a = c # a'"
      using Cons.prems by (auto simp: split_once_def split: list.splits)
    then show ?thesis using Cons.IH False by auto
  qed
qed

lemma as_str_chars:
  assumes "wf_name n" "c \<in> set (as_str n)"
  shows "is_alnum c \<or> c = CHR ''_'' \<or> c = CHR ''-''"
  using assms by (cases n) (auto dest: valid_plain_chars show_nat_is_digit digit_is_alnum)

lemma as_str_no_slash: "wf_name n \<Longrightarrow> CHR ''/'' \<notin> set (as_str n)"
  using as_str_chars [of n "CHR ''/''"] is_alnum_not_sep [of "CHR ''/''"] by auto

lemma as_str_hd: "wf_name n \<Longrightarrow> as_str n \<noteq> [] \<and> is_alnum (as_str n ! 0)"
  by (cases n) (auto dest: valid_plain_hd simp: nth_append)

text \<open>The address form of a name parses back to that name.\<close>

lemma from_parsed_as_str:
  assumes "wf_name n"
  shows "from_parsed (as_str n) = Inr n"
proof -
  have ok: "list_all (\<lambda>b. is_alnum b \<or> b = CHR ''_'' \<or> b = CHR ''-'') (as_str n)"
    using as_str_chars [OF assms] by (auto simp: list_all_iff)
  show ?thesis
  proof (cases n)
    case (Plain p)
    then show ?thesis
      using assms ok as_str_hd [OF assms] valid_plain_no_sep(1) [of "plain_as_str p"]
      by (simp add: from_parsed_def)
  next
    case (Generated g)
    then show ?thesis
      using assms ok as_str_hd [OF assms] valid_plain_no_sep(1) [of "plain_as_str (g_base g)"]
      by (simp add: from_parsed_def generated_from_key_def)
  qed
qed

lemma as_str_inj: "wf_name m \<Longrightarrow> wf_name n \<Longrightarrow> as_str m = as_str n \<longleftrightarrow> m = n"
  using from_parsed_as_str by (metis sum.inject(2))

lemma from_parsed_wf: "from_parsed s = Inr n \<Longrightarrow> wf_name n"
  by (auto simp: from_parsed_def generated_from_key_def dest: parse_u64_bound
      split: if_splits option.splits sum.splits prod.splits)

lemma from_parsed_base:
  "from_parsed s = Inr (Plain p) \<Longrightarrow> s = plain_as_str p"
  by (auto simp: from_parsed_def generated_from_key_def split: if_splits option.splits sum.splits prod.splits)

section \<open>Instants\<close>

text \<open>\<open>Timestamp(u64)\<close>, in milliseconds since the epoch. A \<open>Duration\<close> is its number of
  milliseconds, which is a \<open>u128\<close> in the code.\<close>

type_synonym timestamp = u64

definition ts_checked_add :: "timestamp \<Rightarrow> nat \<Rightarrow> timestamp option" where
  "ts_checked_add t d = (if d < 2 ^ 64 then checked_add_u64 t (of_nat d) else None)"

definition saturating_duration_since :: "timestamp \<Rightarrow> timestamp \<Rightarrow> nat" where
  "saturating_duration_since t earlier = unat t - unat earlier"

text \<open>\<open>time::OffsetDateTime::parse\<close> is not part of the repository: it is the argument \<open>parse\<close>, which
  yields the unix second and the millisecond within it.\<close>

definition from_rfc3339 :: "(string \<Rightarrow> (int \<times> nat) option) \<Rightarrow> string \<Rightarrow> timestamp option" where
  "from_rfc3339 parse s =
     (case parse s of
        None \<Rightarrow> None
      | Some (secs, millisecond) \<Rightarrow>
          if secs < 0 \<or> 2 ^ 64 \<le> nat secs * 1000 then None
          else Some (of_nat (min u64_max (nat secs * 1000 + millisecond))))"

lemma ts_checked_add_Some:
  "ts_checked_add t d = Some u \<longleftrightarrow> unat t + d < 2 ^ 64 \<and> unat u = unat t + d"
  by (auto simp: ts_checked_add_def checked_add_u64_Some unat_of_nat_u64)

lemma ts_checked_add_None: "ts_checked_add t d = None \<longleftrightarrow> 2 ^ 64 \<le> unat t + d"
  by (auto simp: ts_checked_add_def checked_add_u64_None unat_of_nat_u64)

lemma ts_checked_add_duration:
  "ts_checked_add t d = Some u \<Longrightarrow> saturating_duration_since u t = d"
  by (simp add: ts_checked_add_Some saturating_duration_since_def)

subsection \<open>The manual clock and the counting generator\<close>

record manual_clock =
  mc_millis :: u64

definition manual_now :: "manual_clock \<Rightarrow> timestamp" where
  "manual_now c = mc_millis c"

definition manual_set :: "manual_clock \<Rightarrow> timestamp \<Rightarrow> manual_clock" where
  "manual_set c t = c \<lparr> mc_millis := t \<rparr>"

definition manual_advance :: "manual_clock \<Rightarrow> nat \<Rightarrow> timestamp \<times> manual_clock" where
  "manual_advance c by_ms =
     (let step = min u64_max by_ms;
          nxt = of_nat (min u64_max (unat (mc_millis c) + step))
      in (nxt, manual_set c nxt))"

text \<open>A \<open>Ulid\<close> is a \<open>u128\<close>; only its identity matters. The generator's counter is an \<open>AtomicU64\<close>,
  whose \<open>fetch_add\<close> wraps.\<close>

type_synonym ulid = nat

record counting_ids =
  ci_next :: u64

definition next_ulid :: "counting_ids \<Rightarrow> ulid \<times> counting_ids" where
  "next_ulid g = (unat (ci_next g), g \<lparr> ci_next := ci_next g + 1 \<rparr>)"

lemma manual_advance_mono:
  "manual_advance c d = (t, c') \<Longrightarrow> manual_now c \<le> t \<and> manual_now c' = t"
proof -
  assume h: "manual_advance c d = (t, c')"
  let ?n = "min u64_max (unat (mc_millis c) + min u64_max d)"
  have "?n < 2 ^ 64" by (simp add: u64_max_def)
  then have "unat (of_nat ?n :: u64) = ?n" by (rule unat_of_nat_u64)
  moreover have "t = of_nat ?n" using h by (simp add: manual_advance_def Let_def)
  moreover have "unat (mc_millis c) \<le> u64_max"
    using unat_u64_lt [of "mc_millis c"] by (simp add: u64_max_def)
  ultimately have "unat (mc_millis c) \<le> unat t" by simp
  then show ?thesis
    using h by (auto simp: manual_advance_def Let_def manual_set_def manual_now_def word_le_nat_alt)
qed

end
