(* ===== verification/Asl.thy ===== *)
theory Asl
  imports Names
begin

text \<open>
  The crate \<open>src/crates/asl\<close>: JSON values as \<open>serde_json\<close> has them, the states of a JSONata ASL state
  machine, the field parsers that a definition's fields go through, and \<open>StatePath\<close>, the JSON pointer
  that addresses a state inside nested \<open>Parallel\<close> branches and \<open>Map\<close> item processors.

  A JSON pointer (crate \<open>jsonptr\<close>) is the list of its decoded tokens. A \<open>HashMap<String, State>\<close> of a
  definition is an association list. Error texts are those of the code.
\<close>

section \<open>JSON values\<close>

text \<open>An object keeps insertion order (the build enables \<open>preserve_order\<close>). A number is an integer or
  a float; floats are the rationals they denote.\<close>

datatype json_number = JInt int | JFloat rat

datatype json =
    JNull
  | JBool bool
  | JNumber json_number
  | JString string
  | JArray "json list"
  | JObject "(string \<times> json) list"

fun as_i64 :: "json_number \<Rightarrow> int option" where
  "as_i64 (JInt i) = (if - (2 ^ 63) \<le> i \<and> i < 2 ^ 63 then Some i else None)"
| "as_i64 (JFloat _) = None"

fun as_f64 :: "json_number \<Rightarrow> rat" where
  "as_f64 (JInt i) = of_int i"
| "as_f64 (JFloat r) = r"

text \<open>\<open>str::trim\<close>, for the ASCII white space.\<close>

definition is_space :: "char \<Rightarrow> bool" where
  "is_space c \<longleftrightarrow> (let n = (of_char c :: nat) in n = 32 \<or> (9 \<le> n \<and> n \<le> 13))"

definition trim_str :: "string \<Rightarrow> string" where
  "trim_str s = rev (dropWhile is_space (rev (dropWhile is_space s)))"

definition starts_with :: "string \<Rightarrow> string \<Rightarrow> bool" where
  "starts_with p s \<longleftrightarrow> take (length p) s = p"

definition ends_with :: "string \<Rightarrow> string \<Rightarrow> bool" where
  "ends_with p s \<longleftrightarrow> length p \<le> length s \<and> drop (length s - length p) s = p"

section \<open>Expressions and field parsers\<close>

datatype jsonata_expr = JsonataExpr string

fun expr_as_str :: "jsonata_expr \<Rightarrow> string" where
  "expr_as_str (JsonataExpr s) = s"

definition is_jsonata_expr :: "string \<Rightarrow> bool" where
  "is_jsonata_expr value =
     (let trimmed = trim_str value in starts_with ''{%'' trimmed \<and> ends_with ''%}'' trimmed)"

definition jsonata_expr_parse :: "string \<Rightarrow> string \<Rightarrow> string + jsonata_expr" where
  "jsonata_expr_parse value field_name =
     (if is_jsonata_expr value then Inr (JsonataExpr value)
      else Inl (field_name @ '' string must be a JSONata expression wrapped in {% %}''))"

datatype int_or_expr = IntLit int | IntExpr jsonata_expr

definition parse_int_or_expr :: "json \<Rightarrow> string \<Rightarrow> string + int_or_expr" where
  "parse_int_or_expr value field_name =
     (case value of
        JNumber n \<Rightarrow>
          (case as_i64 n of
             Some i \<Rightarrow> Inr (IntLit i)
           | None \<Rightarrow> Inl (field_name @ '' must be an integer''))
      | JString s \<Rightarrow> map_sum id IntExpr (jsonata_expr_parse s field_name)
      | _ \<Rightarrow> Inl (field_name @ '' must be either an integer or a JSONata string''))"

definition parse_non_negative_int_or_expr :: "json \<Rightarrow> string \<Rightarrow> string + int_or_expr" where
  "parse_non_negative_int_or_expr value field_name =
     (case value of
        JNumber n \<Rightarrow>
          (case as_i64 n of
             Some i \<Rightarrow> if 0 \<le> i then Inr (IntLit i)
                        else Inl (field_name @ '' must be a non-negative integer'')
           | None \<Rightarrow> Inl (field_name @ '' must be a non-negative integer''))
      | JString s \<Rightarrow> map_sum id IntExpr (jsonata_expr_parse s field_name)
      | _ \<Rightarrow> Inl (field_name @ '' must be either a non-negative integer or a JSONata string''))"

datatype choice_condition = CondBool bool | CondExpr jsonata_expr

definition parse_choice_condition :: "json \<Rightarrow> string + choice_condition" where
  "parse_choice_condition value =
     (case value of
        JBool b \<Rightarrow> Inr (CondBool b)
      | JString s \<Rightarrow> map_sum id CondExpr (jsonata_expr_parse s ''Condition'')
      | _ \<Rightarrow> Inl ''Condition must be either a boolean or a JSONata string'')"

datatype map_items = ItemsArray "json list" | ItemsExpr jsonata_expr

definition parse_map_items :: "json \<Rightarrow> string + map_items" where
  "parse_map_items value =
     (case value of
        JArray items \<Rightarrow> Inr (ItemsArray items)
      | JString s \<Rightarrow> map_sum id ItemsExpr (jsonata_expr_parse s ''Items'')
      | _ \<Rightarrow> Inl ''Items must be either a JSON array or a JSONata string'')"

datatype map_tolerated_failure_percentage = PercentNumber json_number | PercentExpr jsonata_expr

definition parse_map_tolerated_failure_percentage ::
  "json \<Rightarrow> string + map_tolerated_failure_percentage" where
  "parse_map_tolerated_failure_percentage value =
     (case value of
        JNumber n \<Rightarrow>
          if 0 \<le> as_f64 n \<and> as_f64 n \<le> 100 then Inr (PercentNumber n)
          else Inl ''ToleratedFailurePercentage must be a number between 0 and 100''
      | JString s \<Rightarrow> map_sum id PercentExpr (jsonata_expr_parse s ''ToleratedFailurePercentage'')
      | _ \<Rightarrow> Inl ''ToleratedFailurePercentage must be either a number between 0 and 100 or a JSONata string'')"

datatype wait_timestamp = WaitLiteral string | WaitExpr jsonata_expr

definition parse_wait_timestamp :: "string \<Rightarrow> wait_timestamp" where
  "parse_wait_timestamp s =
     (case jsonata_expr_parse s ''Timestamp'' of
        Inr expr \<Rightarrow> WaitExpr expr
      | Inl _ \<Rightarrow> WaitLiteral s)"

section \<open>States\<close>

type_synonym assign_object = "(string \<times> json) list"

record catcher =
  ct_error_equals :: "string list"
  ct_next :: string
  ct_assign :: "assign_object option"
  ct_output :: "json option"

record retrier =
  rt_error_equals :: "string list"
  rt_interval_seconds :: "int option"
  rt_max_attempts :: "int option"
  rt_backoff_rate :: "json_number option"
  rt_max_delay_seconds :: "int option"
  rt_jitter_strategy :: "string option"

definition retrier_interval_seconds :: "retrier \<Rightarrow> int" where
  "retrier_interval_seconds r = (case rt_interval_seconds r of Some i \<Rightarrow> i | None \<Rightarrow> 1)"

definition retrier_max_attempts :: "retrier \<Rightarrow> int" where
  "retrier_max_attempts r = (case rt_max_attempts r of Some i \<Rightarrow> i | None \<Rightarrow> 3)"

definition retrier_backoff_rate :: "retrier \<Rightarrow> rat" where
  "retrier_backoff_rate r = (case rt_backoff_rate r of Some n \<Rightarrow> as_f64 n | None \<Rightarrow> 2)"

record pass_state =
  ps_comment :: "string option"
  ps_output :: "json option"
  ps_assign :: "assign_object option"
  ps_next :: "string option"
  ps_end :: "bool option"

record wait_state =
  ws_comment :: "string option"
  ws_output :: "json option"
  ws_assign :: "assign_object option"
  ws_next :: "string option"
  ws_end :: "bool option"
  ws_seconds :: "int_or_expr option"
  ws_timestamp :: "wait_timestamp option"

record succeed_state =
  ss_comment :: "string option"
  ss_output :: "json option"

record fail_state =
  fs_comment :: "string option"
  fs_cause :: "string option"
  fs_error :: "string option"

record task_state =
  ts_comment :: "string option"
  ts_output :: "json option"
  ts_assign :: "assign_object option"
  ts_next :: "string option"
  ts_end :: "bool option"
  ts_arguments :: "json option"
  ts_retry :: "retrier list option"
  ts_catch :: "catcher list option"
  ts_resource :: string
  ts_timeout_seconds :: "int_or_expr option"
  ts_heartbeat_seconds :: "int_or_expr option"

record choice_rule =
  cr_condition :: "choice_condition option"
  cr_next :: string
  cr_assign :: "assign_object option"
  cr_output :: "json option"

record choice_state =
  cs_comment :: "string option"
  cs_output :: "json option"
  cs_assign :: "assign_object option"
  cs_default :: "string option"
  cs_choices :: "choice_rule list"

text \<open>The fields of \<open>ParallelState\<close> and \<open>MapState\<close> besides the nested sub-machines, which are the
  other argument of the constructors \<open>Parallel\<close> and \<open>Map\<close>.\<close>

record parallel_state =
  par_comment :: "string option"
  par_output :: "json option"
  par_assign :: "assign_object option"
  par_next :: "string option"
  par_end :: "bool option"
  par_arguments :: "json option"
  par_retry :: "retrier list option"
  par_catch :: "catcher list option"

record map_state =
  ms_comment :: "string option"
  ms_output :: "json option"
  ms_assign :: "assign_object option"
  ms_next :: "string option"
  ms_end :: "bool option"
  ms_items :: "map_items option"
  ms_item_selector :: "json option"
  ms_max_concurrency :: "int_or_expr option"
  ms_tolerated_failure_percentage :: "map_tolerated_failure_percentage option"
  ms_tolerated_failure_count :: "int_or_expr option"
  ms_retry :: "retrier list option"
  ms_catch :: "catcher list option"

text \<open>The struct of a branch and of an item processor, over the type of the states they hold.\<close>

datatype 's branch = Branch (branch_start_at: string) (branch_states: "(string \<times> 's) list")

datatype 's item_processor =
  ItemProcessor (processor_start_at: string) (processor_states: "(string \<times> 's) list")

datatype state =
    Pass pass_state
  | Wait wait_state
  | Succeed succeed_state
  | Fail fail_state
  | Task task_state
  | Choice choice_state
  | Parallel parallel_state "state branch list"
  | Map map_state "state item_processor option"

type_synonym state_map = "(string \<times> state) list"

record state_machine =
  sm_start_at :: string
  sm_comment :: "string option"
  sm_timeout_seconds :: "int option"
  sm_states :: state_map

definition map_max_concurrency :: "map_state \<Rightarrow> int_or_expr" where
  "map_max_concurrency m = (case ms_max_concurrency m of Some c \<Rightarrow> c | None \<Rightarrow> IntLit 0)"

definition map_tolerated_failure_count :: "map_state \<Rightarrow> int_or_expr" where
  "map_tolerated_failure_count m =
     (case ms_tolerated_failure_count m of Some c \<Rightarrow> c | None \<Rightarrow> IntLit 0)"

definition map_tolerated_failure_percentage_of :: "map_state \<Rightarrow> map_tolerated_failure_percentage" where
  "map_tolerated_failure_percentage_of m =
     (case ms_tolerated_failure_percentage m of Some p \<Rightarrow> p | None \<Rightarrow> PercentNumber (JFloat 0))"

section \<open>State paths\<close>

type_synonym state_path = "string list"

definition STATES :: string where "STATES = ''States''"
definition BRANCHES :: string where "BRANCHES = ''Branches''"
definition ITEM_PROCESSOR :: string where "ITEM_PROCESSOR = ''ItemProcessor''"

definition path_root :: state_path where
  "path_root = [STATES]"

definition path_state_name :: "state_path \<Rightarrow> string" where
  "path_state_name p = (if p = [] then [] else last p)"

definition path_state :: "state_path \<Rightarrow> string \<Rightarrow> state_path" where
  "path_state p name = p @ [name]"

definition path_branch :: "state_path \<Rightarrow> nat \<Rightarrow> state_path" where
  "path_branch p index = p @ [BRANCHES, show_nat index, STATES]"

definition path_item_processor :: "state_path \<Rightarrow> state_path" where
  "path_item_processor p = p @ [ITEM_PROCESSOR, STATES]"

definition path_sibling :: "state_path \<Rightarrow> string \<Rightarrow> state_path" where
  "path_sibling p nxt = butlast p @ [nxt]"

datatype state_path_error = Malformed string | PathNotFound string

text \<open>The loop of \<open>walk_states\<close>: each turn consumes the opener \<open>States\<close>, a state name, and what leads
  into that state's nested machine.\<close>

fun walk_states :: "state_map \<Rightarrow> string list \<Rightarrow> state_path_error + state_map" where
  "walk_states states [] = Inr states"
| "walk_states states (opener # tokens) =
     (if opener \<noteq> STATES
      then Inl (Malformed (''state_path malformed: expected '' @ quoted STATES @ '', got '' @ quoted opener))
      else case tokens of
        [] \<Rightarrow> Inr states
      | name # rest \<Rightarrow>
          (case map_of states name of
             None \<Rightarrow> Inl (PathNotFound name)
           | Some (Parallel _ branches) \<Rightarrow>
               (case rest of
                  [] \<Rightarrow> Inl (Malformed (''state_path malformed: expected '' @ quoted BRANCHES))
                | key # rest1 \<Rightarrow>
                    if key \<noteq> BRANCHES
                    then Inl (Malformed (''state_path malformed: expected '' @ quoted BRANCHES))
                    else case rest1 of
                      [] \<Rightarrow> Inl (PathNotFound ''state_path truncated at branch index'')
                    | ix # rest2 \<Rightarrow>
                        (case parse_u64 ix of
                           None \<Rightarrow> Inl (Malformed ''state_path branch index is not an integer'')
                         | Some idx \<Rightarrow>
                             if idx < length branches
                             then walk_states (branch_states (branches ! idx)) rest2
                             else Inl (PathNotFound
                                    (''branch index '' @ show_nat idx @ '' of state '' @ name))))
           | Some (Map _ processor) \<Rightarrow>
               (case rest of
                  [] \<Rightarrow> Inl (Malformed (''state_path malformed: expected '' @ quoted ITEM_PROCESSOR))
                | key # rest1 \<Rightarrow>
                    if key \<noteq> ITEM_PROCESSOR
                    then Inl (Malformed (''state_path malformed: expected '' @ quoted ITEM_PROCESSOR))
                    else case processor of
                      None \<Rightarrow> Inl (Malformed (''Map state '' @ quoted name @ '' has no ItemProcessor''))
                    | Some ip \<Rightarrow> walk_states (processor_states ip) rest1)
           | Some _ \<Rightarrow> Inl (Malformed
                 (''state_path step '' @ quoted name @ '' is not a Parallel or Map state''))))"

definition state_at :: "state_machine \<Rightarrow> state_path \<Rightarrow> state_path_error + state" where
  "state_at m path =
     (let leaf = path_state_name path in
      case walk_states (sm_states m) (butlast path) of
        Inl e \<Rightarrow> Inl e
      | Inr states \<Rightarrow>
          (case map_of states leaf of Some s \<Rightarrow> Inr s | None \<Rightarrow> Inl (PathNotFound leaf)))"

subsection \<open>What a path addresses\<close>

lemmas key_defs = STATES_def BRANCHES_def ITEM_PROCESSOR_def

lemma parse_u64_STATES [simp]: "parse_u64 STATES = None"
  by (simp add: parse_u64_def STATES_def is_digit_def)

lemma key_neq [simp]: "ITEM_PROCESSOR \<noteq> STATES" "STATES \<noteq> ITEM_PROCESSOR"
  "BRANCHES \<noteq> STATES" "STATES \<noteq> BRANCHES"
  by (simp_all add: key_defs)

text \<open>The walk goes on from the scope that a prefix ending in \<open>States\<close> denotes.\<close>

lemma walk_states_append:
  "walk_states S (p @ [STATES]) = Inr T \<Longrightarrow>
   walk_states S (p @ STATES # rest) = walk_states T (STATES # rest)"
proof (induction S p rule: walk_states.induct)
  case (1 states)
  then show ?case by simp
next
  case (2 states opener tokens)
  then show ?case
    by (cases tokens; cases "tl tokens"; cases "tl (tl tokens)")
       (auto split: if_splits option.splits state.splits)
qed

text \<open>The scopes of a machine: the table of states that a scope path stands for.\<close>

inductive scope_of :: "state_machine \<Rightarrow> state_path \<Rightarrow> state_map \<Rightarrow> bool" for m where
  scope_root: "scope_of m path_root (sm_states m)"
| scope_branch:
    "scope_of m sc states \<Longrightarrow> map_of states name = Some (Parallel ps bs) \<Longrightarrow> i < length bs \<Longrightarrow>
     i < 2 ^ 64 \<Longrightarrow> scope_of m (path_branch (path_state sc name) i) (branch_states (bs ! i))"
| scope_item:
    "scope_of m sc states \<Longrightarrow> map_of states name = Some (Map ms (Some ip)) \<Longrightarrow>
     scope_of m (path_item_processor (path_state sc name)) (processor_states ip)"

lemma scope_of_walk:
  assumes "scope_of m sc states"
  shows "\<exists>p. sc = p @ [STATES] \<and> walk_states (sm_states m) sc = Inr states"
  using assms
proof induction
  case scope_root
  then show ?case by (simp add: path_root_def)
next
  case (scope_branch sc states name ps bs i)
  then obtain p where p: "sc = p @ [STATES]" "walk_states (sm_states m) (p @ [STATES]) = Inr states"
    by auto
  have "walk_states states (STATES # [name, BRANCHES, show_nat i, STATES])
        = Inr (branch_states (bs ! i))"
    using scope_branch by simp
  then have "walk_states (sm_states m) (p @ STATES # [name, BRANCHES, show_nat i, STATES])
        = Inr (branch_states (bs ! i))"
    by (simp only: walk_states_append [OF p(2)])
  then show ?case using p(1) by (simp add: path_branch_def path_state_def)
next
  case (scope_item sc states name ms ip)
  then obtain p where p: "sc = p @ [STATES]" "walk_states (sm_states m) (p @ [STATES]) = Inr states"
    by auto
  have "walk_states states (STATES # [name, ITEM_PROCESSOR, STATES]) = Inr (processor_states ip)"
    using scope_item by simp
  then have "walk_states (sm_states m) (p @ STATES # [name, ITEM_PROCESSOR, STATES])
        = Inr (processor_states ip)"
    by (simp only: walk_states_append [OF p(2)])
  then show ?case using p(1) by (simp add: path_item_processor_def path_state_def)
qed

lemma state_at_scope:
  assumes "scope_of m sc states"
  shows "state_at m (path_state sc name) =
           (case map_of states name of Some s \<Rightarrow> Inr s | None \<Rightarrow> Inl (PathNotFound name))"
  using scope_of_walk [OF assms]
  by (auto simp: state_at_def path_state_def path_state_name_def split: option.split)

lemma path_sibling_state [simp]: "path_sibling (path_state sc name) nxt = path_state sc nxt"
  by (simp add: path_sibling_def path_state_def)

lemma path_state_name_state [simp]: "path_state_name (path_state sc name) = name"
  by (simp add: path_state_name_def path_state_def)

end
