(* ===== verification/Types.thy ===== *)
theory Types
  imports Asl
begin

text \<open>
  The vocabulary of \<open>src/crates/engine-types/src/types\<close>: object references and metadata, the errors,
  the rows of every object kind with their life-cycle operations, and the commands, events and log
  entries the engine exchanges.

  \<open>ObjectRef<K>\<close> is \<open>oref\<close>: its kind is static in the code, so it is supplied where the reference is
  turned into a \<open>RawObjectRef\<close>. The three life-cycle enums (\<open>ExecutionStatus\<close>, \<open>ThreadStatus\<close>,
  \<open>ActivityStatus\<close>) have the same variants and methods and share the datatype \<open>lifecycle\<close>.
\<close>

section \<open>Object references and metadata\<close>

datatype object_kind = KFlow | KFlowVersion | KExecution | KThread | KActivity | KTask

fun kind_as_str :: "object_kind \<Rightarrow> string" where
  "kind_as_str KFlow = ''flow''"
| "kind_as_str KFlowVersion = ''flowversion''"
| "kind_as_str KExecution = ''execution''"
| "kind_as_str KThread = ''thread''"
| "kind_as_str KActivity = ''activity''"
| "kind_as_str KTask = ''task''"

definition kind_parse :: "string \<Rightarrow> object_kind option" where
  "kind_parse s =
     (if s = ''flow'' then Some KFlow
      else if s = ''flowversion'' then Some KFlowVersion
      else if s = ''execution'' then Some KExecution
      else if s = ''thread'' then Some KThread
      else if s = ''activity'' then Some KActivity
      else if s = ''task'' then Some KTask
      else None)"

text \<open>The derived \<open>Debug\<close> form.\<close>

fun kind_debug :: "object_kind \<Rightarrow> string" where
  "kind_debug KFlow = ''Flow''"
| "kind_debug KFlowVersion = ''FlowVersion''"
| "kind_debug KExecution = ''Execution''"
| "kind_debug KThread = ''Thread''"
| "kind_debug KActivity = ''Activity''"
| "kind_debug KTask = ''Task''"

record raw_object_ref =
  r_kind :: object_kind
  r_name :: object_name
  r_uid :: ulid

datatype oref = ORef (o_name: object_name) (o_uid: ulid)

definition raw_of :: "object_kind \<Rightarrow> oref \<Rightarrow> raw_object_ref" where
  "raw_of k r = \<lparr> r_kind = k, r_name = o_name r, r_uid = o_uid r \<rparr>"

text \<open>\<open>ObjectRef::try_from\<close>: \<open>None\<close> is the \<open>KindMismatch\<close> error.\<close>

definition typed_ref :: "object_kind \<Rightarrow> raw_object_ref \<Rightarrow> oref option" where
  "typed_ref k r = (if r_kind r \<noteq> k then None else Some (ORef (r_name r) (r_uid r)))"

definition raw_display :: "raw_object_ref \<Rightarrow> string" where
  "raw_display r = kind_as_str (r_kind r) @ ''/'' @ as_str (r_name r)"

datatype thread_owner = OwnerExecution oref | OwnerActivity oref

fun thread_owner_raw :: "thread_owner \<Rightarrow> raw_object_ref" where
  "thread_owner_raw (OwnerExecution r) = raw_of KExecution r"
| "thread_owner_raw (OwnerActivity r) = raw_of KActivity r"

record 'o object_meta =
  m_tenant :: scope_name
  m_namespace :: scope_name
  m_name :: object_name
  m_uid :: ulid
  m_created_at :: timestamp
  m_updated_at :: timestamp
  m_owner :: 'o

definition meta_raw :: "object_kind \<Rightarrow> 'o object_meta \<Rightarrow> raw_object_ref" where
  "meta_raw k m = \<lparr> r_kind = k, r_name = m_name m, r_uid = m_uid m \<rparr>"

definition meta_ref :: "'o object_meta \<Rightarrow> oref" where
  "meta_ref m = ORef (m_name m) (m_uid m)"

definition with_update_at :: "timestamp \<Rightarrow> 'o object_meta \<Rightarrow> 'o object_meta" where
  "with_update_at t m = m \<lparr> m_updated_at := t \<rparr>"

text \<open>\<open>ObjectMeta::builder(uid).name(n).at(t).with_owner(o)\<close>, with the builder's default scopes.\<close>

definition build_meta :: "ulid \<Rightarrow> object_name \<Rightarrow> timestamp \<Rightarrow> 'o \<Rightarrow> 'o object_meta" where
  "build_meta u n t ow =
     \<lparr> m_tenant = PlainName ''default'', m_namespace = PlainName ''default'', m_name = n, m_uid = u,
       m_created_at = t, m_updated_at = t, m_owner = ow \<rparr>"

lemma meta_raw_ref: "meta_raw k m = raw_of k (meta_ref m)"
  by (simp add: meta_raw_def raw_of_def meta_ref_def)

lemma raw_of_inject [simp]: "raw_of k r = raw_of k' r' \<longleftrightarrow> k = k' \<and> r = r'"
  by (cases r; cases r') (auto simp: raw_of_def)

lemma typed_ref_raw_of [simp]: "typed_ref k (raw_of k' r) = (if k = k' then Some r else None)"
  by (cases r) (auto simp: typed_ref_def raw_of_def)

lemma raw_of_sel [simp]: "r_kind (raw_of k r) = k" "r_name (raw_of k r) = o_name r"
  by (simp_all add: raw_of_def)

lemma meta_ref_updated [simp]: "meta_ref (with_update_at t m) = meta_ref m"
  by (simp add: meta_ref_def with_update_at_def)

lemma with_update_at_sel [simp]:
  "m_name (with_update_at t m) = m_name m" "m_uid (with_update_at t m) = m_uid m"
  "m_owner (with_update_at t m) = m_owner m" "m_updated_at (with_update_at t m) = t"
  "m_created_at (with_update_at t m) = m_created_at m"
  by (simp_all add: with_update_at_def)

lemma meta_ref_sel [simp]: "o_name (meta_ref m) = m_name m" "o_uid (meta_ref m) = m_uid m"
  by (simp_all add: meta_ref_def)

lemma kind_parse_as_str [simp]: "kind_parse (kind_as_str k) = Some k"
  by (cases k) (simp_all add: kind_parse_def)

text \<open>\<open>RawObjectRef::from_str\<close>: exactly two \<open>/\<close>-separated parts; the incarnation id is nil.\<close>

definition raw_parse :: "string \<Rightarrow> raw_object_ref option" where
  "raw_parse s =
     (case split_once CHR ''/'' s of
        None \<Rightarrow> None
      | Some (kind_raw, name_raw) \<Rightarrow>
          (case kind_parse kind_raw of
             None \<Rightarrow> None
           | Some k \<Rightarrow>
               if CHR ''/'' \<in> set name_raw then None
               else case from_parsed name_raw of
                 Inl _ \<Rightarrow> None
               | Inr n \<Rightarrow> Some \<lparr> r_kind = k, r_name = n, r_uid = 0 \<rparr>))"

lemma kind_as_str_no_slash [simp]: "CHR ''/'' \<notin> set (kind_as_str k)"
  by (cases k) simp_all

lemma raw_parse_display:
  "wf_name (r_name r) \<Longrightarrow> raw_parse (raw_display r) = Some (r \<lparr> r_uid := 0 \<rparr>)"
  by (cases r) (simp add: raw_parse_def raw_display_def from_parsed_as_str as_str_no_slash)

section \<open>Errors\<close>

datatype rejection_type = InvalidArgument | InvalidState | NotFound | AlreadyExists | ProcessingError

type_synonym request_id = ulid

record reject =
  rj_request_id :: request_id
  rj_type :: rejection_type
  rj_reason :: string

datatype runtime_error =
    StateNotFound string
  | NoTerminal
  | NoChoiceMatched string
  | StateFailed string string json
  | Jsonata string string
  | InvalidDefinition string
  | TimedOutErr string
  | CancelledErr string

datatype storage_error = Backend string | Codec string | InvalidKey string | Unsupported string

datatype infra_error = LogErr string | StorageErr storage_error

datatype execution_error = Runtime runtime_error | Infra infra_error | RejectedErr reject

fun runtime_error_name :: "runtime_error \<Rightarrow> string" where
  "runtime_error_name (StateFailed _ err _) = err"
| "runtime_error_name (NoChoiceMatched _) = ''States.NoChoiceMatched''"
| "runtime_error_name (Jsonata _ _) = ''States.Runtime''"
| "runtime_error_name (StateNotFound _) = ''States.Runtime''"
| "runtime_error_name NoTerminal = ''States.Runtime''"
| "runtime_error_name (InvalidDefinition _) = ''States.Runtime''"
| "runtime_error_name (TimedOutErr _) = ''States.Timeout''"
| "runtime_error_name (CancelledErr _) = ''States.Cancelled''"

definition error_doc :: "string \<Rightarrow> string \<Rightarrow> json" where
  "error_doc err cause = JObject [(''Error'', JString err), (''Cause'', JString cause)]"

fun runtime_error_output :: "runtime_error \<Rightarrow> json option" where
  "runtime_error_output (StateFailed _ _ out) = Some out"
| "runtime_error_output (NoChoiceMatched st) = Some (error_doc ''States.NoChoiceMatched''
     (''Choice state '' @ quoted st @ '' matched no rule and has no Default''))"
| "runtime_error_output (Jsonata field msg) = Some (error_doc ''States.Runtime''
     (''JSONata error in '' @ field @ '': '' @ msg))"
| "runtime_error_output (TimedOutErr msg) = Some (error_doc ''States.Timeout'' msg)"
| "runtime_error_output (CancelledErr _) = None"
| "runtime_error_output (StateNotFound _) = None"
| "runtime_error_output NoTerminal = None"
| "runtime_error_output (InvalidDefinition _) = None"

fun error_name :: "execution_error \<Rightarrow> string" where
  "error_name (Runtime r) = runtime_error_name r"
| "error_name (Infra _) = ''States.Runtime''"
| "error_name (RejectedErr _) = ''States.Runtime''"

fun error_output :: "execution_error \<Rightarrow> json option" where
  "error_output (Runtime r) = runtime_error_output r"
| "error_output (Infra _) = None"
| "error_output (RejectedErr _) = None"

definition matches_error_names :: "execution_error \<Rightarrow> string list \<Rightarrow> bool" where
  "matches_error_names e error_equals =
     (if ''States.ALL'' \<in> set error_equals then True
      else if ''States.TaskFailed'' \<in> set error_equals then error_name e \<noteq> ''States.Timeout''
      else error_name e \<in> set error_equals)"

fun path_error :: "state_path_error \<Rightarrow> execution_error" where
  "path_error (Malformed msg) = Runtime (InvalidDefinition msg)"
| "path_error (PathNotFound msg) = Runtime (StateNotFound msg)"

datatype termination_reason = FailedWith execution_error | TimedOut | Cancelled

fun reason_error_name :: "termination_reason \<Rightarrow> string" where
  "reason_error_name (FailedWith e) = error_name e"
| "reason_error_name TimedOut = ''States.Timeout''"
| "reason_error_name Cancelled = ''States.Cancelled''"

fun reason_error_output :: "termination_reason \<Rightarrow> json option" where
  "reason_error_output (FailedWith e) = error_output e"
| "reason_error_output TimedOut = Some (error_doc ''States.Timeout''
     (''The execution'' @ [CHR 0x27] @ ''s TimeoutSeconds elapsed''))"
| "reason_error_output Cancelled = None"

fun to_execution_error :: "termination_reason \<Rightarrow> execution_error" where
  "to_execution_error (FailedWith e) = e"
| "to_execution_error TimedOut = Runtime (TimedOutErr
     (''The execution'' @ [CHR 0x27] @ ''s TimeoutSeconds elapsed''))"
| "to_execution_error Cancelled = Runtime (CancelledErr ''The execution was cancelled'')"

lemma reason_error_name_conv: "reason_error_name r = error_name (to_execution_error r)"
  by (cases r) simp_all

lemma reason_error_output_conv: "reason_error_output r = error_output (to_execution_error r)"
  by (cases r) simp_all

section \<open>Life cycles\<close>

datatype lifecycle =
    Running
  | Completing
  | Terminating termination_reason
  | Completed
  | Terminated termination_reason

type_synonym execution_status = lifecycle
type_synonym thread_status = lifecycle
type_synonym activity_status = lifecycle

fun is_running :: "lifecycle \<Rightarrow> bool" where
  "is_running Running = True"
| "is_running _ = False"

fun is_completing :: "lifecycle \<Rightarrow> bool" where
  "is_completing Completing = True"
| "is_completing _ = False"

fun is_terminating :: "lifecycle \<Rightarrow> bool" where
  "is_terminating (Terminating _) = True"
| "is_terminating _ = False"

fun is_terminal :: "lifecycle \<Rightarrow> bool" where
  "is_terminal Completed = True"
| "is_terminal (Terminated _) = True"
| "is_terminal _ = False"

fun lifecycle_reason :: "lifecycle \<Rightarrow> termination_reason option" where
  "lifecycle_reason (Terminating r) = Some r"
| "lifecycle_reason (Terminated r) = Some r"
| "lifecycle_reason _ = None"

fun phase :: "lifecycle \<Rightarrow> string" where
  "phase Running = ''Running''"
| "phase Completing = ''Completing''"
| "phase (Terminating _) = ''Terminating''"
| "phase Completed = ''Completed''"
| "phase (Terminated _) = ''Terminated''"

lemma is_running_iff [simp]: "is_running st \<longleftrightarrow> st = Running"
  by (cases st) simp_all

lemma is_completing_iff [simp]: "is_completing st \<longleftrightarrow> st = Completing"
  by (cases st) simp_all

subsection \<open>Executions\<close>

record execution =
  ex_meta :: "unit object_meta"
  ex_flow_version :: oref
  ex_status :: execution_status
  ex_deadline :: "timestamp option"
  ex_input :: json
  ex_output :: "json option"

definition ex_ref :: "execution \<Rightarrow> oref" where
  "ex_ref e = meta_ref (ex_meta e)"

definition execution_mark_completing :: "json \<Rightarrow> timestamp \<Rightarrow> execution \<Rightarrow> string + execution" where
  "execution_mark_completing out t e =
     (if \<not> is_running (ex_status e)
      then Inl (''only a Running execution can begin completing, but it is '' @ phase (ex_status e))
      else Inr (e \<lparr> ex_status := Completing, ex_output := Some out,
                     ex_meta := with_update_at t (ex_meta e) \<rparr>))"

definition execution_mark_completed :: "timestamp \<Rightarrow> execution \<Rightarrow> string + execution" where
  "execution_mark_completed t e =
     (if \<not> is_completing (ex_status e)
      then Inl (''only a Completing execution can be completed, but it is '' @ phase (ex_status e))
      else Inr (e \<lparr> ex_status := Completed, ex_meta := with_update_at t (ex_meta e) \<rparr>))"

definition execution_mark_terminating ::
  "termination_reason \<Rightarrow> timestamp \<Rightarrow> execution \<Rightarrow> string + execution" where
  "execution_mark_terminating reason t e =
     (if \<not> is_running (ex_status e)
      then Inl (''only a Running execution can begin terminating, but it is '' @ phase (ex_status e))
      else Inr (e \<lparr> ex_status := Terminating reason, ex_meta := with_update_at t (ex_meta e) \<rparr>))"

definition execution_mark_terminated :: "timestamp \<Rightarrow> execution \<Rightarrow> string + execution" where
  "execution_mark_terminated t e =
     (case ex_status e of
        Terminating reason \<Rightarrow>
          Inr (e \<lparr> ex_status := Terminated reason, ex_meta := with_update_at t (ex_meta e) \<rparr>)
      | other \<Rightarrow>
          Inl (''only a Terminating execution can be terminated, but it is '' @ phase other))"

subsection \<open>Threads\<close>

record thread =
  th_meta :: "thread_owner object_meta"
  th_execution :: oref
  th_state_path :: state_path
  th_start_at :: string
  th_index :: nat
  th_status :: thread_status
  th_input :: json
  th_output :: "json option"

definition th_ref :: "thread \<Rightarrow> oref" where
  "th_ref t = meta_ref (th_meta t)"

definition thread_mark_terminating ::
  "termination_reason \<Rightarrow> timestamp \<Rightarrow> thread \<Rightarrow> string + thread" where
  "thread_mark_terminating reason t th =
     (if \<not> is_running (th_status th)
      then Inl (''only a Running thread can begin terminating, but it is '' @ phase (th_status th))
      else Inr (th \<lparr> th_status := Terminating reason, th_meta := with_update_at t (th_meta th) \<rparr>))"

subsection \<open>Retry policies\<close>

record retrier_attempt_state =
  ra_attempt_count :: nat
  ra_last_retry_at :: "timestamp option"

record retry_policy =
  rp_error_equals :: "string list"
  rp_interval_seconds :: int
  rp_max_attempts :: int
  rp_backoff_rate :: rat
  rp_max_delay_seconds :: "int option"

record retry_state =
  rs_attempts :: nat
  rs_retrier_attempts :: "retrier_attempt_state list"
  rs_next_available_at :: "timestamp option"

definition default_retry_state :: retry_state where
  "default_retry_state =
     \<lparr> rs_attempts = 0, rs_retrier_attempts = [], rs_next_available_at = None \<rparr>"

definition default_attempt_state :: retrier_attempt_state where
  "default_attempt_state = \<lparr> ra_attempt_count = 0, ra_last_retry_at = None \<rparr>"

definition retry_policy_resolve :: "retrier \<Rightarrow> retry_policy" where
  "retry_policy_resolve r =
     \<lparr> rp_error_equals = rt_error_equals r,
       rp_interval_seconds = retrier_interval_seconds r,
       rp_max_attempts = retrier_max_attempts r,
       rp_backoff_rate = retrier_backoff_rate r,
       rp_max_delay_seconds = rt_max_delay_seconds r \<rparr>"

text \<open>Seconds to wait after the given number of attempts. The \<open>f64\<close> arithmetic is done on
  rationals; the cast to \<open>u64\<close> saturates.\<close>

definition backoff_for_attempt :: "retry_policy \<Rightarrow> nat \<Rightarrow> nat" where
  "backoff_for_attempt p attempt =
     (let raw = of_int (rp_interval_seconds p) * rp_backoff_rate p ^ attempt;
          capped = (case rp_max_delay_seconds p of
                      Some mx \<Rightarrow> if 0 < mx then min raw (of_int mx) else raw
                    | None \<Rightarrow> raw)
      in min u64_max (nat (max 1 \<lceil>capped\<rceil>)))"

text \<open>\<open>self.max_attempts.max(0) as u32\<close> keeps the low 32 bits.\<close>

definition has_budget_after :: "retry_policy \<Rightarrow> nat \<Rightarrow> bool" where
  "has_budget_after p attempts \<longleftrightarrow> attempts < nat (max (rp_max_attempts p) 0 mod 2 ^ 32)"

subsection \<open>Activities\<close>

record parallel_activity_state =
  pa_branches :: "(nat, oref) alist"

record map_activity_state =
  ma_items :: "json list"
  ma_total :: nat
  ma_max_concurrency :: nat
  ma_children :: "(nat, oref) alist"

record wait_activity_state =
  wa_resume_at :: timestamp

datatype activity_state =
    ActParallel parallel_activity_state
  | ActMap map_activity_state
  | ActWait wait_activity_state

record activity =
  ac_meta :: "oref object_meta"
  ac_execution :: oref
  ac_state_path :: state_path
  ac_status :: activity_status
  ac_raw_input :: json
  ac_input :: "json option"
  ac_raw_output :: "json option"
  ac_activity_state :: "activity_state option"
  ac_retry_state :: "retry_state option"
  ac_output :: "json option"

definition ac_ref :: "activity \<Rightarrow> oref" where
  "ac_ref a = meta_ref (ac_meta a)"

definition retry_count :: "activity \<Rightarrow> nat" where
  "retry_count a = (case ac_retry_state a of Some r \<Rightarrow> rs_attempts r | None \<Rightarrow> 0)"

definition activity_mark_completing :: "json \<Rightarrow> timestamp \<Rightarrow> activity \<Rightarrow> string + activity" where
  "activity_mark_completing raw_output t a =
     (if \<not> is_running (ac_status a)
      then Inl (''only a Running activity can begin completing, but it is '' @ phase (ac_status a))
      else Inr (a \<lparr> ac_status := Completing, ac_raw_output := Some raw_output,
                     ac_meta := with_update_at t (ac_meta a) \<rparr>))"

definition activity_mark_completed :: "json \<Rightarrow> timestamp \<Rightarrow> activity \<Rightarrow> string + activity" where
  "activity_mark_completed out t a =
     (if \<not> is_completing (ac_status a)
      then Inl (''only a Completing activity can complete, but it is '' @ phase (ac_status a))
      else Inr (a \<lparr> ac_status := Completed, ac_output := Some out,
                     ac_meta := with_update_at t (ac_meta a) \<rparr>))"

definition activity_mark_terminating ::
  "termination_reason \<Rightarrow> timestamp \<Rightarrow> activity \<Rightarrow> string + activity" where
  "activity_mark_terminating reason t a =
     (if is_terminating (ac_status a) \<or> is_terminal (ac_status a)
      then Inl (''only a Running or Completing activity can begin terminating, but it is ''
                @ phase (ac_status a))
      else Inr (a \<lparr> ac_status := Terminating reason, ac_meta := with_update_at t (ac_meta a) \<rparr>))"

definition activity_mark_terminated :: "timestamp \<Rightarrow> activity \<Rightarrow> string + activity" where
  "activity_mark_terminated t a =
     (case ac_status a of
        Terminating reason \<Rightarrow>
          Inr (a \<lparr> ac_status := Terminated reason, ac_meta := with_update_at t (ac_meta a) \<rparr>)
      | other \<Rightarrow> Inl (''only a Terminating activity can terminate, but it is '' @ phase other))"

subsection \<open>Tasks\<close>

datatype task_status = TPending | TRunning | TCompleted | TFailed | TCancelled

fun task_is_terminal :: "task_status \<Rightarrow> bool" where
  "task_is_terminal TCompleted = True"
| "task_is_terminal TFailed = True"
| "task_is_terminal TCancelled = True"
| "task_is_terminal _ = False"

definition task_is_in_flight :: "task_status \<Rightarrow> bool" where
  "task_is_in_flight st \<longleftrightarrow> \<not> task_is_terminal st"

fun task_phase :: "task_status \<Rightarrow> string" where
  "task_phase TPending = ''Pending''"
| "task_phase TRunning = ''Running''"
| "task_phase TCompleted = ''Completed''"
| "task_phase TFailed = ''Failed''"
| "task_phase TCancelled = ''Cancelled''"

record task =
  tk_meta :: "oref object_meta"
  tk_execution :: oref
  tk_resource :: string
  tk_arguments :: json
  tk_status :: task_status
  tk_deadline :: "timestamp option"
  tk_worker_id :: "string option"
  tk_lease_expires_at :: "timestamp option"
  tk_retry_plan :: "retry_policy list"
  tk_retry_state :: retry_state

definition tk_ref :: "task \<Rightarrow> oref" where
  "tk_ref t = meta_ref (tk_meta t)"

datatype failure_outcome = Retried | Terminal

definition is_claimable_at :: "timestamp \<Rightarrow> task \<Rightarrow> bool" where
  "is_claimable_at now t =
     (case tk_status t of
        TPending \<Rightarrow> (case rs_next_available_at (tk_retry_state t) of
                       Some a \<Rightarrow> \<not> now < a | None \<Rightarrow> True)
      | TRunning \<Rightarrow> (case tk_lease_expires_at t of Some a \<Rightarrow> a \<le> now | None \<Rightarrow> False)
      | _ \<Rightarrow> False)"

definition task_claim :: "string \<Rightarrow> timestamp \<Rightarrow> timestamp \<Rightarrow> task \<Rightarrow> task" where
  "task_claim worker lease_expires_at now t =
     t \<lparr> tk_status := TRunning, tk_worker_id := Some worker,
         tk_lease_expires_at := Some lease_expires_at,
         tk_meta := with_update_at now (tk_meta t),
         tk_retry_state := tk_retry_state t \<lparr> rs_next_available_at := None \<rparr> \<rparr>"

definition task_mark_cancelled :: "timestamp \<Rightarrow> task \<Rightarrow> string + task" where
  "task_mark_cancelled now t =
     (if task_is_terminal (tk_status t)
      then Inl (''only an in-flight task can be cancelled, but it is '' @ task_phase (tk_status t))
      else Inr (t \<lparr> tk_status := TCancelled, tk_meta := with_update_at now (tk_meta t) \<rparr>))"

definition task_mark_completed :: "string \<Rightarrow> timestamp \<Rightarrow> task \<Rightarrow> string + task" where
  "task_mark_completed worker now t =
     (if tk_status t \<noteq> TRunning
      then Inl (''only a Running task can be completed, but it is '' @ task_phase (tk_status t))
      else if worker = [] \<or> tk_worker_id t \<noteq> Some worker
      then Inl (''it is leased to another worker, not '' @ worker)
      else Inr (t \<lparr> tk_status := TCompleted, tk_worker_id := None, tk_lease_expires_at := None,
                     tk_meta := with_update_at now (tk_meta t) \<rparr>))"

text \<open>\<open>retry_plan.iter().enumerate().find(..)\<close>: the first retrier that matches, with its index.\<close>

fun find_retrier :: "execution_error \<Rightarrow> nat \<Rightarrow> retry_policy list \<Rightarrow> (nat \<times> retry_policy) option" where
  "find_retrier e i [] = None"
| "find_retrier e i (p # ps) =
     (if matches_error_names e (rp_error_equals p) then Some (i, p) else find_retrier e (Suc i) ps)"

definition attempts_at :: "retry_state \<Rightarrow> nat \<Rightarrow> nat" where
  "attempts_at rs i =
     (if i < length (rs_retrier_attempts rs) then ra_attempt_count (rs_retrier_attempts rs ! i) else 0)"

definition resize_attempts :: "nat \<Rightarrow> retrier_attempt_state list \<Rightarrow> retrier_attempt_state list" where
  "resize_attempts n xs = xs @ replicate (n - length xs) default_attempt_state"

definition handle_failure ::
  "string \<Rightarrow> execution_error \<Rightarrow> timestamp \<Rightarrow> task \<Rightarrow> string + (failure_outcome \<times> task)" where
  "handle_failure worker err now t =
     (if task_is_terminal (tk_status t)
      then Inl (''only an in-flight task takes a failure report, but it is '' @ task_phase (tk_status t))
      else if worker \<noteq> [] \<and> (tk_status t \<noteq> TRunning \<or> tk_worker_id t \<noteq> Some worker)
      then Inl (''it is '' @ task_phase (tk_status t) @ '' and leased to another worker, not '' @ worker)
      else
        let t = t \<lparr> tk_worker_id := None, tk_lease_expires_at := None,
                     tk_meta := with_update_at now (tk_meta t) \<rparr>;
            failed = t \<lparr> tk_status := TFailed,
                          tk_retry_state := tk_retry_state t \<lparr> rs_next_available_at := None \<rparr> \<rparr>
        in case find_retrier err 0 (tk_retry_plan t) of
             None \<Rightarrow> Inr (Terminal, failed)
           | Some (index, policy) \<Rightarrow>
               let attempts = attempts_at (tk_retry_state t) index in
               if has_budget_after policy attempts
               then
                 let available = (case ts_checked_add now (backoff_for_attempt policy attempts * 1000) of
                                    Some a \<Rightarrow> a | None \<Rightarrow> now);
                     slots = resize_attempts (index + 1) (rs_retrier_attempts (tk_retry_state t));
                     slots = slots[index := \<lparr> ra_attempt_count = attempts + 1,
                                               ra_last_retry_at = Some now \<rparr>]
                 in Inr (Retried,
                      t \<lparr> tk_status := TPending,
                          tk_retry_state := \<lparr> rs_attempts = rs_attempts (tk_retry_state t) + 1,
                                              rs_retrier_attempts = slots,
                                              rs_next_available_at = Some available \<rparr> \<rparr>)
               else Inr (Terminal, failed))"

subsection \<open>Flows and their versions\<close>

datatype flow_status = FlowActive | FlowDeleted

record flow =
  fl_meta :: "unit object_meta"
  fl_status :: flow_status
  fl_latest_version :: nat

definition fl_ref :: "flow \<Rightarrow> oref" where
  "fl_ref f = meta_ref (fl_meta f)"

text \<open>\<open>None\<close> is the panic of \<open>expect\<close> on a name that is not a valid plain name.\<close>

definition flow_new :: "ulid \<Rightarrow> flow_name \<Rightarrow> timestamp \<Rightarrow> flow option" where
  "flow_new u name t =
     (case object_name_plain (plain_as_str name) of
        Inl _ \<Rightarrow> None
      | Inr n \<Rightarrow> Some \<lparr> fl_meta = build_meta u n t (), fl_status = FlowActive, fl_latest_version = 1 \<rparr>)"

record flow_version =
  fv_meta :: "oref object_meta"
  fv_version :: nat
  fv_definition :: string
  fv_checksum :: u64

definition fv_ref :: "flow_version \<Rightarrow> oref" where
  "fv_ref v = meta_ref (fv_meta v)"

definition version_name :: "flow_name \<Rightarrow> nat \<Rightarrow> object_name" where
  "version_name f version = generated_from_key f version"

text \<open>\<open>None\<close> is the panic of \<open>expect\<close> on a flow whose name is generated. The CRC-64 of the crate \<open>crc\<close>
  is the argument \<open>crc\<close>.\<close>

definition flow_version_new ::
  "(string \<Rightarrow> u64) \<Rightarrow> ulid \<Rightarrow> oref \<Rightarrow> nat \<Rightarrow> string \<Rightarrow> timestamp \<Rightarrow> flow_version option" where
  "flow_version_new crc u fl version def t =
     (case as_plain (o_name fl) of
        None \<Rightarrow> None
      | Some fname \<Rightarrow>
          Some \<lparr> fv_meta = build_meta u (version_name fname version) t fl, fv_version = version,
                 fv_definition = def, fv_checksum = crc def \<rparr>)"

definition flow_name_of :: "flow_version \<Rightarrow> flow_name option" where
  "flow_name_of v = as_plain (o_name (m_owner (fv_meta v)))"

section \<open>Commands, events and log entries\<close>

datatype deadline_target = DeadlineExecution oref | DeadlineActivity oref

type_synonym variables = "string \<rightharpoonup> json"

record activate_state =
  as_execution :: oref
  as_owner :: oref
  as_state_path :: state_path
  as_input :: json

record spawn_thread =
  sp_owner :: oref
  sp_execution :: oref
  sp_state_path :: "state_path option"
  sp_index :: nat
  sp_start_at :: string
  sp_input :: json

record activate_task =
  at_execution :: oref
  at_owner :: oref
  at_task :: oref
  at_resource :: string
  at_arguments :: json
  at_retry_plan :: "retry_policy list"
  at_deadline :: "timestamp option"

record claim_tasks =
  cl_request_id :: request_id
  cl_worker_id :: string
  cl_resource :: string
  cl_max_tasks :: nat
  cl_lease_seconds :: nat

datatype command =
    CreateFlow request_id flow_name string
  | CreateExecution request_id object_name oref json
  | SpawnThread spawn_thread
  | CompleteExecution oref json
  | CompleteThread oref json
  | TerminateExecution object_name "ulid option" termination_reason
  | TerminateThread oref termination_reason
  | ActivateState activate_state
  | CompleteState oref json
  | TerminateState oref termination_reason
  | TriggerDeadline deadline_target timestamp
  | ActivateTask activate_task
  | ClaimTasks claim_tasks
  | CompleteTask request_id oref string json
  | FailTask oref string execution_error
  | CancelTask oref
  | ContinueComplete raw_object_ref
  | ContinueTerminate raw_object_ref

fun command_request_id :: "command \<Rightarrow> request_id option" where
  "command_request_id (CreateFlow r _ _) = Some r"
| "command_request_id (CreateExecution r _ _ _) = Some r"
| "command_request_id (ClaimTasks p) = Some (cl_request_id p)"
| "command_request_id (CompleteTask r _ _ _) = Some r"
| "command_request_id _ = None"

datatype event =
    FlowCreated request_id flow
  | FlowVersionCreated request_id flow_version
  | ExecutionCreated request_id execution
  | ExecutionCompleting execution
  | ExecutionCompleted execution
  | ExecutionTerminating execution
  | ExecutionTerminated execution
  | ThreadCreated thread
  | ThreadCompleting thread
  | ThreadCompleted thread
  | ThreadTerminating thread
  | ThreadTerminated thread
  | StateActivating activity
  | StateActivated activity
  | StateCompleting activity
  | StateCompleted activity
  | StateTerminating activity
  | StateTerminated activity
  | VariablesAssigned oref variables
  | StateTransitioned oref state_path
  | TaskActivated task
  | TasksClaimed request_id "task list"
  | TaskCompleted request_id task json
  | TaskFailed task execution_error
  | TaskCancelled task

datatype entry_payload = PCommand command | PEvent event | PReject reject | PNoop

end
