(* ===== verification/Storage.thy ===== *)
theory Storage
  imports Types
begin

text \<open>
  The in-memory storage of \<open>src/crates/storage/src/memory.rs\<close>: the database \<open>InMemoryDb\<close> with the
  direct operations of \<open>impl Storage for InMemoryStorage\<close>, and the transaction \<open>InMemoryTxn\<close>, a batch
  of pending writes over the database, whose reads see the batch first and whose \<open>commit\<close> merges it.

  Rows are keyed by object name. A \<open>HashMap\<close> is a map; the \<open>HashMap\<close> of edge updates, which is
  iterated, is an association list with distinct keys. The order in which a \<open>HashMap\<close> of tasks yields
  its values is not determined by the code: it is the argument \<open>order\<close>. No operation of this backend
  fails; \<open>None\<close> is the panic of \<open>put_flow\<close> on a generated name.

  The locales state what a client of \<open>StorageTxn\<close> relies on; they are interpreted on every table.
\<close>

section \<open>The database\<close>

type_synonym edge = "raw_object_ref \<times> raw_object_ref"

record in_memory_db =
  d_executions :: "object_name \<rightharpoonup> execution"
  d_threads :: "object_name \<rightharpoonup> thread"
  d_variables :: "object_name \<rightharpoonup> variables"
  d_activities :: "object_name \<rightharpoonup> activity"
  d_tasks :: "object_name \<rightharpoonup> task"
  d_flows :: "flow_name \<rightharpoonup> flow"
  d_flow_versions :: "object_name \<rightharpoonup> flow_version"
  d_last_processed_position :: int
  d_next_generated_seq :: nat
  d_children :: "edge set"

definition empty_db :: in_memory_db where
  "empty_db = \<lparr> d_executions = Map.empty, d_threads = Map.empty, d_variables = Map.empty,
     d_activities = Map.empty, d_tasks = Map.empty, d_flows = Map.empty, d_flow_versions = Map.empty,
     d_last_processed_position = 0, d_next_generated_seq = 0, d_children = {} \<rparr>"

definition db_children :: "in_memory_db \<Rightarrow> raw_object_ref \<Rightarrow> raw_object_ref set" where
  "db_children db parent = snd ` Set.filter (\<lambda>e. fst e = parent) (d_children db)"

definition db_get_execution :: "in_memory_db \<Rightarrow> oref \<Rightarrow> execution option" where
  "db_get_execution db r = d_executions db (o_name r)"

definition db_get_thread :: "in_memory_db \<Rightarrow> oref \<Rightarrow> thread option" where
  "db_get_thread db r = d_threads db (o_name r)"

definition db_get_variables :: "in_memory_db \<Rightarrow> oref \<Rightarrow> variables" where
  "db_get_variables db r =
     (case d_variables db (o_name r) of Some v \<Rightarrow> v | None \<Rightarrow> Map.empty)"

definition db_get_activity :: "in_memory_db \<Rightarrow> oref \<Rightarrow> activity option" where
  "db_get_activity db r = d_activities db (o_name r)"

definition db_get_task :: "in_memory_db \<Rightarrow> oref \<Rightarrow> task option" where
  "db_get_task db r = d_tasks db (o_name r)"

definition task_values :: "((object_name \<rightharpoonup> task) \<Rightarrow> object_name list) \<Rightarrow> (object_name \<rightharpoonup> task) \<Rightarrow> task list" where
  "task_values order tasks = List.map_filter tasks (order tasks)"

definition pick_activatable ::
  "((object_name \<rightharpoonup> task) \<Rightarrow> object_name list) \<Rightarrow> (object_name \<rightharpoonup> task) \<Rightarrow> string \<Rightarrow> timestamp \<Rightarrow> nat
   \<Rightarrow> task list" where
  "pick_activatable order tasks resource now limit =
     take limit (filter (\<lambda>t. tk_resource t = resource \<and> is_claimable_at now t) (task_values order tasks))"

definition db_activatable_tasks ::
  "((object_name \<rightharpoonup> task) \<Rightarrow> object_name list) \<Rightarrow> in_memory_db \<Rightarrow> string \<Rightarrow> timestamp \<Rightarrow> nat \<Rightarrow> task list"
  where
  "db_activatable_tasks order db resource now limit =
     pick_activatable order (d_tasks db) resource now limit"

definition db_get_flow_by_name :: "in_memory_db \<Rightarrow> flow_name \<Rightarrow> flow option" where
  "db_get_flow_by_name db n = d_flows db n"

definition db_get_flow_version :: "in_memory_db \<Rightarrow> oref \<Rightarrow> flow_version option" where
  "db_get_flow_version db r = d_flow_versions db (o_name r)"

definition db_flow_version_of :: "in_memory_db \<Rightarrow> flow_name \<Rightarrow> nat \<Rightarrow> flow_version option" where
  "db_flow_version_of db n version = d_flow_versions db (version_name n version)"

definition db_put_execution :: "execution \<Rightarrow> in_memory_db \<Rightarrow> in_memory_db" where
  "db_put_execution e db = db \<lparr> d_executions := (d_executions db)(m_name (ex_meta e) \<mapsto> e) \<rparr>"

definition db_put_thread :: "thread \<Rightarrow> in_memory_db \<Rightarrow> in_memory_db" where
  "db_put_thread t db = db \<lparr> d_threads := (d_threads db)(m_name (th_meta t) \<mapsto> t) \<rparr>"

definition db_put_variables :: "oref \<Rightarrow> variables \<Rightarrow> in_memory_db \<Rightarrow> in_memory_db" where
  "db_put_variables r v db = db \<lparr> d_variables := (d_variables db)(o_name r \<mapsto> v) \<rparr>"

definition db_put_activity :: "activity \<Rightarrow> in_memory_db \<Rightarrow> in_memory_db" where
  "db_put_activity a db = db \<lparr> d_activities := (d_activities db)(m_name (ac_meta a) \<mapsto> a) \<rparr>"

definition db_put_task :: "task \<Rightarrow> in_memory_db \<Rightarrow> in_memory_db" where
  "db_put_task t db = db \<lparr> d_tasks := (d_tasks db)(m_name (tk_meta t) \<mapsto> t) \<rparr>"

definition db_remove_child :: "raw_object_ref \<Rightarrow> raw_object_ref \<Rightarrow> in_memory_db \<Rightarrow> in_memory_db" where
  "db_remove_child parent child db = db \<lparr> d_children := d_children db - {(parent, child)} \<rparr>"

definition db_add_child :: "raw_object_ref \<Rightarrow> raw_object_ref \<Rightarrow> in_memory_db \<Rightarrow> in_memory_db" where
  "db_add_child parent child db = db \<lparr> d_children := insert (parent, child) (d_children db) \<rparr>"

definition db_put_flow :: "flow \<Rightarrow> in_memory_db \<Rightarrow> in_memory_db option" where
  "db_put_flow f db =
     (case as_plain (m_name (fl_meta f)) of
        None \<Rightarrow> None
      | Some n \<Rightarrow> Some (db \<lparr> d_flows := (d_flows db)(n \<mapsto> f) \<rparr>))"

definition db_put_flow_version :: "flow_version \<Rightarrow> in_memory_db \<Rightarrow> in_memory_db" where
  "db_put_flow_version v db =
     db \<lparr> d_flow_versions := (d_flow_versions db)(m_name (fv_meta v) \<mapsto> v) \<rparr>"

definition db_put_last_processed_position :: "int \<Rightarrow> in_memory_db \<Rightarrow> in_memory_db" where
  "db_put_last_processed_position pos db = db \<lparr> d_last_processed_position := pos \<rparr>"

section \<open>Transactions\<close>

record in_memory_batch =
  b_executions :: "object_name \<rightharpoonup> execution"
  b_threads :: "object_name \<rightharpoonup> thread"
  b_variables :: "object_name \<rightharpoonup> variables"
  b_activities :: "object_name \<rightharpoonup> activity"
  b_tasks :: "object_name \<rightharpoonup> task"
  b_flows :: "flow_name \<rightharpoonup> flow"
  b_flow_versions :: "object_name \<rightharpoonup> flow_version"
  b_next_generated_seq :: "nat option"
  b_children :: "(edge, bool) alist"

record txn =
  x_db :: in_memory_db
  x_batch :: in_memory_batch

definition empty_batch :: in_memory_batch where
  "empty_batch = \<lparr> b_executions = Map.empty, b_threads = Map.empty, b_variables = Map.empty,
     b_activities = Map.empty, b_tasks = Map.empty, b_flows = Map.empty, b_flow_versions = Map.empty,
     b_next_generated_seq = None, b_children = DAList.empty \<rparr>"

definition begin_txn :: "in_memory_db \<Rightarrow> txn" where
  "begin_txn db = \<lparr> x_db = db, x_batch = empty_batch \<rparr>"

text \<open>One turn of the loop of \<open>InMemoryBatch::children\<close>.\<close>

definition children_step ::
  "raw_object_ref \<Rightarrow> edge \<times> bool \<Rightarrow> raw_object_ref set \<Rightarrow> raw_object_ref set" where
  "children_step parent u out =
     (case u of ((p, c), present) \<Rightarrow>
        if p \<noteq> parent then out else if present then insert c out else out - {c})"

definition get_children :: "txn \<Rightarrow> raw_object_ref \<Rightarrow> raw_object_ref set" where
  "get_children t parent =
     fold (children_step parent) (DAList.impl_of (b_children (x_batch t))) (db_children (x_db t) parent)"

definition get_execution :: "txn \<Rightarrow> oref \<Rightarrow> execution option" where
  "get_execution t r =
     (case b_executions (x_batch t) (o_name r) of
        Some e \<Rightarrow> Some e | None \<Rightarrow> d_executions (x_db t) (o_name r))"

definition get_thread :: "txn \<Rightarrow> oref \<Rightarrow> thread option" where
  "get_thread t r =
     (case b_threads (x_batch t) (o_name r) of
        Some e \<Rightarrow> Some e | None \<Rightarrow> d_threads (x_db t) (o_name r))"

definition get_variables :: "txn \<Rightarrow> oref \<Rightarrow> variables" where
  "get_variables t r =
     (case b_variables (x_batch t) (o_name r) of
        Some v \<Rightarrow> v
      | None \<Rightarrow> (case d_variables (x_db t) (o_name r) of Some v \<Rightarrow> v | None \<Rightarrow> Map.empty))"

definition get_activity :: "txn \<Rightarrow> oref \<Rightarrow> activity option" where
  "get_activity t r =
     (case b_activities (x_batch t) (o_name r) of
        Some e \<Rightarrow> Some e | None \<Rightarrow> d_activities (x_db t) (o_name r))"

definition get_task :: "txn \<Rightarrow> oref \<Rightarrow> task option" where
  "get_task t r =
     (case b_tasks (x_batch t) (o_name r) of
        Some e \<Rightarrow> Some e | None \<Rightarrow> d_tasks (x_db t) (o_name r))"

definition activatable_tasks ::
  "((object_name \<rightharpoonup> task) \<Rightarrow> object_name list) \<Rightarrow> txn \<Rightarrow> string \<Rightarrow> timestamp \<Rightarrow> nat \<Rightarrow> task list" where
  "activatable_tasks order t resource now limit =
     pick_activatable order (d_tasks (x_db t) ++ b_tasks (x_batch t)) resource now limit"

definition get_flow_by_name :: "txn \<Rightarrow> flow_name \<Rightarrow> flow option" where
  "get_flow_by_name t n =
     (case b_flows (x_batch t) n of Some f \<Rightarrow> Some f | None \<Rightarrow> d_flows (x_db t) n)"

definition get_flow_version :: "txn \<Rightarrow> oref \<Rightarrow> flow_version option" where
  "get_flow_version t r =
     (case b_flow_versions (x_batch t) (o_name r) of
        Some v \<Rightarrow> Some v | None \<Rightarrow> d_flow_versions (x_db t) (o_name r))"

definition flow_version_of :: "txn \<Rightarrow> flow_name \<Rightarrow> nat \<Rightarrow> flow_version option" where
  "flow_version_of t n version =
     (case b_flow_versions (x_batch t) (version_name n version) of
        Some v \<Rightarrow> Some v | None \<Rightarrow> d_flow_versions (x_db t) (version_name n version))"

definition get_next_generated_seq :: "txn \<Rightarrow> nat" where
  "get_next_generated_seq t =
     (case b_next_generated_seq (x_batch t) of Some s \<Rightarrow> s | None \<Rightarrow> d_next_generated_seq (x_db t))"

definition put_execution :: "execution \<Rightarrow> txn \<Rightarrow> txn" where
  "put_execution e t = t \<lparr> x_batch := x_batch t
     \<lparr> b_executions := (b_executions (x_batch t))(m_name (ex_meta e) \<mapsto> e) \<rparr> \<rparr>"

definition put_thread :: "thread \<Rightarrow> txn \<Rightarrow> txn" where
  "put_thread e t = t \<lparr> x_batch := x_batch t
     \<lparr> b_threads := (b_threads (x_batch t))(m_name (th_meta e) \<mapsto> e) \<rparr> \<rparr>"

definition put_variables :: "oref \<Rightarrow> variables \<Rightarrow> txn \<Rightarrow> txn" where
  "put_variables r v t = t \<lparr> x_batch := x_batch t
     \<lparr> b_variables := (b_variables (x_batch t))(o_name r \<mapsto> v) \<rparr> \<rparr>"

definition put_activity :: "activity \<Rightarrow> txn \<Rightarrow> txn" where
  "put_activity e t = t \<lparr> x_batch := x_batch t
     \<lparr> b_activities := (b_activities (x_batch t))(m_name (ac_meta e) \<mapsto> e) \<rparr> \<rparr>"

definition put_task :: "task \<Rightarrow> txn \<Rightarrow> txn" where
  "put_task e t = t \<lparr> x_batch := x_batch t
     \<lparr> b_tasks := (b_tasks (x_batch t))(m_name (tk_meta e) \<mapsto> e) \<rparr> \<rparr>"

definition put_flow :: "flow \<Rightarrow> txn \<Rightarrow> txn option" where
  "put_flow f t =
     (case as_plain (m_name (fl_meta f)) of
        None \<Rightarrow> None
      | Some n \<Rightarrow> Some (t \<lparr> x_batch := x_batch t \<lparr> b_flows := (b_flows (x_batch t))(n \<mapsto> f) \<rparr> \<rparr>))"

definition put_flow_version :: "flow_version \<Rightarrow> txn \<Rightarrow> txn" where
  "put_flow_version v t = t \<lparr> x_batch := x_batch t
     \<lparr> b_flow_versions := (b_flow_versions (x_batch t))(m_name (fv_meta v) \<mapsto> v) \<rparr> \<rparr>"

definition remove_child :: "raw_object_ref \<Rightarrow> raw_object_ref \<Rightarrow> txn \<Rightarrow> txn" where
  "remove_child parent child t = t \<lparr> x_batch := x_batch t
     \<lparr> b_children := DAList.update (parent, child) False (b_children (x_batch t)) \<rparr> \<rparr>"

definition add_child :: "raw_object_ref \<Rightarrow> raw_object_ref \<Rightarrow> txn \<Rightarrow> txn" where
  "add_child parent child t = t \<lparr> x_batch := x_batch t
     \<lparr> b_children := DAList.update (parent, child) True (b_children (x_batch t)) \<rparr> \<rparr>"

definition put_next_generated_seq :: "nat \<Rightarrow> txn \<Rightarrow> txn" where
  "put_next_generated_seq s t = t \<lparr> x_batch := x_batch t \<lparr> b_next_generated_seq := Some s \<rparr> \<rparr>"

definition edge_step :: "edge \<times> bool \<Rightarrow> edge set \<Rightarrow> edge set" where
  "edge_step u es = (case u of (e, present) \<Rightarrow> if present then insert e es else es - {e})"

definition commit :: "int option \<Rightarrow> txn \<Rightarrow> in_memory_db" where
  "commit watermark t =
     (let db = x_db t; b = x_batch t in
      \<lparr> d_executions = d_executions db ++ b_executions b,
        d_threads = d_threads db ++ b_threads b,
        d_variables = d_variables db ++ b_variables b,
        d_activities = d_activities db ++ b_activities b,
        d_tasks = d_tasks db ++ b_tasks b,
        d_flows = d_flows db ++ b_flows b,
        d_flow_versions = d_flow_versions db ++ b_flow_versions b,
        d_last_processed_position =
          (case watermark of Some w \<Rightarrow> w | None \<Rightarrow> d_last_processed_position db),
        d_next_generated_seq =
          (case b_next_generated_seq b of
             Some s \<Rightarrow> max (d_next_generated_seq db) s | None \<Rightarrow> d_next_generated_seq db),
        d_children = fold edge_step (DAList.impl_of (b_children b)) (d_children db) \<rparr>)"

section \<open>What clients rely on\<close>

text \<open>A table of rows: a read after a write returns the row written under that address.\<close>

locale row_table =
  fixes get :: "'t \<Rightarrow> 'r \<Rightarrow> 'v option"
    and put :: "'v \<Rightarrow> 't \<Rightarrow> 't"
    and addr :: "'r \<Rightarrow> 'n"
    and key :: "'v \<Rightarrow> 'n"
  assumes get_put: "get (put v t) r = (if addr r = key v then Some v else get t r)"
begin

lemma get_put_same: "addr r = key v \<Longrightarrow> get (put v t) r = Some v"
  by (simp add: get_put)

lemma get_put_other: "addr r \<noteq> key v \<Longrightarrow> get (put v t) r = get t r"
  by (simp add: get_put)

text \<open>After a batch of writes, the last row written under an address wins.\<close>

lemma get_fold_put:
  "get (fold put vs t) r =
     (case find (\<lambda>v. key v = addr r) (rev vs) of Some v \<Rightarrow> Some v | None \<Rightarrow> get t r)"
  by (induction vs rule: rev_induct) (simp_all add: get_put)

end

text \<open>A table of a transaction over a database: opening a transaction shows the database, and
  committing it shows the transaction.\<close>

locale txn_table = row_table get put addr key
  for get :: "'t \<Rightarrow> 'r \<Rightarrow> 'v option" and put :: "'v \<Rightarrow> 't \<Rightarrow> 't"
    and addr :: "'r \<Rightarrow> 'n" and key :: "'v \<Rightarrow> 'n" +
  fixes db_get :: "'d \<Rightarrow> 'r \<Rightarrow> 'v option"
    and open_on :: "'d \<Rightarrow> 't"
    and commit_as :: "'w \<Rightarrow> 't \<Rightarrow> 'd"
  assumes get_open: "get (open_on d) r = db_get d r"
    and get_commit: "db_get (commit_as w t) r = get t r"
begin

lemma committed_batch:
  "db_get (commit_as w (fold put vs (open_on d))) r =
     (case find (\<lambda>v. key v = addr r) (rev vs) of Some v \<Rightarrow> Some v | None \<Rightarrow> db_get d r)"
  by (simp add: get_commit get_open get_fold_put split: option.split)

lemma reopened: "get (open_on (commit_as w t)) r = get t r"
  by (simp add: get_open get_commit)

end

text \<open>The ownership edges.\<close>

locale edge_table =
  fixes children :: "'t \<Rightarrow> 'p \<Rightarrow> 'p set"
    and add :: "'p \<Rightarrow> 'p \<Rightarrow> 't \<Rightarrow> 't"
    and remove :: "'p \<Rightarrow> 'p \<Rightarrow> 't \<Rightarrow> 't"
  assumes children_add: "children (add p c t) q = (if q = p then insert c (children t q) else children t q)"
    and children_remove: "children (remove p c t) q = (if q = p then children t q - {c} else children t q)"
begin

lemma add_then_remove: "c \<notin> children t p \<Longrightarrow> children (remove p c (add p c t)) q = children t q"
  by (auto simp: children_add children_remove)

lemma removed_unless_added: "c \<notin> children (remove p c t) p"
  by (simp add: children_remove)

end

section \<open>The in-memory transaction provides them\<close>

text \<open>The batched edge updates, as a set.\<close>

lemma fold_edge_step:
  "distinct (map fst us) \<Longrightarrow>
   e \<in> fold edge_step us es \<longleftrightarrow> (case map_of us e of Some b \<Rightarrow> b | None \<Rightarrow> e \<in> es)"
proof (induction us arbitrary: es)
  case Nil
  then show ?case by simp
next
  case (Cons u us)
  obtain e' b where u: "u = (e', b)" by (cases u)
  have "map_of us e' = None" using Cons.prems u by (simp add: map_of_eq_None_iff)
  then show ?case using Cons u by (auto simp: edge_step_def split: option.split)
qed

lemma fold_children_step:
  "distinct (map fst us) \<Longrightarrow>
   c \<in> fold (children_step p) us cs \<longleftrightarrow> (case map_of us (p, c) of Some b \<Rightarrow> b | None \<Rightarrow> c \<in> cs)"
proof (induction us arbitrary: cs)
  case Nil
  then show ?case by simp
next
  case (Cons u us)
  obtain q d b where u: "u = ((q, d), b)" by (metis prod.exhaust)
  have "map_of us (q, d) = None" using Cons.prems u by (simp add: map_of_eq_None_iff)
  then show ?case using Cons u by (auto simp: children_step_def split: option.split)
qed

lemma mem_db_children [simp]: "c \<in> db_children db p \<longleftrightarrow> (p, c) \<in> d_children db"
  by (force simp: db_children_def)

lemma mem_get_children:
  "c \<in> get_children t p \<longleftrightarrow>
     (case DAList.lookup (b_children (x_batch t)) (p, c) of
        Some b \<Rightarrow> b | None \<Rightarrow> (p, c) \<in> d_children (x_db t))"
  by (simp add: get_children_def fold_children_step DAList.lookup.rep_eq split: option.split)

lemma mem_commit_children:
  "e \<in> d_children (commit w t) \<longleftrightarrow>
     (case DAList.lookup (b_children (x_batch t)) e of Some b \<Rightarrow> b | None \<Rightarrow> e \<in> d_children (x_db t))"
  by (simp add: commit_def Let_def fold_edge_step DAList.lookup.rep_eq)

lemmas txn_row_defs =
  get_execution_def get_thread_def get_activity_def get_task_def get_flow_version_def
  put_execution_def put_thread_def put_activity_def put_task_def put_flow_version_def
  db_get_execution_def db_get_thread_def db_get_activity_def db_get_task_def db_get_flow_version_def
  begin_txn_def empty_batch_def commit_def

interpretation executions: txn_table get_execution put_execution o_name "\<lambda>e. m_name (ex_meta e)"
  db_get_execution begin_txn commit
  by unfold_locales (auto simp: txn_row_defs Let_def map_add_def split: option.split)

interpretation threads: txn_table get_thread put_thread o_name "\<lambda>e. m_name (th_meta e)"
  db_get_thread begin_txn commit
  by unfold_locales (auto simp: txn_row_defs Let_def map_add_def split: option.split)

interpretation activities: txn_table get_activity put_activity o_name "\<lambda>e. m_name (ac_meta e)"
  db_get_activity begin_txn commit
  by unfold_locales (auto simp: txn_row_defs Let_def map_add_def split: option.split)

interpretation tasks: txn_table get_task put_task o_name "\<lambda>e. m_name (tk_meta e)"
  db_get_task begin_txn commit
  by unfold_locales (auto simp: txn_row_defs Let_def map_add_def split: option.split)

interpretation flow_versions: txn_table get_flow_version put_flow_version o_name
  "\<lambda>e. m_name (fv_meta e)" db_get_flow_version begin_txn commit
  by unfold_locales (auto simp: txn_row_defs Let_def map_add_def split: option.split)

interpretation db_edges: edge_table db_children db_add_child db_remove_child
  by unfold_locales (auto simp: db_add_child_def db_remove_child_def)

interpretation txn_edges: edge_table get_children add_child remove_child
proof (unfold_locales, goal_cases)
  case (1 p c t q)
  show ?case
    by (rule set_eqI) (auto simp: mem_get_children add_child_def lookup_update split: option.split)
next
  case (2 p c t q)
  show ?case
    by (rule set_eqI) (auto simp: mem_get_children remove_child_def lookup_update split: option.split)
qed

lemmas txn_reads [simp, row_simps] =
  executions.get_put threads.get_put activities.get_put tasks.get_put flow_versions.get_put
  txn_edges.children_add txn_edges.children_remove

lemma get_variables_put [simp, row_simps]:
  "get_variables (put_variables q v t) r = (if o_name r = o_name q then v else get_variables t r)"
  by (simp add: get_variables_def put_variables_def cong: option.case_cong)

lemma get_next_generated_seq_put [simp, row_simps]: "get_next_generated_seq (put_next_generated_seq k t) = k"
  by (simp add: get_next_generated_seq_def put_next_generated_seq_def)

lemma get_execution_frame [simp, row_simps]:
  "get_execution (put_thread th t) r = get_execution t r"
  "get_execution (put_variables vr v t) r = get_execution t r"
  "get_execution (put_activity a t) r = get_execution t r"
  "get_execution (put_task tk t) r = get_execution t r"
  "get_execution (put_flow_version fv t) r = get_execution t r"
  "get_execution (remove_child q c t) r = get_execution t r"
  "get_execution (add_child q c t) r = get_execution t r"
  "get_execution (put_next_generated_seq k t) r = get_execution t r"
  by (simp_all add: get_execution_def put_thread_def put_variables_def put_activity_def put_task_def put_flow_version_def remove_child_def add_child_def put_next_generated_seq_def cong: option.case_cong)

lemma get_thread_frame [simp, row_simps]:
  "get_thread (put_execution e t) r = get_thread t r"
  "get_thread (put_variables vr v t) r = get_thread t r"
  "get_thread (put_activity a t) r = get_thread t r"
  "get_thread (put_task tk t) r = get_thread t r"
  "get_thread (put_flow_version fv t) r = get_thread t r"
  "get_thread (remove_child q c t) r = get_thread t r"
  "get_thread (add_child q c t) r = get_thread t r"
  "get_thread (put_next_generated_seq k t) r = get_thread t r"
  by (simp_all add: get_thread_def put_execution_def put_variables_def put_activity_def put_task_def put_flow_version_def remove_child_def add_child_def put_next_generated_seq_def cong: option.case_cong)

lemma get_variables_frame [simp, row_simps]:
  "get_variables (put_execution e t) r = get_variables t r"
  "get_variables (put_thread th t) r = get_variables t r"
  "get_variables (put_activity a t) r = get_variables t r"
  "get_variables (put_task tk t) r = get_variables t r"
  "get_variables (put_flow_version fv t) r = get_variables t r"
  "get_variables (remove_child q c t) r = get_variables t r"
  "get_variables (add_child q c t) r = get_variables t r"
  "get_variables (put_next_generated_seq k t) r = get_variables t r"
  by (simp_all add: get_variables_def put_execution_def put_thread_def put_activity_def put_task_def put_flow_version_def remove_child_def add_child_def put_next_generated_seq_def cong: option.case_cong)

lemma get_activity_frame [simp, row_simps]:
  "get_activity (put_execution e t) r = get_activity t r"
  "get_activity (put_thread th t) r = get_activity t r"
  "get_activity (put_variables vr v t) r = get_activity t r"
  "get_activity (put_task tk t) r = get_activity t r"
  "get_activity (put_flow_version fv t) r = get_activity t r"
  "get_activity (remove_child q c t) r = get_activity t r"
  "get_activity (add_child q c t) r = get_activity t r"
  "get_activity (put_next_generated_seq k t) r = get_activity t r"
  by (simp_all add: get_activity_def put_execution_def put_thread_def put_variables_def put_task_def put_flow_version_def remove_child_def add_child_def put_next_generated_seq_def cong: option.case_cong)

lemma get_task_frame [simp, row_simps]:
  "get_task (put_execution e t) r = get_task t r"
  "get_task (put_thread th t) r = get_task t r"
  "get_task (put_variables vr v t) r = get_task t r"
  "get_task (put_activity a t) r = get_task t r"
  "get_task (put_flow_version fv t) r = get_task t r"
  "get_task (remove_child q c t) r = get_task t r"
  "get_task (add_child q c t) r = get_task t r"
  "get_task (put_next_generated_seq k t) r = get_task t r"
  by (simp_all add: get_task_def put_execution_def put_thread_def put_variables_def put_activity_def put_flow_version_def remove_child_def add_child_def put_next_generated_seq_def cong: option.case_cong)

lemma get_flow_by_name_frame [simp, row_simps]:
  "get_flow_by_name (put_execution e t) n = get_flow_by_name t n"
  "get_flow_by_name (put_thread th t) n = get_flow_by_name t n"
  "get_flow_by_name (put_variables vr v t) n = get_flow_by_name t n"
  "get_flow_by_name (put_activity a t) n = get_flow_by_name t n"
  "get_flow_by_name (put_task tk t) n = get_flow_by_name t n"
  "get_flow_by_name (put_flow_version fv t) n = get_flow_by_name t n"
  "get_flow_by_name (remove_child q c t) n = get_flow_by_name t n"
  "get_flow_by_name (add_child q c t) n = get_flow_by_name t n"
  "get_flow_by_name (put_next_generated_seq k t) n = get_flow_by_name t n"
  by (simp_all add: get_flow_by_name_def put_execution_def put_thread_def put_variables_def put_activity_def put_task_def put_flow_version_def remove_child_def add_child_def put_next_generated_seq_def cong: option.case_cong)

lemma get_flow_version_frame [simp, row_simps]:
  "get_flow_version (put_execution e t) r = get_flow_version t r"
  "get_flow_version (put_thread th t) r = get_flow_version t r"
  "get_flow_version (put_variables vr v t) r = get_flow_version t r"
  "get_flow_version (put_activity a t) r = get_flow_version t r"
  "get_flow_version (put_task tk t) r = get_flow_version t r"
  "get_flow_version (remove_child q c t) r = get_flow_version t r"
  "get_flow_version (add_child q c t) r = get_flow_version t r"
  "get_flow_version (put_next_generated_seq k t) r = get_flow_version t r"
  by (simp_all add: get_flow_version_def put_execution_def put_thread_def put_variables_def put_activity_def put_task_def remove_child_def add_child_def put_next_generated_seq_def cong: option.case_cong)

lemma get_children_frame [simp, row_simps]:
  "get_children (put_execution e t) p = get_children t p"
  "get_children (put_thread th t) p = get_children t p"
  "get_children (put_variables vr v t) p = get_children t p"
  "get_children (put_activity a t) p = get_children t p"
  "get_children (put_task tk t) p = get_children t p"
  "get_children (put_flow_version fv t) p = get_children t p"
  "get_children (put_next_generated_seq k t) p = get_children t p"
  by (simp_all add: get_children_def put_execution_def put_thread_def put_variables_def put_activity_def put_task_def put_flow_version_def put_next_generated_seq_def cong: option.case_cong)

lemma get_next_generated_seq_frame [simp, row_simps]:
  "get_next_generated_seq (put_execution e t) = get_next_generated_seq t"
  "get_next_generated_seq (put_thread th t) = get_next_generated_seq t"
  "get_next_generated_seq (put_variables vr v t) = get_next_generated_seq t"
  "get_next_generated_seq (put_activity a t) = get_next_generated_seq t"
  "get_next_generated_seq (put_task tk t) = get_next_generated_seq t"
  "get_next_generated_seq (put_flow_version fv t) = get_next_generated_seq t"
  "get_next_generated_seq (remove_child q c t) = get_next_generated_seq t"
  "get_next_generated_seq (add_child q c t) = get_next_generated_seq t"
  by (simp_all add: get_next_generated_seq_def put_execution_def put_thread_def put_variables_def put_activity_def put_task_def put_flow_version_def remove_child_def add_child_def cong: option.case_cong)


section \<open>Refinement: a transaction is the database it would commit\<close>

text \<open>Every write to a transaction is, on the database that \<open>commit\<close> yields, the direct write of
  \<open>InMemoryStorage\<close>; every read of the transaction is the direct read of that database.\<close>

lemma commit_begin [simp]: "commit None (begin_txn db) = db"
  by (simp add: commit_def begin_txn_def empty_batch_def Let_def DAList.empty.rep_eq)

lemma commit_watermark: "commit (Some w) t = db_put_last_processed_position w (commit None t)"
  by (simp add: commit_def db_put_last_processed_position_def Let_def)

lemma commit_put:
  "commit None (put_execution e t) = db_put_execution e (commit None t)"
  "commit None (put_thread th t) = db_put_thread th (commit None t)"
  "commit None (put_variables vr v t) = db_put_variables vr v (commit None t)"
  "commit None (put_activity a t) = db_put_activity a (commit None t)"
  "commit None (put_task tk t) = db_put_task tk (commit None t)"
  "commit None (put_flow_version fv t) = db_put_flow_version fv (commit None t)"
  by (simp_all add: commit_def Let_def
      put_execution_def put_thread_def put_variables_def put_activity_def put_task_def
      put_flow_version_def db_put_execution_def db_put_thread_def db_put_variables_def
      db_put_activity_def db_put_task_def db_put_flow_version_def)

lemma commit_put_flow:
  "map_option (commit None) (put_flow f t) = db_put_flow f (commit None t)"
  by (simp add: put_flow_def db_put_flow_def commit_def Let_def split: option.split)

lemma edge_writes [simp]:
  "x_db (add_child p c t) = x_db t" "x_db (remove_child p c t) = x_db t"
  "b_children (x_batch (add_child p c t)) = DAList.update (p, c) True (b_children (x_batch t))"
  "b_children (x_batch (remove_child p c t)) = DAList.update (p, c) False (b_children (x_batch t))"
  by (simp_all add: add_child_def remove_child_def)

lemma commit_edge_sets:
  "d_children (commit w (add_child p c t)) = insert (p, c) (d_children (commit w t))"
  "d_children (commit w (remove_child p c t)) = d_children (commit w t) - {(p, c)}"
proof -
  have "e \<in> d_children (commit w (add_child p c t)) \<longleftrightarrow> e \<in> insert (p, c) (d_children (commit w t))" for e
    by (cases "e = (p, c)") (simp_all add: mem_commit_children split: option.split)
  then show "d_children (commit w (add_child p c t)) = insert (p, c) (d_children (commit w t))"
    by blast
next
  have "e \<in> d_children (commit w (remove_child p c t)) \<longleftrightarrow> e \<in> d_children (commit w t) - {(p, c)}" for e
    by (cases "e = (p, c)") (simp_all add: mem_commit_children split: option.split)
  then show "d_children (commit w (remove_child p c t)) = d_children (commit w t) - {(p, c)}"
    by blast
qed

lemma commit_edges:
  "commit None (add_child p c t) = db_add_child p c (commit None t)"
  "commit None (remove_child p c t) = db_remove_child p c (commit None t)"
proof -
  show "commit None (add_child p c t) = db_add_child p c (commit None t)"
    by (rule in_memory_db.equality)
       (simp_all add: commit_edge_sets db_add_child_def, simp_all add: commit_def add_child_def Let_def)
  show "commit None (remove_child p c t) = db_remove_child p c (commit None t)"
    by (rule in_memory_db.equality)
       (simp_all add: commit_edge_sets db_remove_child_def, simp_all add: commit_def remove_child_def Let_def)
qed

lemma commit_children: "db_children (commit w t) p = get_children t p"
  by (rule set_eqI) (simp add: mem_commit_children mem_get_children)

lemma commit_variables: "db_get_variables (commit w t) r = get_variables t r"
  by (simp add: db_get_variables_def get_variables_def commit_def Let_def map_add_def split: option.split)

lemma commit_flow: "db_get_flow_by_name (commit w t) n = get_flow_by_name t n"
  by (simp add: db_get_flow_by_name_def get_flow_by_name_def commit_def Let_def map_add_def split: option.split)

lemma commit_flow_version_of: "db_flow_version_of (commit w t) n v = flow_version_of t n v"
  by (simp add: db_flow_version_of_def flow_version_of_def commit_def Let_def map_add_def split: option.split)

lemma commit_activatable:
  "db_activatable_tasks order (commit w t) res now k = activatable_tasks order t res now k"
  by (simp add: db_activatable_tasks_def activatable_tasks_def commit_def Let_def)

lemmas commit_reads = executions.get_commit threads.get_commit activities.get_commit
  tasks.get_commit flow_versions.get_commit commit_children commit_variables commit_flow
  commit_flow_version_of commit_activatable

end
