(* ===== verification/Appliers.thy ===== *)
theory Appliers
  imports Storage
begin

text \<open>
  The event projections of \<open>src/crates/engine/src/applier.rs\<close> and \<open>applier/appliers/*.rs\<close>: one
  function per event, folding the event onto a storage transaction, and \<open>dispatch_event\<close>, which
  selects it. The argument \<open>now\<close> is the timestamp of the log entry that carries the event. \<open>None\<close> is a
  panic (a flow under a generated name). A fold over the log is \<open>replay\<close>.
\<close>

section \<open>Projections\<close>

definition bump_generated_seq :: "object_name \<Rightarrow> txn \<Rightarrow> txn" where
  "bump_generated_seq n t =
     (case suffix n of
        None \<Rightarrow> t
      | Some k \<Rightarrow> put_next_generated_seq (max (get_next_generated_seq t) (k + 1)) t)"

subsection \<open>Executions\<close>

definition apply_execution_created :: "execution \<Rightarrow> txn \<Rightarrow> txn" where
  "apply_execution_created e t = put_execution e t"

definition apply_execution_completing :: "execution \<Rightarrow> txn \<Rightarrow> txn" where
  "apply_execution_completing e t =
     (case get_execution t (ex_ref e) of
        None \<Rightarrow> t
      | Some row \<Rightarrow> put_execution
          (row \<lparr> ex_status := Completing, ex_output := ex_output e,
                 ex_meta := with_update_at (m_updated_at (ex_meta e)) (ex_meta row) \<rparr>) t)"

definition apply_execution_completed :: "execution \<Rightarrow> txn \<Rightarrow> txn" where
  "apply_execution_completed e t =
     (case get_execution t (ex_ref e) of
        None \<Rightarrow> t
      | Some row \<Rightarrow> put_execution
          (row \<lparr> ex_status := Completed, ex_output := ex_output e,
                 ex_meta := with_update_at (m_updated_at (ex_meta e)) (ex_meta row) \<rparr>) t)"

definition apply_execution_terminating :: "execution \<Rightarrow> txn \<Rightarrow> txn" where
  "apply_execution_terminating e t =
     (case get_execution t (ex_ref e) of
        None \<Rightarrow> t
      | Some row \<Rightarrow> put_execution
          (row \<lparr> ex_status := ex_status e,
                 ex_meta := with_update_at (m_updated_at (ex_meta e)) (ex_meta row) \<rparr>) t)"

definition apply_execution_terminated :: "execution \<Rightarrow> txn \<Rightarrow> txn" where
  "apply_execution_terminated e t =
     (case get_execution t (ex_ref e) of
        None \<Rightarrow> t
      | Some row \<Rightarrow> put_execution
          (row \<lparr> ex_status := ex_status e,
                 ex_meta := with_update_at (m_updated_at (ex_meta e)) (ex_meta row) \<rparr>) t)"

subsection \<open>Flows\<close>

definition apply_flow_created :: "flow \<Rightarrow> txn \<Rightarrow> txn option" where
  "apply_flow_created f t = put_flow f t"

definition apply_flow_version_created :: "timestamp \<Rightarrow> flow_version \<Rightarrow> txn \<Rightarrow> txn option" where
  "apply_flow_version_created now v t =
     (let t = put_flow_version v t; owner = m_owner (fv_meta v) in
      case flow_name_of v of
        None \<Rightarrow> None
      | Some fname \<Rightarrow>
          (let f = (case get_flow_by_name t fname of
                      Some existing \<Rightarrow> existing
                    | None \<Rightarrow>
                        \<lparr> fl_meta = build_meta (o_uid owner) (o_name owner) (m_created_at (fv_meta v)) (),
                          fl_status = FlowActive, fl_latest_version = fv_version v \<rparr>);
               f = f \<lparr> fl_latest_version := fv_version v, fl_meta := with_update_at now (fl_meta f) \<rparr>
           in put_flow f t))"

subsection \<open>Activities\<close>

definition apply_state_activating :: "activity \<Rightarrow> txn \<Rightarrow> txn" where
  "apply_state_activating a t =
     add_child (raw_of KThread (m_owner (ac_meta a))) (meta_raw KActivity (ac_meta a))
       (bump_generated_seq (m_name (ac_meta a)) (put_activity a t))"

definition apply_state_activated :: "activity \<Rightarrow> txn \<Rightarrow> txn" where
  "apply_state_activated a t =
     (if get_activity t (ac_ref a) \<noteq> None then put_activity a t else t)"

definition apply_state_completing :: "activity \<Rightarrow> txn \<Rightarrow> txn" where
  "apply_state_completing a t =
     (if get_activity t (ac_ref a) \<noteq> None then put_activity a t else t)"

definition apply_state_completed :: "activity \<Rightarrow> txn \<Rightarrow> txn" where
  "apply_state_completed a t =
     (case get_activity t (ac_ref a) of
        None \<Rightarrow> t
      | Some row \<Rightarrow>
          remove_child (raw_of KThread (m_owner (ac_meta row))) (meta_raw KActivity (ac_meta a))
            (put_activity a t))"

definition apply_state_terminating :: "activity \<Rightarrow> txn \<Rightarrow> txn" where
  "apply_state_terminating a t =
     (if get_activity t (ac_ref a) \<noteq> None then put_activity a t else t)"

definition apply_state_terminated :: "activity \<Rightarrow> txn \<Rightarrow> txn" where
  "apply_state_terminated a t =
     (case get_activity t (ac_ref a) of
        None \<Rightarrow> t
      | Some row \<Rightarrow>
          remove_child (raw_of KThread (m_owner (ac_meta row))) (meta_raw KActivity (ac_meta a))
            (put_activity a t))"

definition apply_variables_assigned :: "oref \<Rightarrow> variables \<Rightarrow> txn \<Rightarrow> txn" where
  "apply_variables_assigned scope vs t = put_variables scope vs t"

definition apply_state_transitioned :: "oref \<Rightarrow> state_path \<Rightarrow> txn \<Rightarrow> txn" where
  "apply_state_transitioned a nxt t = t"

subsection \<open>Tasks\<close>

definition apply_task_activated :: "task \<Rightarrow> txn \<Rightarrow> txn" where
  "apply_task_activated k t =
     add_child (raw_of KActivity (m_owner (tk_meta k))) (meta_raw KTask (tk_meta k))
       (bump_generated_seq (m_name (tk_meta k)) (put_task k t))"

text \<open>One turn of the loop over the claimed tasks.\<close>

definition claim_one :: "timestamp \<Rightarrow> task \<Rightarrow> txn \<Rightarrow> txn" where
  "claim_one now k t =
     (case get_task t (tk_ref k) of
        None \<Rightarrow> t
      | Some row \<Rightarrow>
          if is_claimable_at now row
          then put_task (row \<lparr> tk_status := TRunning, tk_worker_id := tk_worker_id k,
                 tk_lease_expires_at := tk_lease_expires_at k,
                 tk_retry_state := tk_retry_state row
                   \<lparr> rs_next_available_at := rs_next_available_at (tk_retry_state k) \<rparr>,
                 tk_meta := with_update_at (m_updated_at (tk_meta k)) (tk_meta row) \<rparr>) t
          else t)"

definition apply_tasks_claimed :: "timestamp \<Rightarrow> task list \<Rightarrow> txn \<Rightarrow> txn" where
  "apply_tasks_claimed now ks t = fold (claim_one now) ks t"

definition apply_task_completed :: "timestamp \<Rightarrow> task \<Rightarrow> json \<Rightarrow> txn \<Rightarrow> txn" where
  "apply_task_completed now k out t =
     (case get_task t (tk_ref k) of
        None \<Rightarrow> t
      | Some row \<Rightarrow>
          (let parent = m_owner (tk_meta row);
               t = put_task (row \<lparr> tk_status := TCompleted,
                     tk_meta := with_update_at (m_updated_at (tk_meta k)) (tk_meta row) \<rparr>) t;
               t = (case get_activity t parent of
                      None \<Rightarrow> t
                    | Some act \<Rightarrow> put_activity
                        (act \<lparr> ac_raw_output := Some out, ac_meta := with_update_at now (ac_meta act) \<rparr>) t)
           in remove_child (raw_of KActivity parent) (meta_raw KTask (tk_meta k)) t))"

definition apply_task_failed :: "timestamp \<Rightarrow> task \<Rightarrow> txn \<Rightarrow> txn" where
  "apply_task_failed now k t =
     (case get_task t (tk_ref k) of
        None \<Rightarrow> t
      | Some row \<Rightarrow>
          (let parent = m_owner (tk_meta row); t = put_task k t in
           if tk_status k = TPending
           then (case get_activity t parent of
                   None \<Rightarrow> t
                 | Some act \<Rightarrow>
                     (let rs = (case ac_retry_state act of Some r \<Rightarrow> r | None \<Rightarrow> default_retry_state) in
                      put_activity
                        (act \<lparr> ac_retry_state :=
                                  Some (rs \<lparr> rs_attempts := rs_attempts (tk_retry_state k) \<rparr>),
                               ac_meta := with_update_at now (ac_meta act) \<rparr>) t))
           else remove_child (raw_of KActivity parent) (meta_raw KTask (tk_meta k)) t))"

definition apply_task_cancelled :: "task \<Rightarrow> txn \<Rightarrow> txn" where
  "apply_task_cancelled k t =
     (case get_task t (tk_ref k) of
        None \<Rightarrow> t
      | Some row \<Rightarrow>
          remove_child (raw_of KActivity (m_owner (tk_meta row))) (meta_raw KTask (tk_meta k))
            (put_task (row \<lparr> tk_status := TCancelled,
               tk_meta := with_update_at (m_updated_at (tk_meta k)) (tk_meta row) \<rparr>) t))"

subsection \<open>Threads\<close>

text \<open>The slot of the owning activity that remembers a child by its index; \<open>None\<close> where the
  activity is a \<open>Wait\<close>, which keeps no children.\<close>

definition register_child :: "thread \<Rightarrow> activity_state option \<Rightarrow> activity_state option" where
  "register_child th st =
     (case st of
        Some (ActMap p) \<Rightarrow>
          Some (ActMap (p \<lparr> ma_children := DAList.update (th_index th) (th_ref th) (ma_children p) \<rparr>))
      | Some (ActParallel p) \<Rightarrow>
          Some (ActParallel (p \<lparr> pa_branches := DAList.update (th_index th) (th_ref th) (pa_branches p) \<rparr>))
      | Some (ActWait _) \<Rightarrow> None
      | None \<Rightarrow>
          Some (ActParallel \<lparr> pa_branches = DAList.update (th_index th) (th_ref th) DAList.empty \<rparr>))"

definition apply_thread_created :: "timestamp \<Rightarrow> thread \<Rightarrow> txn \<Rightarrow> txn" where
  "apply_thread_created now th t =
     (let t = put_thread th t;
          t = (case m_owner (th_meta th) of
                 OwnerActivity owner \<Rightarrow>
                   (case get_activity t owner of
                      Some act \<Rightarrow> put_variables (th_ref th) (get_variables t (m_owner (ac_meta act))) t
                    | None \<Rightarrow> t)
               | OwnerExecution _ \<Rightarrow> t);
          t = bump_generated_seq (m_name (th_meta th)) t;
          t = add_child (thread_owner_raw (m_owner (th_meta th))) (meta_raw KThread (th_meta th)) t
      in case m_owner (th_meta th) of
           OwnerExecution _ \<Rightarrow> t
         | OwnerActivity owner \<Rightarrow>
             (case get_activity t owner of
                None \<Rightarrow> t
              | Some act \<Rightarrow>
                  (case register_child th (ac_activity_state act) of
                     None \<Rightarrow> t
                   | Some st \<Rightarrow> put_activity
                       (act \<lparr> ac_activity_state := Some st,
                              ac_meta := with_update_at now (ac_meta act) \<rparr>) t)))"

definition apply_thread_completing :: "thread \<Rightarrow> txn \<Rightarrow> txn" where
  "apply_thread_completing th t =
     (case get_thread t (th_ref th) of
        None \<Rightarrow> t
      | Some row \<Rightarrow> put_thread
          (row \<lparr> th_status := Completing, th_output := th_output th,
                 th_meta := with_update_at (m_updated_at (th_meta th)) (th_meta row) \<rparr>) t)"

definition apply_thread_completed :: "thread \<Rightarrow> txn \<Rightarrow> txn" where
  "apply_thread_completed th t =
     (case get_thread t (th_ref th) of
        None \<Rightarrow> t
      | Some row \<Rightarrow>
          remove_child (thread_owner_raw (m_owner (th_meta row))) (meta_raw KThread (th_meta th))
            (put_thread (row \<lparr> th_status := Completed, th_output := th_output th,
               th_meta := with_update_at (m_updated_at (th_meta th)) (th_meta row) \<rparr>) t))"

definition apply_thread_terminating :: "thread \<Rightarrow> txn \<Rightarrow> txn" where
  "apply_thread_terminating th t =
     (case get_thread t (th_ref th) of
        None \<Rightarrow> t
      | Some row \<Rightarrow> put_thread
          (row \<lparr> th_status := th_status th,
                 th_meta := with_update_at (m_updated_at (th_meta th)) (th_meta row) \<rparr>) t)"

definition apply_thread_terminated :: "thread \<Rightarrow> txn \<Rightarrow> txn" where
  "apply_thread_terminated th t =
     (case get_thread t (th_ref th) of
        None \<Rightarrow> t
      | Some row \<Rightarrow>
          remove_child (thread_owner_raw (m_owner (th_meta row))) (meta_raw KThread (th_meta th))
            (put_thread (row \<lparr> th_status := th_status th,
               th_meta := with_update_at (m_updated_at (th_meta th)) (th_meta row) \<rparr>) t))"

section \<open>Dispatch and replay\<close>

fun dispatch_event :: "timestamp \<Rightarrow> event \<Rightarrow> txn \<Rightarrow> txn option" where
  "dispatch_event now (ExecutionCreated _ e) t = Some (apply_execution_created e t)"
| "dispatch_event now (ExecutionCompleting e) t = Some (apply_execution_completing e t)"
| "dispatch_event now (ExecutionCompleted e) t = Some (apply_execution_completed e t)"
| "dispatch_event now (ExecutionTerminating e) t = Some (apply_execution_terminating e t)"
| "dispatch_event now (ExecutionTerminated e) t = Some (apply_execution_terminated e t)"
| "dispatch_event now (FlowCreated _ f) t = apply_flow_created f t"
| "dispatch_event now (FlowVersionCreated _ v) t = apply_flow_version_created now v t"
| "dispatch_event now (StateActivating a) t = Some (apply_state_activating a t)"
| "dispatch_event now (StateActivated a) t = Some (apply_state_activated a t)"
| "dispatch_event now (StateCompleting a) t = Some (apply_state_completing a t)"
| "dispatch_event now (StateCompleted a) t = Some (apply_state_completed a t)"
| "dispatch_event now (StateTerminating a) t = Some (apply_state_terminating a t)"
| "dispatch_event now (StateTerminated a) t = Some (apply_state_terminated a t)"
| "dispatch_event now (VariablesAssigned s vs) t = Some (apply_variables_assigned s vs t)"
| "dispatch_event now (StateTransitioned a nxt) t = Some (apply_state_transitioned a nxt t)"
| "dispatch_event now (TaskActivated k) t = Some (apply_task_activated k t)"
| "dispatch_event now (TasksClaimed _ ks) t = Some (apply_tasks_claimed now ks t)"
| "dispatch_event now (TaskCompleted _ k out) t = Some (apply_task_completed now k out t)"
| "dispatch_event now (TaskFailed k _) t = Some (apply_task_failed now k t)"
| "dispatch_event now (TaskCancelled k) t = Some (apply_task_cancelled k t)"
| "dispatch_event now (ThreadCreated th) t = Some (apply_thread_created now th t)"
| "dispatch_event now (ThreadCompleting th) t = Some (apply_thread_completing th t)"
| "dispatch_event now (ThreadCompleted th) t = Some (apply_thread_completed th t)"
| "dispatch_event now (ThreadTerminating th) t = Some (apply_thread_terminating th t)"
| "dispatch_event now (ThreadTerminated th) t = Some (apply_thread_terminated th t)"

fun replay :: "(timestamp \<times> event) list \<Rightarrow> txn \<Rightarrow> txn option" where
  "replay [] t = Some t"
| "replay ((now, ev) # evs) t =
     (case dispatch_event now ev t of None \<Rightarrow> None | Some t' \<Rightarrow> replay evs t')"

lemma replay_append:
  "replay (xs @ ys) t = (case replay xs t of None \<Rightarrow> None | Some t' \<Rightarrow> replay ys t')"
  by (induction xs arbitrary: t) (auto split: option.split)

end
