(* ===== verification/Logstream.thy ===== *)
theory Logstream
  imports Types
begin

text \<open>
  The append-only log: entries (\<open>src/crates/logstream/src/entry.rs\<close>), the in-memory stream
  (\<open>src/crates/logstream/src/memory.rs\<close>) and the wrapper that closes every batch with a \<open>Noop\<close>
  (\<open>src/crates/engine/src/log.rs\<close>). Positions are \<open>i64\<close> in the code and start at 1.
\<close>

record entry =
  en_stream_id :: int
  en_entry_id :: int
  en_cause_id :: "int option"
  en_timestamp :: timestamp
  en_payload :: entry_payload

definition nil_id :: int where
  "nil_id = -1"

record log_stream =
  ls_stream_id :: int
  ls_entries :: "entry list"
  ls_next_entry_id :: int

definition log_new :: log_stream where
  "log_new = \<lparr> ls_stream_id = 1, ls_entries = [], ls_next_entry_id = 1 \<rparr>"

text \<open>The stamping loop of \<open>append\<close>.\<close>

fun stamp :: "int \<Rightarrow> int \<Rightarrow> entry list \<Rightarrow> entry list" where
  "stamp sid i [] = []"
| "stamp sid i (e # es) = e \<lparr> en_stream_id := sid, en_entry_id := i \<rparr> # stamp sid (i + 1) es"

definition log_append :: "entry list \<Rightarrow> log_stream \<Rightarrow> int \<times> log_stream" where
  "log_append es l =
     (let nxt = ls_next_entry_id l + int (length es) in
      (nxt - 1,
       l \<lparr> ls_next_entry_id := nxt,
           ls_entries := ls_entries l @ stamp (ls_stream_id l) (ls_next_entry_id l) es \<rparr>))"

text \<open>\<open>usize::try_from(entry_id - 1)\<close> and \<open>Vec::get\<close>.\<close>

definition log_read :: "log_stream \<Rightarrow> int \<Rightarrow> entry option" where
  "log_read l i =
     (if 0 \<le> i - 1 \<and> nat (i - 1) < length (ls_entries l) then Some (ls_entries l ! nat (i - 1)) else None)"

text \<open>What \<open>stream_read\<close> yields of the entries present: from the given position on, to the end; a
  nil position stands for the first one.\<close>

definition log_stream_read :: "log_stream \<Rightarrow> int \<Rightarrow> entry list" where
  "log_stream_read l from =
     (let start = (if from = nil_id then 1 else from) in
      if start < 1 then [] else drop (nat (start - 1)) (ls_entries l))"

definition noop_entry :: "timestamp \<Rightarrow> entry" where
  "noop_entry now = \<lparr> en_stream_id = nil_id, en_entry_id = nil_id, en_cause_id = None,
     en_timestamp = now, en_payload = PNoop \<rparr>"

text \<open>\<open>NoopTerminatedLogStream::append\<close>.\<close>

fun is_noop :: "entry_payload \<Rightarrow> bool" where
  "is_noop PNoop = True"
| "is_noop _ = False"

lemma is_noop_iff [simp]: "is_noop p \<longleftrightarrow> p = PNoop"
  by (cases p) simp_all

definition close_batch :: "timestamp \<Rightarrow> entry list \<Rightarrow> entry list" where
  "close_batch now es =
     (if es \<noteq> [] \<and> is_noop (en_payload (last es)) then es else es @ [noop_entry now])"

definition noop_append :: "timestamp \<Rightarrow> entry list \<Rightarrow> log_stream \<Rightarrow> int \<times> log_stream" where
  "noop_append now es l = log_append (close_batch now es) l"

section \<open>Positions\<close>

definition wf_log :: "log_stream \<Rightarrow> bool" where
  "wf_log l \<longleftrightarrow> ls_next_entry_id l = int (length (ls_entries l)) + 1
     \<and> (\<forall>i < length (ls_entries l). en_entry_id (ls_entries l ! i) = int i + 1
           \<and> en_stream_id (ls_entries l ! i) = ls_stream_id l)"

lemma length_stamp [simp]: "length (stamp sid i es) = length es"
  by (induction es arbitrary: i) simp_all

lemma nth_stamp:
  "k < length es \<Longrightarrow> stamp sid i es ! k = (es ! k) \<lparr> en_stream_id := sid, en_entry_id := i + int k \<rparr>"
  by (induction es arbitrary: i k) (auto simp: nth_Cons' of_nat_diff)

lemma stamp_append: "stamp sid i (es @ es') = stamp sid i es @ stamp sid (i + int (length es)) es'"
  by (induction es arbitrary: i) (simp_all add: algebra_simps)

lemma stamp_payloads [simp]:
  "map en_payload (stamp sid i es) = map en_payload es"
  "map en_timestamp (stamp sid i es) = map en_timestamp es"
  by (induction es arbitrary: i) simp_all

lemma wf_log_new: "wf_log log_new"
  by (simp add: wf_log_def log_new_def)

lemma wf_log_append:
  assumes "wf_log l" "log_append es l = (last_id, l')"
  shows "wf_log l'"
  using assms
  by (auto simp: wf_log_def log_append_def Let_def nth_append nth_stamp)

lemma log_append_last_id:
  assumes "wf_log l" "log_append es l = (last_id, l')"
  shows "last_id = int (length (ls_entries l'))"
  using assms by (auto simp: wf_log_def log_append_def Let_def)

text \<open>Reading back an appended batch: the entry at each of its positions is the entry appended.\<close>

lemma log_read_appended:
  assumes "wf_log l" "log_append es l = (last_id, l')" "k < length es"
  shows "log_read l' (ls_next_entry_id l + int k) =
           Some ((es ! k) \<lparr> en_stream_id := ls_stream_id l, en_entry_id := ls_next_entry_id l + int k \<rparr>)"
proof -
  have n: "nat (ls_next_entry_id l + int k - 1) = length (ls_entries l) + k"
    using assms(1) by (simp add: wf_log_def nat_add_distrib)
  show ?thesis
    using assms n by (auto simp: log_read_def log_append_def Let_def nth_append nth_stamp wf_log_def)
qed

lemma log_read_old:
  "wf_log l \<Longrightarrow> log_append es l = (last_id, l') \<Longrightarrow> i < ls_next_entry_id l \<Longrightarrow> log_read l' i = log_read l i"
  by (auto simp: log_read_def log_append_def Let_def nth_append wf_log_def)

lemma close_batch_last: "close_batch now es \<noteq> [] \<and> en_payload (last (close_batch now es)) = PNoop"
  by (simp add: close_batch_def noop_entry_def)

lemma close_batch_idem: "close_batch now (close_batch now' es) = close_batch now' es"
  using close_batch_last [of now' es] by (simp add: close_batch_def)

end
