(* ===== verification/Handler.thy ===== *)
theory Handler
  imports Appliers Logstream
begin

text \<open>
  What a command handler runs in (\<open>src/crates/engine/src/handler.rs\<close>, \<open>working.rs\<close>, \<open>eval_env.rs\<close>,
  \<open>handlers/mod.rs\<close> and \<open>src/crates/engine-types/src/types/context.rs\<close>): the \<open>HandlerContext\<close>, the
  \<open>Collector\<close> that gathers entries and eagerly projects events onto the working transaction, and the
  evaluation of JSONata fields.

  The record \<open>env\<close> holds what the code takes from outside the repository or leaves undetermined: the
  build profile (\<open>debug_assertions\<close>), the clock and the id generator (a reading per call), the JSONata
  engine, the JSON parser for definitions, the RFC 3339 parser, the CRC, and the iteration order of
  hash sets and hash maps. The text of a rejection keeps the fixed words of the message.
\<close>

section \<open>State of a handler run\<close>

datatype processing_error = Unexpected execution_error | Rejected rejection_type string

record env =
  e_debug_assertions :: bool
  e_clock :: "nat \<Rightarrow> timestamp"
  e_ids :: "nat \<Rightarrow> ulid"
  e_jsonata :: "string \<Rightarrow> json \<Rightarrow> (string \<rightharpoonup> json) \<Rightarrow> string + json"
  e_parse_machine :: "string \<Rightarrow> state_machine option"
  e_rfc3339 :: "string \<Rightarrow> (int \<times> nat) option"
  e_crc64 :: "string \<Rightarrow> u64"
  e_iter :: "raw_object_ref set \<Rightarrow> raw_object_ref list"
  e_task_order :: "(object_name \<rightharpoonup> task) \<Rightarrow> object_name list"

record pstate =
  p_env :: env
  p_definitions :: "oref \<rightharpoonup> state_machine"
  p_ticks :: nat
  p_mints :: nat
  p_cause_id :: int
  p_entries :: "entry list"
  p_work :: txn

type_synonym 'a handler = "(pstate, processing_error, 'a) proc"

definition reject :: "rejection_type \<Rightarrow> string \<Rightarrow> 'a handler" where
  "reject ty why = throw (Rejected ty why)"

definition unexpected :: "execution_error \<Rightarrow> 'a handler" where
  "unexpected e = throw (Unexpected e)"

text \<open>\<open>?\<close> on a \<open>Result<_, ExecutionError>\<close>, which converts into \<open>ProcessingError::Unexpected\<close>.\<close>

definition try_exec :: "execution_error + 'a \<Rightarrow> 'a handler" where
  "try_exec r = (case r of Inl e \<Rightarrow> unexpected e | Inr x \<Rightarrow> ret x)"

definition ask :: "env handler" where
  "ask = gets p_env"

definition now :: "timestamp handler" where
  "now = bnd (gets (\<lambda>s. e_clock (p_env s) (p_ticks s))) (\<lambda>t.
         seq (modify (\<lambda>s. s \<lparr> p_ticks := Suc (p_ticks s) \<rparr>)) (ret t))"

definition mint :: "ulid handler" where
  "mint = bnd (gets (\<lambda>s. e_ids (p_env s) (p_mints s))) (\<lambda>u.
          seq (modify (\<lambda>s. s \<lparr> p_mints := Suc (p_mints s) \<rparr>)) (ret u))"

section \<open>Collector\<close>

definition build_entry :: "entry_payload \<Rightarrow> entry handler" where
  "build_entry payload =
     bnd (gets p_cause_id) (\<lambda>cause.
     bnd now (\<lambda>t.
     ret \<lparr> en_stream_id = nil_id, en_entry_id = nil_id, en_cause_id = Some cause,
           en_timestamp = t, en_payload = payload \<rparr>))"

definition push_entry :: "entry \<Rightarrow> unit handler" where
  "push_entry e = modify (\<lambda>s. s \<lparr> p_entries := p_entries s @ [e] \<rparr>)"

text \<open>The eager projection of \<open>OverlaySink::apply\<close> onto the working transaction.\<close>

definition apply_projection :: "event \<Rightarrow> timestamp \<Rightarrow> unit handler" where
  "apply_projection ev t =
     bnd (gets p_work) (\<lambda>w.
     case dispatch_event t ev w of
       None \<Rightarrow> panic ''a Flow name is a user plain name, never a generated one''
     | Some w' \<Rightarrow> modify (\<lambda>s. s \<lparr> p_work := w' \<rparr>))"

definition append_event :: "event \<Rightarrow> unit handler" where
  "append_event ev =
     bnd (build_entry (PEvent ev)) (\<lambda>entry.
     seq (apply_projection ev (en_timestamp entry)) (push_entry entry))"

definition append_command :: "command \<Rightarrow> unit handler" where
  "append_command c = bnd (build_entry (PCommand c)) push_entry"

definition append_reject :: "request_id \<Rightarrow> rejection_type \<Rightarrow> string \<Rightarrow> unit handler" where
  "append_reject rid ty why =
     bnd (build_entry (PReject \<lparr> rj_request_id = rid, rj_type = ty, rj_reason = why \<rparr>)) push_entry"

text \<open>\<open>WorkingState::mint_generated_seq\<close>.\<close>

definition next_generated_seq :: "nat handler" where
  "next_generated_seq =
     bnd (gets (\<lambda>s. get_next_generated_seq (p_work s))) (\<lambda>n.
     seq (modify (\<lambda>s. s \<lparr> p_work := put_next_generated_seq (n + 1) (p_work s) \<rparr>)) (ret n))"

section \<open>Reads of the working state\<close>

definition read_execution :: "oref \<Rightarrow> execution option handler" where
  "read_execution r = gets (\<lambda>s. get_execution (p_work s) r)"

definition read_thread :: "oref \<Rightarrow> thread option handler" where
  "read_thread r = gets (\<lambda>s. get_thread (p_work s) r)"

definition read_variables :: "oref \<Rightarrow> variables handler" where
  "read_variables r = gets (\<lambda>s. get_variables (p_work s) r)"

definition read_activity :: "oref \<Rightarrow> activity option handler" where
  "read_activity r = gets (\<lambda>s. get_activity (p_work s) r)"

definition read_task :: "oref \<Rightarrow> task option handler" where
  "read_task r = gets (\<lambda>s. get_task (p_work s) r)"

definition read_children :: "raw_object_ref \<Rightarrow> raw_object_ref set handler" where
  "read_children r = gets (\<lambda>s. get_children (p_work s) r)"

definition read_activatable_tasks :: "string \<Rightarrow> timestamp \<Rightarrow> nat \<Rightarrow> task list handler" where
  "read_activatable_tasks resource t limit =
     gets (\<lambda>s. activatable_tasks (e_task_order (p_env s)) (p_work s) resource t limit)"

definition read_flow_by_name :: "flow_name \<Rightarrow> flow option handler" where
  "read_flow_by_name n = gets (\<lambda>s. get_flow_by_name (p_work s) n)"

definition read_flow_version :: "oref \<Rightarrow> flow_version option handler" where
  "read_flow_version r = gets (\<lambda>s. get_flow_version (p_work s) r)"

definition iterate_set :: "raw_object_ref set \<Rightarrow> raw_object_ref list handler" where
  "iterate_set S = gets (\<lambda>s. e_iter (p_env s) S)"

text \<open>\<open>RawObjectRef::typed\<close>: panics when the kind does not match.\<close>

definition typed :: "object_kind \<Rightarrow> raw_object_ref \<Rightarrow> oref handler" where
  "typed k r =
     (case typed_ref k r of
        None \<Rightarrow> panic ''the caller matched the kind before re-typing the reference''
      | Some o_ref \<Rightarrow> ret o_ref)"

section \<open>Definitions\<close>

text \<open>\<open>HandlerContext::machine\<close>: a parsed definition is cached under its reference.\<close>

definition machine :: "oref \<Rightarrow> (execution_error + state_machine) handler" where
  "machine fv =
     bnd (gets (\<lambda>s. p_definitions s fv)) (\<lambda>cached.
     case cached of
       Some m \<Rightarrow> ret (Inr m)
     | None \<Rightarrow>
         bnd (read_flow_version fv) (\<lambda>ver.
         case ver of
           None \<Rightarrow> ret (Inl (Runtime (InvalidDefinition
             (''flow version '' @ raw_display (raw_of KFlowVersion fv) @ '' not found in storage''))))
         | Some v \<Rightarrow>
             bnd ask (\<lambda>e.
             case e_parse_machine e (fv_definition v) of
               None \<Rightarrow> ret (Inl (Runtime (InvalidDefinition
                 (''stored flow definition for '' @ raw_display (raw_of KFlowVersion fv)
                  @ '' is not parseable''))))
             | Some m \<Rightarrow>
                 seq (modify (\<lambda>s. s \<lparr> p_definitions := (p_definitions s)(fv \<mapsto> m) \<rparr>))
                     (ret (Inr m)))))"

definition resolve_thread_flow_version :: "thread \<Rightarrow> (execution_error + oref) handler" where
  "resolve_thread_flow_version th =
     bnd (read_execution (th_execution th)) (\<lambda>e.
     case e of
       None \<Rightarrow> ret (Inl (Runtime (InvalidDefinition
         (''thread '' @ raw_display (meta_raw KThread (th_meta th)) @ '' lost its owning execution ''
          @ raw_display (raw_of KExecution (th_execution th))))))
     | Some ex \<Rightarrow> ret (Inr (ex_flow_version ex)))"

definition machine_for_thread :: "thread \<Rightarrow> (execution_error + state_machine) handler" where
  "machine_for_thread th =
     bnd (resolve_thread_flow_version th) (\<lambda>r.
     case r of Inl e \<Rightarrow> ret (Inl e) | Inr fv \<Rightarrow> machine fv)"

section \<open>Evaluation of JSONata fields\<close>

text \<open>The \<open>$states\<close> document of \<open>States::build\<close>, with the fields of the builder as arguments.\<close>

fun json_get :: "string \<Rightarrow> json \<Rightarrow> json option" where
  "json_get k (JObject kvs) = map_of kvs k"
| "json_get k _ = None"

record states_builder =
  sb_input :: json
  sb_result :: "json option"
  sb_state_name :: string
  sb_assign_ctx :: "json option"
  sb_retry_count :: nat
  sb_error_output :: "json option"
  sb_map_item :: "(nat \<times> json) option"

definition states_new :: "json \<Rightarrow> string \<Rightarrow> nat \<Rightarrow> states_builder" where
  "states_new input name retries =
     \<lparr> sb_input = input, sb_result = None, sb_state_name = name, sb_assign_ctx = None,
       sb_retry_count = retries, sb_error_output = None, sb_map_item = None \<rparr>"

definition or_null :: "json option \<Rightarrow> json" where
  "or_null v = (case v of Some j \<Rightarrow> j | None \<Rightarrow> JNull)"

definition states_build :: "states_builder \<Rightarrow> json" where
  "states_build b =
     (let input = (case sb_assign_ctx b of Some c \<Rightarrow> c | None \<Rightarrow> sb_input b);
          err = or_null (sb_error_output b);
          exec_ctx = (if err \<noteq> JNull
                      then [(''Error'', or_null (json_get ''Error'' err)),
                            (''Cause'', or_null (json_get ''Cause'' err))]
                      else []);
          map_ctx = (case sb_map_item b of
                       None \<Rightarrow> JObject []
                     | Some (index, v) \<Rightarrow>
                         JObject [(''Item'', JObject [(''Index'', JNumber (JInt (int index))), (''Value'', v)])])
      in JObject
           [(''input'', input),
            (''result'', or_null (sb_result b)),
            (''errorOutput'', err),
            (''context'', JObject
               [(''Execution'', JObject exec_ctx),
                (''State'', JObject [(''Name'', JString (sb_state_name b)),
                                     (''RetryCount'', JNumber (JInt (int (sb_retry_count b))))]),
                (''StateMachine'', JObject []),
                (''Map'', map_ctx)])])"

text \<open>Parsing and evaluating an expression is the JSONata engine's; both failures become the same
  error. The cache of parsed expressions does not change a result.\<close>

definition eval_expr :: "string \<Rightarrow> json \<Rightarrow> variables \<Rightarrow> (execution_error + json) handler" where
  "eval_expr expr states vs =
     bnd ask (\<lambda>e.
     ret (case e_jsonata e expr (or_null (json_get ''input'' states)) ([''states'' \<mapsto> states] ++ vs) of
            Inl msg \<Rightarrow> Inl (Runtime (Jsonata expr msg))
          | Inr v \<Rightarrow> Inr v))"

text \<open>The slice \<open>trimmed[2..len - 2]\<close> panics where its end lies before its start.\<close>

definition extract_jsonata :: "string \<Rightarrow> string option handler" where
  "extract_jsonata s =
     (let trimmed = trim_str s in
      if starts_with ''{%'' trimmed \<and> ends_with ''%}'' trimmed
      then if length trimmed - 2 < 2 then panic ''slice index starts at 2 but ends before''
           else ret (Some (trim_str (take (length trimmed - 4) (drop 2 trimmed))))
      else ret None)"

definition eval_string_or_expr :: "string \<Rightarrow> json \<Rightarrow> variables \<Rightarrow> (execution_error + json) handler" where
  "eval_string_or_expr s states vs =
     bnd (extract_jsonata s) (\<lambda>r.
     case r of
       Some inner \<Rightarrow> eval_expr inner states vs
     | None \<Rightarrow> ret (Inr (JString s)))"

fun eval_json :: "json \<Rightarrow> json \<Rightarrow> variables \<Rightarrow> (execution_error + json) handler"
and eval_json_list :: "json list \<Rightarrow> json \<Rightarrow> variables \<Rightarrow> (execution_error + json list) handler"
and eval_json_fields ::
  "(string \<times> json) list \<Rightarrow> json \<Rightarrow> variables \<Rightarrow> (execution_error + (string \<times> json) list) handler" where
  "eval_json (JString s) states vs = eval_string_or_expr s states vs"
| "eval_json (JObject kvs) states vs =
     bnd (eval_json_fields kvs states vs) (\<lambda>r. ret (map_sum id JObject r))"
| "eval_json (JArray items) states vs =
     bnd (eval_json_list items states vs) (\<lambda>r. ret (map_sum id JArray r))"
| "eval_json JNull states vs = ret (Inr JNull)"
| "eval_json (JBool b) states vs = ret (Inr (JBool b))"
| "eval_json (JNumber n) states vs = ret (Inr (JNumber n))"
| "eval_json_list [] states vs = ret (Inr [])"
| "eval_json_list (v # rest) states vs =
     bnd (eval_json v states vs) (\<lambda>r.
     case r of
       Inl e \<Rightarrow> ret (Inl e)
     | Inr v' \<Rightarrow> bnd (eval_json_list rest states vs) (\<lambda>r'. ret (map_sum id (\<lambda>vs'. v' # vs') r')))"
| "eval_json_fields [] states vs = ret (Inr [])"
| "eval_json_fields ((k, v) # rest) states vs =
     bnd (eval_json v states vs) (\<lambda>r.
     case r of
       Inl e \<Rightarrow> ret (Inl e)
     | Inr v' \<Rightarrow> bnd (eval_json_fields rest states vs) (\<lambda>r'. ret (map_sum id (\<lambda>fs. (k, v') # fs) r')))"

end
