(* ===== verification/Containers.thy ===== *)
theory Containers
  imports Handler
begin

text \<open>
  The \<open>Container\<close> implementations of executions and threads
  (\<open>src/crates/engine/src/elements/execution.rs\<close>, \<open>thread.rs\<close>): opening the container of a settled
  child and reacting to the child's completion or termination. A reaction only appends commands.
\<close>

section \<open>Executions\<close>

definition execution_open :: "oref \<Rightarrow> oref handler" where
  "execution_open owner =
     bnd (read_execution owner) (\<lambda>row.
     case row of
       None \<Rightarrow> reject NotFound ''execution_element: execution is gone''
     | Some _ \<Rightarrow> ret owner)"

definition execution_after_child_completed :: "oref \<Rightarrow> raw_object_ref \<Rightarrow> unit handler" where
  "execution_after_child_completed ex child =
     bnd (read_execution ex) (\<lambda>row.
     case row of
       None \<Rightarrow> reject InvalidState ''execution_element: execution is gone from under its settled child''
     | Some e \<Rightarrow>
         if r_kind child \<noteq> KThread
         then reject InvalidState ''execution_element: execution settled a child of another kind''
         else case ex_status e of
           Running \<Rightarrow>
             bnd (typed KThread child) (\<lambda>th.
             bnd (read_thread th) (\<lambda>trow.
             append_command (CompleteExecution ex
               (case trow of Some thr \<Rightarrow> or_null (th_output thr) | None \<Rightarrow> JNull))))
         | Terminating _ \<Rightarrow> append_command (ContinueTerminate (raw_of KExecution ex))
         | Completing \<Rightarrow>
             reject InvalidState ''execution_element: execution is completing with a settling root thread''
         | _ \<Rightarrow> reject InvalidState ''execution_element: execution settled a child while terminal'')"

definition execution_after_child_terminated :: "oref \<Rightarrow> raw_object_ref \<Rightarrow> unit handler" where
  "execution_after_child_terminated ex child =
     bnd (read_execution ex) (\<lambda>row.
     case row of
       None \<Rightarrow> reject InvalidState ''execution_element: execution is gone from under its settled child''
     | Some e \<Rightarrow>
         if r_kind child \<noteq> KThread
         then reject InvalidState ''execution_element: execution settled a child of another kind''
         else case ex_status e of
           Running \<Rightarrow>
             bnd (typed KThread child) (\<lambda>th.
             bnd (read_thread th) (\<lambda>trow.
             case Option.bind trow (\<lambda>thr. lifecycle_reason (th_status thr)) of
               None \<Rightarrow> ret ()
             | Some reason \<Rightarrow>
                 append_command (TerminateExecution (o_name ex) (Some (o_uid ex)) reason)))
         | Terminating _ \<Rightarrow> append_command (ContinueTerminate (raw_of KExecution ex))
         | Completing \<Rightarrow>
             reject InvalidState ''execution_element: execution is completing with a settling root thread''
         | _ \<Rightarrow> reject InvalidState ''execution_element: execution settled a child while terminal'')"

definition execution_on_deadline_fired :: "oref \<Rightarrow> timestamp \<Rightarrow> unit handler" where
  "execution_on_deadline_fired ex deadline =
     bnd (read_execution ex) (\<lambda>row.
     case row of
       None \<Rightarrow> reject InvalidState ''execution_element: execution is gone from under its deadline''
     | Some e \<Rightarrow>
         (case ex_status e of
            Running \<Rightarrow>
              append_command (TerminateExecution (o_name ex) (Some (o_uid ex))
                (FailedWith (Runtime (TimedOutErr
                   (''execution ran past its TimeoutSeconds deadline ('' @ show_nat (unat deadline) @ '')'')))))
          | Completing \<Rightarrow> append_command (ContinueComplete (raw_of KExecution ex))
          | Terminating _ \<Rightarrow> append_command (ContinueTerminate (raw_of KExecution ex))
          | _ \<Rightarrow> reject InvalidState ''execution_element: execution fired a deadline while terminal''))"

section \<open>Threads\<close>

definition thread_open :: "oref \<Rightarrow> oref handler" where
  "thread_open owner =
     bnd (read_thread owner) (\<lambda>row.
     case row of
       None \<Rightarrow> reject NotFound ''thread_element: thread is gone''
     | Some _ \<Rightarrow> ret owner)"

definition thread_after_child_completed :: "oref \<Rightarrow> raw_object_ref \<Rightarrow> unit handler" where
  "thread_after_child_completed th child =
     bnd (read_thread th) (\<lambda>row.
     case row of
       None \<Rightarrow> reject InvalidState ''thread_element: thread is gone from under its settled child''
     | Some thr \<Rightarrow>
         (case th_status thr of
            Running \<Rightarrow>
              bnd (typed KActivity child) (\<lambda>a.
              bnd (read_activity a) (\<lambda>act.
              append_command (CompleteThread th
                (case act of Some av \<Rightarrow> or_null (ac_output av) | None \<Rightarrow> JNull))))
          | Completing \<Rightarrow> append_command (ContinueComplete (raw_of KThread th))
          | Terminating _ \<Rightarrow> append_command (ContinueTerminate (raw_of KThread th))
          | _ \<Rightarrow> reject InvalidState ''thread_element: thread settled a completed child while terminal''))"

definition thread_after_child_terminated :: "oref \<Rightarrow> raw_object_ref \<Rightarrow> unit handler" where
  "thread_after_child_terminated th child =
     bnd (read_thread th) (\<lambda>row.
     case row of
       None \<Rightarrow> reject InvalidState ''thread_element: thread is gone from under its settled child''
     | Some thr \<Rightarrow>
         (case th_status thr of
            Running \<Rightarrow>
              bnd (typed KActivity child) (\<lambda>a.
              bnd (read_activity a) (\<lambda>act.
              case act of
                None \<Rightarrow> ret ()
              | Some av \<Rightarrow>
                  (case ac_status av of
                     Terminated reason \<Rightarrow> append_command (TerminateThread th reason)
                   | _ \<Rightarrow> ret ())))
          | Completing \<Rightarrow> append_command (ContinueComplete (raw_of KThread th))
          | Terminating _ \<Rightarrow> append_command (ContinueTerminate (raw_of KThread th))
          | _ \<Rightarrow> reject InvalidState ''thread_element: thread settled a terminated child while terminal''))"

end
