(* ===== verification/LeafStates.thy ===== *)
theory LeafStates
  imports Containers
begin

text \<open>
  The states that own no children, from \<open>src/crates/engine/src/elements/state_handler.rs\<close> (the shared
  steps \<open>apply_assign\<close> and \<open>project_output\<close>) and \<open>elements/states/{succeed,pass,choice,fail,wait}.rs\<close>.

  A \<open>debug_assert!\<close> evaluates its condition only in a build with debug assertions. The code marks rows
  inside such conditions (\<open>debug_assert!(completed.mark_completed(..).is_ok())\<close>), so \<open>debug_mark\<close>
  depends on the build profile: without debug assertions neither the marking nor the clock reading in
  its argument takes place.
\<close>

section \<open>Shared steps\<close>

definition debug_mark :: "(timestamp \<Rightarrow> 'a \<Rightarrow> string + 'a) \<Rightarrow> 'a \<Rightarrow> 'a handler" where
  "debug_mark mark x =
     bnd ask (\<lambda>e.
     if e_debug_assertions e
     then bnd now (\<lambda>t.
          case mark t x of
            Inr y \<Rightarrow> ret y
          | Inl _ \<Rightarrow> panic ''debug assertion failed'')
     else ret x)"

text \<open>\<open>for (k, v) in map { scope.insert(k, v); }\<close>\<close>

definition scope_insert :: "(string \<times> json) list \<Rightarrow> variables \<Rightarrow> variables" where
  "scope_insert kvs scope = fold (\<lambda>(k, v) sc. sc(k \<mapsto> v)) kvs scope"

text \<open>The scope is updated in place in the code: the new scope is returned.\<close>

definition apply_assign ::
  "oref \<Rightarrow> assign_object option \<Rightarrow> json \<Rightarrow> variables \<Rightarrow> (execution_error + variables) handler" where
  "apply_assign owner assign states scope =
     (case assign of
        None \<Rightarrow> ret (Inr scope)
      | Some obj \<Rightarrow>
          bnd (eval_json (JObject obj) states scope) (\<lambda>r.
          case r of
            Inl e \<Rightarrow> ret (Inl e)
          | Inr (JObject kvs) \<Rightarrow>
              if kvs = [] then ret (Inr scope)
              else let scope' = scope_insert kvs scope in
                   seq (append_event (VariablesAssigned owner scope')) (ret (Inr scope'))
          | Inr _ \<Rightarrow> ret (Inl (Runtime (InvalidDefinition ''Assign must evaluate to a JSON object'')))))"

definition project_output ::
  "json option \<Rightarrow> json \<Rightarrow> variables \<Rightarrow> json \<Rightarrow> (execution_error + json) handler" where
  "project_output out states scope fallback =
     (case out of
        Some o_json \<Rightarrow> eval_json o_json states scope
      | None \<Rightarrow> ret (Inr fallback))"

definition raw_result_of :: "activity \<Rightarrow> json" where
  "raw_result_of a = (case ac_raw_output a of Some r \<Rightarrow> r | None \<Rightarrow> ac_raw_input a)"

text \<open>\<open>States::new(raw_input, state_name, retry_count).with_assign_ctx(Some(raw_input))\<close>.\<close>

definition finish_states :: "activity \<Rightarrow> states_builder" where
  "finish_states a =
     (states_new (ac_raw_input a) (path_state_name (ac_state_path a)) (retry_count a))
       \<lparr> sb_assign_ctx := Some (ac_raw_input a) \<rparr>"

definition fail_activity :: "activity \<Rightarrow> execution_error \<Rightarrow> unit handler" where
  "fail_activity a e = append_command (TerminateState (ac_ref a) (FailedWith e))"

text \<open>The body that \<open>after_terminating\<close> has in every state without children.\<close>

definition leaf_after_terminating :: "activity \<Rightarrow> unit handler" where
  "leaf_after_terminating a =
     bnd (thread_open (m_owner (ac_meta a))) (\<lambda>container.
     bnd (debug_mark activity_mark_terminated a) (\<lambda>terminated.
     seq (append_event (StateTerminated terminated))
         (thread_after_child_terminated container (raw_of KActivity (ac_ref terminated)))))"

text \<open>\<open>PassFinish\<close>, \<open>WaitFinish\<close> and \<open>TaskFinish\<close>: the three enums have the same variants, and the
  three states settle them alike.\<close>

datatype finish = FinishNext state_path json | FinishEnd json | FinishNoTerminal

definition process_finish ::
  "assign_object option \<Rightarrow> json option \<Rightarrow> string option \<Rightarrow> bool option \<Rightarrow> activity \<Rightarrow> variables
   \<Rightarrow> (execution_error + finish) handler" where
  "process_finish assign out nxt endd a vs =
     (let result = raw_result_of a;
          states = states_build (finish_states a \<lparr> sb_result := Some result \<rparr>)
      in bnd (apply_assign (m_owner (ac_meta a)) assign states vs) (\<lambda>r.
         case r of
           Inl e \<Rightarrow> ret (Inl e)
         | Inr scope \<Rightarrow>
             bnd (project_output out states scope result) (\<lambda>r'.
             case r' of
               Inl e \<Rightarrow> ret (Inl e)
             | Inr output \<Rightarrow>
                 ret (Inr (if endd = Some True then FinishEnd output
                           else case nxt of
                             Some n \<Rightarrow> FinishNext (path_sibling (ac_state_path a) n) output
                           | None \<Rightarrow> FinishNoTerminal)))))"

definition fail_now :: "activity \<Rightarrow> termination_reason \<Rightarrow> unit handler" where
  "fail_now a reason =
     bnd (thread_open (m_owner (ac_meta a))) (\<lambda>container.
     bnd (debug_mark (activity_mark_terminating reason) a) (\<lambda>terminating.
     seq (append_event (StateTerminating terminating))
    (bnd (debug_mark activity_mark_terminated terminating) (\<lambda>terminated.
     seq (append_event (StateTerminated terminated))
         (thread_after_child_terminated container (raw_of KActivity (ac_ref terminated)))))))"

definition transition_to :: "activity \<Rightarrow> state_path \<Rightarrow> json \<Rightarrow> unit handler" where
  "transition_to a nxt output =
     bnd (debug_mark (activity_mark_completed output) a) (\<lambda>completed.
     seq (append_event (StateCompleted completed))
    (seq (append_event (StateTransitioned (ac_ref a) nxt))
         (append_command (ActivateState
            \<lparr> as_execution = ac_execution a, as_owner = m_owner (ac_meta a),
              as_state_path = nxt, as_input = output \<rparr>))))"

definition settle_finish :: "activity \<Rightarrow> execution_error + finish \<Rightarrow> unit handler" where
  "settle_finish a r =
     (case r of
        Inl e \<Rightarrow> fail_activity a e
      | Inr (FinishNext nxt output) \<Rightarrow> transition_to a nxt output
      | Inr (FinishEnd output) \<Rightarrow>
          bnd (debug_mark (activity_mark_completed output) a) (\<lambda>completed.
          seq (append_event (StateCompleted completed))
              (append_command (CompleteThread (m_owner (ac_meta a)) output)))
      | Inr FinishNoTerminal \<Rightarrow> fail_now a (FailedWith (Runtime NoTerminal)))"

section \<open>Succeed\<close>

definition process_succeed :: "succeed_state \<Rightarrow> activity \<Rightarrow> variables \<Rightarrow> (execution_error + json) handler" where
  "process_succeed s a vs =
     (let result = raw_result_of a;
          states = states_build (finish_states a \<lparr> sb_result := Some result \<rparr>)
      in project_output (ss_output s) states vs result)"

definition succeed_after_completing :: "succeed_state \<Rightarrow> activity \<Rightarrow> variables \<Rightarrow> unit handler" where
  "succeed_after_completing s a vs =
     bnd (process_succeed s a vs) (\<lambda>r.
     case r of
       Inl e \<Rightarrow> fail_activity a e
     | Inr output \<Rightarrow>
         bnd (thread_open (m_owner (ac_meta a))) (\<lambda>container.
         bnd (debug_mark (activity_mark_completed output) a) (\<lambda>completed.
         seq (append_event (StateCompleted completed))
             (thread_after_child_completed container (raw_of KActivity (ac_ref completed))))))"

definition succeed_after_terminating :: "succeed_state \<Rightarrow> activity \<Rightarrow> unit handler" where
  "succeed_after_terminating s a = leaf_after_terminating a"

section \<open>Pass\<close>

definition process_pass :: "pass_state \<Rightarrow> activity \<Rightarrow> variables \<Rightarrow> (execution_error + finish) handler" where
  "process_pass s a vs = process_finish (ps_assign s) (ps_output s) (ps_next s) (ps_end s) a vs"

definition pass_after_completing :: "pass_state \<Rightarrow> activity \<Rightarrow> variables \<Rightarrow> unit handler" where
  "pass_after_completing s a vs = bnd (process_pass s a vs) (settle_finish a)"

definition pass_after_terminating :: "pass_state \<Rightarrow> activity \<Rightarrow> unit handler" where
  "pass_after_terminating s a = leaf_after_terminating a"

section \<open>Choice\<close>

text \<open>The verdict of one rule.\<close>

definition rule_matches :: "choice_rule \<Rightarrow> json \<Rightarrow> variables \<Rightarrow> (execution_error + bool) handler" where
  "rule_matches rule states vs =
     (case cr_condition rule of
        Some (CondBool b) \<Rightarrow> ret (Inr b)
      | Some (CondExpr expr) \<Rightarrow>
          bnd (extract_jsonata (expr_as_str expr)) (\<lambda>inner.
          case inner of
            None \<Rightarrow> ret (Inl (Runtime (InvalidDefinition
              ''Choice Condition must be a {% %} JSONata expression'')))
          | Some ex \<Rightarrow>
              bnd (eval_expr ex states vs) (\<lambda>v.
              case v of
                Inl e \<Rightarrow> ret (Inl e)
              | Inr (JBool b) \<Rightarrow> ret (Inr b)
              | Inr _ \<Rightarrow> ret (Inl (Runtime (Jsonata (expr_as_str expr)
                  ''Condition must evaluate to a boolean'')))))
      | None \<Rightarrow> ret (Inr False))"

text \<open>The loop over the rules, which stops at the first match.\<close>

fun first_match :: "choice_rule list \<Rightarrow> json \<Rightarrow> variables \<Rightarrow> (execution_error + choice_rule option) handler"
  where
  "first_match [] states vs = ret (Inr None)"
| "first_match (rule # rules) states vs =
     bnd (rule_matches rule states vs) (\<lambda>m.
     case m of
       Inl e \<Rightarrow> ret (Inl e)
     | Inr True \<Rightarrow> ret (Inr (Some rule))
     | Inr False \<Rightarrow> first_match rules states vs)"

definition resolve_choice ::
  "choice_state \<Rightarrow> json \<Rightarrow> variables \<Rightarrow> string
   \<Rightarrow> (execution_error + assign_object option \<times> json option \<times> string) handler" where
  "resolve_choice s states vs name =
     bnd (first_match (cs_choices s) states vs) (\<lambda>m.
     ret (case m of
            Inl e \<Rightarrow> Inl e
          | Inr (Some rule) \<Rightarrow> Inr (cr_assign rule, cr_output rule, cr_next rule)
          | Inr None \<Rightarrow>
              (case cs_default s of
                 Some d \<Rightarrow> Inr (None, None, d)
               | None \<Rightarrow> Inl (Runtime (NoChoiceMatched name)))))"

definition or_else :: "'a option \<Rightarrow> 'a option \<Rightarrow> 'a option" where
  "or_else x y = (case x of Some v \<Rightarrow> Some v | None \<Rightarrow> y)"

definition process_choice ::
  "choice_state \<Rightarrow> activity \<Rightarrow> variables \<Rightarrow> (execution_error + state_path \<times> json) handler" where
  "process_choice s a vs =
     (let name = path_state_name (ac_state_path a);
          states = states_build (finish_states a)
      in bnd (resolve_choice s states vs name) (\<lambda>m.
         case m of
           Inl e \<Rightarrow> ret (Inl e)
         | Inr (rule_assign, rule_output, rule_next) \<Rightarrow>
             bnd (apply_assign (m_owner (ac_meta a)) (or_else rule_assign (cs_assign s)) states vs) (\<lambda>r.
             case r of
               Inl e \<Rightarrow> ret (Inl e)
             | Inr scope \<Rightarrow>
                 bnd (project_output (or_else rule_output (cs_output s)) states scope (ac_raw_input a)) (\<lambda>r'.
                 ret (map_sum id (\<lambda>output. (path_sibling (ac_state_path a) rule_next, output)) r')))))"

definition choice_after_completing :: "choice_state \<Rightarrow> activity \<Rightarrow> variables \<Rightarrow> unit handler" where
  "choice_after_completing s a vs =
     bnd (process_choice s a vs) (\<lambda>r.
     case r of
       Inl e \<Rightarrow> fail_activity a e
     | Inr (nxt, output) \<Rightarrow> transition_to a nxt output)"

definition choice_after_terminating :: "choice_state \<Rightarrow> activity \<Rightarrow> unit handler" where
  "choice_after_terminating s a = leaf_after_terminating a"

section \<open>Fail\<close>

definition eval_optional :: "string option \<Rightarrow> json \<Rightarrow> variables \<Rightarrow> (execution_error + json option) handler" where
  "eval_optional field states vs =
     (case field of
        None \<Rightarrow> ret (Inr None)
      | Some s \<Rightarrow> bnd (eval_string_or_expr s states vs) (\<lambda>r. ret (map_sum id Some r)))"

definition fail_reason ::
  "fail_state \<Rightarrow> activity \<Rightarrow> json \<Rightarrow> variables \<Rightarrow> (execution_error + termination_reason) handler" where
  "fail_reason s a states vs =
     bnd (eval_optional (fs_error s) states vs) (\<lambda>r.
     case r of
       Inl e \<Rightarrow> ret (Inl e)
     | Inr err \<Rightarrow>
         bnd (eval_optional (fs_cause s) states vs) (\<lambda>r'.
         case r' of
           Inl e \<Rightarrow> ret (Inl e)
         | Inr cause \<Rightarrow>
             (let name = (case err of Some (JString n) \<Rightarrow> n | _ \<Rightarrow> ''States.Fail'');
                  doc = (case err of Some v \<Rightarrow> [(''Error'', v)] | None \<Rightarrow> [])
                        @ (case cause of Some v \<Rightarrow> [(''Cause'', v)] | None \<Rightarrow> [])
              in ret (Inr (FailedWith (Runtime (StateFailed
                   (path_state_name (ac_state_path a)) name (JObject doc))))))))"

definition process_fail :: "fail_state \<Rightarrow> activity \<Rightarrow> variables \<Rightarrow> (execution_error + termination_reason) handler" where
  "process_fail s a vs = fail_reason s a (states_build (finish_states a)) vs"

definition fail_after_completing :: "fail_state \<Rightarrow> activity \<Rightarrow> variables \<Rightarrow> unit handler" where
  "fail_after_completing s a vs =
     bnd (process_fail s a vs) (\<lambda>r.
     case r of
       Inl e \<Rightarrow> fail_activity a e
     | Inr reason \<Rightarrow> fail_now a reason)"

definition fail_after_terminating :: "fail_state \<Rightarrow> activity \<Rightarrow> unit handler" where
  "fail_after_terminating s a = leaf_after_terminating a"

section \<open>Wait\<close>

definition MAX_WAIT_SECONDS :: int where
  "MAX_WAIT_SECONDS = 99999999"

text \<open>\<open>f as i64\<close> of a float with no fractional part: the cast saturates.\<close>

definition integral_i64 :: "rat \<Rightarrow> int option" where
  "integral_i64 f =
     (if of_int \<lfloor>f\<rfloor> = f then Some (max (- (2 ^ 63)) (min (2 ^ 63 - 1) \<lfloor>f\<rfloor>)) else None)"

definition invalid_definition :: "string \<Rightarrow> execution_error" where
  "invalid_definition msg = Runtime (InvalidDefinition msg)"

definition wait_seconds_deadline :: "string \<Rightarrow> int \<Rightarrow> timestamp \<Rightarrow> execution_error + timestamp" where
  "wait_seconds_deadline range_msg n t =
     (if \<not> (0 \<le> n \<and> n \<le> MAX_WAIT_SECONDS) then Inl (invalid_definition range_msg)
      else case ts_checked_add t (nat n * 1000) of
        Some d \<Rightarrow> Inr d
      | None \<Rightarrow> Inl (invalid_definition ''Wait Seconds overflows the absolute deadline''))"

definition resolve_wait_deadline ::
  "wait_state \<Rightarrow> variables \<Rightarrow> json \<Rightarrow> timestamp \<Rightarrow> (execution_error + timestamp) handler" where
  "resolve_wait_deadline s vs states t =
     bnd ask (\<lambda>e.
     case (ws_seconds s, ws_timestamp s) of
       (Some (IntLit n), None) \<Rightarrow>
         ret (wait_seconds_deadline ''Wait Seconds must be an integer in the range 0..99999999'' n t)
     | (Some (IntExpr expr), None) \<Rightarrow>
         bnd (eval_string_or_expr (expr_as_str expr) states vs) (\<lambda>r.
         ret (case r of
                Inl er \<Rightarrow> Inl er
              | Inr v \<Rightarrow>
                  (case (case v of JNumber num \<Rightarrow> integral_i64 (as_f64 num) | _ \<Rightarrow> None) of
                     None \<Rightarrow> Inl (invalid_definition ''Wait Seconds expression must evaluate to an integer'')
                   | Some n \<Rightarrow> wait_seconds_deadline
                       ''Wait Seconds expression must evaluate to an integer in the range 0..99999999'' n t)))
     | (None, Some (WaitLiteral str)) \<Rightarrow>
         ret (case from_rfc3339 (e_rfc3339 e) str of
                Some d \<Rightarrow> Inr d
              | None \<Rightarrow> Inl (invalid_definition
                  (''Wait Timestamp is not a valid RFC3339 timestamp: '' @ str)))
     | (None, Some (WaitExpr expr)) \<Rightarrow>
         bnd (eval_string_or_expr (expr_as_str expr) states vs) (\<lambda>r.
         ret (case r of
                Inl er \<Rightarrow> Inl er
              | Inr (JString str) \<Rightarrow>
                  (case from_rfc3339 (e_rfc3339 e) str of
                     Some d \<Rightarrow> Inr d
                   | None \<Rightarrow> Inl (invalid_definition
                       (''Wait Timestamp expression must evaluate to a valid RFC3339 timestamp: '' @ str)))
              | Inr _ \<Rightarrow> Inl (invalid_definition ''Wait Timestamp expression must evaluate to a string'')))
     | _ \<Rightarrow> panic ''Wait state must specify exactly one of Seconds or Timestamp'')"

text \<open>The hook writes \<open>activity_state\<close> in place: the updated row is returned with the input.\<close>

definition wait_process_input ::
  "wait_state \<Rightarrow> activity \<Rightarrow> variables \<Rightarrow> json \<Rightarrow> timestamp \<Rightarrow> (execution_error + json \<times> activity) handler" where
  "wait_process_input s a vs states t =
     bnd (resolve_wait_deadline s vs states t) (\<lambda>r.
     ret (map_sum id (\<lambda>resume_at.
       (ac_raw_input a, a \<lparr> ac_activity_state := Some (ActWait \<lparr> wa_resume_at = resume_at \<rparr>) \<rparr>)) r))"

definition process_wait :: "wait_state \<Rightarrow> activity \<Rightarrow> variables \<Rightarrow> (execution_error + finish) handler" where
  "process_wait s a vs = process_finish (ws_assign s) (ws_output s) (ws_next s) (ws_end s) a vs"

definition wait_after_completing :: "wait_state \<Rightarrow> activity \<Rightarrow> variables \<Rightarrow> unit handler" where
  "wait_after_completing s a vs = bnd (process_wait s a vs) (settle_finish a)"

definition wait_after_terminating :: "wait_state \<Rightarrow> activity \<Rightarrow> unit handler" where
  "wait_after_terminating s a = leaf_after_terminating a"

end
