(* ===== verification/TaskState.thy ===== *)
theory TaskState
  imports LeafStates
begin

text \<open>
  The \<open>Task\<close> state of \<open>src/crates/engine/src/elements/states/task.rs\<close>: the invocation it activates,
  its timeout, the reaction to the settled task, and the \<open>Catch\<close> routing of \<open>on_failed\<close>.
\<close>

definition task_process_input ::
  "task_state \<Rightarrow> activity \<Rightarrow> variables \<Rightarrow> json \<Rightarrow> (execution_error + json) handler" where
  "task_process_input s a vs states =
     (case ts_arguments s of
        Some arguments \<Rightarrow> eval_json arguments states vs
      | None \<Rightarrow> ret (Inr (ac_raw_input a)))"

definition resolve_task_deadline ::
  "int_or_expr option \<Rightarrow> variables \<Rightarrow> json \<Rightarrow> timestamp \<Rightarrow> (execution_error + timestamp option) handler" where
  "resolve_task_deadline timeout vs states t =
     (let finish = (\<lambda>seconds.
            case seconds of
              Some n \<Rightarrow>
                if 0 < n
                then (case ts_checked_add t (nat n * 1000) of
                        Some d \<Rightarrow> Inr (Some d)
                      | None \<Rightarrow> Inl (invalid_definition ''Task TimeoutSeconds overflows the absolute deadline''))
                else Inl (invalid_definition ''Task TimeoutSeconds must be a positive integer'')
            | None \<Rightarrow> Inl (invalid_definition ''Task TimeoutSeconds must be a positive integer''))
      in case timeout of
           None \<Rightarrow> ret (Inr None)
         | Some (IntLit n) \<Rightarrow> ret (finish (if 0 < n then Some n else None))
         | Some (IntExpr expr) \<Rightarrow>
             bnd (eval_string_or_expr (expr_as_str expr) states vs) (\<lambda>r.
             ret (case r of
                    Inl e \<Rightarrow> Inl e
                  | Inr v \<Rightarrow> finish (case v of
                      JNumber num \<Rightarrow> if 0 \<le> as_f64 num then integral_i64 (as_f64 num) else None
                    | _ \<Rightarrow> None))))"

definition task_after_activated ::
  "task_state \<Rightarrow> activity \<Rightarrow> variables \<Rightarrow> json \<Rightarrow> (execution_error + unit) handler" where
  "task_after_activated s a vs states =
     (let retry_plan = (case ts_retry s of Some rs \<Rightarrow> map retry_policy_resolve rs | None \<Rightarrow> [])
      in bnd now (\<lambda>t.
         bnd (resolve_task_deadline (ts_timeout_seconds s) vs states t) (\<lambda>dl.
         bnd mint (\<lambda>uid.
         bnd next_generated_seq (\<lambda>n.
         seq (append_command (ActivateTask
                \<lparr> at_execution = ac_execution a, at_owner = ac_ref a,
                  at_task = ORef (generated_from_key (base (o_name (ac_execution a))) n) uid,
                  at_resource = ts_resource s, at_arguments = or_null (ac_input a),
                  at_retry_plan = retry_plan,
                  at_deadline = (case dl of Inr d \<Rightarrow> d | Inl _ \<Rightarrow> None) \<rparr>))
             (ret (case dl of Inl e \<Rightarrow> Inl e | Inr _ \<Rightarrow> Inr ())))))))"

definition task_child_completed :: "oref \<Rightarrow> activity \<Rightarrow> raw_object_ref \<Rightarrow> unit handler" where
  "task_child_completed activity a child =
     (if r_kind child \<noteq> KTask then ret ()
      else append_command (CompleteState activity (or_null (ac_raw_output a))))"

definition process_task :: "task_state \<Rightarrow> activity \<Rightarrow> variables \<Rightarrow> (execution_error + finish) handler" where
  "process_task s a vs = process_finish (ts_assign s) (ts_output s) (ts_next s) (ts_end s) a vs"

definition task_after_completing :: "task_state \<Rightarrow> activity \<Rightarrow> variables \<Rightarrow> unit handler" where
  "task_after_completing s a vs = bnd (process_task s a vs) (settle_finish a)"

text \<open>Cancels every task the activity owns and returns how many there were.\<close>

definition cancel_tasks :: "activity \<Rightarrow> nat handler" where
  "cancel_tasks a =
     bnd (read_children (raw_of KActivity (ac_ref a))) (\<lambda>cs.
     bnd (iterate_set cs) (\<lambda>children.
     let tasks = filter (\<lambda>c. r_kind c = KTask) children in
     seq (each (\<lambda>c. bnd (typed KTask c) (\<lambda>k. append_command (CancelTask k))) tasks)
         (ret (length tasks))))"

definition task_after_terminating :: "task_state \<Rightarrow> activity \<Rightarrow> unit handler" where
  "task_after_terminating s a =
     bnd (cancel_tasks a) (\<lambda>pending.
     if pending = 0 then leaf_after_terminating a else ret ())"

datatype failure_routing = Caught | Uncaught

definition find_catcher :: "execution_error \<Rightarrow> catcher list option \<Rightarrow> catcher option" where
  "find_catcher err catchers =
     Option.bind catchers (find (\<lambda>c. matches_error_names err (ct_error_equals c)))"

text \<open>The \<open>Assign\<close> of a catcher: \<open>None\<close> where it failed and the activity was told to terminate.\<close>

definition catch_assign ::
  "catcher \<Rightarrow> activity \<Rightarrow> oref \<Rightarrow> json \<Rightarrow> variables \<Rightarrow> variables option handler" where
  "catch_assign c a owner states scope =
     (case ct_assign c of
        None \<Rightarrow> ret (Some scope)
      | Some obj \<Rightarrow>
          bnd (eval_json (JObject obj) states scope) (\<lambda>r.
          case r of
            Inl e \<Rightarrow> seq (fail_activity a e) (ret None)
          | Inr (JObject kvs) \<Rightarrow>
              if kvs = [] then ret (Some scope)
              else let scope' = scope_insert kvs scope in
                   seq (append_event (VariablesAssigned owner scope')) (ret (Some scope'))
          | Inr _ \<Rightarrow>
              seq (fail_activity a (Runtime (InvalidDefinition ''Assign must evaluate to a JSON object'')))
                  (ret None)))"

definition task_on_failed :: "task_state \<Rightarrow> activity \<Rightarrow> execution_error \<Rightarrow> failure_routing handler" where
  "task_on_failed s a err =
     (case find_catcher err (ts_catch s) of
        None \<Rightarrow> ret Uncaught
      | Some c \<Rightarrow>
          (let owner = m_owner (ac_meta a);
               raw_result = raw_result_of a;
               states = states_build (finish_states a
                          \<lparr> sb_result := Some raw_result, sb_error_output := Some (or_null (error_output err)) \<rparr>)
           in bnd (read_thread owner) (\<lambda>th.
              case th of
                None \<Rightarrow> ret Uncaught
              | Some _ \<Rightarrow>
                  bnd (read_variables owner) (\<lambda>vs.
                  bnd (catch_assign c a owner states vs) (\<lambda>assigned.
                  case assigned of
                    None \<Rightarrow> ret Caught
                  | Some scope \<Rightarrow>
                      bnd (project_output (ct_output c) states scope raw_result) (\<lambda>r.
                      case r of
                        Inl e \<Rightarrow> seq (fail_activity a e) (ret Caught)
                      | Inr output \<Rightarrow>
                          bnd (cancel_tasks a) (\<lambda>_.
                          bnd now (\<lambda>t.
                          let completed = a \<lparr> ac_meta := with_update_at t (ac_meta a),
                                ac_status := Completed, ac_output := Some output,
                                ac_raw_output := Some raw_result \<rparr>;
                              nxt = path_sibling (ac_state_path a) (ct_next c)
                          in seq (append_event (StateCompleted completed))
                            (seq (append_event (StateTransitioned (ac_ref a) nxt))
                            (seq (append_command (ActivateState
                                    \<lparr> as_execution = ac_execution a, as_owner = owner,
                                      as_state_path = nxt, as_input = output \<rparr>))
                                 (ret Caught)))))))))))"

end
