(* ===== verification/FanoutStates.thy ===== *)
theory FanoutStates
  imports LeafStates
begin

text \<open>
  The states that run child threads, \<open>Parallel\<close> and \<open>Map\<close>
  (\<open>src/crates/engine/src/elements/states/parallel.rs\<close> and \<open>map.rs\<close>): the fan-out of \<open>SpawnThread\<close>
  commands, the convergence on the children's outputs, the replenishing of a bounded \<open>Map\<close>, and the
  sweep of a termination.
\<close>

section \<open>Shared steps\<close>

text \<open>The body that \<open>after_completing\<close> has in both states, up to the name in its messages.\<close>

definition fanout_after_completing ::
  "assign_object option \<Rightarrow> json option \<Rightarrow> string option \<Rightarrow> bool option \<Rightarrow> activity \<Rightarrow> variables
   \<Rightarrow> unit handler" where
  "fanout_after_completing assign out nxt endd a vs =
     bnd (read_activity (ac_ref a)) (\<lambda>row.
     case row of
       None \<Rightarrow> reject NotFound ''activity not found''
     | Some _ \<Rightarrow>
         bnd (read_children (raw_of KActivity (ac_ref a))) (\<lambda>children.
         if children \<noteq> {} then reject InvalidState ''activity is completing with live children''
         else
           let aggregated = (case ac_raw_output a of Some r \<Rightarrow> r | None \<Rightarrow> JArray []);
               states = states_build (finish_states a \<lparr> sb_result := Some aggregated \<rparr>)
           in bnd (apply_assign (m_owner (ac_meta a)) assign states vs) (\<lambda>r.
              case r of
                Inl e \<Rightarrow> fail_activity a e
              | Inr scope \<Rightarrow>
                  bnd (project_output out states scope aggregated) (\<lambda>r'.
                  case r' of
                    Inl e \<Rightarrow> fail_activity a e
                  | Inr output \<Rightarrow>
                      bnd (debug_mark (activity_mark_completed output) a) (\<lambda>completed.
                      seq (append_event (StateCompleted completed))
                      (if endd = Some True
                       then append_command (CompleteThread (m_owner (ac_meta a)) output)
                       else case nxt of
                         Some n \<Rightarrow>
                           (let next_path = path_sibling (ac_state_path a) n in
                            seq (append_event (StateTransitioned (ac_ref a) next_path))
                                (append_command (ActivateState
                                   \<lparr> as_execution = ac_execution a, as_owner = m_owner (ac_meta a),
                                     as_state_path = next_path, as_input = output \<rparr>)))
                       | None \<Rightarrow> panic ''state declares neither Next nor End''))))))"

definition terminate_child_threads :: "raw_object_ref set \<Rightarrow> unit handler" where
  "terminate_child_threads children =
     bnd (iterate_set children) (\<lambda>cs.
     each (\<lambda>c. bnd (typed KThread c) (\<lambda>th. append_command (TerminateThread th Cancelled)))
       (filter (\<lambda>c. r_kind c = KThread) cs))"

definition fanout_after_terminating :: "activity \<Rightarrow> unit handler" where
  "fanout_after_terminating a =
     bnd (read_activity (ac_ref a)) (\<lambda>row.
     case row of
       None \<Rightarrow> reject NotFound ''activity not found''
     | Some _ \<Rightarrow>
         bnd (read_children (raw_of KActivity (ac_ref a))) (\<lambda>children.
         if children = {} then leaf_after_terminating a
         else terminate_child_threads children))"

text \<open>\<open>collect()\<close> of the index map, then \<open>sort_by_key\<close> on the index.\<close>

definition by_index :: "(nat, oref) alist \<Rightarrow> (nat \<times> oref) list" where
  "by_index m = sort_key fst (DAList.impl_of m)"

section \<open>Parallel\<close>

definition parallel_after_completing :: "parallel_state \<Rightarrow> activity \<Rightarrow> variables \<Rightarrow> unit handler" where
  "parallel_after_completing s a vs =
     fanout_after_completing (par_assign s) (par_output s) (par_next s) (par_end s) a vs"

definition parallel_after_terminating :: "parallel_state \<Rightarrow> activity \<Rightarrow> unit handler" where
  "parallel_after_terminating s a = fanout_after_terminating a"

definition parallel_initialize :: "activity \<Rightarrow> activity" where
  "parallel_initialize a = a \<lparr> ac_activity_state := Some (ActParallel \<lparr> pa_branches = DAList.empty \<rparr>) \<rparr>"

definition parallel_process_input ::
  "parallel_state \<Rightarrow> activity \<Rightarrow> variables \<Rightarrow> json \<Rightarrow> (execution_error + json) handler" where
  "parallel_process_input s a vs states =
     (case par_arguments s of
        Some arguments \<Rightarrow> eval_json arguments states vs
      | None \<Rightarrow> ret (Inr (ac_raw_input a)))"

text \<open>The commands of the loop over the branches, in order.\<close>

definition branch_spawns :: "activity \<Rightarrow> state branch list \<Rightarrow> command list" where
  "branch_spawns a branches =
     map (\<lambda>(index, b). SpawnThread
       \<lparr> sp_owner = ac_ref a, sp_execution = ac_execution a,
         sp_state_path = Some (path_branch (ac_state_path a) index), sp_index = index,
         sp_start_at = branch_start_at b, sp_input = or_null (ac_input a) \<rparr>)
       (List.enumerate 0 branches)"

definition parallel_after_activated :: "state branch list \<Rightarrow> activity \<Rightarrow> (execution_error + unit) handler" where
  "parallel_after_activated branches a =
     (if branches = [] then seq (append_command (CompleteState (ac_ref a) (JArray []))) (ret (Inr ()))
      else seq (each append_command (branch_spawns a branches)) (ret (Inr ())))"

definition fail_parallel :: "activity \<Rightarrow> termination_reason \<Rightarrow> unit handler" where
  "fail_parallel a reason = append_command (TerminateState (ac_ref a) reason)"

text \<open>The loop over the branches: the threads found, or the reason to fail the whole state.\<close>

fun gather_branches :: "(nat \<times> oref) list \<Rightarrow> (termination_reason + thread list) handler" where
  "gather_branches [] = ret (Inr [])"
| "gather_branches ((i, r) # rest) =
     bnd (read_thread r) (\<lambda>row.
     case row of
       None \<Rightarrow> ret (Inl (FailedWith (Runtime (StateNotFound (''branch '' @ raw_display (raw_of KThread r))))))
     | Some child \<Rightarrow>
         (case lifecycle_reason (th_status child) of
            Some reason \<Rightarrow> ret (Inl reason)
          | None \<Rightarrow> bnd (gather_branches rest) (\<lambda>r'. ret (map_sum id (\<lambda>cs. child # cs) r'))))"

definition parallel_child_completed :: "oref \<Rightarrow> activity \<Rightarrow> unit handler" where
  "parallel_child_completed activity a =
     bnd (read_activity activity) (\<lambda>row.
     case Option.bind row ac_activity_state of
       Some (ActParallel progress) \<Rightarrow>
         bnd (gather_branches (by_index (pa_branches progress))) (\<lambda>g.
         case g of
           Inl reason \<Rightarrow> fail_parallel a reason
         | Inr branches \<Rightarrow>
             bnd (read_children (raw_of KActivity (ac_ref a))) (\<lambda>children.
             if children \<noteq> {} then ret ()
             else if list_all (\<lambda>c. is_terminal (th_status c)) branches
             then append_command (CompleteState activity (JArray (map (\<lambda>c. or_null (th_output c)) branches)))
             else fail_parallel a Cancelled))
     | _ \<Rightarrow> ret ())"

section \<open>Map\<close>

definition map_after_completing :: "map_state \<Rightarrow> activity \<Rightarrow> variables \<Rightarrow> unit handler" where
  "map_after_completing s a vs =
     fanout_after_completing (ms_assign s) (ms_output s) (ms_next s) (ms_end s) a vs"

definition map_after_terminating :: "map_state \<Rightarrow> activity \<Rightarrow> unit handler" where
  "map_after_terminating s a = fanout_after_terminating a"

definition empty_plan :: map_activity_state where
  "empty_plan = \<lparr> ma_items = [], ma_total = 0, ma_max_concurrency = 0, ma_children = DAList.empty \<rparr>"

definition map_initialize :: "activity \<Rightarrow> activity" where
  "map_initialize a = a \<lparr> ac_activity_state := Some (ActMap empty_plan) \<rparr>"

definition resolve_map_items ::
  "map_state \<Rightarrow> activity \<Rightarrow> variables \<Rightarrow> json \<Rightarrow> (execution_error + json list) handler" where
  "resolve_map_items s a vs states =
     (let name = path_state_name (ac_state_path a) in
      case ms_items s of
        Some (ItemsArray arr) \<Rightarrow> ret (Inr arr)
      | Some (ItemsExpr expr) \<Rightarrow>
          bnd (eval_string_or_expr (expr_as_str expr) states vs) (\<lambda>r.
          ret (case r of
                 Inl e \<Rightarrow> Inl e
               | Inr (JArray arr) \<Rightarrow> Inr arr
               | Inr _ \<Rightarrow> Inl (invalid_definition
                   (''Map '' @ quoted name @ '' Items expression did not evaluate to an array''))))
      | None \<Rightarrow>
          ret (case ac_raw_input a of
                 JArray arr \<Rightarrow> Inr arr
               | _ \<Rightarrow> Inl (invalid_definition
                   (''Map '' @ quoted name @ '' has no Items and its input is not an array''))))"

definition resolve_max_concurrency ::
  "map_state \<Rightarrow> variables \<Rightarrow> json \<Rightarrow> (execution_error + nat) handler" where
  "resolve_max_concurrency s vs states =
     (case map_max_concurrency s of
        IntLit n \<Rightarrow>
          ret (if 0 \<le> n then Inr (nat n)
               else Inl (invalid_definition ''Map MaxConcurrency must be a non-negative integer''))
      | IntExpr expr \<Rightarrow>
          bnd (eval_string_or_expr (expr_as_str expr) states vs) (\<lambda>r.
          ret (case r of
                 Inl e \<Rightarrow> Inl e
               | Inr v \<Rightarrow>
                   (case v of
                      JNumber num \<Rightarrow>
                        (let f = as_f64 num in
                         if of_int \<lfloor>f\<rfloor> = f \<and> 0 \<le> f then Inr (min u64_max (nat \<lfloor>f\<rfloor>))
                         else Inl (invalid_definition
                           ''Map MaxConcurrency expression must evaluate to a non-negative integer''))
                    | _ \<Rightarrow> Inl (invalid_definition
                           ''Map MaxConcurrency expression must evaluate to a non-negative integer'')))))"

definition map_process_input ::
  "map_state \<Rightarrow> activity \<Rightarrow> variables \<Rightarrow> json \<Rightarrow> (execution_error + json \<times> activity) handler" where
  "map_process_input s a vs states =
     bnd (resolve_map_items s a vs states) (\<lambda>r.
     case r of
       Inl e \<Rightarrow> ret (Inl e)
     | Inr items \<Rightarrow>
         bnd (resolve_max_concurrency s vs states) (\<lambda>r'.
         ret (map_sum id (\<lambda>mx.
           (ac_raw_input a,
            a \<lparr> ac_activity_state := Some (ActMap
                  \<lparr> ma_items = items, ma_total = length items, ma_max_concurrency = mx,
                    ma_children = DAList.empty \<rparr>) \<rparr>)) r')))"

definition item_at :: "map_activity_state \<Rightarrow> nat \<Rightarrow> json" where
  "item_at p i = (if i < length (ma_items p) then ma_items p ! i else JNull)"

definition item_spawn :: "state item_processor option \<Rightarrow> activity \<Rightarrow> map_activity_state \<Rightarrow> nat \<Rightarrow> command" where
  "item_spawn ip a p index = SpawnThread
     \<lparr> sp_owner = ac_ref a, sp_execution = ac_execution a,
       sp_state_path = Some (path_item_processor (ac_state_path a)), sp_index = index,
       sp_start_at = (case ip of Some x \<Rightarrow> processor_start_at x | None \<Rightarrow> []),
       sp_input = item_at p index \<rparr>"

definition initial_batch :: "map_activity_state \<Rightarrow> nat" where
  "initial_batch p =
     (if ma_max_concurrency p = 0 then ma_total p else min (ma_max_concurrency p) (ma_total p))"

definition map_after_activated ::
  "state item_processor option \<Rightarrow> activity \<Rightarrow> (execution_error + unit) handler" where
  "map_after_activated ip a =
     (case ac_activity_state a of
        Some (ActMap p) \<Rightarrow>
          seq (each append_command (map (item_spawn ip a p) [0..<initial_batch p]))
         (seq (whenp (ma_total p = 0) (append_command (CompleteState (ac_ref a) (JArray []))))
              (ret (Inr ())))
      | _ \<Rightarrow> ret (Inr ()))"

definition fail_map :: "activity \<Rightarrow> termination_reason \<Rightarrow> unit handler" where
  "fail_map a reason = append_command (TerminateState (ac_ref a) reason)"

definition thread_succeeded :: "thread option \<Rightarrow> bool" where
  "thread_succeeded th =
     (case th of
        Some c \<Rightarrow> is_terminal (th_status c) \<and> lifecycle_reason (th_status c) = None
      | None \<Rightarrow> False)"

text \<open>How many items to spawn when one has settled.\<close>

definition replenish_count :: "map_activity_state \<Rightarrow> nat \<Rightarrow> nat" where
  "replenish_count p completed_now =
     (let spawn_count = length (DAList.impl_of (ma_children p));
          in_flight = spawn_count - completed_now;
          capacity = (if ma_max_concurrency p = 0 then ma_total p else ma_max_concurrency p)
      in min (capacity - in_flight) (ma_total p - spawn_count))"

definition map_child_completed ::
  "state item_processor option \<Rightarrow> oref \<Rightarrow> activity \<Rightarrow> raw_object_ref \<Rightarrow> unit handler" where
  "map_child_completed ip activity a child =
     bnd (read_activity activity) (\<lambda>row.
     case Option.bind row ac_activity_state of
       Some (ActMap p) \<Rightarrow>
         (case find (\<lambda>e. raw_of KThread e = child) (map snd (DAList.impl_of (ma_children p))) of
            None \<Rightarrow> ret ()
          | Some child_ref \<Rightarrow>
              bnd (read_thread child_ref) (\<lambda>th.
              if \<not> thread_succeeded th
              then fail_map a (FailedWith (Runtime (StateFailed
                     (path_state_name (ac_state_path a)) ''Map item failed'' JNull)))
              else
                bnd (mapp read_thread (map snd (DAList.impl_of (ma_children p)))) (\<lambda>threads.
                let completed_now = length (filter thread_succeeded threads) in
                if completed_now = ma_total p
                then
                  bnd (mapp read_thread (map snd (by_index (ma_children p)))) (\<lambda>ordered.
                  append_command (CompleteState activity (JArray
                    (map (\<lambda>t. or_null (Option.bind t th_output)) ordered))))
                else
                  let spawn_count = length (DAList.impl_of (ma_children p)) in
                  each append_command (map (\<lambda>k. item_spawn ip a p (spawn_count + k))
                    [0..<replenish_count p completed_now]))))
     | _ \<Rightarrow> ret ())"

end
