(* ===== verification/StateHandler.thy ===== *)
theory StateHandler
  imports TaskState FanoutStates
begin

text \<open>
  The template methods of \<open>src/crates/engine/src/elements/state_handler.rs\<close> (\<open>activate\<close>, \<open>complete\<close>,
  \<open>terminate\<close>) over the hooks of the eight state types. The registry of
  \<open>src/crates/engine/src/handlers/dispatch.rs\<close> has a factory for every variant, so a hook is selected
  by the constructor of the state definition.
\<close>

section \<open>The hooks of a state definition\<close>

fun state_initialize :: "state \<Rightarrow> activity \<Rightarrow> activity" where
  "state_initialize (Parallel _ _) a = parallel_initialize a"
| "state_initialize (Map _ _) a = map_initialize a"
| "state_initialize _ a = a"

definition keep_row :: "activity \<Rightarrow> execution_error + json \<Rightarrow> execution_error + json \<times> activity" where
  "keep_row a r = map_sum id (\<lambda>j. (j, a)) r"

fun state_process_input ::
  "state \<Rightarrow> activity \<Rightarrow> variables \<Rightarrow> json \<Rightarrow> timestamp \<Rightarrow> (execution_error + json \<times> activity) handler" where
  "state_process_input (Wait s) a vs states t = wait_process_input s a vs states t"
| "state_process_input (Task s) a vs states t =
     bnd (task_process_input s a vs states) (\<lambda>r. ret (keep_row a r))"
| "state_process_input (Parallel s _) a vs states t =
     bnd (parallel_process_input s a vs states) (\<lambda>r. ret (keep_row a r))"
| "state_process_input (Map s _) a vs states t = map_process_input s a vs states"
| "state_process_input _ a vs states t = ret (Inr (ac_raw_input a, a))"

fun state_after_activated ::
  "state \<Rightarrow> activity \<Rightarrow> variables \<Rightarrow> json \<Rightarrow> (execution_error + unit) handler" where
  "state_after_activated (Task s) a vs states = task_after_activated s a vs states"
| "state_after_activated (Parallel _ bs) a vs states = parallel_after_activated bs a"
| "state_after_activated (Map _ ip) a vs states = map_after_activated ip a"
| "state_after_activated _ a vs states = ret (Inr ())"

fun state_complete_directly :: "state \<Rightarrow> bool" where
  "state_complete_directly (Wait _) = False"
| "state_complete_directly (Task _) = False"
| "state_complete_directly (Parallel _ _) = False"
| "state_complete_directly (Map _ _) = False"
| "state_complete_directly _ = True"

fun state_child_completed :: "state \<Rightarrow> oref \<Rightarrow> activity \<Rightarrow> raw_object_ref \<Rightarrow> unit handler" where
  "state_child_completed (Task _) activity a child = task_child_completed activity a child"
| "state_child_completed (Parallel _ _) activity a child = parallel_child_completed activity a"
| "state_child_completed (Map _ ip) activity a child = map_child_completed ip activity a child"
| "state_child_completed _ activity a child = ret ()"

fun state_after_completing :: "state \<Rightarrow> activity \<Rightarrow> variables \<Rightarrow> unit handler" where
  "state_after_completing (Pass s) a vs = pass_after_completing s a vs"
| "state_after_completing (Wait s) a vs = wait_after_completing s a vs"
| "state_after_completing (Succeed s) a vs = succeed_after_completing s a vs"
| "state_after_completing (Fail s) a vs = fail_after_completing s a vs"
| "state_after_completing (Task s) a vs = task_after_completing s a vs"
| "state_after_completing (Choice s) a vs = choice_after_completing s a vs"
| "state_after_completing (Parallel s _) a vs = parallel_after_completing s a vs"
| "state_after_completing (Map s _) a vs = map_after_completing s a vs"

fun state_after_terminating :: "state \<Rightarrow> activity \<Rightarrow> unit handler" where
  "state_after_terminating (Pass s) a = pass_after_terminating s a"
| "state_after_terminating (Wait s) a = wait_after_terminating s a"
| "state_after_terminating (Succeed s) a = succeed_after_terminating s a"
| "state_after_terminating (Fail s) a = fail_after_terminating s a"
| "state_after_terminating (Task s) a = task_after_terminating s a"
| "state_after_terminating (Choice s) a = choice_after_terminating s a"
| "state_after_terminating (Parallel s _) a = parallel_after_terminating s a"
| "state_after_terminating (Map s _) a = map_after_terminating s a"

fun state_on_failed :: "state \<Rightarrow> activity \<Rightarrow> execution_error \<Rightarrow> failure_routing handler" where
  "state_on_failed (Task s) a err = task_on_failed s a err"
| "state_on_failed _ a err = ret Uncaught"

section \<open>Template methods\<close>

definition state_activate :: "state \<Rightarrow> activate_state \<Rightarrow> thread \<Rightarrow> unit handler" where
  "state_activate st cmd th =
     bnd mint (\<lambda>uid.
     bnd next_generated_seq (\<lambda>n.
     bnd now (\<lambda>t.
     let a0 = \<lparr> ac_meta = build_meta uid (generated_from_key (base (o_name (as_execution cmd))) n) t
                            (as_owner cmd),
                ac_execution = as_execution cmd, ac_state_path = as_state_path cmd,
                ac_status = Running, ac_raw_input = as_input cmd, ac_input = None,
                ac_raw_output = None, ac_activity_state = None, ac_retry_state = None,
                ac_output = None \<rparr>
     in bnd (read_variables (th_ref th)) (\<lambda>vs.
        let a1 = state_initialize st a0;
            states = states_build (states_new (ac_raw_input a1) (path_state_name (ac_state_path a1))
                                     (retry_count a1))
        in seq (append_event (StateActivating a1))
          (bnd now (\<lambda>t1.
           bnd (state_process_input st a1 vs states t1) (\<lambda>r.
           case r of
             Inl e \<Rightarrow> append_command (TerminateState (ac_ref a1) (FailedWith e))
           | Inr (input, a2) \<Rightarrow>
               bnd now (\<lambda>t2.
               let a3 = a2 \<lparr> ac_input := Some input, ac_meta := with_update_at t2 (ac_meta a2) \<rparr>
               in seq (append_event (StateActivated a3))
                 (bnd (state_after_activated st a3 vs states) (\<lambda>r'.
                  case r' of
                    Inl e \<Rightarrow> append_command (TerminateState (ac_ref a1) (FailedWith e))
                  | Inr _ \<Rightarrow>
                      whenp (state_complete_directly st)
                        (append_command (CompleteState (ac_ref a1) input))))))))))))"

definition state_complete :: "state \<Rightarrow> json \<Rightarrow> activity \<Rightarrow> thread \<Rightarrow> unit handler" where
  "state_complete st output a th =
     bnd now (\<lambda>t.
     case activity_mark_completing output t a of
       Inl _ \<Rightarrow> reject InvalidState ''complete_state: activity cannot begin completing''
     | Inr a1 \<Rightarrow>
         seq (append_event (StateCompleting a1))
        (bnd (read_variables (th_ref th)) (\<lambda>vs. state_after_completing st a1 vs)))"

definition state_terminate :: "state \<Rightarrow> termination_reason \<Rightarrow> activity \<Rightarrow> thread \<Rightarrow> unit handler" where
  "state_terminate st reason a th =
     bnd (case reason of
            FailedWith err \<Rightarrow> state_on_failed st a err
          | _ \<Rightarrow> ret Uncaught) (\<lambda>routing.
     case routing of
       Caught \<Rightarrow> ret ()
     | Uncaught \<Rightarrow>
         bnd now (\<lambda>t.
         case activity_mark_terminating reason t a of
           Inl _ \<Rightarrow> reject InvalidState ''terminate_state: activity cannot begin terminating''
         | Inr a1 \<Rightarrow>
             seq (append_event (StateTerminating a1))
            (bnd (read_variables (th_ref th)) (\<lambda>_. state_after_terminating st a1))))"

section \<open>Command handlers of the states\<close>

text \<open>The machine a thread binds to, as the handlers resolve it: an infrastructure error is
  unexpected, any other error refuses the command.\<close>

definition thread_machine :: "thread \<Rightarrow> string \<Rightarrow> state_machine handler" where
  "thread_machine th why =
     bnd (machine_for_thread th) (\<lambda>r.
     case r of
       Inr m \<Rightarrow> ret m
     | Inl (Infra e) \<Rightarrow> unexpected (Infra e)
     | Inl _ \<Rightarrow> reject NotFound why)"

definition state_of_machine :: "state_machine \<Rightarrow> state_path \<Rightarrow> string \<Rightarrow> state handler" where
  "state_of_machine m path why =
     (case state_at m path of Inr st \<Rightarrow> ret st | Inl _ \<Rightarrow> reject NotFound why)"

definition handle_activate_state :: "activate_state \<Rightarrow> unit handler" where
  "handle_activate_state p =
     bnd (read_thread (as_owner p)) (\<lambda>row.
     case row of
       None \<Rightarrow> reject NotFound ''activate_state: owning thread does not exist''
     | Some th \<Rightarrow>
         if \<not> is_running (th_status th)
         then reject InvalidState ''activate_state: thread is past Running; activation refused''
         else
           bnd (thread_machine th ''activate_state: thread cannot resolve its machine'') (\<lambda>m.
           bnd (state_of_machine m (as_state_path p) ''activate_state: state is not defined'') (\<lambda>st.
           state_activate st p th)))"

definition handle_complete_state :: "oref \<Rightarrow> json \<Rightarrow> unit handler" where
  "handle_complete_state activity output =
     bnd (read_activity activity) (\<lambda>row.
     case row of
       None \<Rightarrow> reject NotFound ''complete_state: activity not found''
     | Some a \<Rightarrow>
         bnd (read_thread (m_owner (ac_meta a))) (\<lambda>trow.
         case trow of
           None \<Rightarrow> reject NotFound ''complete_state: owning thread not found''
         | Some th \<Rightarrow>
             bnd (thread_machine th ''complete_state: activity cannot resolve its machine'') (\<lambda>m.
             bnd (state_of_machine m (ac_state_path a) ''complete_state: state is not defined'') (\<lambda>st.
             if \<not> is_running (ac_status a)
             then reject InvalidState ''activity is not Running; cannot complete''
             else if \<not> is_running (th_status th)
             then reject InvalidState ''complete_state: thread is past Running; completion refused''
             else state_complete st output a th))))"

definition resolve_and_terminate :: "termination_reason \<Rightarrow> activity \<Rightarrow> unit handler" where
  "resolve_and_terminate reason a =
     bnd (read_thread (m_owner (ac_meta a))) (\<lambda>trow.
     case trow of
       None \<Rightarrow> reject NotFound ''terminate_state: owning thread not found''
     | Some th \<Rightarrow>
         bnd (thread_machine th ''terminate_state: activity cannot resolve its machine'') (\<lambda>m.
         bnd (state_of_machine m (ac_state_path a) ''terminate_state: state is not defined'') (\<lambda>st.
         state_terminate st reason a th)))"

definition handle_terminate_state :: "oref \<Rightarrow> termination_reason \<Rightarrow> unit handler" where
  "handle_terminate_state activity reason =
     bnd (read_activity activity) (\<lambda>row.
     case row of
       None \<Rightarrow> reject NotFound ''terminate_state: activity does not exist; termination refused''
     | Some a \<Rightarrow>
         (case ac_status a of
            Running \<Rightarrow> resolve_and_terminate reason a
          | Completing \<Rightarrow> resolve_and_terminate reason a
          | _ \<Rightarrow> reject InvalidState ''terminate_state: termination refused, the drain owns its terminal''))"

end
