(* ===== verification/Elements.thy ===== *)
theory Elements
  imports StateHandler
begin

text \<open>
  The elements of \<open>src/crates/engine/src/elements\<close>: activities as containers, and the commands on
  threads, executions, tasks and flows; then the \<open>Continue\<close> handlers and \<open>dispatch_command\<close> of
  \<open>src/crates/engine/src/handlers\<close>.
\<close>

section \<open>Activities (\<open>elements/activity.rs\<close>)\<close>

definition activity_open :: "oref \<Rightarrow> oref handler" where
  "activity_open owner =
     bnd (read_activity owner) (\<lambda>row.
     case row of
       None \<Rightarrow> reject NotFound ''activity_element: activity is gone''
     | Some _ \<Rightarrow> ret owner)"

definition state_of :: "activity \<Rightarrow> (thread \<times> state) handler" where
  "state_of a =
     bnd (read_thread (m_owner (ac_meta a))) (\<lambda>trow.
     case trow of
       None \<Rightarrow> reject NotFound ''activity_element: owning thread does not exist''
     | Some th \<Rightarrow>
         bnd (thread_machine th ''activity_element: thread cannot resolve its machine'') (\<lambda>m.
         bnd (state_of_machine m (ac_state_path a) ''activity_element: state is not defined'') (\<lambda>st.
         ret (th, st))))"

definition activity_on_deadline_fired :: "oref \<Rightarrow> timestamp \<Rightarrow> unit handler" where
  "activity_on_deadline_fired activity deadline =
     bnd (read_activity activity) (\<lambda>row.
     case row of
       None \<Rightarrow> reject InvalidState ''activity_element: activity is gone from under its deadline''
     | Some a \<Rightarrow>
         (case ac_status a of
            Running \<Rightarrow>
              bnd (state_of a) (\<lambda>(th, st).
              case st of
                Wait _ \<Rightarrow> append_command (CompleteState activity (or_null (ac_input a)))
              | Task _ \<Rightarrow>
                  if ac_raw_output a \<noteq> None
                  then reject InvalidState ''activity_element: activity fired a deadline after its task settled''
                  else append_command (TerminateState activity (FailedWith (Runtime (TimedOutErr
                         (''task ran past its TimeoutSeconds deadline ('' @ show_nat (unat deadline) @ '')'')))))
              | _ \<Rightarrow> reject InvalidState ''activity_element: activity fired a deadline, but its state owns none'')
          | Completing \<Rightarrow> append_command (ContinueComplete (raw_of KActivity activity))
          | Terminating _ \<Rightarrow> append_command (ContinueTerminate (raw_of KActivity activity))
          | _ \<Rightarrow> reject InvalidState ''activity_element: activity fired a deadline while terminal''))"

definition hand_to_state ::
  "oref \<Rightarrow> activity \<Rightarrow> thread \<Rightarrow> state \<Rightarrow> raw_object_ref \<Rightarrow> unit handler" where
  "hand_to_state activity a th st child =
     bnd (read_variables (th_ref th)) (\<lambda>_. state_child_completed st activity a child)"

definition settle_child ::
  "oref \<Rightarrow> activity \<Rightarrow> thread \<Rightarrow> state \<Rightarrow> raw_object_ref \<Rightarrow> unit handler" where
  "settle_child activity a th st child =
     (let proceed = (\<lambda>expected.
            if r_kind child \<noteq> expected
            then reject InvalidState ''activity_element: a state is settled only by the children it owns''
            else case ac_status a of
              Running \<Rightarrow> hand_to_state activity a th st child
            | Completing \<Rightarrow> append_command (ContinueComplete (raw_of KActivity activity))
            | Terminating _ \<Rightarrow> append_command (ContinueTerminate (raw_of KActivity activity))
            | _ \<Rightarrow> ret ())
      in case st of
           Task _ \<Rightarrow> proceed KTask
         | Parallel _ _ \<Rightarrow> proceed KThread
         | Map _ _ \<Rightarrow> proceed KThread
         | _ \<Rightarrow> panic ''settle_child is reached only for states that own children'')"

definition activity_after_child_completed :: "oref \<Rightarrow> raw_object_ref \<Rightarrow> unit handler" where
  "activity_after_child_completed activity child =
     bnd (read_activity activity) (\<lambda>row.
     case row of
       None \<Rightarrow> reject InvalidState ''activity_element: activity is gone from under its settled child''
     | Some a \<Rightarrow>
         bnd (state_of a) (\<lambda>(th, st).
         case st of
           Task _ \<Rightarrow> settle_child activity a th st child
         | Parallel _ _ \<Rightarrow> settle_child activity a th st child
         | Map _ _ \<Rightarrow> settle_child activity a th st child
         | _ \<Rightarrow> reject InvalidState ''activity_element: the state owns no children''))"

definition activity_after_child_terminated :: "oref \<Rightarrow> raw_object_ref \<Rightarrow> unit handler" where
  "activity_after_child_terminated activity child = activity_after_child_completed activity child"

text \<open>The sweep of both \<open>Continue\<close> steps over an activity's live children.\<close>

definition sweep_activity_children :: "raw_object_ref set \<Rightarrow> unit handler" where
  "sweep_activity_children children =
     bnd (iterate_set children) (\<lambda>cs.
     each (\<lambda>c.
       if r_kind c = KThread
       then bnd (typed KThread c) (\<lambda>th. append_command (TerminateThread th Cancelled))
       else if r_kind c = KTask
       then bnd (typed KTask c) (\<lambda>k. append_command (CancelTask k))
       else panic ''an activity owns only a fan-out Thread or a Task'') cs)"

definition activity_continue_terminate :: "oref \<Rightarrow> unit handler" where
  "activity_continue_terminate node =
     bnd (read_activity node) (\<lambda>row.
     case row of
       None \<Rightarrow> reject NotFound ''continue_terminate: activity not found''
     | Some a \<Rightarrow>
         if \<not> is_terminating (ac_status a)
         then reject InvalidState ''continue_terminate: activity is not terminating''
         else
           bnd (read_children (raw_of KActivity (ac_ref a))) (\<lambda>children.
           if children \<noteq> {} then sweep_activity_children children
           else
             bnd (read_thread (m_owner (ac_meta a))) (\<lambda>trow.
             case trow of
               None \<Rightarrow> reject NotFound ''continue_terminate: owning thread does not exist''
             | Some th \<Rightarrow>
                 bnd (thread_machine th ''continue_terminate: thread cannot resolve its machine'') (\<lambda>m.
                 bnd (state_of_machine m (ac_state_path a) ''continue_terminate: state is not defined'') (\<lambda>st.
                 case st of
                   Task _ \<Rightarrow> state_after_terminating st a
                 | Wait _ \<Rightarrow> state_after_terminating st a
                 | Parallel _ _ \<Rightarrow> state_after_terminating st a
                 | Map _ _ \<Rightarrow> state_after_terminating st a
                 | _ \<Rightarrow> panic ''continue_terminate: activity deferred on a state which owns no children'')))))"

definition activity_continue_complete :: "oref \<Rightarrow> unit handler" where
  "activity_continue_complete node =
     bnd (read_activity node) (\<lambda>row.
     case row of
       None \<Rightarrow> reject NotFound ''continue_complete: activity not found''
     | Some a \<Rightarrow>
         if ac_status a \<noteq> Completing
         then reject InvalidState ''continue_complete: activity is not completing''
         else
           bnd (read_children (raw_of KActivity (ac_ref a))) (\<lambda>children.
           if children \<noteq> {} then sweep_activity_children children
           else
             bnd (read_thread (m_owner (ac_meta a))) (\<lambda>trow.
             case trow of
               None \<Rightarrow> reject NotFound ''continue_complete: owning thread does not exist''
             | Some th \<Rightarrow>
                 bnd (thread_machine th ''continue_complete: thread cannot resolve its machine'') (\<lambda>m.
                 bnd (state_of_machine m (ac_state_path a) ''continue_complete: state is not defined'') (\<lambda>st.
                 bnd (read_variables (th_ref th)) (\<lambda>vs.
                 case st of
                   Task _ \<Rightarrow> state_after_completing st a vs
                 | Parallel _ _ \<Rightarrow> state_after_completing st a vs
                 | Map _ _ \<Rightarrow> state_after_completing st a vs
                 | _ \<Rightarrow> panic ''continue_complete: activity deferred on a state which owns no children''))))))"

section \<open>Threads (\<open>elements/thread.rs\<close>)\<close>

text \<open>Opening the owner of a thread and telling it of the settled child.\<close>

definition owner_open :: "thread_owner \<Rightarrow> unit handler" where
  "owner_open ow =
     (case ow of
        OwnerExecution ex \<Rightarrow> bnd (execution_open ex) (\<lambda>_. ret ())
      | OwnerActivity a \<Rightarrow> bnd (activity_open a) (\<lambda>_. ret ()))"

definition owner_child_completed :: "thread_owner \<Rightarrow> raw_object_ref \<Rightarrow> unit handler" where
  "owner_child_completed ow child =
     (case ow of
        OwnerExecution ex \<Rightarrow> execution_after_child_completed ex child
      | OwnerActivity a \<Rightarrow> activity_after_child_completed a child)"

definition owner_child_terminated :: "thread_owner \<Rightarrow> raw_object_ref \<Rightarrow> unit handler" where
  "owner_child_terminated ow child =
     (case ow of
        OwnerExecution ex \<Rightarrow> execution_after_child_terminated ex child
      | OwnerActivity a \<Rightarrow> activity_after_child_terminated a child)"

text \<open>The loop over a thread's live activities.\<close>

definition terminate_activities :: "raw_object_ref set \<Rightarrow> unit handler" where
  "terminate_activities children =
     bnd (iterate_set children) (\<lambda>cs.
     each (\<lambda>c.
       if r_kind c = KActivity
       then bnd (typed KActivity c) (\<lambda>a. append_command (TerminateState a Cancelled))
       else panic ''a Thread owns only Activities'') cs)"

definition thread_terminate :: "oref \<Rightarrow> termination_reason \<Rightarrow> unit handler" where
  "thread_terminate thr reason =
     bnd (read_thread thr) (\<lambda>row.
     case row of
       None \<Rightarrow> reject NotFound ''terminate_thread: thread does not exist; termination refused''
     | Some th \<Rightarrow>
         bnd now (\<lambda>t.
         case thread_mark_terminating reason t th of
           Inl _ \<Rightarrow> reject InvalidState ''terminate_thread: thread cannot be terminated''
         | Inr terminating \<Rightarrow>
             seq (append_event (ThreadTerminating terminating))
            (bnd (read_children (raw_of KThread (th_ref th))) (\<lambda>children.
             if children = {}
             then
               bnd now (\<lambda>t1.
               let terminated = th \<lparr> th_status := Terminated reason,
                                     th_meta := with_update_at t1 (th_meta th) \<rparr>;
                   ow = m_owner (th_meta th)
               in seq (owner_open ow)
                 (seq (append_event (ThreadTerminated terminated))
                      (owner_child_terminated ow (meta_raw KThread (th_meta th)))))
             else terminate_activities children))))"

definition thread_complete :: "oref \<Rightarrow> json \<Rightarrow> unit handler" where
  "thread_complete thr output =
     bnd (read_thread thr) (\<lambda>row.
     case row of
       None \<Rightarrow> reject NotFound ''complete_thread: thread does not exist; completion refused''
     | Some th \<Rightarrow>
         if \<not> is_running (th_status th)
         then reject InvalidState ''complete_thread: thread is past Running; completion refused''
         else
           bnd now (\<lambda>t.
           seq (append_event (ThreadCompleting
                  (th \<lparr> th_status := Completing, th_output := Some output,
                        th_meta := with_update_at t (th_meta th) \<rparr>)))
          (bnd (read_children (raw_of KThread (th_ref th))) (\<lambda>children.
           if children = {}
           then
             bnd now (\<lambda>t1.
             let completed = th \<lparr> th_status := Completed, th_output := Some output,
                                  th_meta := with_update_at t1 (th_meta th) \<rparr>;
                 ow = m_owner (th_meta th)
             in seq (owner_open ow)
               (seq (append_event (ThreadCompleted completed))
                    (owner_child_completed ow (meta_raw KThread (th_meta th)))))
           else reject InvalidState ''complete_thread: thread still owns live children; completion refused''))))"

text \<open>In the \<open>Continue\<close> steps a missing owner is no error: a rejection of \<open>open\<close> is dropped.\<close>

definition notify_owner :: "thread_owner \<Rightarrow> unit handler \<Rightarrow> unit handler" where
  "notify_owner ow reaction =
     bnd (handle (bnd (owner_open ow) (\<lambda>_. ret True))
            (\<lambda>e. case e of Rejected _ _ \<Rightarrow> ret False | Unexpected _ \<Rightarrow> throw e)) (\<lambda>opened.
     whenp opened reaction)"

definition thread_continue_terminate :: "oref \<Rightarrow> unit handler" where
  "thread_continue_terminate node =
     bnd (read_thread node) (\<lambda>row.
     case row of
       None \<Rightarrow> reject NotFound ''continue_terminate: thread not found''
     | Some th \<Rightarrow>
         (case th_status th of
            Terminating reason \<Rightarrow>
              bnd (read_children (raw_of KThread (th_ref th))) (\<lambda>children.
              if children \<noteq> {} then terminate_activities children
              else
                bnd now (\<lambda>t.
                seq (append_event (ThreadTerminated
                       (th \<lparr> th_status := Terminated reason, th_meta := with_update_at t (th_meta th) \<rparr>)))
                    (notify_owner (m_owner (th_meta th))
                       (owner_child_terminated (m_owner (th_meta th)) (raw_of KThread node)))))
          | _ \<Rightarrow> reject InvalidState ''continue_terminate: thread is not terminating''))"

definition thread_continue_complete :: "oref \<Rightarrow> unit handler" where
  "thread_continue_complete node =
     bnd (read_thread node) (\<lambda>row.
     case row of
       None \<Rightarrow> reject NotFound ''continue_complete: thread not found''
     | Some th \<Rightarrow>
         if th_status th \<noteq> Completing
         then reject InvalidState ''continue_complete: thread is not completing''
         else
           bnd (read_children (raw_of KThread (th_ref th))) (\<lambda>children.
           if children \<noteq> {} then terminate_activities children
           else
             bnd now (\<lambda>t.
             seq (append_event (ThreadCompleted
                    (th \<lparr> th_status := Completed, th_output := Some (or_null (th_output th)),
                          th_meta := with_update_at t (th_meta th) \<rparr>)))
                 (notify_owner (m_owner (th_meta th))
                    (owner_child_completed (m_owner (th_meta th)) (raw_of KThread node))))))"

definition thread_spawn :: "spawn_thread \<Rightarrow> unit handler" where
  "thread_spawn p =
     bnd (read_activity (sp_owner p)) (\<lambda>row.
     case row of
       None \<Rightarrow> reject NotFound ''spawn_thread: owner activity not found''
     | Some owner_activity \<Rightarrow>
         if \<not> is_running (ac_status owner_activity)
         then reject InvalidState ''spawn_thread: owner activity is not Running; fan-out refused''
         else
           bnd (read_thread (m_owner (ac_meta owner_activity))) (\<lambda>trow.
           case trow of
             None \<Rightarrow> reject NotFound ''spawn_thread: owner activity names a thread which does not exist''
           | Some owner_thread \<Rightarrow>
               bnd mint (\<lambda>uid.
               bnd next_generated_seq (\<lambda>n.
               let name = generated_from_key (base (o_name (sp_execution p))) n in
               case sp_state_path p of
                 None \<Rightarrow> panic ''a spawned thread always receives its state_path from the container''
               | Some branch_path \<Rightarrow>
                   bnd now (\<lambda>t.
                   seq (append_event (ThreadCreated
                          \<lparr> th_meta = build_meta uid name t (OwnerActivity (sp_owner p)),
                            th_execution = sp_execution p, th_state_path = branch_path,
                            th_start_at = sp_start_at p, th_index = sp_index p,
                            th_status = Running, th_input = sp_input p, th_output = None \<rparr>))
                       (append_command (ActivateState
                          \<lparr> as_execution = th_execution owner_thread, as_owner = ORef name uid,
                            as_state_path = path_state branch_path (sp_start_at p),
                            as_input = sp_input p \<rparr>)))))))"

section \<open>Executions (\<open>elements/execution.rs\<close>)\<close>

definition terminate_root_threads :: "raw_object_ref set \<Rightarrow> unit handler" where
  "terminate_root_threads children =
     bnd (iterate_set children) (\<lambda>cs.
     each (\<lambda>c.
       if r_kind c = KThread
       then bnd (typed KThread c) (\<lambda>th. append_command (TerminateThread th Cancelled))
       else panic ''an Execution owns only its root Thread'') cs)"

definition execution_terminate ::
  "object_name \<Rightarrow> ulid option \<Rightarrow> termination_reason \<Rightarrow> unit handler" where
  "execution_terminate name uid reason =
     bnd (read_execution (ORef name (case uid of Some u \<Rightarrow> u | None \<Rightarrow> 0))) (\<lambda>row.
     case row of
       None \<Rightarrow> reject NotFound ''terminate_execution: execution not found''
     | Some e \<Rightarrow>
         if (case uid of Some want \<Rightarrow> want \<noteq> m_uid (ex_meta e) | None \<Rightarrow> False)
         then reject InvalidState ''terminate_execution: execution is another incarnation''
         else
           bnd now (\<lambda>t.
           case execution_mark_terminating reason t e of
             Inl _ \<Rightarrow> reject InvalidState ''terminate_execution: execution cannot be terminated''
           | Inr terminating \<Rightarrow>
               seq (append_event (ExecutionTerminating terminating))
              (bnd (read_children (raw_of KExecution (ex_ref e))) (\<lambda>children.
               if children = {}
               then
                 bnd now (\<lambda>t1.
                 case execution_mark_terminated t1 terminating of
                   Inl _ \<Rightarrow> panic ''the run was just set Terminating, so its terminal lands''
                 | Inr terminated \<Rightarrow> append_event (ExecutionTerminated terminated))
               else terminate_root_threads children))))"

definition execution_complete :: "oref \<Rightarrow> json \<Rightarrow> unit handler" where
  "execution_complete ex output =
     bnd (read_execution ex) (\<lambda>row.
     case row of
       None \<Rightarrow> reject NotFound ''complete_execution: execution not found''
     | Some e \<Rightarrow>
         bnd now (\<lambda>t.
         case execution_mark_completing output t e of
           Inl _ \<Rightarrow> reject InvalidState ''complete_execution: execution cannot be completed''
         | Inr completing \<Rightarrow>
             seq (append_event (ExecutionCompleting completing))
            (bnd (read_children (raw_of KExecution (ex_ref e))) (\<lambda>children.
             if children = {}
             then
               bnd (debug_mark execution_mark_completed completing) (\<lambda>completed.
               append_event (ExecutionCompleted completed))
             else reject InvalidState ''complete_execution: execution still owns a live child; completion refused''))))"

definition execution_continue_terminate :: "oref \<Rightarrow> unit handler" where
  "execution_continue_terminate node =
     bnd (read_execution node) (\<lambda>row.
     case row of
       None \<Rightarrow> reject NotFound ''continue_terminate: execution not found''
     | Some e \<Rightarrow>
         if \<not> is_terminating (ex_status e)
         then reject InvalidState ''continue_terminate: execution is not terminating''
         else
           bnd (read_children (raw_of KExecution (ex_ref e))) (\<lambda>children.
           if children \<noteq> {} then terminate_root_threads children
           else
             bnd now (\<lambda>t.
             case execution_mark_terminated t e of
               Inl _ \<Rightarrow> reject InvalidState ''continue_terminate: execution cannot be terminated''
             | Inr terminated \<Rightarrow> append_event (ExecutionTerminated terminated))))"

definition execution_continue_complete :: "oref \<Rightarrow> unit handler" where
  "execution_continue_complete node =
     bnd (read_execution node) (\<lambda>row.
     case row of
       None \<Rightarrow> reject NotFound ''continue_complete: execution not found''
     | Some e \<Rightarrow>
         if ex_status e \<noteq> Completing
         then reject InvalidState ''continue_complete: execution is not completing''
         else
           bnd (read_children (raw_of KExecution (ex_ref e))) (\<lambda>children.
           if children \<noteq> {} then panic ''continue_complete: a completing run owns nothing''
           else
             bnd now (\<lambda>t.
             case execution_mark_completed t e of
               Inl _ \<Rightarrow> reject InvalidState ''continue_complete: execution cannot be completed''
             | Inr completed \<Rightarrow> append_event (ExecutionCompleted completed))))"

text \<open>\<open>sm.timeout_seconds.filter(|s| *s > 0)\<close> and the absolute deadline it gives: the outer option is
  \<open>None\<close> where the addition overflows. The clock is read only if there is a timeout.\<close>

definition execution_deadline :: "state_machine \<Rightarrow> timestamp option option handler" where
  "execution_deadline m =
     (case sm_timeout_seconds m of
        Some secs \<Rightarrow>
          if 0 < secs
          then bnd now (\<lambda>t. ret (map_option Some (ts_checked_add t (nat secs * 1000))))
          else ret (Some None)
      | None \<Rightarrow> ret (Some None))"

definition execution_create ::
  "request_id \<Rightarrow> object_name \<Rightarrow> oref \<Rightarrow> json \<Rightarrow> unit handler" where
  "execution_create rid name fv input =
     bnd (read_execution (ORef name 0)) (\<lambda>row.
     case row of
       Some _ \<Rightarrow> reject AlreadyExists ''create_execution: execution already exists''
     | None \<Rightarrow>
         bnd mint (\<lambda>uid.
         bnd (machine fv) (\<lambda>r.
         case r of
           Inl _ \<Rightarrow> reject InvalidArgument ''create_execution: flow version cannot be resolved''
         | Inr m \<Rightarrow>
             bnd (execution_deadline m) (\<lambda>dl.
             case dl of
               None \<Rightarrow> reject InvalidArgument ''create_execution: TimeoutSeconds overflows the absolute deadline''
             | Some deadline \<Rightarrow>
                 bnd now (\<lambda>t.
                 seq (append_event (ExecutionCreated rid
                        \<lparr> ex_meta = build_meta uid name t (), ex_flow_version = fv, ex_status = Running,
                          ex_deadline = deadline, ex_input = input, ex_output = None \<rparr>))
                (bnd mint (\<lambda>root_uid.
                 bnd next_generated_seq (\<lambda>n.
                 let root_name = generated_from_key (base name) n; ex = ORef name uid in
                 bnd now (\<lambda>t1.
                 seq (append_event (ThreadCreated
                        \<lparr> th_meta = build_meta root_uid root_name t1 (OwnerExecution ex),
                          th_execution = ex, th_state_path = path_root, th_start_at = sm_start_at m,
                          th_index = 0, th_status = Running, th_input = input, th_output = None \<rparr>))
                     (append_command (ActivateState
                        \<lparr> as_execution = ex, as_owner = ORef root_name root_uid,
                          as_state_path = path_state path_root (sm_start_at m), as_input = input \<rparr>)))))))))))"

section \<open>Tasks (\<open>elements/task.rs\<close>)\<close>

definition task_activate :: "activate_task \<Rightarrow> unit handler" where
  "task_activate p =
     bnd now (\<lambda>t.
     append_event (TaskActivated
       \<lparr> tk_meta = build_meta (o_uid (at_task p)) (o_name (at_task p)) t (at_owner p),
         tk_execution = at_execution p, tk_resource = at_resource p, tk_arguments = at_arguments p,
         tk_status = TPending, tk_deadline = at_deadline p, tk_worker_id = None,
         tk_lease_expires_at = None, tk_retry_plan = at_retry_plan p,
         tk_retry_state = default_retry_state \<rparr>))"

definition task_complete :: "request_id \<Rightarrow> oref \<Rightarrow> string \<Rightarrow> json \<Rightarrow> unit handler" where
  "task_complete rid k worker output =
     bnd (read_task k) (\<lambda>row.
     case row of
       None \<Rightarrow> reject NotFound ''task not found or not activated''
     | Some tk \<Rightarrow>
         bnd now (\<lambda>t.
         case task_mark_completed worker t tk of
           Inl _ \<Rightarrow> reject InvalidState ''task cannot be completed''
         | Inr done_task \<Rightarrow>
             bnd (activity_open (m_owner (tk_meta tk))) (\<lambda>container.
             seq (append_event (TaskCompleted rid done_task output))
                 (activity_after_child_completed container (raw_of KTask k)))))"

definition task_fail :: "oref \<Rightarrow> string \<Rightarrow> execution_error \<Rightarrow> unit handler" where
  "task_fail k worker err =
     bnd (read_task k) (\<lambda>row.
     case row of
       None \<Rightarrow> reject NotFound ''fail_task: task does not exist; failure refused''
     | Some tk \<Rightarrow>
         bnd now (\<lambda>t.
         case handle_failure worker err t tk of
           Inl _ \<Rightarrow> reject InvalidState ''fail_task: task cannot take the failure''
         | Inr (outcome, failed) \<Rightarrow>
             seq (append_event (TaskFailed failed err))
                 (whenp (outcome = Terminal)
                    (append_command (TerminateState (m_owner (tk_meta tk)) (FailedWith err))))))"

definition task_cancel :: "oref \<Rightarrow> unit handler" where
  "task_cancel k =
     bnd (read_task k) (\<lambda>row.
     case row of
       None \<Rightarrow> reject NotFound ''task not found; cancel dropped''
     | Some tk \<Rightarrow>
         bnd now (\<lambda>t.
         case task_mark_cancelled t tk of
           Inl _ \<Rightarrow> reject InvalidState ''task cannot be cancelled''
         | Inr cancelled \<Rightarrow>
             bnd (activity_open (m_owner (tk_meta cancelled))) (\<lambda>container.
             seq (append_event (TaskCancelled cancelled))
                 (activity_after_child_terminated container (raw_of KTask k)))))"

definition task_claim_all :: "claim_tasks \<Rightarrow> unit handler" where
  "task_claim_all p =
     bnd now (\<lambda>t.
     case ts_checked_add t (cl_lease_seconds p * 1000) of
       None \<Rightarrow> reject InvalidArgument ''the lease overflows the clock; claim refused''
     | Some lease_expires_at \<Rightarrow>
         bnd (read_activatable_tasks (cl_resource p) t (cl_max_tasks p)) (\<lambda>tasks.
         append_event (TasksClaimed (cl_request_id p)
           (map (task_claim (cl_worker_id p) lease_expires_at t) tasks))))"

section \<open>Flows (\<open>elements/flow.rs\<close>)\<close>

definition flow_create :: "request_id \<Rightarrow> flow_name \<Rightarrow> string \<Rightarrow> unit handler" where
  "flow_create rid name def =
     bnd ask (\<lambda>e.
     case e_parse_machine e def of
       None \<Rightarrow> reject InvalidArgument ''create_flow: malformed definition''
     | Some _ \<Rightarrow>
         bnd (read_flow_by_name name) (\<lambda>row.
         case row of
           Some _ \<Rightarrow> append_reject rid AlreadyExists ''create_flow: flow already exists''
         | None \<Rightarrow>
             bnd mint (\<lambda>flow_uid.
             bnd mint (\<lambda>version_uid.
             bnd now (\<lambda>created_at.
             case object_name_plain (plain_as_str name) of
               Inl _ \<Rightarrow> panic ''a valid FlowName is a valid user object name''
             | Inr oname \<Rightarrow>
                 (case flow_new flow_uid name created_at of
                    None \<Rightarrow> panic ''a FlowName is a valid object name''
                  | Some f \<Rightarrow>
                      seq (append_event (FlowCreated rid f))
                     (case flow_version_new (e_crc64 e) version_uid (ORef oname flow_uid) 1 def created_at of
                        None \<Rightarrow> panic ''a Flow name is a user plain name''
                      | Some v \<Rightarrow> append_event (FlowVersionCreated rid v))))))))"

section \<open>Dispatch (\<open>handlers/*.rs\<close>)\<close>

definition handle_continue_complete :: "raw_object_ref \<Rightarrow> unit handler" where
  "handle_continue_complete owner =
     (case r_kind owner of
        KActivity \<Rightarrow> bnd (typed KActivity owner) activity_continue_complete
      | KThread \<Rightarrow> bnd (typed KThread owner) thread_continue_complete
      | KExecution \<Rightarrow> bnd (typed KExecution owner) execution_continue_complete
      | _ \<Rightarrow> panic ''continue_complete: only an Activity, a Thread or an Execution defers'')"

definition handle_continue_terminate :: "raw_object_ref \<Rightarrow> unit handler" where
  "handle_continue_terminate owner =
     (case r_kind owner of
        KActivity \<Rightarrow> bnd (typed KActivity owner) activity_continue_terminate
      | KThread \<Rightarrow> bnd (typed KThread owner) thread_continue_terminate
      | KExecution \<Rightarrow> bnd (typed KExecution owner) execution_continue_terminate
      | _ \<Rightarrow> panic ''continue_terminate: only an Activity, a Thread or an Execution defers'')"

definition fire_deadline :: "deadline_target \<Rightarrow> timestamp \<Rightarrow> unit handler" where
  "fire_deadline target deadline =
     (case target of
        DeadlineExecution ex \<Rightarrow> bnd (execution_open ex) (\<lambda>c. execution_on_deadline_fired c deadline)
      | DeadlineActivity a \<Rightarrow>
          bnd (handle (activity_open a) (\<lambda>e. case e of
                 Rejected _ _ \<Rightarrow> reject NotFound ''trigger_deadline: activity does not exist; fire refused''
               | Unexpected _ \<Rightarrow> throw e)) (\<lambda>c.
          activity_on_deadline_fired c deadline))"

fun dispatch_command :: "command \<Rightarrow> unit handler" where
  "dispatch_command (CreateFlow rid name def) = flow_create rid name def"
| "dispatch_command (CreateExecution rid name fv input) = execution_create rid name fv input"
| "dispatch_command (SpawnThread p) = thread_spawn p"
| "dispatch_command (CompleteExecution ex output) = execution_complete ex output"
| "dispatch_command (CompleteThread th output) = thread_complete th output"
| "dispatch_command (TerminateExecution name uid reason) = execution_terminate name uid reason"
| "dispatch_command (TerminateThread th reason) = thread_terminate th reason"
| "dispatch_command (ActivateState p) = handle_activate_state p"
| "dispatch_command (CompleteState a output) = handle_complete_state a output"
| "dispatch_command (TerminateState a reason) = handle_terminate_state a reason"
| "dispatch_command (ActivateTask p) = task_activate p"
| "dispatch_command (ClaimTasks p) = task_claim_all p"
| "dispatch_command (CompleteTask rid k worker output) = task_complete rid k worker output"
| "dispatch_command (FailTask k worker err) = task_fail k worker err"
| "dispatch_command (TriggerDeadline target deadline) = fire_deadline target deadline"
| "dispatch_command (CancelTask k) = task_cancel k"
| "dispatch_command (ContinueComplete owner) = handle_continue_complete owner"
| "dispatch_command (ContinueTerminate owner) = handle_continue_terminate owner"

end
