(* ===== verification/Invariance.thy ===== *)
theory Invariance
  imports Elements
begin

text \<open>
  What every command handler keeps. A handler touches the state of a run through a few primitives of
  the \<open>HandlerContext\<close> and the \<open>Collector\<close>; whatever these keep, every handler keeps. The locales
  state that contract once, in layers by the events a group of handlers emits, and carry it from
  the primitives up to \<open>dispatch_command\<close>.
\<close>

lemma preserves_lifecycle [pres]:
  assumes "st = Running \<Longrightarrow> preserves I a" "st = Completing \<Longrightarrow> preserves I b" "st = Completed \<Longrightarrow> preserves I c"
    "\<And>r. st = Terminating r \<Longrightarrow> preserves I (d r)" "\<And>r. st = Terminated r \<Longrightarrow> preserves I (e r)"
  shows "preserves I (case st of Running \<Rightarrow> a | Completing \<Rightarrow> b | Completed \<Rightarrow> c | Terminating r \<Rightarrow> d r
           | Terminated r \<Rightarrow> e r)"
  using assms by (cases st) auto

lemmas handler_splits =
  json.split finish.split choice_condition.split bool.split state.split
  thread_owner.split deadline_target.split failure_outcome.split failure_routing.split
  processing_error.split termination_reason.split object_kind.split int_or_expr.split
  map_items.split wait_timestamp.split json_number.split activity_state.split execution_error.split

section \<open>Groups of events\<close>

datatype event_group = StateGroup | ThreadGroup | TaskGroup | RootGroup

fun group_of :: "event \<Rightarrow> event_group" where
  "group_of (StateActivating _) = StateGroup"
| "group_of (StateActivated _) = StateGroup"
| "group_of (StateCompleting _) = StateGroup"
| "group_of (StateCompleted _) = StateGroup"
| "group_of (StateTerminating _) = StateGroup"
| "group_of (StateTerminated _) = StateGroup"
| "group_of (VariablesAssigned _ _) = StateGroup"
| "group_of (StateTransitioned _ _) = StateGroup"
| "group_of (TaskActivated _) = TaskGroup"
| "group_of (TasksClaimed _ _) = TaskGroup"
| "group_of (TaskCompleted _ _ _) = TaskGroup"
| "group_of (TaskFailed _ _) = TaskGroup"
| "group_of (TaskCancelled _) = TaskGroup"
| "group_of (ThreadCreated _) = ThreadGroup"
| "group_of (ThreadCompleting _) = ThreadGroup"
| "group_of (ThreadCompleted _) = ThreadGroup"
| "group_of (ThreadTerminating _) = ThreadGroup"
| "group_of (ThreadTerminated _) = ThreadGroup"
| "group_of _ = RootGroup"

section \<open>The context's primitives\<close>

locale context_invariant =
  fixes I :: "pstate \<Rightarrow> bool"
  assumes keeps_now [pres]: "preserves I now"
    and keeps_mint [pres]: "preserves I mint"
    and keeps_next_generated_seq [pres]: "preserves I next_generated_seq"
    and keeps_append_command [pres]: "preserves I (append_command c)"
    and keeps_append_reject [pres]: "preserves I (append_reject rid ty why)"
    and keeps_cache: "preserves I (modify (\<lambda>s. s \<lparr> p_definitions := (p_definitions s)(fv \<mapsto> m) \<rparr>) :: unit handler)"
begin

lemma keeps_reject [pres]: "preserves I (reject a b)"
  by (auto simp: reject_def intro!: pres split: handler_splits)

lemma keeps_unexpected [pres]: "preserves I (unexpected a)"
  by (auto simp: unexpected_def intro!: pres split: handler_splits)

lemma keeps_try_exec [pres]: "preserves I (try_exec a)"
  by (auto simp: try_exec_def intro!: pres split: handler_splits)

lemma keeps_ask [pres]: "preserves I ask"
  by (auto simp: ask_def intro!: pres split: handler_splits)

lemma keeps_read_execution [pres]: "preserves I (read_execution a)"
  by (auto simp: read_execution_def intro!: pres split: handler_splits)

lemma keeps_read_thread [pres]: "preserves I (read_thread a)"
  by (auto simp: read_thread_def intro!: pres split: handler_splits)

lemma keeps_read_variables [pres]: "preserves I (read_variables a)"
  by (auto simp: read_variables_def intro!: pres split: handler_splits)

lemma keeps_read_activity [pres]: "preserves I (read_activity a)"
  by (auto simp: read_activity_def intro!: pres split: handler_splits)

lemma keeps_read_task [pres]: "preserves I (read_task a)"
  by (auto simp: read_task_def intro!: pres split: handler_splits)

lemma keeps_read_children [pres]: "preserves I (read_children a)"
  by (auto simp: read_children_def intro!: pres split: handler_splits)

lemma keeps_read_activatable_tasks [pres]: "preserves I (read_activatable_tasks a b c)"
  by (auto simp: read_activatable_tasks_def intro!: pres split: handler_splits)

lemma keeps_read_flow_by_name [pres]: "preserves I (read_flow_by_name a)"
  by (auto simp: read_flow_by_name_def intro!: pres split: handler_splits)

lemma keeps_read_flow_version [pres]: "preserves I (read_flow_version a)"
  by (auto simp: read_flow_version_def intro!: pres split: handler_splits)

lemma keeps_iterate_set [pres]: "preserves I (iterate_set a)"
  by (auto simp: iterate_set_def intro!: pres split: handler_splits)

lemma keeps_typed [pres]: "preserves I (typed a b)"
  by (auto simp: typed_def intro!: pres split: handler_splits)

lemma keeps_machine [pres]: "preserves I (machine a)"
  by (auto simp: machine_def intro!: pres keeps_cache)

lemma keeps_resolve_thread_flow_version [pres]: "preserves I (resolve_thread_flow_version a)"
  by (auto simp: resolve_thread_flow_version_def intro!: pres split: handler_splits)

lemma keeps_machine_for_thread [pres]: "preserves I (machine_for_thread a)"
  by (auto simp: machine_for_thread_def intro!: pres split: handler_splits)

lemma keeps_eval_expr [pres]: "preserves I (eval_expr a b c)"
  by (auto simp: eval_expr_def intro!: pres split: handler_splits)

lemma keeps_extract_jsonata [pres]: "preserves I (extract_jsonata a)"
  by (auto simp: extract_jsonata_def intro!: pres split: handler_splits)

lemma keeps_eval_string_or_expr [pres]: "preserves I (eval_string_or_expr a b c)"
  by (auto simp: eval_string_or_expr_def intro!: pres split: handler_splits)

lemma keeps_eval_json [pres]:
  "preserves I (eval_json j states vs)"
  "preserves I (eval_json_list js states vs)"
  "preserves I (eval_json_fields kvs states vs)"
  by (induction j states vs and js states vs and kvs states vs
      rule: eval_json_eval_json_list_eval_json_fields.induct)
     (auto intro!: pres split: handler_splits)

lemma keeps_execution_open [pres]: "preserves I (execution_open a)"
  by (auto simp: execution_open_def intro!: pres split: handler_splits)

lemma keeps_execution_after_child_completed [pres]: "preserves I (execution_after_child_completed a b)"
  by (auto simp: execution_after_child_completed_def intro!: pres split: handler_splits)

lemma keeps_execution_after_child_terminated [pres]: "preserves I (execution_after_child_terminated a b)"
  by (auto simp: execution_after_child_terminated_def intro!: pres split: handler_splits)

lemma keeps_execution_on_deadline_fired [pres]: "preserves I (execution_on_deadline_fired a b)"
  by (auto simp: execution_on_deadline_fired_def intro!: pres split: handler_splits)

lemma keeps_thread_open [pres]: "preserves I (thread_open a)"
  by (auto simp: thread_open_def intro!: pres split: handler_splits)

lemma keeps_thread_after_child_completed [pres]: "preserves I (thread_after_child_completed a b)"
  by (auto simp: thread_after_child_completed_def intro!: pres split: handler_splits)

lemma keeps_thread_after_child_terminated [pres]: "preserves I (thread_after_child_terminated a b)"
  by (auto simp: thread_after_child_terminated_def intro!: pres split: handler_splits)

end

section \<open>State handlers\<close>

locale state_invariant = context_invariant +
  assumes keeps_state_event [pres]: "group_of ev = StateGroup \<Longrightarrow> preserves I (append_event ev)"
begin

lemma keeps_debug_mark [pres]: "preserves I (debug_mark a b)"
  by (auto simp: debug_mark_def intro!: pres split: handler_splits)

lemma keeps_apply_assign [pres]: "preserves I (apply_assign a b c d)"
  by (auto simp: apply_assign_def intro!: pres split: handler_splits)

lemma keeps_project_output [pres]: "preserves I (project_output a b c d)"
  by (auto simp: project_output_def intro!: pres split: handler_splits)

lemma keeps_fail_activity [pres]: "preserves I (fail_activity a b)"
  by (auto simp: fail_activity_def intro!: pres split: handler_splits)

lemma keeps_leaf_after_terminating [pres]: "preserves I (leaf_after_terminating a)"
  by (auto simp: leaf_after_terminating_def intro!: pres split: handler_splits)

lemma keeps_process_finish [pres]: "preserves I (process_finish a b c d e f)"
  by (auto simp: process_finish_def intro!: pres split: handler_splits)

lemma keeps_fail_now [pres]: "preserves I (fail_now a b)"
  by (auto simp: fail_now_def intro!: pres split: handler_splits)

lemma keeps_transition_to [pres]: "preserves I (transition_to a b c)"
  by (auto simp: transition_to_def intro!: pres split: handler_splits)

lemma keeps_settle_finish [pres]: "preserves I (settle_finish a b)"
  by (auto simp: settle_finish_def intro!: pres split: handler_splits)

lemma keeps_process_succeed [pres]: "preserves I (process_succeed a b c)"
  by (auto simp: process_succeed_def intro!: pres split: handler_splits)

lemma keeps_succeed_after_completing [pres]: "preserves I (succeed_after_completing a b c)"
  by (auto simp: succeed_after_completing_def intro!: pres split: handler_splits)

lemma keeps_succeed_after_terminating [pres]: "preserves I (succeed_after_terminating a b)"
  by (auto simp: succeed_after_terminating_def intro!: pres split: handler_splits)

lemma keeps_process_pass [pres]: "preserves I (process_pass a b c)"
  by (auto simp: process_pass_def intro!: pres split: handler_splits)

lemma keeps_pass_after_completing [pres]: "preserves I (pass_after_completing a b c)"
  by (auto simp: pass_after_completing_def intro!: pres split: handler_splits)

lemma keeps_pass_after_terminating [pres]: "preserves I (pass_after_terminating a b)"
  by (auto simp: pass_after_terminating_def intro!: pres split: handler_splits)

lemma keeps_rule_matches [pres]: "preserves I (rule_matches a b c)"
  by (auto simp: rule_matches_def intro!: pres split: handler_splits)

lemma keeps_first_match [pres]: "preserves I (first_match a b c)"
  by (induction a b c rule: first_match.induct) (auto intro!: pres split: handler_splits)

lemma keeps_resolve_choice [pres]: "preserves I (resolve_choice a b c d)"
  by (auto simp: resolve_choice_def intro!: pres split: handler_splits)

lemma keeps_process_choice [pres]: "preserves I (process_choice a b c)"
  by (auto simp: process_choice_def intro!: pres split: handler_splits)

lemma keeps_choice_after_completing [pres]: "preserves I (choice_after_completing a b c)"
  by (auto simp: choice_after_completing_def intro!: pres split: handler_splits)

lemma keeps_choice_after_terminating [pres]: "preserves I (choice_after_terminating a b)"
  by (auto simp: choice_after_terminating_def intro!: pres split: handler_splits)

lemma keeps_eval_optional [pres]: "preserves I (eval_optional a b c)"
  by (auto simp: eval_optional_def intro!: pres split: handler_splits)

lemma keeps_fail_reason [pres]: "preserves I (fail_reason a b c d)"
  by (auto simp: fail_reason_def intro!: pres split: handler_splits)

lemma keeps_process_fail [pres]: "preserves I (process_fail a b c)"
  by (auto simp: process_fail_def intro!: pres split: handler_splits)

lemma keeps_fail_after_completing [pres]: "preserves I (fail_after_completing a b c)"
  by (auto simp: fail_after_completing_def intro!: pres split: handler_splits)

lemma keeps_fail_after_terminating [pres]: "preserves I (fail_after_terminating a b)"
  by (auto simp: fail_after_terminating_def intro!: pres split: handler_splits)

lemma keeps_resolve_wait_deadline [pres]: "preserves I (resolve_wait_deadline a b c d)"
  by (auto simp: resolve_wait_deadline_def intro!: pres split: handler_splits)

lemma keeps_wait_process_input [pres]: "preserves I (wait_process_input a b c d e)"
  by (auto simp: wait_process_input_def intro!: pres split: handler_splits)

lemma keeps_process_wait [pres]: "preserves I (process_wait a b c)"
  by (auto simp: process_wait_def intro!: pres split: handler_splits)

lemma keeps_wait_after_completing [pres]: "preserves I (wait_after_completing a b c)"
  by (auto simp: wait_after_completing_def intro!: pres split: handler_splits)

lemma keeps_wait_after_terminating [pres]: "preserves I (wait_after_terminating a b)"
  by (auto simp: wait_after_terminating_def intro!: pres split: handler_splits)

lemma keeps_task_process_input [pres]: "preserves I (task_process_input a b c d)"
  by (auto simp: task_process_input_def intro!: pres split: handler_splits)

lemma keeps_resolve_task_deadline [pres]: "preserves I (resolve_task_deadline a b c d)"
  by (auto simp: resolve_task_deadline_def intro!: pres split: handler_splits)

lemma keeps_task_after_activated [pres]: "preserves I (task_after_activated a b c d)"
  by (auto simp: task_after_activated_def intro!: pres split: handler_splits)

lemma keeps_task_child_completed [pres]: "preserves I (task_child_completed a b c)"
  by (auto simp: task_child_completed_def intro!: pres split: handler_splits)

lemma keeps_process_task [pres]: "preserves I (process_task a b c)"
  by (auto simp: process_task_def intro!: pres split: handler_splits)

lemma keeps_task_after_completing [pres]: "preserves I (task_after_completing a b c)"
  by (auto simp: task_after_completing_def intro!: pres split: handler_splits)

lemma keeps_cancel_tasks [pres]: "preserves I (cancel_tasks a)"
  by (auto simp: cancel_tasks_def intro!: pres split: handler_splits)

lemma keeps_task_after_terminating [pres]: "preserves I (task_after_terminating a b)"
  by (auto simp: task_after_terminating_def intro!: pres split: handler_splits)

lemma keeps_catch_assign [pres]: "preserves I (catch_assign a b c d e)"
  by (auto simp: catch_assign_def intro!: pres split: handler_splits)

lemma keeps_task_on_failed [pres]: "preserves I (task_on_failed a b c)"
  by (auto simp: task_on_failed_def intro!: pres split: handler_splits)

lemma keeps_fanout_after_completing [pres]: "preserves I (fanout_after_completing a b c d e f)"
  by (auto simp: fanout_after_completing_def intro!: pres split: handler_splits)

lemma keeps_terminate_child_threads [pres]: "preserves I (terminate_child_threads a)"
  by (auto simp: terminate_child_threads_def intro!: pres split: handler_splits)

lemma keeps_fanout_after_terminating [pres]: "preserves I (fanout_after_terminating a)"
  by (auto simp: fanout_after_terminating_def intro!: pres split: handler_splits)

lemma keeps_parallel_after_completing [pres]: "preserves I (parallel_after_completing a b c)"
  by (auto simp: parallel_after_completing_def intro!: pres split: handler_splits)

lemma keeps_parallel_after_terminating [pres]: "preserves I (parallel_after_terminating a b)"
  by (auto simp: parallel_after_terminating_def intro!: pres split: handler_splits)

lemma keeps_parallel_process_input [pres]: "preserves I (parallel_process_input a b c d)"
  by (auto simp: parallel_process_input_def intro!: pres split: handler_splits)

lemma keeps_parallel_after_activated [pres]: "preserves I (parallel_after_activated a b)"
  by (auto simp: parallel_after_activated_def intro!: pres split: handler_splits)

lemma keeps_fail_parallel [pres]: "preserves I (fail_parallel a b)"
  by (auto simp: fail_parallel_def intro!: pres split: handler_splits)

lemma keeps_gather_branches [pres]: "preserves I (gather_branches a)"
  by (induction a rule: gather_branches.induct) (auto intro!: pres split: handler_splits)

lemma keeps_parallel_child_completed [pres]: "preserves I (parallel_child_completed a b)"
  by (auto simp: parallel_child_completed_def intro!: pres split: handler_splits)

lemma keeps_map_after_completing [pres]: "preserves I (map_after_completing a b c)"
  by (auto simp: map_after_completing_def intro!: pres split: handler_splits)

lemma keeps_map_after_terminating [pres]: "preserves I (map_after_terminating a b)"
  by (auto simp: map_after_terminating_def intro!: pres split: handler_splits)

lemma keeps_resolve_map_items [pres]: "preserves I (resolve_map_items a b c d)"
  by (auto simp: resolve_map_items_def intro!: pres split: handler_splits)

lemma keeps_resolve_max_concurrency [pres]: "preserves I (resolve_max_concurrency a b c)"
  by (auto simp: resolve_max_concurrency_def intro!: pres split: handler_splits)

lemma keeps_map_process_input [pres]: "preserves I (map_process_input a b c d)"
  by (auto simp: map_process_input_def intro!: pres split: handler_splits)

lemma keeps_map_after_activated [pres]: "preserves I (map_after_activated a b)"
  by (auto simp: map_after_activated_def intro!: pres split: handler_splits)

lemma keeps_fail_map [pres]: "preserves I (fail_map a b)"
  by (auto simp: fail_map_def intro!: pres split: handler_splits)

lemma keeps_map_child_completed [pres]: "preserves I (map_child_completed a b c d)"
  by (auto simp: map_child_completed_def intro!: pres split: handler_splits)

lemma keeps_state_process_input [pres]: "preserves I (state_process_input a b c d e)"
  by (cases a) (auto intro!: pres split: handler_splits)

lemma keeps_state_after_activated [pres]: "preserves I (state_after_activated a b c d)"
  by (cases a) (auto intro!: pres split: handler_splits)

lemma keeps_state_child_completed [pres]: "preserves I (state_child_completed a b c d)"
  by (cases a) (auto intro!: pres split: handler_splits)

lemma keeps_state_after_completing [pres]: "preserves I (state_after_completing a b c)"
  by (cases a) (auto intro!: pres split: handler_splits)

lemma keeps_state_after_terminating [pres]: "preserves I (state_after_terminating a b)"
  by (cases a) (auto intro!: pres split: handler_splits)

lemma keeps_state_on_failed [pres]: "preserves I (state_on_failed a b c)"
  by (cases a) (auto intro!: pres split: handler_splits)

lemma keeps_state_activate [pres]: "preserves I (state_activate a b c)"
  by (auto simp: state_activate_def intro!: pres split: handler_splits)

lemma keeps_state_complete [pres]: "preserves I (state_complete a b c d)"
  by (auto simp: state_complete_def intro!: pres split: handler_splits)

lemma keeps_state_terminate [pres]: "preserves I (state_terminate a b c d)"
  by (auto simp: state_terminate_def intro!: pres split: handler_splits)

lemma keeps_thread_machine [pres]: "preserves I (thread_machine a b)"
  by (auto simp: thread_machine_def intro!: pres split: handler_splits)

lemma keeps_state_of_machine [pres]: "preserves I (state_of_machine a b c)"
  by (auto simp: state_of_machine_def intro!: pres split: handler_splits)

lemma keeps_handle_activate_state [pres]: "preserves I (handle_activate_state a)"
  by (auto simp: handle_activate_state_def intro!: pres split: handler_splits)

lemma keeps_handle_complete_state [pres]: "preserves I (handle_complete_state a b)"
  by (auto simp: handle_complete_state_def intro!: pres split: handler_splits)

lemma keeps_resolve_and_terminate [pres]: "preserves I (resolve_and_terminate a b)"
  by (auto simp: resolve_and_terminate_def intro!: pres split: handler_splits)

lemma keeps_handle_terminate_state [pres]: "preserves I (handle_terminate_state a b)"
  by (auto simp: handle_terminate_state_def intro!: pres split: handler_splits)

end

section \<open>Threads and activities\<close>

locale element_invariant = state_invariant +
  assumes keeps_element_event [pres]: "group_of ev = ThreadGroup \<Longrightarrow> preserves I (append_event ev)"
begin

lemma keeps_activity_open [pres]: "preserves I (activity_open a)"
  by (auto simp: activity_open_def intro!: pres split: handler_splits)

lemma keeps_state_of [pres]: "preserves I (state_of a)"
  by (auto simp: state_of_def intro!: pres split: handler_splits)

lemma keeps_activity_on_deadline_fired [pres]: "preserves I (activity_on_deadline_fired a b)"
  by (auto simp: activity_on_deadline_fired_def intro!: pres split: handler_splits)

lemma keeps_hand_to_state [pres]: "preserves I (hand_to_state a b c d e)"
  by (auto simp: hand_to_state_def intro!: pres split: handler_splits)

lemma keeps_settle_child [pres]: "preserves I (settle_child a b c d e)"
  by (auto simp: settle_child_def intro!: pres split: handler_splits)

lemma keeps_activity_after_child_completed [pres]: "preserves I (activity_after_child_completed a b)"
  by (auto simp: activity_after_child_completed_def intro!: pres split: handler_splits)

lemma keeps_activity_after_child_terminated [pres]: "preserves I (activity_after_child_terminated a b)"
  by (auto simp: activity_after_child_terminated_def intro!: pres split: handler_splits)

lemma keeps_sweep_activity_children [pres]: "preserves I (sweep_activity_children a)"
  by (auto simp: sweep_activity_children_def intro!: pres split: handler_splits)

lemma keeps_activity_continue_terminate [pres]: "preserves I (activity_continue_terminate a)"
  by (auto simp: activity_continue_terminate_def intro!: pres split: handler_splits)

lemma keeps_activity_continue_complete [pres]: "preserves I (activity_continue_complete a)"
  by (auto simp: activity_continue_complete_def intro!: pres split: handler_splits)

lemma keeps_owner_open [pres]: "preserves I (owner_open a)"
  by (auto simp: owner_open_def intro!: pres split: handler_splits)

lemma keeps_owner_child_completed [pres]: "preserves I (owner_child_completed a b)"
  by (auto simp: owner_child_completed_def intro!: pres split: handler_splits)

lemma keeps_owner_child_terminated [pres]: "preserves I (owner_child_terminated a b)"
  by (auto simp: owner_child_terminated_def intro!: pres split: handler_splits)

lemma keeps_terminate_activities [pres]: "preserves I (terminate_activities a)"
  by (auto simp: terminate_activities_def intro!: pres split: handler_splits)

lemma keeps_thread_terminate [pres]: "preserves I (thread_terminate a b)"
  by (auto simp: thread_terminate_def intro!: pres split: handler_splits)

lemma keeps_thread_complete [pres]: "preserves I (thread_complete a b)"
  by (auto simp: thread_complete_def intro!: pres split: handler_splits)

lemma keeps_notify_owner [pres]: "preserves I b \<Longrightarrow> preserves I (notify_owner a b)"
  by (auto simp: notify_owner_def intro!: pres split: handler_splits)

lemma keeps_thread_continue_terminate [pres]: "preserves I (thread_continue_terminate a)"
  by (auto simp: thread_continue_terminate_def intro!: pres split: handler_splits)

lemma keeps_thread_continue_complete [pres]: "preserves I (thread_continue_complete a)"
  by (auto simp: thread_continue_complete_def intro!: pres split: handler_splits)

lemma keeps_thread_spawn [pres]: "preserves I (thread_spawn a)"
  by (auto simp: thread_spawn_def intro!: pres split: handler_splits)

lemma keeps_terminate_root_threads [pres]: "preserves I (terminate_root_threads a)"
  by (auto simp: terminate_root_threads_def intro!: pres split: handler_splits)

lemma keeps_execution_deadline [pres]: "preserves I (execution_deadline a)"
  by (auto simp: execution_deadline_def intro!: pres split: handler_splits)

lemma keeps_fire_deadline [pres]: "preserves I (fire_deadline a b)"
  by (auto simp: fire_deadline_def intro!: pres split: handler_splits)

end

section \<open>Tasks\<close>

locale task_invariant = element_invariant +
  assumes keeps_task_event [pres]: "group_of ev = TaskGroup \<Longrightarrow> preserves I (append_event ev)"
begin

lemma keeps_task_activate [pres]: "preserves I (task_activate a)"
  by (auto simp: task_activate_def intro!: pres split: handler_splits)

lemma keeps_task_complete [pres]: "preserves I (task_complete a b c d)"
  by (auto simp: task_complete_def intro!: pres split: handler_splits)

lemma keeps_task_fail [pres]: "preserves I (task_fail a b c)"
  by (auto simp: task_fail_def intro!: pres split: handler_splits)

lemma keeps_task_cancel [pres]: "preserves I (task_cancel a)"
  by (auto simp: task_cancel_def intro!: pres split: handler_splits)

lemma keeps_task_claim_all [pres]: "preserves I (task_claim_all a)"
  by (auto simp: task_claim_all_def intro!: pres split: handler_splits)

end

section \<open>Executions and flows\<close>

locale root_invariant = element_invariant +
  assumes keeps_root_event: "group_of ev = RootGroup \<Longrightarrow> preserves I (append_event ev)"
begin

lemma keeps_thread_or_root_event [pres]:
  "group_of ev = ThreadGroup \<or> group_of ev = RootGroup \<Longrightarrow> preserves I (append_event ev)"
  using keeps_element_event keeps_root_event by blast

lemma keeps_execution_terminate [pres]: "preserves I (execution_terminate a b c)"
  by (auto simp: execution_terminate_def intro!: pres split: handler_splits)

lemma keeps_execution_complete [pres]: "preserves I (execution_complete a b)"
  by (auto simp: execution_complete_def intro!: pres split: handler_splits)

lemma keeps_execution_continue_terminate [pres]: "preserves I (execution_continue_terminate a)"
  by (auto simp: execution_continue_terminate_def intro!: pres split: handler_splits)

lemma keeps_execution_continue_complete [pres]: "preserves I (execution_continue_complete a)"
  by (auto simp: execution_continue_complete_def intro!: pres split: handler_splits)

lemma keeps_execution_create [pres]: "preserves I (execution_create a b c d)"
  by (auto simp: execution_create_def intro!: pres split: handler_splits)

lemma keeps_flow_create [pres]: "preserves I (flow_create a b c)"
  by (auto simp: flow_create_def intro!: pres split: handler_splits)

lemma keeps_handle_continue_complete [pres]: "preserves I (handle_continue_complete a)"
  by (auto simp: handle_continue_complete_def intro!: pres split: handler_splits)

lemma keeps_handle_continue_terminate [pres]: "preserves I (handle_continue_terminate a)"
  by (auto simp: handle_continue_terminate_def intro!: pres split: handler_splits)

end

section \<open>The dispatch\<close>

locale handler_invariant = task_invariant + root_invariant
begin

lemma keeps_event [pres]: "preserves I (append_event ev)"
  using keeps_state_event keeps_element_event keeps_task_event keeps_root_event by (cases "group_of ev") auto

lemma keeps_dispatch_command [pres]: "preserves I (dispatch_command a)"
  by (cases a) (auto intro!: pres split: handler_splits)

end

end
