(* ===== verification/Projections.thy ===== *)
theory Projections
  imports Appliers
begin

text \<open>
  What the event projections of \<open>src/crates/engine/src/applier\<close> keep, for every event at once: they
  do not depend on the counter of generated names (so a node that replays events agrees with the one
  that produced them up to that counter), they never lower it, they keep every row under its own name,
  and they keep the counter above every generated name in use.
\<close>

section \<open>Reads across a bump of the counter\<close>

lemma bump_reads [simp, row_simps]:
  "get_execution (bump_generated_seq n t) r = get_execution t r"
  "get_thread (bump_generated_seq n t) r = get_thread t r"
  "get_variables (bump_generated_seq n t) r = get_variables t r"
  "get_activity (bump_generated_seq n t) r = get_activity t r"
  "get_task (bump_generated_seq n t) r = get_task t r"
  "get_flow_by_name (bump_generated_seq n t) f = get_flow_by_name t f"
  "get_flow_version (bump_generated_seq n t) r = get_flow_version t r"
  "get_children (bump_generated_seq n t) p = get_children t p"
  by (simp_all add: bump_generated_seq_def split: option.split)

lemma bump_seq [simp]:
  "get_next_generated_seq (bump_generated_seq n t) =
     (case suffix n of None \<Rightarrow> get_next_generated_seq t | Some k \<Rightarrow> max (get_next_generated_seq t) (k + 1))"
  by (simp add: bump_generated_seq_def split: option.split)

section \<open>Independence of the name counter\<close>

definition db_noseq :: "in_memory_db \<Rightarrow> in_memory_db" where
  "db_noseq db = db \<lparr> d_next_generated_seq := 0 \<rparr>"

definition noseq :: "txn \<Rightarrow> txn" where
  "noseq t = \<lparr> x_db = db_noseq (x_db t), x_batch = x_batch t \<lparr> b_next_generated_seq := None \<rparr> \<rparr>"

lemma noseq_reads [simp]:
  "get_execution (noseq t) r = get_execution t r"
  "get_thread (noseq t) r = get_thread t r"
  "get_variables (noseq t) r = get_variables t r"
  "get_activity (noseq t) r = get_activity t r"
  "get_task (noseq t) r = get_task t r"
  "get_flow_by_name (noseq t) n = get_flow_by_name t n"
  "get_flow_version (noseq t) r = get_flow_version t r"
  by (simp_all add: noseq_def db_noseq_def get_execution_def get_thread_def get_variables_def
      get_activity_def get_task_def get_flow_by_name_def get_flow_version_def cong: option.case_cong)

lemma noseq_writes [simp]:
  "noseq (put_execution e (noseq t)) = noseq (put_execution e t)"
  "noseq (put_thread th (noseq t)) = noseq (put_thread th t)"
  "noseq (put_variables vr v (noseq t)) = noseq (put_variables vr v t)"
  "noseq (put_activity a (noseq t)) = noseq (put_activity a t)"
  "noseq (put_task k (noseq t)) = noseq (put_task k t)"
  "noseq (put_flow_version fv (noseq t)) = noseq (put_flow_version fv t)"
  "noseq (add_child p c (noseq t)) = noseq (add_child p c t)"
  "noseq (remove_child p c (noseq t)) = noseq (remove_child p c t)"
  "noseq (put_next_generated_seq n t) = noseq t"
  "noseq (noseq t) = noseq t"
  by (simp_all add: noseq_def db_noseq_def put_execution_def put_thread_def put_variables_def
      put_activity_def put_task_def put_flow_version_def add_child_def remove_child_def
      put_next_generated_seq_def)

text \<open>Two transactions that differ in the counter only.\<close>

definition same_rows :: "txn \<Rightarrow> txn \<Rightarrow> bool" where
  "same_rows t u \<longleftrightarrow> noseq t = noseq u"

lemma same_rows_refl [simp, intro]: "same_rows t t"
  by (simp add: same_rows_def)

lemma same_rows_sym: "same_rows t u \<Longrightarrow> same_rows u t"
  by (simp add: same_rows_def)

lemma same_rows_trans: "same_rows t u \<Longrightarrow> same_rows u v \<Longrightarrow> same_rows t v"
  by (simp add: same_rows_def)

lemma same_rows_reads:
  assumes "same_rows t u"
  shows "get_execution t r = get_execution u r" "get_thread t r = get_thread u r"
    "get_variables t r = get_variables u r" "get_activity t r = get_activity u r"
    "get_task t r = get_task u r" "get_flow_by_name t n = get_flow_by_name u n"
    "get_flow_version t r = get_flow_version u r"
  using assms noseq_reads unfolding same_rows_def by metis+

lemma same_rows_writes:
  assumes "same_rows t u"
  shows "same_rows (put_execution e t) (put_execution e u)"
    "same_rows (put_thread th t) (put_thread th u)"
    "same_rows (put_variables vr v t) (put_variables vr v u)"
    "same_rows (put_activity a t) (put_activity a u)"
    "same_rows (put_task k t) (put_task k u)"
    "same_rows (put_flow_version fv t) (put_flow_version fv u)"
    "same_rows (add_child p c t) (add_child p c u)"
    "same_rows (remove_child p c t) (remove_child p c u)"
    "same_rows (put_next_generated_seq m t) (put_next_generated_seq n u)"
  using assms noseq_writes unfolding same_rows_def by metis+

lemma same_rows_bump: "same_rows t u \<Longrightarrow> same_rows (bump_generated_seq n t) (bump_generated_seq n u)"
  by (auto simp: bump_generated_seq_def same_rows_writes split: option.split)

lemma rel_same_rows: "rel_option same_rows x y \<longleftrightarrow> map_option noseq x = map_option noseq y"
  by (cases x; cases y) (auto simp: same_rows_def)

lemma noseq_put_flow: "map_option noseq (put_flow f (noseq t)) = map_option noseq (put_flow f t)"
  by (simp add: put_flow_def noseq_def db_noseq_def split: option.split)

lemma same_rows_put_flow:
  "same_rows t u \<Longrightarrow> rel_option same_rows (put_flow f t) (put_flow f u)"
  unfolding rel_same_rows same_rows_def by (metis noseq_put_flow)

lemma same_rows_claim_one: "same_rows t u \<Longrightarrow> same_rows (claim_one ts k t) (claim_one ts k u)"
  by (auto simp: claim_one_def same_rows_reads same_rows_writes split: option.split)

lemma same_rows_claims:
  "same_rows t u \<Longrightarrow> same_rows (apply_tasks_claimed ts ks t) (apply_tasks_claimed ts ks u)"
  unfolding apply_tasks_claimed_def
  by (induction ks arbitrary: t u) (simp_all add: same_rows_claim_one)

lemmas projection_defs =
  apply_execution_created_def apply_execution_completing_def apply_execution_completed_def
  apply_execution_terminating_def apply_execution_terminated_def apply_flow_created_def
  apply_state_activating_def apply_state_activated_def
  apply_state_completing_def apply_state_completed_def apply_state_terminating_def
  apply_state_terminated_def apply_variables_assigned_def apply_state_transitioned_def
  apply_task_activated_def apply_task_completed_def apply_task_failed_def apply_task_cancelled_def
  apply_thread_completing_def apply_thread_completed_def
  apply_thread_terminating_def apply_thread_terminated_def

lemma same_rows_flow_version:
  assumes "same_rows t u"
  shows "rel_option same_rows (apply_flow_version_created ts v t) (apply_flow_version_created ts v u)"
  using assms
  by (auto simp: apply_flow_version_created_def Let_def same_rows_reads
      intro!: same_rows_put_flow same_rows_writes split: option.split)

lemma same_rows_thread_created:
  assumes "same_rows t u"
  shows "same_rows (apply_thread_created ts th t) (apply_thread_created ts th u)"
  using assms
  by (auto simp: apply_thread_created_def Let_def same_rows_reads
      intro!: same_rows_writes same_rows_bump split: option.split thread_owner.split)

text \<open>A projection of the same event keeps two such transactions alike.\<close>

lemma same_rows_dispatch:
  assumes "same_rows t u"
  shows "rel_option same_rows (dispatch_event ts ev t) (dispatch_event ts ev u)"
  using assms
  by (cases ev)
     (auto simp: projection_defs Let_def same_rows_reads same_rows_claims
       same_rows_flow_version same_rows_thread_created
       intro!: same_rows_writes same_rows_bump same_rows_put_flow
       split: option.split)

section \<open>Rows stand under their own name, below the counter\<close>

definition below :: "nat \<Rightarrow> object_name \<Rightarrow> bool" where
  "below n name = (case suffix name of None \<Rightarrow> True | Some k \<Rightarrow> k < n)"

definition rows_under :: "nat \<Rightarrow> txn \<Rightarrow> bool" where
  "rows_under n t \<longleftrightarrow>
     (\<forall>r e. get_execution t r = Some e \<longrightarrow> m_name (ex_meta e) = o_name r) \<and>
     (\<forall>r e. get_thread t r = Some e \<longrightarrow> m_name (th_meta e) = o_name r \<and> below n (o_name r)) \<and>
     (\<forall>r e. get_activity t r = Some e \<longrightarrow> m_name (ac_meta e) = o_name r \<and> below n (o_name r)) \<and>
     (\<forall>r e. get_task t r = Some e \<longrightarrow> m_name (tk_meta e) = o_name r \<and> below n (o_name r))"

definition wf_txn :: "txn \<Rightarrow> bool" where
  "wf_txn t = rows_under (get_next_generated_seq t) t"

lemma below_mono: "below n name \<Longrightarrow> n \<le> m \<Longrightarrow> below m name"
  by (auto simp: below_def split: option.splits)

lemma rows_under_mono: "rows_under n t \<Longrightarrow> n \<le> m \<Longrightarrow> rows_under m t"
  unfolding rows_under_def by (meson below_mono)

lemma rows_under_names:
  assumes "rows_under n t"
  shows "get_execution t r = Some e \<Longrightarrow> m_name (ex_meta e) = o_name r"
    "get_thread t r = Some th \<Longrightarrow> m_name (th_meta th) = o_name r"
    "get_thread t r = Some th \<Longrightarrow> below n (o_name r)"
    "get_activity t r = Some a \<Longrightarrow> m_name (ac_meta a) = o_name r"
    "get_activity t r = Some a \<Longrightarrow> below n (o_name r)"
    "get_task t r = Some k \<Longrightarrow> m_name (tk_meta k) = o_name r"
    "get_task t r = Some k \<Longrightarrow> below n (o_name r)"
  using assms by (auto simp: rows_under_def)

lemma rows_under_writes:
  assumes "rows_under n t"
  shows "rows_under n (put_execution e t)"
    "below n (m_name (th_meta th)) \<Longrightarrow> rows_under n (put_thread th t)"
    "below n (m_name (ac_meta a)) \<Longrightarrow> rows_under n (put_activity a t)"
    "below n (m_name (tk_meta k)) \<Longrightarrow> rows_under n (put_task k t)"
    "rows_under n (put_variables vr v t)"
    "rows_under n (put_flow_version fv t)"
    "rows_under n (add_child p c t)"
    "rows_under n (remove_child p c t)"
    "rows_under n (put_next_generated_seq m t)"
    "rows_under n (bump_generated_seq name t)"
  using assms by (auto simp: rows_under_def)

lemma put_flow_frame:
  assumes "put_flow f t = Some u"
  shows "get_execution u r = get_execution t r" "get_thread u r = get_thread t r"
    "get_activity u r = get_activity t r" "get_task u r = get_task t r"
    "get_next_generated_seq u = get_next_generated_seq t"
  using assms
  by (auto simp: put_flow_def get_execution_def get_thread_def get_activity_def get_task_def
      get_next_generated_seq_def split: option.splits cong: option.case_cong)

lemma rows_under_put_flow: "put_flow f t = Some u \<Longrightarrow> rows_under n t \<Longrightarrow> rows_under n u"
  by (auto simp: rows_under_def put_flow_frame)

lemma meta_update_name [simp]: "m_name (with_update_at ts m) = m_name m"
  by (simp add: with_update_at_def)

lemma ref_names [simp]:
  "o_name (ex_ref e) = m_name (ex_meta e)" "o_name (th_ref th) = m_name (th_meta th)"
  "o_name (ac_ref a) = m_name (ac_meta a)" "o_name (tk_ref k) = m_name (tk_meta k)"
  by (simp_all add: ex_ref_def th_ref_def ac_ref_def tk_ref_def meta_ref_def)

lemma rows_under_refs:
  assumes "rows_under n t"
  shows "get_thread t (th_ref th) = Some th' \<Longrightarrow> below n (m_name (th_meta th))"
    "get_activity t (ac_ref a) = Some a' \<Longrightarrow> below n (m_name (ac_meta a))"
    "get_task t (tk_ref k) = Some k' \<Longrightarrow> below n (m_name (tk_meta k))"
  using rows_under_names [OF assms] ref_names by metis+

lemma rows_under_claim_one: "rows_under n t \<Longrightarrow> rows_under n (claim_one ts k t)"
  by (auto simp: claim_one_def rows_under_names rows_under_refs intro!: rows_under_writes
      split: option.split)

lemma rows_under_claims: "rows_under n t \<Longrightarrow> rows_under n (apply_tasks_claimed ts ks t)"
  unfolding apply_tasks_claimed_def
  by (induction ks arbitrary: t) (simp_all add: rows_under_claim_one)

lemma seq_claims [simp]: "get_next_generated_seq (apply_tasks_claimed ts ks t) = get_next_generated_seq t"
  unfolding apply_tasks_claimed_def
  by (induction ks arbitrary: t) (simp_all add: claim_one_def split: option.split)

text \<open>No projection lowers the counter.\<close>

lemma dispatch_event_seq_mono:
  "dispatch_event ts ev t = Some u \<Longrightarrow> get_next_generated_seq t \<le> get_next_generated_seq u"
  by (cases ev)
     (auto simp: projection_defs apply_flow_version_created_def apply_thread_created_def Let_def
       put_flow_frame split: option.splits thread_owner.splits if_splits)

text \<open>The name of the row an event adds to the tables of generated names.\<close>

fun introduces :: "event \<Rightarrow> object_name option" where
  "introduces (ThreadCreated th) = Some (m_name (th_meta th))"
| "introduces (StateActivating a) = Some (m_name (ac_meta a))"
| "introduces (TaskActivated k) = Some (m_name (tk_meta k))"
| "introduces _ = None"

lemma rows_under_thread_created:
  assumes "rows_under n t" "below n (m_name (th_meta th))"
  shows "rows_under n (apply_thread_created ts th t)"
  using assms
  by (auto simp: apply_thread_created_def Let_def rows_under_names
      intro!: rows_under_writes split: option.split thread_owner.split)

lemma rows_under_flow_version:
  assumes "apply_flow_version_created ts v t = Some u" "rows_under n t"
  shows "rows_under n u"
  using assms
  by (auto simp: apply_flow_version_created_def Let_def elim!: rows_under_put_flow
      intro!: rows_under_writes split: option.splits)

lemma dispatch_event_rows_under:
  assumes "dispatch_event ts ev t = Some u" "rows_under n t"
    and "\<And>name. introduces ev = Some name \<Longrightarrow> below n name"
  shows "rows_under n u"
  using assms
  by (cases ev)
     (auto simp: projection_defs Let_def rows_under_names rows_under_refs rows_under_claims
       rows_under_flow_version rows_under_put_flow rows_under_thread_created
       intro!: rows_under_writes split: option.splits if_splits)

lemma dispatch_event_introduces:
  assumes "dispatch_event ts ev t = Some u" "introduces ev = Some name"
  shows "below (get_next_generated_seq u) name"
  using assms
  by (cases ev)
     (auto simp: projection_defs apply_thread_created_def Let_def below_def
       split: option.split thread_owner.split)

text \<open>Every projection keeps a transaction well formed.\<close>

lemma dispatch_event_wf:
  assumes "dispatch_event ts ev t = Some u" "wf_txn t"
  shows "wf_txn u"
  using assms dispatch_event_rows_under dispatch_event_introduces dispatch_event_seq_mono
    rows_under_mono unfolding wf_txn_def by metis

lemma replay_wf: "replay evs t = Some u \<Longrightarrow> wf_txn t \<Longrightarrow> wf_txn u"
  by (induction evs arbitrary: t) (auto split: option.splits, metis dispatch_event_wf)

text \<open>The counter names no row.\<close>

lemma wf_txn_fresh:
  assumes "wf_txn t" "get_next_generated_seq t \<le> k"
  shows "get_thread t (ORef (generated_from_key b k) u) = None"
    "get_activity t (ORef (generated_from_key b k) u) = None"
    "get_task t (ORef (generated_from_key b k) u) = None"
proof -
  have "\<not> below (get_next_generated_seq t) (generated_from_key b k)"
    using assms(2) by (simp add: below_def generated_from_key_def)
  then show "get_thread t (ORef (generated_from_key b k) u) = None"
    "get_activity t (ORef (generated_from_key b k) u) = None"
    "get_task t (ORef (generated_from_key b k) u) = None"
    using rows_under_names [OF assms(1) [unfolded wf_txn_def]] by (metis not_Some_eq oref.sel(1))+
qed

section \<open>Well-formed databases\<close>

definition wf_db :: "in_memory_db \<Rightarrow> bool" where
  "wf_db db = wf_txn (begin_txn db)"

lemma seq_begin [simp]: "get_next_generated_seq (begin_txn db) = d_next_generated_seq db"
  by (simp add: get_next_generated_seq_def begin_txn_def empty_batch_def)

lemma wf_empty_db: "wf_db empty_db"
  by (simp add: wf_db_def wf_txn_def rows_under_def executions.get_open threads.get_open
      activities.get_open tasks.get_open db_get_execution_def db_get_thread_def db_get_activity_def
      db_get_task_def empty_db_def)

lemma commit_seq: "get_next_generated_seq t \<le> d_next_generated_seq (commit w t)"
  by (simp add: get_next_generated_seq_def commit_def Let_def split: option.split)

lemma wf_commit: "wf_txn t \<Longrightarrow> wf_db (commit w t)"
  unfolding wf_db_def wf_txn_def
  by (rule rows_under_mono [of "get_next_generated_seq t"])
     (auto simp: rows_under_def executions.reopened threads.reopened activities.reopened
       tasks.reopened commit_seq)

section \<open>Replays on databases that agree on their rows\<close>

definition same_db :: "in_memory_db \<Rightarrow> in_memory_db \<Rightarrow> bool" where
  "same_db db db' \<longleftrightarrow> db_noseq db = db_noseq db'"

lemma same_db_refl [simp, intro]: "same_db db db"
  by (simp add: same_db_def)

lemma same_db_begin: "same_db db db' \<Longrightarrow> same_rows (begin_txn db) (begin_txn db')"
  by (simp add: same_db_def same_rows_def noseq_def begin_txn_def)

lemma same_db_watermark: "same_db db db' \<Longrightarrow> d_last_processed_position db = d_last_processed_position db'"
  unfolding same_db_def db_noseq_def
  by (metis in_memory_db.ext_inject in_memory_db.surjective in_memory_db.update_convs(9))

lemma commit_noseq: "db_noseq (commit w (noseq t)) = db_noseq (commit w t)"
  by (simp add: commit_def Let_def noseq_def db_noseq_def split: option.split)

lemma same_rows_commit: "same_rows t u \<Longrightarrow> same_db (commit w t) (commit w u)"
  unfolding same_rows_def same_db_def by (metis commit_noseq)

lemma same_rows_replay:
  "same_rows t u \<Longrightarrow> rel_option same_rows (replay evs t) (replay evs u)"
proof (induction evs arbitrary: t u)
  case (Cons x evs)
  obtain ts ev where x: "x = (ts, ev)" by (cases x)
  from same_rows_dispatch [OF Cons.prems, of ts ev] show ?case
    using Cons.IH by (auto simp: x option_rel_Some1 elim: option.rel_cases)
qed simp

section \<open>The database under a transaction\<close>

lemma writes_db [simp]:
  "x_db (put_execution e t) = x_db t" "x_db (put_thread th t) = x_db t"
  "x_db (put_variables vr v t) = x_db t" "x_db (put_activity a t) = x_db t"
  "x_db (put_task k t) = x_db t" "x_db (put_flow_version fv t) = x_db t"
  "x_db (put_next_generated_seq n t) = x_db t" "x_db (bump_generated_seq name t) = x_db t"
  by (simp_all add: put_execution_def put_thread_def put_variables_def put_activity_def put_task_def
      put_flow_version_def put_next_generated_seq_def bump_generated_seq_def split: option.split)

lemma put_flow_db: "put_flow f t = Some u \<Longrightarrow> x_db u = x_db t"
  by (auto simp: put_flow_def split: option.splits)

lemma claims_db [simp]: "x_db (apply_tasks_claimed ts ks t) = x_db t"
  unfolding apply_tasks_claimed_def
  by (induction ks arbitrary: t) (simp_all add: claim_one_def split: option.split)

text \<open>A projection writes to the batch only.\<close>

lemma dispatch_event_db: "dispatch_event ts ev t = Some u \<Longrightarrow> x_db u = x_db t"
  by (cases ev)
     (auto simp: projection_defs apply_flow_version_created_def apply_thread_created_def Let_def
       dest: put_flow_db split: option.splits thread_owner.splits if_splits)

end
