(* ===== verification/Leader.thy ===== *)
theory Leader
  imports Elements
begin

text \<open>
  The processing roles over the log: the leader (\<open>src/crates/engine/src/leader.rs\<close>), the follower
  (\<open>follower.rs\<close>) and the loops of \<open>stream_processor.rs\<close> that recover, lead and follow.

  A node is the leader's memory, the storage, the log, the position its stream reads next, and what
  it told the hook: the events applied and the rejections, in order. Cancellation of the loops and the
  sleep between attempts are not modelled. A transaction keeps the database it was begun on, since no
  other task writes to storage while one is open.
\<close>

section \<open>Leader\<close>

definition MAX_COMMAND_ATTEMPTS :: nat where
  "MAX_COMMAND_ATTEMPTS = 3"

text \<open>In milliseconds: \<open>50 << (attempt - 1)\<close>.\<close>

definition command_retry_backoff :: "nat \<Rightarrow> nat" where
  "command_retry_backoff attempt = 50 * 2 ^ (attempt - 1)"

record leader =
  l_env :: env
  l_definitions :: "oref \<rightharpoonup> state_machine"
  l_ticks :: nat
  l_mints :: nat
  l_watermark :: int
  l_last_applied :: "event list"

definition leader_new :: "env \<Rightarrow> leader" where
  "leader_new e = \<lparr> l_env = e, l_definitions = Map.empty, l_ticks = 0, l_mints = 0,
     l_watermark = 0, l_last_applied = [] \<rparr>"

definition set_resume_position :: "int \<Rightarrow> leader \<Rightarrow> leader" where
  "set_resume_position pos l = l \<lparr> l_watermark := pos \<rparr>"

text \<open>The state a handler starts in: a fresh transaction and an empty collector.\<close>

definition handler_start :: "int \<Rightarrow> leader \<Rightarrow> in_memory_db \<Rightarrow> pstate" where
  "handler_start cause l db =
     \<lparr> p_env = l_env l, p_definitions = l_definitions l, p_ticks = l_ticks l, p_mints = l_mints l,
       p_cause_id = cause, p_entries = [], p_work = begin_txn db \<rparr>"

text \<open>What a handler run leaves in the leader, whatever its outcome.\<close>

definition leader_after :: "pstate \<Rightarrow> leader \<Rightarrow> leader" where
  "leader_after s l = l \<lparr> l_definitions := p_definitions s, l_ticks := p_ticks s, l_mints := p_mints s \<rparr>"

fun event_of :: "entry_payload \<Rightarrow> event option" where
  "event_of (PEvent ev) = Some ev"
| "event_of _ = None"

fun reject_of :: "entry_payload \<Rightarrow> reject option" where
  "reject_of (PReject r) = Some r"
| "reject_of _ = None"

definition events_of :: "entry list \<Rightarrow> event list" where
  "events_of es = List.map_filter (\<lambda>e. event_of (en_payload e)) es"

definition rejects_of :: "entry list \<Rightarrow> reject list" where
  "rejects_of es = List.map_filter (\<lambda>e. reject_of (en_payload e)) es"

type_synonym command_processed = "entry list \<times> txn"

definition dispatch_once ::
  "int \<Rightarrow> command \<Rightarrow> in_memory_db \<Rightarrow> leader \<Rightarrow> (processing_error, command_processed) outcome \<times> leader" where
  "dispatch_once entry_id c db l =
     (case dispatch_command c (handler_start entry_id l db) of
        (Done (), s) \<Rightarrow>
          if p_entries s = []
          then (Panicked ''dispatch produced no entry'', leader_after s l)
          else (Done (p_entries s, p_work s),
                (leader_after s l) \<lparr> l_last_applied := events_of (p_entries s) \<rparr>)
      | (Err e, s) \<Rightarrow> (Err e, leader_after s l)
      | (Panicked w, s) \<Rightarrow> (Panicked w, leader_after s l))"

fun is_unexpected :: "processing_error \<Rightarrow> bool" where
  "is_unexpected (Unexpected _) = True"
| "is_unexpected (Rejected _ _) = False"

definition reject_command ::
  "int \<Rightarrow> command \<Rightarrow> in_memory_db \<Rightarrow> processing_error \<Rightarrow> leader \<Rightarrow> command_processed \<times> leader" where
  "reject_command entry_id c db err l =
     (let (ty, why) = (case err of
            Rejected ty why \<Rightarrow> (ty, why)
          | Unexpected _ \<Rightarrow> (ProcessingError, ''dispatch failed on all attempts''));
          rid = (case command_request_id c of Some r \<Rightarrow> r | None \<Rightarrow> 0);
          entry = \<lparr> en_stream_id = nil_id, en_entry_id = nil_id, en_cause_id = Some entry_id,
                    en_timestamp = e_clock (l_env l) (l_ticks l),
                    en_payload = PReject \<lparr> rj_request_id = rid, rj_type = ty, rj_reason = why \<rparr> \<rparr>
      in (([entry], begin_txn db), l \<lparr> l_ticks := Suc (l_ticks l) \<rparr>))"

text \<open>The loop of \<open>process_command\<close> over any attempt: an unexpected error is tried again while the
  attempt is below the maximum.\<close>

function retry_attempts ::
  "nat \<Rightarrow> ('l \<Rightarrow> (processing_error, 'a) outcome \<times> 'l) \<Rightarrow> 'l \<Rightarrow> (processing_error, 'a) outcome \<times> 'l" where
  "retry_attempts attempt once l =
     (case once l of
        (Err e, l') \<Rightarrow>
          if is_unexpected e \<and> attempt < MAX_COMMAND_ATTEMPTS
          then retry_attempts (attempt + 1) once l'
          else (Err e, l')
      | r \<Rightarrow> r)"
  by pat_completeness auto

termination
  by (relation "measure (\<lambda>(attempt, _, _). MAX_COMMAND_ATTEMPTS - attempt)") auto

declare retry_attempts.simps [simp del]

definition process_command ::
  "int \<Rightarrow> command \<Rightarrow> in_memory_db \<Rightarrow> leader \<Rightarrow> (unit, command_processed) outcome \<times> leader" where
  "process_command entry_id c db l =
     (case retry_attempts 1 (dispatch_once entry_id c db) l of
        (Done r, l') \<Rightarrow> (Done r, l')
      | (Err e, l') \<Rightarrow> (case reject_command entry_id c db e l' of (r, l'') \<Rightarrow> (Done r, l''))
      | (Panicked w, l') \<Rightarrow> (Panicked w, l'))"

definition is_already_applied :: "int \<Rightarrow> leader \<Rightarrow> bool" where
  "is_already_applied entry_id l \<longleftrightarrow> entry_id \<le> l_watermark l"

section \<open>The leader's loop\<close>

record node =
  n_leader :: leader
  n_db :: in_memory_db
  n_log :: log_stream
  n_pos :: int
  n_applied :: "event list"
  n_rejected :: "reject list"

definition noop_of :: "timestamp \<Rightarrow> int \<Rightarrow> entry" where
  "noop_of t cause = \<lparr> en_stream_id = nil_id, en_entry_id = nil_id, en_cause_id = Some cause,
     en_timestamp = t, en_payload = PNoop \<rparr>"

text \<open>What the loop does with the entries of a processed command: append them with a closing \<open>Noop\<close>,
  commit at the last position, tell the hook.\<close>

definition settle_command :: "int \<Rightarrow> command_processed \<Rightarrow> leader \<Rightarrow> node \<Rightarrow> node" where
  "settle_command entry_id r l n =
     (case r of (es, work) \<Rightarrow>
      if es = [] then n \<lparr> n_leader := l \<rparr>
      else
        let t = e_clock (l_env l) (l_ticks l);
            l1 = l \<lparr> l_ticks := Suc (l_ticks l) \<rparr>;
            (last_id, log') = log_append (es @ [noop_of t entry_id]) (n_log n)
        in n \<lparr> n_leader := (set_resume_position last_id l1) \<lparr> l_last_applied := [] \<rparr>,
               n_db := commit (Some last_id) work,
               n_log := log',
               n_applied := n_applied n @ l_last_applied l1,
               n_rejected := n_rejected n @ rejects_of es \<rparr>)"

text \<open>One turn of \<open>run_leader\<close> on an entry. \<open>None\<close> is a panic.\<close>

definition leader_entry :: "entry \<Rightarrow> node \<Rightarrow> node option" where
  "leader_entry e n =
     (case en_payload e of
        PCommand c \<Rightarrow>
          (case process_command (en_entry_id e) c (n_db n) (n_leader n) of
             (Done r, l) \<Rightarrow> Some (settle_command (en_entry_id e) r l n)
           | _ \<Rightarrow> None)
      | PEvent _ \<Rightarrow>
          if e_debug_assertions (l_env (n_leader n)) \<and> \<not> is_already_applied (en_entry_id e) (n_leader n)
          then None else Some n
      | PNoop \<Rightarrow> Some n
      | PReject _ \<Rightarrow> Some n)"

text \<open>One step of the leader: read the next entry, if there is one, and process it.\<close>

inductive leader_step :: "node \<Rightarrow> node \<Rightarrow> bool" where
  "log_read (n_log n) (n_pos n) = Some e \<Longrightarrow> leader_entry e n = Some n' \<Longrightarrow>
   leader_step n (n' \<lparr> n_pos := n_pos n + 1 \<rparr>)"

text \<open>The same as a function with fuel: a run of at most that many entries.\<close>

fun run_leader :: "nat \<Rightarrow> node \<Rightarrow> node option" where
  "run_leader 0 n = Some n"
| "run_leader (Suc fuel) n =
     (case log_read (n_log n) (n_pos n) of
        None \<Rightarrow> Some n
      | Some e \<Rightarrow>
          (case leader_entry e n of
             None \<Rightarrow> None
           | Some n' \<Rightarrow> run_leader fuel (n' \<lparr> n_pos := n_pos n + 1 \<rparr>)))"

section \<open>Recovery and following\<close>

text \<open>\<open>Leader::apply_event\<close>: the fold, and what it leaves in the leader. \<open>None\<close> is a panic of a
  projection.\<close>

definition leader_apply_event ::
  "txn \<Rightarrow> timestamp \<Rightarrow> int option \<Rightarrow> event \<Rightarrow> leader \<Rightarrow> (txn \<times> leader) option" where
  "leader_apply_event t ts cause ev l =
     map_option (\<lambda>t'. (t', l \<lparr> l_watermark := (case cause of
                               Some c \<Rightarrow> if c > l_watermark l then c else l_watermark l
                             | None \<Rightarrow> l_watermark l),
                           l_last_applied := [ev] \<rparr>))
       (dispatch_event ts ev t)"

definition open_batch :: "txn option \<Rightarrow> in_memory_db \<Rightarrow> txn" where
  "open_batch inflight db = (case inflight of Some t \<Rightarrow> t | None \<Rightarrow> begin_txn db)"

text \<open>The loop of \<open>recover_leader\<close> over the durable entries above the watermark, with the in-flight
  transaction.\<close>

fun recover_entries ::
  "entry list \<Rightarrow> txn option \<Rightarrow> leader \<Rightarrow> in_memory_db \<Rightarrow> (leader \<times> in_memory_db) option" where
  "recover_entries [] inflight l db = Some (l, db)"
| "recover_entries (e # es) inflight l db =
     (case en_payload e of
        PCommand _ \<Rightarrow> recover_entries es inflight l db
      | PEvent ev \<Rightarrow>
          (case leader_apply_event (open_batch inflight db) (en_timestamp e) (en_cause_id e) ev l of
             None \<Rightarrow> None
           | Some (t, l') \<Rightarrow> recover_entries es (Some t) l' db)
      | PNoop \<Rightarrow>
          (case inflight of
             None \<Rightarrow> recover_entries es None l db
           | Some t \<Rightarrow> recover_entries es None l (commit (Some (en_entry_id e)) t))
      | PReject _ \<Rightarrow> recover_entries es inflight l db)"

definition recover_leader ::
  "log_stream \<Rightarrow> int \<Rightarrow> leader \<Rightarrow> in_memory_db \<Rightarrow> (int \<times> leader \<times> in_memory_db) option" where
  "recover_leader lg watermark l db =
     (case recover_entries (log_stream_read lg (watermark + 1)) None l db of
        None \<Rightarrow> None
      | Some (l', db') \<Rightarrow> Some (d_last_processed_position db', l', db'))"

text \<open>\<open>StreamProcessor::run\<close> in the leader role: recover, then read from the position after the
  recovered watermark.\<close>

definition start_leader :: "env \<Rightarrow> log_stream \<Rightarrow> in_memory_db \<Rightarrow> node option" where
  "start_leader e lg db =
     (let watermark = d_last_processed_position db in
      case recover_leader lg watermark (set_resume_position watermark (leader_new e)) db of
        None \<Rightarrow> None
      | Some (w, l, db') \<Rightarrow>
          Some \<lparr> n_leader = set_resume_position w l, n_db = db', n_log = lg, n_pos = w + 1,
                 n_applied = [], n_rejected = [] \<rparr>)"

text \<open>The follower's loop. Its memory is a watermark only.\<close>

fun follow_entries ::
  "entry list \<Rightarrow> txn option \<Rightarrow> int \<Rightarrow> in_memory_db \<Rightarrow> (txn option \<times> int \<times> in_memory_db) option" where
  "follow_entries [] inflight w db = Some (inflight, w, db)"
| "follow_entries (e # es) inflight w db =
     (case en_payload e of
        PCommand _ \<Rightarrow> follow_entries es inflight w db
      | PEvent ev \<Rightarrow>
          (case dispatch_event (en_timestamp e) ev (open_batch inflight db) of
             None \<Rightarrow> None
           | Some t \<Rightarrow> follow_entries es (Some t) w db)
      | PNoop \<Rightarrow>
          (case inflight of
             None \<Rightarrow> follow_entries es None w db
           | Some t \<Rightarrow> follow_entries es None (en_entry_id e) (commit (Some (en_entry_id e)) t))
      | PReject _ \<Rightarrow> follow_entries es inflight w db)"

definition run_follower ::
  "log_stream \<Rightarrow> in_memory_db \<Rightarrow> (txn option \<times> int \<times> in_memory_db) option" where
  "run_follower lg db =
     (let watermark = d_last_processed_position db in
      follow_entries (log_stream_read lg (watermark + 1)) None watermark db)"

end
