(* ===== verification/Dispatch.thy ===== *)
theory Dispatch
  imports Invariance Projections Leader
begin

text \<open>
  The four contracts every command keeps, as interpretations of \<open>handler_invariant\<close>: the working
  transaction is the replay of the events emitted so far, it stays well formed, the counter of
  generated names never goes back, and the entries emitted are only added to, each naming the command
  as its cause.
\<close>

section \<open>The primitives, run\<close>

lemmas run_defs = bnd_def seq_def gets_def modify_def ret_def

lemma run_now: "now s = (Done (e_clock (p_env s) (p_ticks s)), s \<lparr> p_ticks := Suc (p_ticks s) \<rparr>)"
  by (simp add: now_def run_defs)

lemma run_mint: "mint s = (Done (e_ids (p_env s) (p_mints s)), s \<lparr> p_mints := Suc (p_mints s) \<rparr>)"
  by (simp add: mint_def run_defs)

lemma run_next_generated_seq:
  "next_generated_seq s = (Done (get_next_generated_seq (p_work s)),
     s \<lparr> p_work := put_next_generated_seq (get_next_generated_seq (p_work s) + 1) (p_work s) \<rparr>)"
  by (simp add: next_generated_seq_def run_defs)

text \<open>The entry the collector builds, and the state after its clock reading.\<close>

definition built :: "entry_payload \<Rightarrow> pstate \<Rightarrow> entry" where
  "built payload s = \<lparr> en_stream_id = nil_id, en_entry_id = nil_id, en_cause_id = Some (p_cause_id s),
     en_timestamp = e_clock (p_env s) (p_ticks s), en_payload = payload \<rparr>"

definition pushed :: "entry_payload \<Rightarrow> pstate \<Rightarrow> pstate" where
  "pushed payload s = s \<lparr> p_ticks := Suc (p_ticks s), p_entries := p_entries s @ [built payload s] \<rparr>"

lemma run_append_command: "append_command c s = (Done (), pushed (PCommand c) s)"
  by (simp add: append_command_def build_entry_def push_entry_def run_now run_defs pushed_def built_def)

lemma run_append_reject:
  "append_reject rid ty why s =
     (Done (), pushed (PReject \<lparr> rj_request_id = rid, rj_type = ty, rj_reason = why \<rparr>) s)"
  by (simp add: append_reject_def build_entry_def push_entry_def run_now run_defs pushed_def built_def)

lemma run_append_event:
  "append_event ev s =
     (case dispatch_event (e_clock (p_env s) (p_ticks s)) ev (p_work s) of
        None \<Rightarrow> (Panicked ''a Flow name is a user plain name, never a generated one'',
                 s \<lparr> p_ticks := Suc (p_ticks s) \<rparr>)
      | Some w \<Rightarrow> (Done (), (pushed (PEvent ev) s) \<lparr> p_work := w \<rparr>))"
  by (simp add: append_event_def build_entry_def apply_projection_def push_entry_def run_now run_defs
      panic_def pushed_def built_def split: option.split)

lemmas run_primitives = run_now run_mint run_next_generated_seq run_append_command
  run_append_reject run_append_event

text \<open>What an interpretation has to show, on states.\<close>

definition keeps_steps :: "(pstate \<Rightarrow> bool) \<Rightarrow> bool" where
  "keeps_steps I \<longleftrightarrow> (\<forall>s. I s \<longrightarrow>
     I (s \<lparr> p_ticks := Suc (p_ticks s) \<rparr>) \<and> I (s \<lparr> p_mints := Suc (p_mints s) \<rparr>)
     \<and> I (s \<lparr> p_work := put_next_generated_seq (Suc (get_next_generated_seq (p_work s))) (p_work s) \<rparr>)
     \<and> (\<forall>defs. I (s \<lparr> p_definitions := defs \<rparr>))
     \<and> (\<forall>c. I (pushed (PCommand c) s)) \<and> (\<forall>rj. I (pushed (PReject rj) s)))"

definition keeps_projection :: "(pstate \<Rightarrow> bool) \<Rightarrow> event \<Rightarrow> bool" where
  "keeps_projection I ev \<longleftrightarrow>
     (\<forall>s w. I s \<longrightarrow> dispatch_event (e_clock (p_env s) (p_ticks s)) ev (p_work s) = Some w \<longrightarrow>
        I ((pushed (PEvent ev) s) \<lparr> p_work := w \<rparr>))"

lemma keeps_projectionI:
  assumes "\<And>s w. I s \<Longrightarrow> dispatch_event (e_clock (p_env s) (p_ticks s)) ev (p_work s) = Some w \<Longrightarrow>
      I ((pushed (PEvent ev) s) \<lparr> p_work := w \<rparr>)"
  shows "keeps_projection I ev"
  using assms by (simp add: keeps_projection_def)

lemma append_event_preserves:
  "keeps_steps I \<Longrightarrow> keeps_projection I ev \<Longrightarrow> preserves I (append_event ev)"
  by (auto simp: preserves_def run_primitives keeps_steps_def keeps_projection_def split: option.split)

lemma context_invariantI: "keeps_steps I \<Longrightarrow> context_invariant I"
  by unfold_locales (auto simp: preserves_def run_primitives modify_def keeps_steps_def)

lemma task_invariantI:
  assumes "keeps_steps I" "\<And>ev. group_of ev \<noteq> RootGroup \<Longrightarrow> keeps_projection I ev"
  shows "task_invariant I"
  using assms context_invariantI [OF assms(1)]
  by (auto simp: task_invariant_def task_invariant_axioms_def element_invariant_def
      element_invariant_axioms_def state_invariant_def state_invariant_axioms_def append_event_preserves)

lemma root_invariantI:
  assumes "keeps_steps I" "\<And>ev. group_of ev \<noteq> TaskGroup \<Longrightarrow> keeps_projection I ev"
  shows "root_invariant I"
  using assms context_invariantI [OF assms(1)]
  by (auto simp: root_invariant_def root_invariant_axioms_def element_invariant_def
      element_invariant_axioms_def state_invariant_def state_invariant_axioms_def append_event_preserves)

lemma handler_invariantI:
  assumes "keeps_steps I" "\<And>ev. keeps_projection I ev"
  shows "handler_invariant I"
  using task_invariantI [of I] root_invariantI [of I] assms by (simp add: handler_invariant_def)

section \<open>The working transaction replays the events\<close>

definition timed_events :: "entry list \<Rightarrow> (timestamp \<times> event) list" where
  "timed_events es =
     List.map_filter (\<lambda>e. map_option (\<lambda>ev. (en_timestamp e, ev)) (event_of (en_payload e))) es"

lemma timed_events_simps [simp]:
  "timed_events [] = []"
  "timed_events (es @ es') = timed_events es @ timed_events es'"
  "timed_events [built (PEvent ev) s] = [(e_clock (p_env s) (p_ticks s), ev)]"
  "timed_events [built (PCommand c) s] = []"
  "timed_events [built (PReject rj) s] = []"
  by (simp_all add: timed_events_def List.map_filter_def built_def)

definition replays_from :: "txn \<Rightarrow> pstate \<Rightarrow> bool" where
  "replays_from w0 s \<longleftrightarrow>
     (\<exists>t. replay (timed_events (p_entries s)) w0 = Some t \<and> same_rows t (p_work s))"

lemma replays_from_event:
  assumes "replays_from w0 s" "dispatch_event (e_clock (p_env s) (p_ticks s)) ev (p_work s) = Some w"
  shows "replays_from w0 ((pushed (PEvent ev) s) \<lparr> p_work := w \<rparr>)"
proof -
  obtain t where t: "replay (timed_events (p_entries s)) w0 = Some t" "same_rows t (p_work s)"
    using assms(1) by (auto simp: replays_from_def)
  obtain t' where "dispatch_event (e_clock (p_env s) (p_ticks s)) ev t = Some t'" "same_rows t' w"
    using same_rows_dispatch [OF t(2), of "e_clock (p_env s) (p_ticks s)" ev] assms(2)
    by (auto simp: option_rel_Some2)
  then show ?thesis using t(1) by (auto simp: replays_from_def pushed_def replay_append)
qed

interpretation replays: handler_invariant "replays_from w0" for w0
proof (rule handler_invariantI)
  show "keeps_steps (replays_from w0)"
    by (auto simp: keeps_steps_def replays_from_def pushed_def same_rows_def)
qed (rule keeps_projectionI, rule replays_from_event)

section \<open>Well-formed transactions\<close>

definition wf_work :: "pstate \<Rightarrow> bool" where
  "wf_work s = wf_txn (p_work s)"

interpretation wf: handler_invariant wf_work
  by (rule handler_invariantI)
     (auto simp: keeps_steps_def wf_work_def pushed_def wf_txn_def rows_under_writes(9) rows_under_mono
       intro!: keeps_projectionI intro: dispatch_event_wf [unfolded wf_txn_def])

section \<open>The counter of generated names\<close>

definition seq_from :: "nat \<Rightarrow> pstate \<Rightarrow> bool" where
  "seq_from n s \<longleftrightarrow> n \<le> get_next_generated_seq (p_work s)"

interpretation seq: handler_invariant "seq_from n" for n
  by (rule handler_invariantI)
     (auto simp: keeps_steps_def seq_from_def pushed_def intro!: keeps_projectionI dest: dispatch_event_seq_mono)

section \<open>Entries\<close>

fun produced :: "entry_payload \<Rightarrow> bool" where
  "produced PNoop = False"
| "produced _ = True"

text \<open>The run continues \<open>s0\<close>: same environment and cause, the entries only added to, and every added
  entry is an event, a command or a reject caused by the command, placeholders in its positions.\<close>

definition continues :: "pstate \<Rightarrow> pstate \<Rightarrow> bool" where
  "continues s0 s \<longleftrightarrow> p_env s = p_env s0 \<and> p_cause_id s = p_cause_id s0 \<and>
     x_db (p_work s) = x_db (p_work s0) \<and> p_ticks s0 \<le> p_ticks s \<and>
     (\<exists>new. p_entries s = p_entries s0 @ new \<and>
        (\<forall>e \<in> set new. en_cause_id e = Some (p_cause_id s0) \<and> en_entry_id e = nil_id \<and>
           produced (en_payload e)))"

interpretation entries: handler_invariant "continues s0" for s0
  by (rule handler_invariantI)
     (auto simp: keeps_steps_def continues_def pushed_def built_def dispatch_event_db
       put_next_generated_seq_def intro!: keeps_projectionI)

end
