(* ===== verification/Emission.thy ===== *)
theory Emission
  imports Dispatch
begin

text \<open>
  An accepted command leaves an entry: an event, a follow-up command or a reject. \<open>Leader::dispatch_once\<close>
  asserts it; the lemmas below show that the assertion never fails, for a clause-by-clause calculus of
  \<open>emits\<close>. The one hypothesis is on the environment: iterating a set that has an element yields one.
\<close>

section \<open>Calculus\<close>

definition iter_ok :: "pstate \<Rightarrow> bool" where
  "iter_ok s \<longleftrightarrow> (\<forall>S. S \<noteq> {} \<longrightarrow> e_iter (p_env s) S \<noteq> [])"

definition has_entry :: "pstate \<Rightarrow> bool" where
  "has_entry s \<longleftrightarrow> p_entries s \<noteq> []"

definition emits :: "(pstate \<Rightarrow> bool) \<Rightarrow> 'a handler \<Rightarrow> bool" where
  "emits P m \<longleftrightarrow> (\<forall>s. P s \<longrightarrow> post m (\<lambda>_. has_entry) s)"

interpretation iter: handler_invariant iter_ok
  by (rule handler_invariantI) (simp_all add: keeps_steps_def keeps_projection_def iter_ok_def pushed_def)

interpretation entry: handler_invariant has_entry
  by (rule handler_invariantI) (simp_all add: keeps_steps_def keeps_projection_def has_entry_def pushed_def)

lemma emits_throw [simp]: "emits P (throw e)"
  by (simp add: emits_def)

lemma emits_panic [simp]: "emits P (panic w)"
  by (simp add: emits_def)

lemma emits_reject [simp]: "emits P (reject ty why)"
  by (simp add: reject_def)

lemma emits_unexpected [simp]: "emits P (unexpected e)"
  by (simp add: unexpected_def)

lemma emits_appends [simp]:
  "emits P (append_command c)" "emits P (append_reject rid ty why)" "emits P (append_event ev)"
  by (auto simp: emits_def post_def run_primitives has_entry_def pushed_def split: option.split)

lemma emits_first:
  assumes "emits P m" "\<And>x. preserves has_entry (f x)"
  shows "emits P (bnd m f)"
  unfolding emits_def post_bnd
proof (intro allI impI)
  fix s assume "P s"
  then have "post m (\<lambda>_. has_entry) s" using assms(1) by (simp add: emits_def)
  then show "post m (\<lambda>x. post (f x) (\<lambda>_. has_entry)) s"
    by (rule post_mono) (rule post_preserves [OF assms(2)])
qed

lemma emits_seq_first: "emits P m \<Longrightarrow> preserves has_entry n \<Longrightarrow> emits P (seq m n)"
  by (simp add: seq_def emits_first)

lemma emits_then:
  assumes "preserves P m" "\<And>x. emits P (f x)"
  shows "emits P (bnd m f)"
  unfolding emits_def post_bnd
proof (intro allI impI)
  fix s assume "P s"
  then have "post m (\<lambda>_. P) s" by (rule post_preserves [OF assms(1)])
  then show "post m (\<lambda>x. post (f x) (\<lambda>_. has_entry)) s"
    by (rule post_mono) (use assms(2) in \<open>simp add: emits_def\<close>)
qed

lemma emits_knowing:
  assumes "preserves P m" "\<And>s. post m Q s" "\<And>x. emits (\<lambda>s. P s \<and> Q x s) (f x)"
  shows "emits P (bnd m f)"
  unfolding emits_def post_bnd
proof (intro allI impI postI)
  fix s x s' y s''
  assume "P s" "m s = (Done x, s')" "f x s' = (Done y, s'')"
  then show "has_entry s''"
    using assms(3) [of x] postD [OF assms(2)] preservesD [OF assms(1)]
    by (fastforce simp: emits_def dest: postD)
qed

lemma emits_seq_then: "preserves P m \<Longrightarrow> emits P n \<Longrightarrow> emits P (seq m n)"
  by (simp add: seq_def emits_then)

lemma emits_weaken: "emits P m \<Longrightarrow> (\<And>s. Q s \<Longrightarrow> P s) \<Longrightarrow> emits Q m"
  by (auto simp: emits_def)

lemma emits_read_children:
  assumes "\<And>S. emits (\<lambda>s. P s \<and> get_children (p_work s) p = S) (f S)"
  shows "emits P (bnd (read_children p) f)"
  using assms by (simp add: emits_def read_children_def)

lemma emits_iterate:
  assumes "S \<noteq> {}" "\<And>s. P s \<Longrightarrow> iter_ok s" "\<And>cs. cs \<noteq> [] \<Longrightarrow> emits P (f cs)"
  shows "emits P (bnd (iterate_set S) f)"
  using assms by (auto simp: emits_def iterate_set_def iter_ok_def)

lemma emits_each:
  assumes "xs \<noteq> []" "\<And>x. emits P (f x)" "\<And>x. preserves has_entry (f x)"
  shows "emits P (each f xs)"
  using assms by (cases xs) (auto intro!: emits_seq_first pres)

lemma emits_option:
  "(x = None \<Longrightarrow> emits P m) \<Longrightarrow> (\<And>y. x = Some y \<Longrightarrow> emits P (f y)) \<Longrightarrow>
   emits P (case x of None \<Rightarrow> m | Some y \<Rightarrow> f y)"
  by (cases x) auto

lemma emits_sum:
  "(\<And>y. x = Inl y \<Longrightarrow> emits P (f y)) \<Longrightarrow> (\<And>y. x = Inr y \<Longrightarrow> emits P (g y)) \<Longrightarrow>
   emits P (case x of Inl y \<Rightarrow> f y | Inr y \<Rightarrow> g y)"
  by (cases x) auto

lemma emits_prod: "(\<And>a b. x = (a, b) \<Longrightarrow> emits P (f a b)) \<Longrightarrow> emits P (case x of (a, b) \<Rightarrow> f a b)"
  by (cases x) auto

lemma emits_if: "(b \<Longrightarrow> emits P m) \<Longrightarrow> (\<not> b \<Longrightarrow> emits P n) \<Longrightarrow> emits P (if b then m else n)"
  by simp

lemma emits_lifecycle:
  assumes "st = Running \<Longrightarrow> emits P a" "st = Completing \<Longrightarrow> emits P b" "st = Completed \<Longrightarrow> emits P c"
    "\<And>r. st = Terminating r \<Longrightarrow> emits P (d r)" "\<And>r. st = Terminated r \<Longrightarrow> emits P (e r)"
  shows "emits P (case st of Running \<Rightarrow> a | Completing \<Rightarrow> b | Completed \<Rightarrow> c | Terminating r \<Rightarrow> d r
           | Terminated r \<Rightarrow> e r)"
  using assms by (cases st) auto

lemma emits_Let: "(\<And>y. y = x \<Longrightarrow> emits P (f y)) \<Longrightarrow> emits P (Let x f)"
  by simp

lemmas emit_cases = emits_option emits_sum emits_prod emits_if emits_lifecycle emits_Let

text \<open>Reads that do not touch what is known so far.\<close>

definition childless :: "raw_object_ref \<Rightarrow> pstate \<Rightarrow> bool" where
  "childless p s \<longleftrightarrow> iter_ok s \<and> get_children (p_work s) p = {}"

interpretation childless: context_invariant "childless p" for p
  by unfold_locales
     (auto simp: preserves_def run_primitives modify_def childless_def iter_ok_def pushed_def)

section \<open>States\<close>

lemma emits_leaf_after_terminating: "preserves P now \<Longrightarrow> emits P (leaf_after_terminating a)"
  by (auto simp: leaf_after_terminating_def thread_open_def debug_mark_def read_thread_def ask_def reject_def
      intro!: emits_then emits_seq_first pres split: sum.split)

lemma emits_fail_now: "preserves P now \<Longrightarrow> emits P (fail_now a r)"
  by (auto simp: fail_now_def thread_open_def debug_mark_def read_thread_def ask_def reject_def
      intro!: emits_then emits_seq_first pres)

lemma emits_settle_finish: "preserves P now \<Longrightarrow> emits P (settle_finish a r)"
  by (auto simp: settle_finish_def transition_to_def fail_activity_def debug_mark_def ask_def emits_fail_now
      intro!: emit_cases emits_then emits_seq_first pres split: finish.split)

lemma emits_state_activate: "emits iter_ok (state_activate st p th)"
  by (auto simp: state_activate_def intro!: emits_Let emits_then emits_seq_first pres split: handler_splits)

lemma emits_state_complete: "emits iter_ok (state_complete st output a th)"
  by (auto simp: state_complete_def intro!: emit_cases emits_then emits_seq_first pres)

text \<open>A caught failure has left the transition or the failure of its own evaluation.\<close>

lemma post_catch_assign:
  "post (catch_assign c a owner states vs) (\<lambda>r s. r = None \<longrightarrow> has_entry s) s"
  by (cases "ct_assign c")
     (auto simp: catch_assign_def fail_activity_def Let_def post_def run_append_command has_entry_def
       pushed_def ret_def seq_def bnd_def split: json.split sum.split outcome.split prod.split)

lemma post_any: "(\<And>x s'. Q x s') \<Longrightarrow> post m Q s"
  by (rule postI) simp

lemma post_append_entry:
  "(\<And>s'. has_entry s' \<Longrightarrow> Q () s') \<Longrightarrow> post (append_command c) Q s"
  "(\<And>s'. has_entry s' \<Longrightarrow> Q () s') \<Longrightarrow> post (append_event ev) Q s"
  by (auto simp: post_def run_primitives has_entry_def pushed_def split: option.split)

lemma post_task_on_failed:
  "post (task_on_failed st a err) (\<lambda>r s. r = Caught \<longrightarrow> has_entry s) s"
proof -
  have out: "post (bnd (project_output out states scope raw) (\<lambda>r.
       case r of
         Inl e \<Rightarrow> seq (fail_activity a e) (ret Caught)
       | Inr v \<Rightarrow> bnd (cancel_tasks a) (\<lambda>_. bnd now (\<lambda>t. g v t)))) (\<lambda>r s. r = Caught \<longrightarrow> has_entry s) s"
    if "\<And>v t s. post (g v t) (\<lambda>r s. r = Caught \<longrightarrow> has_entry s) s" for out states scope raw g s
    using that
    by (auto simp: fail_activity_def intro!: post_any [of _ "project_output out states scope raw"]
        post_any [of _ "cancel_tasks a"] post_any [of _ now] post_append_entry split: sum.split)
  show ?thesis
    by (auto simp: task_on_failed_def Let_def read_thread_def read_variables_def
        intro!: post_mono [OF post_catch_assign] out [simplified] post_append_entry split: option.split)
qed

lemma post_state_on_failed:
  "post (state_on_failed st a err) (\<lambda>r s. r = Caught \<longrightarrow> has_entry s) s"
  by (cases st) (auto simp: post_task_on_failed)

lemma emits_state_terminate: "emits iter_ok (state_terminate st reason a th)"
  unfolding state_terminate_def
proof (rule emits_knowing)
  show "preserves iter_ok (case reason of FailedWith err \<Rightarrow> state_on_failed st a err | _ \<Rightarrow> ret Uncaught)"
    by (auto intro!: pres split: termination_reason.split)
  show "post (case reason of FailedWith err \<Rightarrow> state_on_failed st a err | _ \<Rightarrow> ret Uncaught)
      (\<lambda>r s. r = Caught \<longrightarrow> has_entry s) s" for s
    by (auto simp: post_state_on_failed split: termination_reason.split)
next
  fix r
  have "emits iter_ok (bnd now (\<lambda>t.
         case activity_mark_terminating reason t a of
           Inl _ \<Rightarrow> reject InvalidState ''terminate_state: activity cannot begin terminating''
         | Inr a1 \<Rightarrow>
             seq (append_event (StateTerminating a1))
            (bnd (read_variables (th_ref th)) (\<lambda>_. state_after_terminating st a1))))" (is "emits _ ?m")
    by (auto intro!: emit_cases emits_then emits_seq_first pres)
  then show "emits (\<lambda>s. iter_ok s \<and> (r = Caught \<longrightarrow> has_entry s))
      (case r of Caught \<Rightarrow> ret () | Uncaught \<Rightarrow> ?m)"
    by (cases r) (auto simp: emits_def)
qed

lemma emits_handle_activate_state: "emits iter_ok (handle_activate_state p)"
  by (auto simp: handle_activate_state_def emits_state_activate intro!: emit_cases emits_then pres)

lemma emits_handle_complete_state: "emits iter_ok (handle_complete_state a output)"
  by (auto simp: handle_complete_state_def emits_state_complete intro!: emit_cases emits_then pres)

lemma emits_handle_terminate_state: "emits iter_ok (handle_terminate_state a reason)"
  by (auto simp: handle_terminate_state_def resolve_and_terminate_def emits_state_terminate
      intro!: emit_cases emits_then pres)

section \<open>Sweeps over children\<close>

lemma emits_sweep_activity_children: "S \<noteq> {} \<Longrightarrow> emits iter_ok (sweep_activity_children S)"
  unfolding sweep_activity_children_def
  by (rule emits_iterate) (auto simp: typed_def intro!: emits_each emits_then emit_cases pres)

lemma emits_terminate_activities: "S \<noteq> {} \<Longrightarrow> emits iter_ok (terminate_activities S)"
  unfolding terminate_activities_def
  by (rule emits_iterate) (auto simp: typed_def intro!: emits_each emits_then emit_cases pres)

lemma emits_terminate_root_threads: "S \<noteq> {} \<Longrightarrow> emits iter_ok (terminate_root_threads S)"
  unfolding terminate_root_threads_def
  by (rule emits_iterate) (auto simp: typed_def intro!: emits_each emits_then emit_cases pres)

section \<open>Activities that continue\<close>

lemma emits_read_none: "emits (childless p) (f {}) \<Longrightarrow> emits (childless p) (bnd (read_children p) f)"
  by (simp add: emits_def childless_def read_children_def)

lemma emits_fanout_after_terminating:
  "emits (childless (raw_of KActivity (ac_ref a))) (fanout_after_terminating a)"
  unfolding fanout_after_terminating_def
  by (intro emits_then emits_option emits_read_none)
     (auto simp: emits_leaf_after_terminating childless.keeps_now intro!: pres)

lemma emits_fanout_after_completing: "emits iter_ok (fanout_after_completing assign out nxt endd a vs)"
  by (auto simp: fanout_after_completing_def fail_activity_def debug_mark_def ask_def
      intro!: emit_cases emits_then emits_seq_first pres)

text \<open>With no child, no task is cancelled, and the terminal event follows.\<close>

lemma emits_task_after_terminating:
  "emits (childless (raw_of KActivity (ac_ref a))) (task_after_terminating st a)"
proof -
  have "emits (childless p) (bnd (iterate_set {}) (\<lambda>cs. bnd (seq (each (\<lambda>c. bnd (typed KTask c)
       (\<lambda>k. append_command (CancelTask k))) (filter (\<lambda>c. r_kind c = KTask) cs))
       (ret (length (filter (\<lambda>c. r_kind c = KTask) cs))))
       (\<lambda>pending. if pending = 0 then leaf_after_terminating a else ret ())))" for p
  proof (rule emits_then)
    fix cs
    show "emits (childless p) (bnd (seq (each (\<lambda>c. bnd (typed KTask c) (\<lambda>k. append_command (CancelTask k)))
       (filter (\<lambda>c. r_kind c = KTask) cs)) (ret (length (filter (\<lambda>c. r_kind c = KTask) cs))))
       (\<lambda>pending. if pending = 0 then leaf_after_terminating a else ret ()))"
      by (cases "filter (\<lambda>c. r_kind c = KTask) cs")
         (auto simp: seq_def bnd_assoc emits_leaf_after_terminating childless.keeps_now typed_def
           split: option.split intro!: emits_then emits_first pres emit_cases)
  qed (auto simp: iterate_set_def intro!: pres)
  then show ?thesis
    by (simp add: task_after_terminating_def cancel_tasks_def bnd_assoc emits_read_none Let_def)
qed

lemma emits_wait_after_terminating: "preserves P now \<Longrightarrow> emits P (wait_after_terminating st a)"
  by (simp add: wait_after_terminating_def emits_leaf_after_terminating)

lemma childless_resolves [pres]:
  "preserves (childless p) (thread_machine th why)"
  "preserves (childless p) (state_of_machine m path why)"
  by (auto simp: thread_machine_def state_of_machine_def intro!: pres split: handler_splits)

lemma emits_sweep_or:
  assumes "S \<noteq> {} \<Longrightarrow> emits iter_ok sweep" "emits (childless p) m"
  shows "emits (\<lambda>s. iter_ok s \<and> get_children (p_work s) p = S) (if S \<noteq> {} then sweep else m)"
  using assms by (cases "S = {}") (simp_all add: emits_def childless_def)

lemma childless_iter: "emits iter_ok m \<Longrightarrow> emits (childless p) m"
  by (simp add: emits_def childless_def)

lemma emits_activity_continue_terminate: "emits iter_ok (activity_continue_terminate node)"
  unfolding activity_continue_terminate_def
  by (intro emits_then emits_option emits_if emits_read_children emits_sweep_or)
     (auto simp: emits_sweep_activity_children emits_task_after_terminating
       emits_wait_after_terminating childless.keeps_now parallel_after_terminating_def
       map_after_terminating_def emits_fanout_after_terminating
       intro!: emits_then emits_option pres split: state.split)

lemma emits_activity_continue_complete: "emits iter_ok (activity_continue_complete node)"
  unfolding activity_continue_complete_def
  by (intro emits_then emits_option emits_if emits_read_children emits_sweep_or childless_iter)
     (auto simp: emits_sweep_activity_children task_after_completing_def parallel_after_completing_def
       map_after_completing_def emits_fanout_after_completing emits_settle_finish iter.keeps_now
       intro!: emits_then emits_option pres split: state.split)

section \<open>Threads, executions, tasks and flows\<close>

lemma emits_activity_on_deadline_fired: "emits iter_ok (activity_on_deadline_fired a d)"
  by (auto simp: activity_on_deadline_fired_def intro!: emit_cases emits_then pres split: state.split)

lemma emits_execution_on_deadline_fired: "emits iter_ok (execution_on_deadline_fired ex d)"
  by (auto simp: execution_on_deadline_fired_def intro!: emit_cases emits_then pres)

lemma emits_fire_deadline: "emits iter_ok (fire_deadline target d)"
  by (auto simp: fire_deadline_def emits_activity_on_deadline_fired emits_execution_on_deadline_fired
      intro!: emits_then pres split: deadline_target.split handler_splits)

lemma emits_threads:
  "emits iter_ok (thread_terminate th reason)"
  "emits iter_ok (thread_complete th output)"
  "emits iter_ok (thread_spawn p)"
  by (auto simp: thread_terminate_def thread_complete_def thread_spawn_def Let_def
      intro!: emit_cases emits_then emits_seq_first pres)

lemma emits_thread_continues:
  "emits iter_ok (thread_continue_terminate th)"
  "emits iter_ok (thread_continue_complete th)"
  unfolding thread_continue_terminate_def thread_continue_complete_def
  by (intro emits_then emit_cases emits_read_children emits_sweep_or childless_iter,
      auto simp: emits_terminate_activities intro!: emits_then emits_seq_first pres)+

lemma emits_executions:
  "emits iter_ok (execution_terminate name uid reason)"
  "emits iter_ok (execution_complete ex output)"
  "emits iter_ok (execution_create rid name fv input)"
  by (auto simp: execution_terminate_def execution_complete_def execution_create_def
      intro!: emit_cases emits_then emits_seq_first pres)

lemma emits_execution_continues:
  "emits iter_ok (execution_continue_terminate ex)"
  "emits iter_ok (execution_continue_complete ex)"
  unfolding execution_continue_terminate_def execution_continue_complete_def
  by (intro emits_then emit_cases emits_read_children emits_sweep_or childless_iter,
      auto simp: emits_terminate_root_threads intro!: emit_cases emits_then pres)+

lemma emits_tasks:
  "emits iter_ok (task_activate p')"
  "emits iter_ok (task_complete rid k worker output)"
  "emits iter_ok (task_fail k worker err)"
  "emits iter_ok (task_cancel k)"
  "emits iter_ok (task_claim_all p)"
  by (auto simp: task_activate_def task_complete_def task_fail_def task_cancel_def task_claim_all_def
      intro!: emit_cases emits_then emits_seq_first pres)

lemma emits_flow_create: "emits iter_ok (flow_create rid name def)"
  by (auto simp: flow_create_def intro!: emit_cases emits_then emits_seq_first pres)

lemma emits_dispatch: "emits iter_ok (dispatch_command c)"
  by (cases c)
     (auto simp: emits_flow_create emits_executions emits_threads emits_handle_activate_state
       emits_handle_complete_state emits_handle_terminate_state emits_fire_deadline emits_tasks
       handle_continue_complete_def handle_continue_terminate_def emits_activity_continue_complete
       emits_activity_continue_terminate emits_thread_continues emits_execution_continues
       intro!: emits_then pres split: object_kind.split)

end
