(* ===== verification/Engine.thy ===== *)
theory Engine
  imports Leader "HOL-Library.List_Lexorder"
begin

text \<open>
  The engine's public face: the reads and the command-appending operations of
  \<open>src/crates/engine/src/engine.rs\<close>, and the listing of \<open>src/crates/engine/src/query.rs\<close> over
  \<open>InMemoryStorage::list_kind\<close>. A client's command goes to the log alone and is closed by a \<open>Noop\<close>;
  everything else happens when the leader reads it back. A row is listed as itself rather than as its
  JSON bytes, whose decoding is the inverse of their encoding. Polling by \<open>wait_for_execution\<close> is one
  read per turn.
\<close>

section \<open>Reads\<close>

datatype query_object =
    QFlow flow
  | QFlowVersion flow_version
  | QExecution execution
  | QThread thread
  | QActivity activity
  | QTask task

fun query_kind :: "query_object \<Rightarrow> object_kind" where
  "query_kind (QFlow _) = KFlow"
| "query_kind (QFlowVersion _) = KFlowVersion"
| "query_kind (QExecution _) = KExecution"
| "query_kind (QThread _) = KThread"
| "query_kind (QActivity _) = KActivity"
| "query_kind (QTask _) = KTask"

fun query_name :: "query_object \<Rightarrow> object_name" where
  "query_name (QFlow f) = m_name (fl_meta f)"
| "query_name (QFlowVersion v) = m_name (fv_meta v)"
| "query_name (QExecution e) = m_name (ex_meta e)"
| "query_name (QThread t) = m_name (th_meta t)"
| "query_name (QActivity a) = m_name (ac_meta a)"
| "query_name (QTask k) = m_name (tk_meta k)"

text \<open>\<open>ulid::Ulid::nil()\<close>, whose bits are zero.\<close>

definition ref_for :: "object_name \<Rightarrow> oref" where
  "ref_for n = ORef n 0"

definition get_object :: "object_kind \<Rightarrow> object_name \<Rightarrow> in_memory_db \<Rightarrow> query_object option" where
  "get_object k n db =
     (case k of
        KFlow \<Rightarrow>
          (case as_plain n of
             None \<Rightarrow> None
           | Some fname \<Rightarrow> map_option QFlow (db_get_flow_by_name db fname))
      | KFlowVersion \<Rightarrow> map_option QFlowVersion (db_get_flow_version db (ref_for n))
      | KExecution \<Rightarrow> map_option QExecution (db_get_execution db (ref_for n))
      | KThread \<Rightarrow> map_option QThread (db_get_thread db (ref_for n))
      | KActivity \<Rightarrow> map_option QActivity (db_get_activity db (ref_for n))
      | KTask \<Rightarrow> map_option QTask (db_get_task db (ref_for n)))"

definition bad_definition :: "string \<Rightarrow> execution_error" where
  "bad_definition why = Runtime (InvalidDefinition why)"

definition latest_version :: "flow_name \<Rightarrow> in_memory_db \<Rightarrow> execution_error + oref" where
  "latest_version n db =
     (case db_get_flow_by_name db n of
        None \<Rightarrow> Inl (bad_definition (''flow '' @ plain_as_str n @ '' has no created version''))
      | Some f \<Rightarrow>
          (case db_flow_version_of db n (fl_latest_version f) of
             None \<Rightarrow> Inl (bad_definition
                      (''flow '' @ plain_as_str n @ '' has no version '' @ show_nat (fl_latest_version f)))
           | Some v \<Rightarrow> Inr (fv_ref v)))"

definition resolve_version_id :: "flow_name \<Rightarrow> nat \<Rightarrow> in_memory_db \<Rightarrow> execution_error + oref" where
  "resolve_version_id n version db =
     (if version = 0 then latest_version n db
      else case db_flow_version_of db n version of
             None \<Rightarrow> Inl (bad_definition
                      (''flow '' @ plain_as_str n @ '' has no version '' @ show_nat version))
           | Some v \<Rightarrow> Inr (fv_ref v))"

text \<open>One poll of \<open>wait_for_execution\<close>: an error, the settled snapshot, or another turn (\<open>None\<close>).\<close>

definition poll_execution :: "oref \<Rightarrow> in_memory_db \<Rightarrow> execution_error + execution option" where
  "poll_execution r db =
     (case db_get_execution db r of
        None \<Rightarrow> Inl (bad_definition (''execution '' @ raw_display (raw_of KExecution r)
                 @ '' has no projection to await (never created or GC'' @ [CHR 0x27] @ ''d)''))
      | Some e \<Rightarrow> Inr (if is_terminal (ex_status e) then Some e else None))"

section \<open>Listing\<close>

type_synonym 'r rows = "(object_name \<times> 'r) list"

text \<open>The rows of a kind in the order the hash map yields its keys.\<close>

definition encode_rows :: "object_name list \<Rightarrow> (object_name \<rightharpoonup> 'r) \<Rightarrow> ('r \<Rightarrow> query_object) \<Rightarrow> query_object rows" where
  "encode_rows keys m q = List.map_filter (\<lambda>k. map_option (\<lambda>r. (k, q r)) (m k)) keys"

definition kind_rows :: "(object_kind \<Rightarrow> object_name list) \<Rightarrow> object_kind \<Rightarrow> in_memory_db \<Rightarrow> query_object rows" where
  "kind_rows keys k db =
     (case k of
        KExecution \<Rightarrow> encode_rows (keys k) (d_executions db) QExecution
      | KThread \<Rightarrow> encode_rows (keys k) (d_threads db) QThread
      | KActivity \<Rightarrow> encode_rows (keys k) (d_activities db) QActivity
      | KTask \<Rightarrow> encode_rows (keys k) (d_tasks db) QTask
      | KFlow \<Rightarrow> encode_rows (keys k) (\<lambda>n. case as_plain n of None \<Rightarrow> None | Some p \<Rightarrow> d_flows db p) QFlow
      | KFlowVersion \<Rightarrow> encode_rows (keys k) (d_flow_versions db) QFlowVersion)"

definition list_rows :: "query_object rows \<Rightarrow> object_name option \<Rightarrow> nat \<Rightarrow> query_object rows" where
  "list_rows rows start_after limit =
     take limit
       (filter (\<lambda>(n, _). case start_after of Some a \<Rightarrow> as_str n > as_str a | None \<Rightarrow> True)
         (sort_key (\<lambda>r. as_str (fst r)) rows))"

record query_list_page =
  ql_objects :: "query_object list"
  ql_continue_token :: "string option"

definition list_kind ::
  "query_object rows \<Rightarrow> nat \<Rightarrow> string option \<Rightarrow> execution_error + query_list_page" where
  "list_kind stored limit token =
     (let start = (case token of
            Some t \<Rightarrow>
              if t \<noteq> [] then
                (case from_parsed t of
                   Inl (Invalid e) \<Rightarrow> Inl (bad_definition (''invalid continue_token '' @ debug_str t @ '': '' @ e))
                 | Inr n \<Rightarrow> Inr (Some n))
              else Inr None
          | None \<Rightarrow> Inr None)
      in case start of
           Inl e \<Rightarrow> Inl e
         | Inr start_after \<Rightarrow>
             (let rows = list_rows stored start_after (min u64_max (limit + 1));
                  objects = map snd (take limit rows)
              in Inr \<lparr> ql_objects = objects,
                       ql_continue_token =
                         (if length rows > limit \<and> objects \<noteq> []
                          then Some (as_str (query_name (last objects))) else None) \<rparr>))"

definition engine_list_objects ::
  "(object_kind \<Rightarrow> object_name list) \<Rightarrow> object_kind \<Rightarrow> nat \<Rightarrow> string option \<Rightarrow> node \<Rightarrow> execution_error + query_list_page" where
  "engine_list_objects keys k limit token nd = list_kind (kind_rows keys k (n_db nd)) limit token"

definition engine_get_variables :: "object_name \<Rightarrow> node \<Rightarrow> variables" where
  "engine_get_variables n nd = db_get_variables (n_db nd) (ref_for n)"

definition engine_activatable_tasks :: "string \<Rightarrow> timestamp \<Rightarrow> nat \<Rightarrow> node \<Rightarrow> task list" where
  "engine_activatable_tasks resource t limit nd =
     db_activatable_tasks (e_task_order (l_env (n_leader nd))) (n_db nd) resource t limit"

section \<open>Commands\<close>

text \<open>\<open>EngineInner::append_command\<close> through the \<open>Noop\<close>-closing log: the entry's timestamp, then the
  closing entry's.\<close>

definition client_append :: "command \<Rightarrow> node \<Rightarrow> node" where
  "client_append c n =
     (let l = n_leader n;
          t1 = e_clock (l_env l) (l_ticks l);
          t2 = e_clock (l_env l) (Suc (l_ticks l));
          entry = \<lparr> en_stream_id = nil_id, en_entry_id = nil_id, en_cause_id = None,
                    en_timestamp = t1, en_payload = PCommand c \<rparr>
      in n \<lparr> n_leader := l \<lparr> l_ticks := Suc (Suc (l_ticks l)) \<rparr>,
             n_log := snd (noop_append t2 [entry] (n_log n)) \<rparr>)"

definition engine_create_flow ::
  "request_id \<Rightarrow> flow_name \<Rightarrow> string \<Rightarrow> node \<Rightarrow> execution_error + node" where
  "engine_create_flow rid n definition_text nd =
     (if e_parse_machine (l_env (n_leader nd)) definition_text = None
      then Inl (bad_definition
             ''malformed flow definition: does not parse as a StateMachine'')
      else if get_object KFlow (Plain n) (n_db nd) \<noteq> None
      then Inl (bad_definition (''flow '' @ plain_as_str n @ '' already exists''))
      else Inr (client_append (CreateFlow rid n definition_text) nd))"

definition engine_create_execution ::
  "request_id \<Rightarrow> object_name \<Rightarrow> oref \<Rightarrow> json \<Rightarrow> node \<Rightarrow> execution_error + node" where
  "engine_create_execution rid n fv input nd =
     (if get_object KExecution n (n_db nd) \<noteq> None
      then Inl (bad_definition (''execution '' @ as_str n @ '' already exists''))
      else Inr (client_append (CreateExecution rid n fv input) nd))"

definition engine_cancel_execution :: "object_name \<Rightarrow> ulid option \<Rightarrow> node \<Rightarrow> node" where
  "engine_cancel_execution n uid nd = client_append (TerminateExecution n uid Cancelled) nd"

definition engine_fail_task :: "string \<Rightarrow> object_name \<Rightarrow> execution_error \<Rightarrow> node \<Rightarrow> node" where
  "engine_fail_task worker task err nd = client_append (FailTask (ref_for task) worker err) nd"

definition engine_complete_task :: "string \<Rightarrow> object_name \<Rightarrow> request_id \<Rightarrow> json \<Rightarrow> node \<Rightarrow> node" where
  "engine_complete_task worker task rid out nd =
     client_append (CompleteTask rid (ref_for task) worker out) nd"

definition engine_claim_tasks :: "claim_tasks \<Rightarrow> node \<Rightarrow> node" where
  "engine_claim_tasks p nd = client_append (ClaimTasks p) nd"

end
