(* ===== verification/Sample.thy ===== *)
theory Sample
  imports Engine
begin

text \<open>
  A concrete environment and a few concrete objects, on which the properties of the other theories are
  applied: a clock that advances a millisecond per reading, ids that count, a JSONata engine that
  evaluates every expression to \<open>null\<close>, and a parser that knows one definition.
\<close>

definition sample_machine :: state_machine where
  "sample_machine = \<lparr> sm_start_at = ''Stop'', sm_comment = None, sm_timeout_seconds = None,
     sm_states = [(''Stop'', Succeed \<lparr> ss_comment = None, ss_output = None \<rparr>)] \<rparr>"

definition sample_name :: "nat \<Rightarrow> object_name" where
  "sample_name k = Generated \<lparr> g_base = PlainName ''demo'', g_suffix = k \<rparr>"

definition sample_ref :: "nat \<Rightarrow> oref" where
  "sample_ref k = ORef (sample_name k) k"

definition sample_iter :: "raw_object_ref set \<Rightarrow> raw_object_ref list" where
  "sample_iter S =
     (let xs = filter (\<lambda>r. r \<in> S)
                 (concat (map (\<lambda>k. [raw_of KThread (sample_ref k), raw_of KActivity (sample_ref k),
                                    raw_of KTask (sample_ref k)]) [0, 1, 2]))
      in if S \<noteq> {} \<and> xs = [] then [raw_of KThread (sample_ref 0)] else xs)"

definition sample_env :: env where
  "sample_env = \<lparr> e_debug_assertions = True, e_clock = (\<lambda>n. of_nat (1000 + n)), e_ids = (\<lambda>n. n),
     e_jsonata = (\<lambda>_ _ _. Inr JNull),
     e_parse_machine = (\<lambda>t. if t = ''stop'' then Some sample_machine else None),
     e_rfc3339 = (\<lambda>_. None), e_crc64 = (\<lambda>_. 0), e_iter = sample_iter,
     e_task_order = (\<lambda>h. filter (\<lambda>n. h n \<noteq> None) [sample_name 0, sample_name 1, sample_name 2]) \<rparr>"

definition sample_task :: activate_task where
  "sample_task = \<lparr> at_execution = sample_ref 0, at_owner = sample_ref 1, at_task = sample_ref 2,
     at_resource = ''mail'', at_arguments = JNull, at_retry_plan = [], at_deadline = None \<rparr>"

lemma sample_iter_nonempty: "S \<noteq> {} \<Longrightarrow> sample_iter S \<noteq> []"
  by (simp add: sample_iter_def Let_def)

definition sample_thread :: thread where
  "sample_thread = \<lparr> th_meta = build_meta 0 (sample_name 0) 1000 (OwnerExecution (sample_ref 0)),
     th_execution = sample_ref 0, th_state_path = path_root, th_start_at = ''Fan'', th_index = 0,
     th_status = Running, th_input = JNull, th_output = None \<rparr>"

definition sample_activity :: activity where
  "sample_activity = \<lparr> ac_meta = build_meta 1 (sample_name 1) 1000 (sample_ref 0),
     ac_execution = sample_ref 0, ac_state_path = path_state path_root ''Fan'', ac_status = Running,
     ac_raw_input = JNull, ac_input = Some JNull, ac_raw_output = None, ac_activity_state = None,
     ac_retry_state = None, ac_output = None \<rparr>"

definition sample_spawn :: spawn_thread where
  "sample_spawn = \<lparr> sp_owner = sample_ref 1, sp_execution = sample_ref 0, sp_state_path = Some path_root,
     sp_index = 0, sp_start_at = ''Go'', sp_input = JNull \<rparr>"

text \<open>A running activity in its running thread.\<close>

definition sample_txn :: txn where
  "sample_txn = put_next_generated_seq 3 (put_activity sample_activity (put_thread sample_thread (begin_txn empty_db)))"

definition sample_state :: pstate where
  "sample_state = (handler_start 1 (leader_new sample_env) empty_db) \<lparr> p_work := sample_txn \<rparr>"

lemma sample_names [simp]:
  "o_name (sample_ref k) = sample_name k" "m_name (th_meta sample_thread) = sample_name 0"
  "m_name (ac_meta sample_activity) = sample_name 1" "suffix (sample_name k) = Some k"
  "sample_name k = sample_name k' \<longleftrightarrow> k = k'"
  by (simp_all add: sample_ref_def sample_thread_def sample_activity_def build_meta_def sample_name_def)

lemma sample_reads [simp]:
  "get_activity sample_txn (sample_ref (Suc 0)) = Some sample_activity"
  "get_thread sample_txn (sample_ref 0) = Some sample_thread"
  "get_next_generated_seq sample_txn = 3"
  by (simp_all add: sample_txn_def)

end
