(* ===== verification/Processing.thy ===== *)
theory Processing
  imports Emission Sample
begin

text \<open>
  The roles of \<open>src/crates/engine/src/leader.rs\<close>, \<open>follower.rs\<close> and \<open>stream_processor.rs\<close> over the
  log. A batch folded by a follower, or by a leader recovering, gives the database the producing leader
  committed, up to the counter of generated names; a leader's database never lacks an event of its log.
\<close>

section \<open>What a processed command hands over\<close>

lemma stamp_timed [simp]: "timed_events (stamp sid i es) = timed_events es"
  by (induction es arbitrary: i) (simp_all add: timed_events_def List.map_filter_def)

lemma stamp_nil [simp]: "stamp sid i es = [] \<longleftrightarrow> es = []"
  by (cases es) simp_all

lemma stamp_events [simp]: "events_of (stamp sid i es) = events_of es"
  by (induction es arbitrary: i) (simp_all add: events_of_def List.map_filter_def)

lemma stamp_produced [simp]:
  "list_all (\<lambda>e. produced (en_payload e)) (stamp sid i es) = list_all (\<lambda>e. produced (en_payload e)) es"
  by (induction es arbitrary: i) simp_all

text \<open>The contract between the leader and its loop: the entries are no \<open>Noop\<close>, there is one, and the
  working transaction is the replay of their events.\<close>

definition batch_of :: "in_memory_db \<Rightarrow> entry list \<Rightarrow> txn \<Rightarrow> bool" where
  "batch_of db es work \<longleftrightarrow> es \<noteq> [] \<and> list_all (\<lambda>e. produced (en_payload e)) es
     \<and> (\<exists>t. replay (timed_events es) (begin_txn db) = Some t \<and> same_rows t work)
     \<and> (wf_db db \<longrightarrow> wf_txn work)
     \<and> d_next_generated_seq db \<le> get_next_generated_seq work"

lemma dispatch_once_batch:
  assumes "dispatch_once i c db l = (Done (es, work), l')"
  shows "batch_of db es work"
proof -
  let ?s0 = "handler_start i l db"
  obtain s where s: "dispatch_command c ?s0 = (Done (), s)" "p_entries s \<noteq> []"
    "es = p_entries s" "work = p_work s"
    using assms by (auto simp: dispatch_once_def split: prod.splits outcome.splits unit.splits if_splits)
  have "replays_from (begin_txn db) ?s0" "continues ?s0 ?s0" "seq_from (d_next_generated_seq db) ?s0"
    "wf_db db \<Longrightarrow> wf_work ?s0"
    by (auto simp: replays_from_def continues_def seq_from_def wf_work_def wf_db_def handler_start_def)
  then have "replays_from (begin_txn db) s" "continues ?s0 s" "seq_from (d_next_generated_seq db) s"
    "wf_db db \<Longrightarrow> wf_work s"
    using preservesD [OF replays.keeps_dispatch_command s(1)]
      preservesD [OF entries.keeps_dispatch_command s(1)]
      preservesD [OF seq.keeps_dispatch_command s(1)]
      preservesD [OF wf.keeps_dispatch_command s(1)]
    by blast+
  then show ?thesis
    using s(2-4)
    by (auto simp: batch_of_def replays_from_def continues_def seq_from_def wf_work_def
        handler_start_def list_all_iff)
qed

lemma retry_attempts_Done:
  assumes "retry_attempts k once l = (Done r, l')"
  shows "\<exists>l0. once l0 = (Done r, l')"
  using assms
  by (induction k once l rule: retry_attempts.induct)
     (subst (asm) (2) retry_attempts.simps, auto split: prod.splits outcome.splits if_splits)

lemma process_command_batch:
  assumes "process_command i c db l = (Done (es, work), l')"
  shows "batch_of db es work"
proof (cases "\<exists>e l1. retry_attempts 1 (dispatch_once i c db) l = (Err e, l1)")
  case True
  then obtain e l1 where "retry_attempts 1 (dispatch_once i c db) l = (Err e, l1)" by blast
  then show ?thesis using assms
    by (auto simp: process_command_def reject_command_def Let_def batch_of_def timed_events_def
        List.map_filter_def wf_db_def split: prod.splits)
next
  case False
  then show ?thesis using assms
    by (auto simp: process_command_def split: prod.splits outcome.splits
        dest!: retry_attempts_Done dispatch_once_batch)
qed

section \<open>Folding a batch\<close>

text \<open>Entries before the next \<open>Noop\<close> only add to the in-flight transaction.\<close>

lemma follow_produced:
  assumes "list_all (\<lambda>e. produced (en_payload e)) es"
  shows "follow_entries (es @ rest) inflight w db =
    (case replay (timed_events es) (open_batch inflight db) of
       None \<Rightarrow> None
     | Some t \<Rightarrow> follow_entries rest (if timed_events es = [] then inflight else Some t) w db)"
  using assms
proof (induction es arbitrary: inflight)
  case Nil
  then show ?case by (simp add: open_batch_def split: option.split)
next
  case (Cons e es)
  then show ?case
    by (cases "en_payload e")
       (auto simp: timed_events_def List.map_filter_def open_batch_def split: option.split)
qed

text \<open>The recovering leader folds the same way as a follower.\<close>

lemma recover_as_follow:
  "map_option snd (recover_entries es inflight l db) =
   map_option (\<lambda>(_, _, db'). db') (follow_entries es inflight w db)"
  by (induction es inflight l db arbitrary: w rule: recover_entries.induct)
     (auto simp: leader_apply_event_def split: entry_payload.split option.split)

text \<open>Following a whole batch commits it at its \<open>Noop\<close>, if it has an event.\<close>

lemma follow_batch:
  assumes b: "batch_of db es work" and db: "same_db db db'"
    and noop: "en_payload n = PNoop"
  shows "\<exists>w' db''. follow_entries (es @ n # rest) None w db' = follow_entries rest None w' db''
     \<and> (if events_of es = [] then w' = w \<and> db'' = db' \<and> same_db (commit None work) db
         else w' = en_entry_id n \<and> same_db (commit (Some (en_entry_id n)) work) db'')"
proof -
  obtain t where t: "replay (timed_events es) (begin_txn db) = Some t" "same_rows t work"
    using b by (auto simp: batch_of_def)
  obtain t' where t': "replay (timed_events es) (begin_txn db') = Some t'" "same_rows t t'"
    using same_rows_replay [OF same_db_begin [OF db], of "timed_events es"] t(1)
    by (auto simp: option_rel_Some1)
  have none: "timed_events es = [] \<longleftrightarrow> events_of es = []"
    by (induction es) (auto simp: timed_events_def events_of_def List.map_filter_def split: option.splits)
  have "same_rows work t'" using t(2) t'(2) by (metis same_rows_sym same_rows_trans)
  then have c: "same_db (commit w1 work) (commit w1 t')" for w1 by (rule same_rows_commit)
  have e: "same_db (commit None work) db" if "timed_events es = []"
    using that t(1) same_rows_commit [OF t(2), of None] by (auto simp: same_db_def)
  show ?thesis
    using follow_produced [of es "n # rest" None w db'] b t'(1) noop c e
    by (auto simp: batch_of_def open_batch_def none)
qed

section \<open>Nodes\<close>

text \<open>A node runs by reading its log and by its clients' appends.\<close>

inductive node_step :: "node \<Rightarrow> node \<Rightarrow> bool" where
  lead: "leader_step n n' \<Longrightarrow> node_step n n'"
| client: "node_step n (client_append c n)"

definition new_node :: "env \<Rightarrow> node" where
  "new_node e = \<lparr> n_leader = leader_new e, n_db = empty_db, n_log = log_new, n_pos = 1,
     n_applied = [], n_rejected = [] \<rparr>"

inductive reachable :: "env \<Rightarrow> node \<Rightarrow> bool" for e where
  start: "reachable e (new_node e)"
| step: "reachable e n \<Longrightarrow> node_step n n' \<Longrightarrow> reachable e n'"

definition quiet :: "entry list \<Rightarrow> bool" where
  "quiet = list_all (\<lambda>e. event_of (en_payload e) = None)"

text \<open>Storage is level with the log: no event lies above the watermark, which storage and leader
  share.\<close>

definition synced :: "node \<Rightarrow> bool" where
  "synced n \<longleftrightarrow> wf_log (n_log n) \<and> wf_db (n_db n)
     \<and> 0 \<le> d_last_processed_position (n_db n)
     \<and> d_last_processed_position (n_db n) \<le> int (length (ls_entries (n_log n)))
     \<and> l_watermark (n_leader n) = d_last_processed_position (n_db n)
     \<and> quiet (drop (nat (d_last_processed_position (n_db n))) (ls_entries (n_log n)))"

lemma quiet_append [simp]: "quiet (es @ es') \<longleftrightarrow> quiet es \<and> quiet es'"
  by (simp add: quiet_def)

lemma quiet_nil [simp]: "quiet []"
  by (simp add: quiet_def)

lemma synced_new: "synced (new_node e)"
proof -
  have "ls_entries log_new = []" "d_last_processed_position empty_db = 0"
    by (simp_all add: log_new_def empty_db_def)
  then show ?thesis
    by (simp add: synced_def new_node_def wf_log_new wf_empty_db leader_new_def quiet_def)
qed

lemma commit_position [simp]: "d_last_processed_position (commit (Some w) t) = w"
  by (simp add: commit_def Let_def)

lemma process_command_watermark:
  assumes "process_command i c db l = (r, l')"
  shows "l_watermark l' = l_watermark l" "l_env l' = l_env l"
proof -
  have once: "dispatch_once i c db l1 = (r1, l2) \<Longrightarrow> l_watermark l2 = l_watermark l1 \<and> l_env l2 = l_env l1"
    for r1 l1 l2
    by (auto simp: dispatch_once_def leader_after_def split: prod.splits outcome.splits unit.splits if_splits)
  have "retry_attempts k (dispatch_once i c db) l1 = (r1, l2) \<Longrightarrow>
      l_watermark l2 = l_watermark l1 \<and> l_env l2 = l_env l1" for k r1 l1 l2
  proof (induction k "dispatch_once i c db" l1 rule: retry_attempts.induct)
    case (1 k l1)
    then show ?case
      by (subst (asm) (2) retry_attempts.simps)
         (auto split: prod.splits outcome.splits if_splits dest: once)
  qed
  then show "l_watermark l' = l_watermark l" "l_env l' = l_env l"
    using assms
    by (auto simp: process_command_def reject_command_def Let_def split: prod.splits outcome.splits)
qed

lemma synced_client: "synced n \<Longrightarrow> synced (client_append c n)"
  by (auto simp: synced_def client_append_def Let_def noop_append_def close_batch_def noop_entry_def
      quiet_def log_append_def wf_log_append [of "n_log n"] nth_append nth_Cons' wf_log_def)

lemma synced_settle:
  assumes "synced n" "process_command i c (n_db n) (n_leader n) = (Done r, l)"
  shows "synced (settle_command i r l n)"
proof -
  obtain es work where r: "r = (es, work)" by (cases r)
  have b: "batch_of (n_db n) es work" using assms(2) r process_command_batch by blast
  obtain last_id lg where a: "log_append (es @ [noop_of (e_clock (l_env l) (l_ticks l)) i]) (n_log n) = (last_id, lg)"
    by (cases "log_append (es @ [noop_of (e_clock (l_env l) (l_ticks l)) i]) (n_log n)")
  have "wf_log lg" "last_id = int (length (ls_entries lg))"
    using assms(1) a wf_log_append log_append_last_id by (auto simp: synced_def)
  moreover have "wf_db (commit (Some last_id) work)"
    using assms(1) b by (simp add: batch_of_def synced_def wf_commit)
  ultimately show ?thesis
    using a b by (simp add: r settle_command_def synced_def set_resume_position_def batch_of_def)
qed

lemma synced_leader_entry:
  assumes "synced n" "leader_entry e n = Some n'"
  shows "synced n'"
  using assms synced_settle
  by (auto simp: leader_entry_def split: entry_payload.splits prod.splits outcome.splits if_splits)

lemma synced_pos [simp]: "synced (n \<lparr> n_pos := p \<rparr>) = synced n"
  by (simp add: synced_def)

lemma synced_step: "node_step n n' \<Longrightarrow> synced n \<Longrightarrow> synced n'"
  by (auto elim!: node_step.cases leader_step.cases simp: synced_client synced_leader_entry)

lemma synced_reachable: "reachable e n \<Longrightarrow> synced n"
  by (induction rule: reachable.induct) (auto simp: synced_new synced_step)

section \<open>Restarting\<close>

lemma nth_in_drop: "n \<le> k \<Longrightarrow> k < length xs \<Longrightarrow> xs ! k \<in> set (drop n xs)"
  using nth_mem [of "k - n" "drop n xs"] by simp

lemma recover_quiet: "quiet es \<Longrightarrow> recover_entries es None l db = Some (l, db)"
  by (induction es) (auto simp: quiet_def split: entry_payload.split)

lemma follow_quiet: "quiet es \<Longrightarrow> follow_entries (es @ rest) None w db = follow_entries rest None w db"
  by (induction es) (auto simp: quiet_def split: entry_payload.split)

lemma read_above: "0 \<le> w \<Longrightarrow> log_stream_read lg (w + 1) = drop (nat w) (ls_entries lg)"
  by (simp add: log_stream_read_def nil_id_def Let_def)

lemma leader_idle:
  "reachable e n \<Longrightarrow> l_last_applied (n_leader n) = []"
proof (induction rule: reachable.induct)
  case start
  then show ?case by (simp add: new_node_def leader_new_def)
next
  case (step n n')
  then have s: "synced n" using synced_reachable by blast
  have "l_last_applied (n_leader (settle_command i r l n)) = []"
    if "process_command i c (n_db n) (n_leader n) = (Done r, l)" for i c r l
    using process_command_batch [of i c "n_db n" "n_leader n" "fst r" "snd r" l] that
    by (cases r) (auto simp: settle_command_def batch_of_def Let_def split: prod.split)
  then have "leader_entry en n = Some n'' \<Longrightarrow> l_last_applied (n_leader n'') = []" for en n''
    using step.IH
    by (auto simp: leader_entry_def split: entry_payload.splits prod.splits outcome.splits if_splits)
  then show ?case using step
    by (auto elim!: node_step.cases leader_step.cases simp: client_append_def Let_def)
qed

lemma settle_log:
  assumes "es \<noteq> []" "settle_command i (es, work) l n = n'" "wf_log (n_log n)"
  shows "ls_entries (n_log n') = ls_entries (n_log n) @
       stamp (ls_stream_id (n_log n)) (int (length (ls_entries (n_log n))) + 1)
         (es @ [noop_of (e_clock (l_env l) (l_ticks l)) i])"
    and "n_db n' = commit (Some (int (length (ls_entries (n_log n'))))) work"
  using assms by (auto simp: settle_command_def log_append_def Let_def wf_log_def algebra_simps)

lemma start_after_settle:
  assumes n: "synced n" and p: "process_command i c (n_db n) (n_leader n) = (Done (es, work), l)"
    and n': "n' = settle_command i (es, work) l n"
  shows "\<exists>m. start_leader e (n_log n') (n_db n) = Some m
     \<and> (if events_of es = [] then n_db m = n_db n else same_db (n_db n') (n_db m))"
proof -
  let ?w = "d_last_processed_position (n_db n)"
  let ?pre = "drop (nat ?w) (ls_entries (n_log n))"
  let ?k = "int (length (ls_entries (n_log n))) + 1"
  let ?sid = "ls_stream_id (n_log n)"
  define nb where "nb = stamp ?sid (?k + int (length es)) [noop_of (e_clock (l_env l) (l_ticks l)) i]"
  have b: "batch_of (n_db n) es work" using p by (rule process_command_batch)
  then have es: "es \<noteq> []" by (simp add: batch_of_def)
  have w: "0 \<le> ?w" "wf_log (n_log n)" "quiet ?pre" "nat ?w \<le> length (ls_entries (n_log n))"
    using n by (auto simp: synced_def)
  note log' = settle_log [OF es n' [symmetric] w(2)]
  have b': "batch_of (n_db n) (stamp ?sid ?k es) work"
    using b by (auto simp: batch_of_def)
  have read: "log_stream_read (n_log n') (?w + 1) = ?pre @ stamp ?sid ?k es @ nb"
    using w(1,4) log'(1) by (simp add: read_above stamp_append nb_def)
  have len: "int (length (ls_entries (n_log n'))) = ?k + int (length es)"
    using log'(1) by simp
  obtain nb1 where nb1: "nb = [nb1]" "en_payload nb1 = PNoop" "en_entry_id nb1 = ?k + int (length es)"
    by (simp add: nb_def noop_of_def)
  obtain w' db'' where f: "follow_entries (?pre @ stamp ?sid ?k es @ nb) None ?w (n_db n) = Some (None, w', db'')"
    "if events_of es = [] then db'' = n_db n else same_db (n_db n') db''"
    using follow_batch [OF b' same_db_refl nb1(2), of "[]" ?w] nb1 len log'(2) w(3)
    by (auto simp: follow_quiet split: if_splits)
  let ?l0 = "set_resume_position ?w (leader_new e)"
  have "map_option snd (recover_entries (log_stream_read (n_log n') (?w + 1)) None ?l0 (n_db n)) = Some db''"
    using recover_as_follow [of "log_stream_read (n_log n') (?w + 1)" None ?l0 "n_db n" ?w] f(1) read
    by simp
  then show ?thesis using f(2)
    by (cases "events_of es = []") (auto simp: start_leader_def recover_leader_def Let_def)
qed

lemma recover_last_applied:
  "recover_entries es inflight l db = Some (l', db') \<Longrightarrow>
   l_last_applied l' = (if events_of es = [] then l_last_applied l else [last (events_of es)])"
  by (induction es inflight l db rule: recover_entries.induct)
     (auto simp: leader_apply_event_def events_of_def List.map_filter_def
       split: entry_payload.splits option.splits if_splits)

lemma recover_env: "recover_entries es inflight l db = Some (l', db') \<Longrightarrow> l_env l' = l_env l"
  by (induction es inflight l db rule: recover_entries.induct)
     (auto simp: leader_apply_event_def split: entry_payload.splits option.splits)

section \<open>A node with one command\<close>

definition sample_node :: node where
  "sample_node = client_append (ActivateTask sample_task) (new_node sample_env)"

definition sample_row :: task where
  "sample_row = \<lparr> tk_meta = build_meta 2 (sample_name 2) 1002 (sample_ref 1), tk_execution = sample_ref 0,
     tk_resource = ''mail'', tk_arguments = JNull, tk_status = TPending, tk_deadline = None,
     tk_worker_id = None, tk_lease_expires_at = None, tk_retry_plan = [],
     tk_retry_state = default_retry_state \<rparr>"

definition sample_work :: txn where
  "sample_work = apply_task_activated sample_row (begin_txn empty_db)"

definition sample_entry :: entry where
  "sample_entry = \<lparr> en_stream_id = nil_id, en_entry_id = nil_id, en_cause_id = Some 1,
     en_timestamp = 1003, en_payload = PEvent (TaskActivated sample_row) \<rparr>"

definition sample_leader :: leader where
  "sample_leader = (leader_new sample_env) \<lparr> l_ticks := 4, l_last_applied := [TaskActivated sample_row] \<rparr>"

lemma sample_reachable: "reachable sample_env sample_node"
  unfolding sample_node_def using reachable.start reachable.step node_step.client by blast

lemma sample_node_simps [simp]:
  "n_db sample_node = empty_db"
  "n_leader sample_node = (leader_new sample_env) \<lparr> l_ticks := 2 \<rparr>"
  "n_pos sample_node = 1"
  by (simp_all add: sample_node_def client_append_def new_node_def Let_def leader_new_def numeral_2_eq_2)

lemma sample_dispatch:
  "dispatch_command (ActivateTask sample_task) (handler_start 1 (n_leader sample_node) empty_db) =
     (Done (), (handler_start 1 (n_leader sample_node) empty_db)
        \<lparr> p_ticks := 4, p_entries := [sample_entry], p_work := sample_work \<rparr>)"
  by (simp add: task_activate_def bnd_def run_now run_append_event)
     (simp add: handler_start_def leader_new_def sample_env_def sample_task_def sample_ref_def
       pushed_def built_def sample_work_def sample_entry_def sample_row_def sample_name_def)

lemma sample_process:
  "process_command 1 (ActivateTask sample_task) empty_db (n_leader sample_node) =
     (Done ([sample_entry], sample_work), sample_leader)"
proof -
  have "dispatch_once 1 (ActivateTask sample_task) empty_db (n_leader sample_node) =
      (Done ([sample_entry], sample_work), sample_leader)"
    using sample_dispatch
    by (simp add: dispatch_once_def leader_after_def split: unit.split)
       (simp add: sample_leader_def handler_start_def leader_new_def events_of_def List.map_filter_def sample_entry_def)
  then show ?thesis
    by (simp add: process_command_def) (subst retry_attempts.simps, simp)
qed

text \<open>The node after the command, and one with two commands of which the first was rejected.\<close>

definition settled_node :: node where
  "settled_node = (settle_command 1 ([sample_entry], sample_work) sample_leader sample_node) \<lparr> n_pos := 2 \<rparr>"

definition busy_node :: node where
  "busy_node = client_append (CancelTask (sample_ref 2))
     (client_append (CancelTask (sample_ref 2)) (new_node sample_env))"

definition waiting_node :: node where
  "waiting_node = (the (leader_entry (the (log_read (n_log busy_node) 1)) busy_node)) \<lparr> n_pos := 2 \<rparr>"

lemmas node_eval = client_append_def new_node_def noop_append_def close_batch_def log_append_def
  log_new_def log_read_def leader_new_def noop_entry_def Let_def

lemma sample_log_read:
  "map_option en_payload (log_read (n_log sample_node) 1) = Some (PCommand (ActivateTask sample_task))"
  "map_option en_entry_id (log_read (n_log sample_node) 1) = Some 1"
  by (simp_all add: sample_node_def node_eval)

lemma settled_reachable: "reachable sample_env settled_node"
proof -
  obtain entry where e: "log_read (n_log sample_node) (n_pos sample_node) = Some entry"
    "en_payload entry = PCommand (ActivateTask sample_task)" "en_entry_id entry = 1"
    using sample_log_read by auto
  then have "leader_entry entry sample_node =
      Some (settle_command 1 ([sample_entry], sample_work) sample_leader sample_node)"
    using sample_process by (simp add: leader_entry_def)
  then have "leader_step sample_node settled_node"
    using leader_step.intros [OF e(1)] by (simp add: settled_node_def)
  then show ?thesis using sample_reachable reachable.step node_step.lead by blast
qed

lemma busy_reachable: "reachable sample_env busy_node"
  unfolding busy_node_def using reachable.start reachable.step node_step.client by blast

lemma busy_log:
  "map en_payload (ls_entries (n_log busy_node)) =
     [PCommand (CancelTask (sample_ref 2)), PNoop, PCommand (CancelTask (sample_ref 2)), PNoop]"
  "n_db busy_node = empty_db" "n_pos busy_node = 1"
  by (simp_all add: busy_node_def node_eval)

lemma busy_rejects:
  "\<exists>s. dispatch_command (CancelTask (sample_ref 2)) (handler_start i l empty_db) =
     (Err (Rejected NotFound ''task not found; cancel dropped''), s)"
  by (simp add: task_cancel_def read_task_def gets_def bnd_def handler_start_def
      tasks.get_open db_get_task_def) (simp add: empty_db_def reject_def throw_def)

lemma waiting_node:
  "leader_step busy_node waiting_node"
  "map en_payload (ls_entries (n_log waiting_node)) ! 2 = PCommand (CancelTask (sample_ref 2))"
  "length (ls_entries (n_log waiting_node)) = 6" "n_pos waiting_node = 2"
  "d_last_processed_position (n_db waiting_node) = 6"
proof -
  obtain entry where e: "log_read (n_log busy_node) 1 = Some entry" "en_payload entry = PCommand (CancelTask (sample_ref 2))"
    by (simp add: busy_node_def node_eval)
  obtain s where "dispatch_command (CancelTask (sample_ref 2))
      (handler_start (en_entry_id entry) (n_leader busy_node) empty_db) =
     (Err (Rejected NotFound ''task not found; cancel dropped''), s)" using busy_rejects by blast
  then have once: "dispatch_once (en_entry_id entry) (CancelTask (sample_ref 2)) empty_db (n_leader busy_node) =
      (Err (Rejected NotFound ''task not found; cancel dropped''), leader_after s (n_leader busy_node))"
    by (simp add: dispatch_once_def)
  have retry: "retry_attempts (Suc 0) (dispatch_once (en_entry_id entry) (CancelTask (sample_ref 2)) empty_db)
      (n_leader busy_node) =
      (Err (Rejected NotFound ''task not found; cancel dropped''), leader_after s (n_leader busy_node))"
    by (subst retry_attempts.simps) (simp add: once)
  obtain n' where n': "leader_entry entry busy_node = Some n'"
    "ls_entries (n_log n') = ls_entries (n_log busy_node) @ drop 4 (ls_entries (n_log n'))"
    "length (ls_entries (n_log n')) = 6" "d_last_processed_position (n_db n') = 6"
    using busy_log e(2) arg_cong [OF busy_log(1), of length]
    by (simp add: leader_entry_def process_command_def retry reject_command_def Let_def settle_command_def
        log_append_def commit_watermark db_put_last_processed_position_def)
       (simp add: busy_node_def node_eval)
  have w: "waiting_node = n' \<lparr> n_pos := 2 \<rparr>" using e(1) n'(1) by (simp add: waiting_node_def)
  show "leader_step busy_node waiting_node"
    using leader_step.intros [of busy_node entry n'] e(1) n'(1) w busy_log by simp
  have "map en_payload (ls_entries (n_log n')) ! 2 = map en_payload (ls_entries (n_log busy_node)) ! 2"
    using arg_cong [OF busy_log(1), of length] by (subst n'(2)) (simp add: nth_append)
  then show "map en_payload (ls_entries (n_log waiting_node)) ! 2 = PCommand (CancelTask (sample_ref 2))"
    unfolding w by (simp add: busy_log(1))
  show "length (ls_entries (n_log waiting_node)) = 6" "n_pos waiting_node = 2"
    "d_last_processed_position (n_db waiting_node) = 6" using n'(3,4) unfolding w by simp_all
qed

section \<open>Properties\<close>

text \<open>C1. What a command handler works on is the replay of the events it emitted. Whatever a dispatch
  does and however it ends, folding the emitted events, in order and at their timestamps, onto a fresh
  transaction succeeds and gives the handler's working transaction, up to the counter of generated
  names.\<close>

theorem dispatch_command_replays:
  assumes "dispatch_command c (handler_start cause l db) = (r, s)"
  shows "\<exists>t. replay (timed_events (p_entries s)) (begin_txn db) = Some t \<and> noseq t = noseq (p_work s)"
proof -
  have "replays_from (begin_txn db) (handler_start cause l db)"
    by (auto simp: replays_from_def handler_start_def)
  then have "replays_from (begin_txn db) s" by (rule preservesD [OF replays.keeps_dispatch_command assms])
  then show ?thesis by (simp add: replays_from_def same_rows_def)
qed

theorem dispatch_command_replays_witness:
  "\<exists>t. replay (timed_events [sample_entry]) (begin_txn empty_db) = Some t \<and> noseq t = noseq sample_work"
  using dispatch_command_replays [OF sample_dispatch] by simp

text \<open>C5. The assertion of \<open>dispatch_once\<close> never fails: a command the handlers accept leaves at least
  one entry, so the outcome of \<open>dispatch_once\<close> is the handler's own. The environment's iteration of a
  set that has an element yields one.\<close>

theorem dispatch_once_never_empty:
  assumes "\<And>S. S \<noteq> {} \<Longrightarrow> e_iter (l_env l) S \<noteq> []"
  shows "fst (dispatch_once i c db l) =
     (case dispatch_command c (handler_start i l db) of
        (Done (), s) \<Rightarrow> Done (p_entries s, p_work s)
      | (Err e, s) \<Rightarrow> Err e
      | (Panicked w, s) \<Rightarrow> Panicked w)"
proof -
  have "iter_ok (handler_start i l db)" using assms by (simp add: iter_ok_def handler_start_def)
  then have "post (dispatch_command c) (\<lambda>_. has_entry) (handler_start i l db)"
    using emits_dispatch by (simp add: emits_def)
  then show ?thesis
    by (auto simp: dispatch_once_def post_def has_entry_def split: prod.split outcome.split unit.split)
qed

theorem dispatch_once_never_empty_witness:
  "fst (dispatch_once 1 (ActivateTask sample_task) empty_db (n_leader sample_node)) =
     Done ([sample_entry], sample_work)"
proof -
  have "S \<noteq> {} \<Longrightarrow> e_iter (l_env (n_leader sample_node)) S \<noteq> []" for S
    using sample_iter_nonempty by (simp add: leader_new_def sample_env_def)
  from dispatch_once_never_empty [OF this, of 1 "ActivateTask sample_task" empty_db]
  show ?thesis using sample_dispatch by (simp split: unit.splits)
qed

text \<open>C2. A follower agrees with its leader. When the leader processes a command on a database that the
  follower shares (up to the counter of generated names) and appends the entries with a closing
  \<open>Noop\<close>, the follower folds the batch without an error and ends with no open transaction; if the
  batch has an event its storage is what the leader commits, and its watermark is the \<open>Noop\<close>'s
  position; otherwise neither it nor the leader's rows change.\<close>

theorem follower_agrees_with_leader:
  assumes "process_command i c db l = (Done (es, work), l')" "same_db db db'"
  shows "\<exists>w' db''. follow_entries (stamp sid k (es @ [noop_of ts i])) None w db' = Some (None, w', db'')
     \<and> (if events_of es = []
         then w' = w \<and> db'' = db' \<and> same_db (commit None work) db
         else w' = k + int (length es) \<and> same_db (commit (Some (k + int (length es))) work) db'')"
proof -
  have "batch_of db (stamp sid k es) work"
    using process_command_batch [OF assms(1)] by (auto simp: batch_of_def)
  moreover have "stamp sid (k + int (length es)) [noop_of ts i] =
      [(noop_of ts i) \<lparr> en_stream_id := sid, en_entry_id := k + int (length es) \<rparr>]" by simp
  ultimately show ?thesis
    using follow_batch [OF _ assms(2), of "stamp sid k es" work
        "(noop_of ts i) \<lparr> en_stream_id := sid, en_entry_id := k + int (length es) \<rparr>" "[]" w]
    by (auto simp: stamp_append noop_of_def split: if_splits)
qed

theorem follower_agrees_with_leader_witness:
  "\<exists>w' db''. follow_entries (stamp 1 3 ([sample_entry] @ [noop_of 1004 1])) None 0 empty_db = Some (None, w', db'')
     \<and> w' = 4 \<and> same_db (commit (Some 4) sample_work) db''"
  using follower_agrees_with_leader [OF sample_process same_db_refl, of 1 3 1004 0]
  by (simp add: events_of_def List.map_filter_def sample_entry_def)



text \<open>C4. Restarting a node whose last command was settled changes nothing in storage: recovery finds
  no event above the watermark, and the leader resumes right after it.\<close>

theorem restart_keeps_storage:
  assumes "reachable e n"
  shows "\<exists>m. start_leader e' (n_log n) (n_db n) = Some m \<and> n_db m = n_db n
     \<and> n_pos m = d_last_processed_position (n_db n) + 1"
  using synced_reachable [OF assms]
  by (auto simp: synced_def start_leader_def recover_leader_def Let_def read_above recover_quiet)

theorem restart_keeps_storage_witness:
  "\<exists>m. start_leader sample_env (n_log sample_node) empty_db = Some m \<and> n_db m = empty_db \<and> n_pos m = 1"
  using restart_keeps_storage [OF sample_reachable, of sample_env] by (simp add: empty_db_def)

text \<open>C9. The leader reads back only events it has applied: on every event of its own log the debug
  assertion of \<open>run_leader\<close> holds, and the entry is skipped.\<close>

theorem leader_skips_own_events:
  assumes "reachable e n" "log_read (n_log n) k = Some entry" "en_payload entry = PEvent ev"
  shows "leader_entry entry n = Some n"
proof -
  let ?es = "ls_entries (n_log n)" and ?w = "d_last_processed_position (n_db n)"
  have s: "synced n" using assms(1) by (rule synced_reachable)
  have k: "0 \<le> k - 1" "nat (k - 1) < length ?es" "entry = ?es ! nat (k - 1)"
    using assms(2) by (auto simp: log_read_def split: if_splits)
  have id: "en_entry_id entry = k" using s k by (auto simp: synced_def wf_log_def)
  have "nat (k - 1) < nat ?w"
  proof (rule ccontr)
    assume "\<not> nat (k - 1) < nat ?w"
    then have "nat ?w \<le> nat (k - 1)" by (rule leI)
    then have "entry \<in> set (drop (nat ?w) ?es)" using nth_in_drop k(2,3) by blast
    then show False using s assms(3) by (auto simp: synced_def quiet_def list_all_iff)
  qed
  then show ?thesis
    using s assms(3) id by (auto simp: leader_entry_def is_already_applied_def synced_def)
qed

theorem leader_skips_own_events_witness:
  "\<exists>entry. log_read (n_log settled_node) 3 = Some entry
     \<and> en_payload entry = PEvent (TaskActivated sample_row) \<and> leader_entry entry settled_node = Some settled_node"
proof -
  have "length (ls_entries (n_log sample_node)) = 2"
    by (simp add: sample_node_def node_eval)
  moreover have "ls_next_entry_id (n_log sample_node) = 3"
    by (simp add: sample_node_def node_eval)
  ultimately have "\<exists>entry. log_read (n_log settled_node) 3 = Some entry \<and> en_payload entry = PEvent (TaskActivated sample_row)"
    by (simp add: settled_node_def settle_command_def log_append_def Let_def log_read_def nth_append sample_entry_def)
  then show ?thesis using leader_skips_own_events [OF settled_reachable] by blast
qed




text \<open>C6. A rejected command changes no row. The leader's turn on it appends one reject entry and a
  \<open>Noop\<close>, moves the watermark to it, tells the hook of that reject and of no event, and leaves the rest
  of storage as it was.\<close>

theorem rejected_command_keeps_rows:
  assumes "reachable e n" "en_payload entry = PCommand c"
    and "dispatch_command c (handler_start (en_entry_id entry) (n_leader n) (n_db n)) =
           (Err (Rejected ty why), s)"
  shows "\<exists>n' rj. leader_entry entry n = Some n' \<and> rj_type rj = ty \<and> rj_reason rj = why
     \<and> n_db n' = db_put_last_processed_position (int (length (ls_entries (n_log n)) + 2)) (n_db n)
     \<and> n_rejected n' = n_rejected n @ [rj] \<and> n_applied n' = n_applied n
     \<and> map en_payload (ls_entries (n_log n')) = map en_payload (ls_entries (n_log n)) @ [PReject rj, PNoop]"
proof -
  have l: "l_last_applied (n_leader n) = []" using assms(1) by (rule leader_idle)
  have w: "wf_log (n_log n)" using synced_reachable [OF assms(1)] by (simp add: synced_def)
  have once: "dispatch_once (en_entry_id entry) c (n_db n) (n_leader n) =
      (Err (Rejected ty why), leader_after s (n_leader n))"
    using assms(3) by (simp add: dispatch_once_def)
  have retry: "retry_attempts (Suc 0) (dispatch_once (en_entry_id entry) c (n_db n)) (n_leader n) =
      (Err (Rejected ty why), leader_after s (n_leader n))"
    by (subst retry_attempts.simps) (simp add: once)
  show ?thesis
    using assms(2) l w
    by (simp add: leader_entry_def process_command_def retry reject_command_def Let_def
        settle_command_def leader_after_def rejects_of_def List.map_filter_def
        commit_watermark log_append_def wf_log_def noop_of_def add.commute)
qed

theorem rejected_command_keeps_rows_witness:
  "\<exists>(entry :: entry) n'. en_payload entry = PCommand (CancelTask (sample_ref 2)) \<and> leader_entry entry busy_node = Some n'
     \<and> n_db n' = db_put_last_processed_position 6 empty_db \<and> n_applied n' = n_applied busy_node"
proof -
  obtain entry :: entry where e: "en_payload entry = PCommand (CancelTask (sample_ref 2))"
    by (metis entry.select_convs(5))
  obtain s where "dispatch_command (CancelTask (sample_ref 2))
      (handler_start (en_entry_id entry) (n_leader busy_node) (n_db busy_node)) =
     (Err (Rejected NotFound ''task not found; cancel dropped''), s)"
    using busy_rejects busy_log(2) by metis
  from rejected_command_keeps_rows [OF busy_reachable e this] e
  show ?thesis using arg_cong [OF busy_log(1), of length] busy_log(2) by auto
qed





text \<open>C8. A thread that \<open>SpawnThread\<close> creates takes a name no thread has: the row under it is new, and
  after the command it is the thread of the emitted event, with its edge under the owning activity and
  the command that activates its first state.\<close>

theorem spawned_thread_is_new:
  assumes "wf_txn (p_work s)" "thread_spawn p s = (Done (), s')"
  shows "\<exists>th ts ts' path. p_entries s' = p_entries s @
       [\<lparr> en_stream_id = nil_id, en_entry_id = nil_id, en_cause_id = Some (p_cause_id s),
          en_timestamp = ts, en_payload = PEvent (ThreadCreated th) \<rparr>,
        \<lparr> en_stream_id = nil_id, en_entry_id = nil_id, en_cause_id = Some (p_cause_id s),
          en_timestamp = ts', en_payload = PCommand (ActivateState
            \<lparr> as_execution = path, as_owner = th_ref th,
              as_state_path = path_state (th_state_path th) (sp_start_at p), as_input = sp_input p \<rparr>) \<rparr>]
     \<and> get_thread (p_work s) (th_ref th) = None \<and> get_thread (p_work s') (th_ref th) = Some th
     \<and> th_status th = Running \<and> m_owner (th_meta th) = OwnerActivity (sp_owner p)
     \<and> meta_raw KThread (th_meta th) \<in> get_children (p_work s') (raw_of KActivity (sp_owner p))"
proof -
  obtain a ow path where g: "get_activity (p_work s) (sp_owner p) = Some a" "is_running (ac_status a)"
    "get_thread (p_work s) (m_owner (ac_meta a)) = Some ow" "sp_state_path p = Some path"
    using assms(2)
    by (auto simp: thread_spawn_def read_activity_def read_thread_def gets_def bnd_def reject_def throw_def
        panic_def Let_def run_primitives split: option.splits if_splits)
  let ?n = "get_next_generated_seq (p_work s)"
  let ?th = "\<lparr> th_meta = build_meta (e_ids (p_env s) (p_mints s)) (generated_from_key (base (o_name (sp_execution p))) ?n)
        (e_clock (p_env s) (p_ticks s)) (OwnerActivity (sp_owner p)),
     th_execution = sp_execution p, th_state_path = path, th_start_at = sp_start_at p, th_index = sp_index p,
     th_status = Running, th_input = sp_input p, th_output = None \<rparr>"
  have new: "get_thread (p_work s) (th_ref ?th) = None"
    using wf_txn_fresh(1) [OF assms(1) order_refl] by (simp add: th_ref_def meta_ref_def build_meta_def)
  show ?thesis
    using assms(2) g new
    by (intro exI [of _ ?th])
       (auto simp: thread_spawn_def read_activity_def read_thread_def gets_def bnd_def seq_def Let_def
         run_primitives pushed_def built_def apply_thread_created_def th_ref_def meta_ref_def build_meta_def
         split: option.splits)
qed

theorem spawned_thread_is_new_witness:
  "\<exists>th s'. thread_spawn sample_spawn sample_state = (Done (), s')
     \<and> get_thread sample_txn (th_ref th) = None \<and> get_thread (p_work s') (th_ref th) = Some th"
proof -
  have wf: "wf_txn (p_work sample_state)"
    unfolding sample_state_def sample_txn_def wf_txn_def
    by (auto simp: below_def intro!: rows_under_writes)
       (rule rows_under_mono [OF wf_empty_db [unfolded wf_db_def wf_txn_def]], simp add: empty_db_def)
  have "\<exists>s'. thread_spawn sample_spawn sample_state = (Done (), s')"
    by (simp add: thread_spawn_def read_activity_def read_thread_def gets_def bnd_def seq_def Let_def
        run_primitives sample_state_def sample_spawn_def sample_activity_def sample_thread_def build_meta_def)
  then show ?thesis
    using spawned_thread_is_new [OF wf] by (fastforce simp: sample_state_def)
qed

end
