(* ===== verification/Lifecycle.thy ===== *)
theory Lifecycle
  imports Processing
begin

text \<open>
  How rows move through their lives. Only the handlers of \<open>elements/execution.rs\<close> touch the row of an
  execution and only those of \<open>elements/task.rs\<close> the row of a task; each moves it along its status
  machine. A table is followed as a map from names to rows: the first section says what each event does
  to it, the second carries the steps through a handler, the rest proves them for executions and tasks
  and lifts them to the leader's runs.
\<close>

section \<open>The tables as maps\<close>

definition execution_rows :: "txn \<Rightarrow> object_name \<rightharpoonup> execution" where
  "execution_rows t n = get_execution t (ORef n 0)"

definition task_rows :: "txn \<Rightarrow> object_name \<rightharpoonup> task" where
  "task_rows t n = get_task t (ORef n 0)"

lemma get_execution_rows: "get_execution t r = execution_rows t (o_name r)"
  by (simp add: execution_rows_def get_execution_def cong: option.case_cong)

lemma get_task_rows: "get_task t r = task_rows t (o_name r)"
  by (simp add: task_rows_def get_task_def cong: option.case_cong)

text \<open>An update of the row under a name, if there is one.\<close>

definition alter :: "'n \<Rightarrow> ('v \<Rightarrow> 'v) \<Rightarrow> ('n \<rightharpoonup> 'v) \<Rightarrow> 'n \<rightharpoonup> 'v" where
  "alter n f h = (case h n of None \<Rightarrow> h | Some v \<Rightarrow> h(n \<mapsto> f v))"

lemma alter_alter [simp]: "alter n g (alter n f h) = alter n (\<lambda>v. g (f v)) h"
  by (simp add: alter_def split: option.split)

fun executions_after :: "timestamp \<Rightarrow> event \<Rightarrow> (object_name \<rightharpoonup> execution) \<Rightarrow> object_name \<rightharpoonup> execution" where
  "executions_after ts (ExecutionCreated _ e) h = h(m_name (ex_meta e) \<mapsto> e)"
| "executions_after ts (ExecutionCompleting e) h = alter (m_name (ex_meta e)) (\<lambda>row.
     row \<lparr> ex_status := Completing, ex_output := ex_output e,
           ex_meta := with_update_at (m_updated_at (ex_meta e)) (ex_meta row) \<rparr>) h"
| "executions_after ts (ExecutionCompleted e) h = alter (m_name (ex_meta e)) (\<lambda>row.
     row \<lparr> ex_status := Completed, ex_output := ex_output e,
           ex_meta := with_update_at (m_updated_at (ex_meta e)) (ex_meta row) \<rparr>) h"
| "executions_after ts (ExecutionTerminating e) h = alter (m_name (ex_meta e)) (\<lambda>row.
     row \<lparr> ex_status := ex_status e, ex_meta := with_update_at (m_updated_at (ex_meta e)) (ex_meta row) \<rparr>) h"
| "executions_after ts (ExecutionTerminated e) h = alter (m_name (ex_meta e)) (\<lambda>row.
     row \<lparr> ex_status := ex_status e, ex_meta := with_update_at (m_updated_at (ex_meta e)) (ex_meta row) \<rparr>) h"
| "executions_after ts _ h = h"

definition claimed :: "timestamp \<Rightarrow> task \<Rightarrow> task \<Rightarrow> task" where
  "claimed ts k row =
     (if is_claimable_at ts row
      then row \<lparr> tk_status := TRunning, tk_worker_id := tk_worker_id k,
             tk_lease_expires_at := tk_lease_expires_at k,
             tk_retry_state := tk_retry_state row
               \<lparr> rs_next_available_at := rs_next_available_at (tk_retry_state k) \<rparr>,
             tk_meta := with_update_at (m_updated_at (tk_meta k)) (tk_meta row) \<rparr>
      else row)"

fun tasks_after :: "timestamp \<Rightarrow> event \<Rightarrow> (object_name \<rightharpoonup> task) \<Rightarrow> object_name \<rightharpoonup> task" where
  "tasks_after ts (TaskActivated k) h = h(m_name (tk_meta k) \<mapsto> k)"
| "tasks_after ts (TasksClaimed _ ks) h = fold (\<lambda>k. alter (m_name (tk_meta k)) (claimed ts k)) ks h"
| "tasks_after ts (TaskCompleted _ k _) h = alter (m_name (tk_meta k)) (\<lambda>row.
     row \<lparr> tk_status := TCompleted, tk_meta := with_update_at (m_updated_at (tk_meta k)) (tk_meta row) \<rparr>) h"
| "tasks_after ts (TaskFailed k _) h = alter (m_name (tk_meta k)) (\<lambda>_. k) h"
| "tasks_after ts (TaskCancelled k) h = alter (m_name (tk_meta k)) (\<lambda>row.
     row \<lparr> tk_status := TCancelled, tk_meta := with_update_at (m_updated_at (tk_meta k)) (tk_meta row) \<rparr>) h"
| "tasks_after ts _ h = h"

section \<open>Frames\<close>

lemma put_flow_version_frame [simp]:
  "get_execution (put_flow_version v t) r = get_execution t r" "get_task (put_flow_version v t) r = get_task t r"
  by (simp_all add: put_flow_version_def get_execution_def get_task_def cong: option.case_cong)

lemma put_seq_frame [simp]:
  "get_execution (put_next_generated_seq n t) r = get_execution t r"
  "get_task (put_next_generated_seq n t) r = get_task t r"
  by (simp_all add: put_next_generated_seq_def get_execution_def get_task_def cong: option.case_cong)

lemma claims_execution [simp]: "get_execution (apply_tasks_claimed ts ks t) r = get_execution t r"
  unfolding apply_tasks_claimed_def
  by (induction ks arbitrary: t) (simp_all add: claim_one_def split: option.split)

lemma rows_named:
  assumes "wf_txn t"
  shows "execution_rows t n = Some e \<Longrightarrow> m_name (ex_meta e) = n"
    "task_rows t n = Some k \<Longrightarrow> m_name (tk_meta k) = n"
  using assms by (auto simp: wf_txn_def rows_under_def execution_rows_def task_rows_def)

lemma put_rows:
  "execution_rows (put_execution e t) = (execution_rows t)(m_name (ex_meta e) \<mapsto> e)"
  "task_rows (put_task k t) = (task_rows t)(m_name (tk_meta k) \<mapsto> k)"
  by (auto simp: execution_rows_def task_rows_def fun_eq_iff)

text \<open>The projections implement the maps.\<close>

fun of_execution :: "event \<Rightarrow> bool" where
  "of_execution (ExecutionCreated _ _) = True"
| "of_execution (ExecutionCompleting _) = True"
| "of_execution (ExecutionCompleted _) = True"
| "of_execution (ExecutionTerminating _) = True"
| "of_execution (ExecutionTerminated _) = True"
| "of_execution _ = False"

lemma dispatch_event_executions:
  assumes "dispatch_event ts ev t = Some u" "\<not> of_execution ev"
  shows "get_execution u r = get_execution t r"
  using assms
  by (cases ev)
     (auto simp: projection_defs apply_flow_version_created_def apply_thread_created_def Let_def
       put_flow_frame split: option.splits thread_owner.splits if_splits)

lemma dispatch_event_execution_rows:
  assumes "dispatch_event ts ev t = Some u" "wf_txn t"
  shows "execution_rows u = executions_after ts ev (execution_rows t)"
proof (cases "of_execution ev")
  case False
  then have "get_execution u r = get_execution t r" for r
    using dispatch_event_executions [OF assms(1)] by blast
  then show ?thesis using False by (cases ev) (simp_all add: execution_rows_def fun_eq_iff)
next
  case True
  then show ?thesis using assms
    by (cases ev)
       (auto simp: projection_defs put_rows get_execution_rows alter_def rows_named [OF assms(2)]
         split: option.splits)
qed

lemma claim_one_rows:
  assumes "wf_txn t"
  shows "task_rows (claim_one ts k t) = alter (m_name (tk_meta k)) (claimed ts k) (task_rows t)"
  by (auto simp: claim_one_def get_task_rows put_rows alter_def claimed_def rows_named(2) [OF assms]
      fun_upd_idem split: option.split)

lemma wf_claim_one: "wf_txn t \<Longrightarrow> wf_txn (claim_one ts k t)"
  using rows_under_claim_one seq_claims [of ts "[k]" t] by (simp add: wf_txn_def apply_tasks_claimed_def)

lemma claims_rows:
  "wf_txn t \<Longrightarrow> task_rows (apply_tasks_claimed ts ks t) =
     fold (\<lambda>k. alter (m_name (tk_meta k)) (claimed ts k)) ks (task_rows t)"
  unfolding apply_tasks_claimed_def
  by (induction ks arbitrary: t) (simp_all add: claim_one_rows wf_claim_one)

lemma dispatch_event_tasks:
  assumes "dispatch_event ts ev t = Some u" "group_of ev \<noteq> TaskGroup"
  shows "get_task u r = get_task t r"
  using assms
  by (cases ev)
     (auto simp: projection_defs apply_flow_version_created_def apply_thread_created_def Let_def
       put_flow_frame split: option.splits thread_owner.splits if_splits)

lemma task_rows_frame [simp]:
  "task_rows (remove_child p c t) = task_rows t" "task_rows (add_child p c t) = task_rows t"
  "task_rows (put_activity a t) = task_rows t" "task_rows (bump_generated_seq n t) = task_rows t"
  by (simp_all add: task_rows_def fun_eq_iff)

lemma dispatch_event_task_rows:
  assumes "dispatch_event ts ev t = Some u" "wf_txn t"
  shows "task_rows u = tasks_after ts ev (task_rows t)"
proof (cases "group_of ev = TaskGroup")
  case False
  then have "get_task u r = get_task t r" for r
    using dispatch_event_tasks [OF assms(1)] by blast
  then show ?thesis using False by (cases ev) (simp_all add: task_rows_def fun_eq_iff)
next
  case True
  then show ?thesis using assms
    by (cases ev)
       (auto simp: projection_defs Let_def put_rows get_task_rows alter_def rows_named [OF assms(2)]
         claims_rows split: option.splits)
qed

section \<open>A table through a handler\<close>

definition holding :: "(txn \<Rightarrow> 'h) \<Rightarrow> 'h \<Rightarrow> pstate \<Rightarrow> bool" where
  "holding rows h s \<longleftrightarrow> wf_work s \<and> rows (p_work s) = h"

text \<open>From a state that holds the table \<open>h\<close> the procedure ends, however it ends, with a table in \<open>H\<close>.\<close>

definition ends :: "(txn \<Rightarrow> 'h) \<Rightarrow> 'h \<Rightarrow> 'a handler \<Rightarrow> ('h \<Rightarrow> bool) \<Rightarrow> bool" where
  "ends rows h m H \<longleftrightarrow> (\<forall>s. holding rows h s \<longrightarrow> (\<exists>h'. H h' \<and> holding rows h' (snd (m s))))"

named_theorems ending

lemma ends_frame: "preserves (holding rows h) m \<Longrightarrow> H h \<Longrightarrow> ends rows h m H"
  by (auto simp: ends_def preserves_def)

lemma ends_bnd:
  assumes "preserves (holding rows h) m" "H h" "\<And>x. ends rows h (f x) H"
  shows "ends rows h (bnd m f) H"
  unfolding ends_def
proof (intro allI impI)
  fix s assume "holding rows h s"
  then have "holding rows h (snd (m s))" using assms(1) by (simp add: preserves_def)
  then show "\<exists>h'. H h' \<and> holding rows h' (snd (bnd m f s))"
    using assms(2,3) by (auto simp: ends_def bnd_def split: prod.split outcome.split)
qed

lemma ends_throw [ending]: "H h \<Longrightarrow> ends rows h (throw e) H"
  by (rule ends_frame) (rule pres)

lemma ends_reject [ending]: "H h \<Longrightarrow> ends rows h (reject ty why) H"
  by (simp add: reject_def ends_throw)

lemma ends_panic [ending]: "H h \<Longrightarrow> ends rows h (panic w) H"
  by (rule ends_frame) (rule pres)

lemma ends_read:
  assumes "ends rows h (f (g h)) H"
  shows "ends rows h (bnd (gets (\<lambda>s. g (rows (p_work s)))) f) H"
  using assms by (auto simp: ends_def holding_def bnd_def gets_def)

locale tracked_rows =
  fixes rows :: "txn \<Rightarrow> object_name \<Rightarrow> 'v option"
    and after :: "timestamp \<Rightarrow> event \<Rightarrow> (object_name \<Rightarrow> 'v option) \<Rightarrow> object_name \<Rightarrow> 'v option"
    and name :: "'v \<Rightarrow> object_name"
  assumes rows_dispatch: "dispatch_event ts ev t = Some u \<Longrightarrow> wf_txn t \<Longrightarrow> rows u = after ts ev (rows t)"
    and rows_seq: "rows (put_next_generated_seq k t) = rows t"
    and rows_name: "wf_txn t \<Longrightarrow> rows t n = Some v \<Longrightarrow> name v = n"
begin

text \<open>Tables come from well-formed transactions, so their rows stand under their names.\<close>

lemma ends_named:
  assumes "(\<And>n v. h n = Some v \<Longrightarrow> name v = n) \<Longrightarrow> ends rows h m H"
  shows "ends rows h m H"
  unfolding ends_def
proof (intro allI impI)
  fix s assume s: "holding rows h s"
  then have "h n = Some v \<Longrightarrow> name v = n" for n v
    using rows_name [of "p_work s" n v] by (auto simp: holding_def wf_work_def)
  from assms [OF this] s show "\<exists>h'. H h' \<and> holding rows h' (snd (m s))"
    by (auto simp: ends_def)
qed

lemma steps: "keeps_steps (holding rows h)"
proof -
  have "wf_work s \<Longrightarrow> wf_work (snd (next_generated_seq s))" for s
    using wf.keeps_next_generated_seq by (simp add: preserves_def)
  then show ?thesis
    by (auto simp: keeps_steps_def holding_def wf_work_def pushed_def rows_seq run_primitives)
qed

lemma projection: "(\<And>ts. after ts ev h = h) \<Longrightarrow> keeps_projection (holding rows h) ev"
  by (auto simp: keeps_projection_def holding_def wf_work_def pushed_def rows_dispatch intro: dispatch_event_wf)

lemma ends_event [ending]:
  assumes "H h" "\<And>ts. H (after ts ev h)"
  shows "ends rows h (append_event ev) H"
  using assms
  by (auto simp: ends_def holding_def wf_work_def run_primitives pushed_def rows_dispatch
      intro: dispatch_event_wf split: option.split)

lemma ends_event_then [ending]:
  assumes "H h" "\<And>ts. ends rows (after ts ev h) m H"
  shows "ends rows h (seq (append_event ev) m) H"
  unfolding ends_def
proof (intro allI impI)
  fix s assume s: "holding rows h s"
  show "\<exists>h'. H h' \<and> holding rows h' (snd (seq (append_event ev) m s))"
  proof (cases "dispatch_event (e_clock (p_env s) (p_ticks s)) ev (p_work s)")
    case None
    then show ?thesis using s assms(1) by (auto simp: seq_def bnd_def run_primitives holding_def wf_work_def)
  next
    case (Some w)
    then have "holding rows (after (e_clock (p_env s) (p_ticks s)) ev h) ((pushed (PEvent ev) s) \<lparr> p_work := w \<rparr>)"
      using s by (auto simp: holding_def wf_work_def rows_dispatch intro: dispatch_event_wf)
    then show ?thesis using assms(2) Some by (auto simp: seq_def bnd_def run_primitives ends_def)
  qed
qed

end

interpretation ex_rows: tracked_rows execution_rows executions_after "\<lambda>e. m_name (ex_meta e)"
  by unfold_locales (auto simp: dispatch_event_execution_rows execution_rows_def fun_eq_iff
      dest: rows_named(1) [unfolded execution_rows_def])

interpretation tk_rows: tracked_rows task_rows tasks_after "\<lambda>k. m_name (tk_meta k)"
  by unfold_locales (auto simp: dispatch_event_task_rows task_rows_def fun_eq_iff
      dest: rows_named(2) [unfolded task_rows_def])

text \<open>The handlers of the other elements leave the table as it is.\<close>

interpretation ex_frame: task_invariant "holding execution_rows h" for h
proof (rule task_invariantI [OF ex_rows.steps])
  fix ev assume "group_of ev \<noteq> RootGroup"
  then show "keeps_projection (holding execution_rows h) ev" by (cases ev) (auto intro: ex_rows.projection)
qed

interpretation tk_frame: root_invariant "holding task_rows h" for h
proof (rule root_invariantI [OF tk_rows.steps])
  fix ev assume "group_of ev \<noteq> TaskGroup"
  then show "keeps_projection (holding task_rows h) ev" by (cases ev) (auto intro: tk_rows.projection)
qed

section \<open>Executions\<close>

fun status_advances :: "execution_status \<Rightarrow> execution_status \<Rightarrow> bool" where
  "status_advances Running _ = True"
| "status_advances Completing s = (s = Completing \<or> s = Completed)"
| "status_advances (Terminating r) s = (s = Terminating r \<or> s = Terminated r)"
| "status_advances Completed s = (s = Completed)"
| "status_advances (Terminated r) s = (s = Terminated r)"

definition advances :: "execution \<Rightarrow> execution \<Rightarrow> bool" where
  "advances e e' \<longleftrightarrow>
     m_name (ex_meta e') = m_name (ex_meta e) \<and> m_uid (ex_meta e') = m_uid (ex_meta e)
     \<and> m_created_at (ex_meta e') = m_created_at (ex_meta e)
     \<and> ex_flow_version e' = ex_flow_version e \<and> ex_input e' = ex_input e \<and> ex_deadline e' = ex_deadline e
     \<and> status_advances (ex_status e) (ex_status e')
     \<and> (\<not> is_running (ex_status e) \<longrightarrow> ex_output e' = ex_output e)
     \<and> (is_terminal (ex_status e) \<longrightarrow> e' = e)"

lemma status_advances_trans: "status_advances a b \<Longrightarrow> status_advances b c \<Longrightarrow> status_advances a c"
  by (cases a; cases b) auto

lemma status_advances_running: "status_advances a b \<Longrightarrow> is_running b \<Longrightarrow> is_running a"
  by (cases a; cases b) auto

lemma advances_refl [simp, intro]: "advances e e"
  by (cases "ex_status e") (auto simp: advances_def)

lemma advances_trans: "advances a b \<Longrightarrow> advances b c \<Longrightarrow> advances a c"
  unfolding advances_def using status_advances_trans status_advances_running by metis

definition executions_advance :: "(object_name \<rightharpoonup> execution) \<Rightarrow> (object_name \<rightharpoonup> execution) \<Rightarrow> bool" where
  "executions_advance h h' \<longleftrightarrow> (\<forall>n e. h n = Some e \<longrightarrow> (\<exists>e'. h' n = Some e' \<and> advances e e'))"

lemma executions_advance_refl [simp, intro]: "executions_advance h h"
  by (auto simp: executions_advance_def)

lemma executions_advance_trans:
  "executions_advance a b \<Longrightarrow> executions_advance b c \<Longrightarrow> executions_advance a c"
  unfolding executions_advance_def using advances_trans by metis

lemma executions_advance_alter:
  "(\<And>e. h n = Some e \<Longrightarrow> advances e (f e)) \<Longrightarrow> executions_advance h (alter n f h)"
  by (auto simp: executions_advance_def alter_def split: option.split)

lemma ends_read_execution [ending]:
  "ends execution_rows h (f (h (o_name r))) H \<Longrightarrow> ends execution_rows h (bnd (read_execution r) f) H"
  unfolding read_execution_def get_execution_rows
  by (rule ends_read [where g = "\<lambda>h. h (o_name r)" and rows = execution_rows])

lemmas ends_execution_steps [ending] =
  ends_bnd [OF ex_frame.keeps_now] ends_bnd [OF ex_frame.keeps_mint] ends_bnd [OF ex_frame.keeps_next_generated_seq]
  ends_bnd [OF ex_frame.keeps_read_children]
  ends_bnd [OF ex_frame.keeps_machine] ends_bnd [OF ex_frame.keeps_execution_deadline]
  ends_bnd [OF ex_frame.keeps_typed] ends_bnd [OF ex_frame.keeps_execution_open]
  ends_bnd [OF ex_frame.keeps_ask] ends_bnd [OF ex_frame.keeps_read_flow_by_name]
  ends_frame [OF ex_frame.keeps_terminate_root_threads] ends_frame [OF ex_frame.keeps_append_command]
  ends_frame [OF ex_frame.keeps_append_reject]

lemma ends_debug_mark [ending]:
  assumes "H h" "ends execution_rows h (f x) H" "\<And>t y. mark t x = Inr y \<Longrightarrow> ends execution_rows h (f y) H"
  shows "ends execution_rows h (bnd (debug_mark mark x) f) H"
  unfolding debug_mark_def bnd_assoc if_distrib [of "\<lambda>m. bnd m f"] sum.case_distrib [of "\<lambda>m. bnd m f"] bnd_ret bnd_panic
  using assms by (auto intro!: ending split: sum.split)

lemmas ends_continue_frames [ending] =
  ends_frame [OF ex_frame.keeps_activity_continue_complete] ends_frame [OF ex_frame.keeps_thread_continue_complete]
  ends_frame [OF ex_frame.keeps_activity_continue_terminate] ends_frame [OF ex_frame.keeps_thread_continue_terminate]

lemma execution_terminate_advances:
  "ends execution_rows h (execution_terminate n u reason) (executions_advance h)"
proof (rule ex_rows.ends_named)
  assume "\<And>n e. h n = Some e \<Longrightarrow> m_name (ex_meta e) = n"
  then show ?thesis
    by (auto simp: execution_terminate_def execution_mark_terminating_def execution_mark_terminated_def
        advances_def with_update_at_def intro!: ending executions_advance_alter split: option.split sum.split)
qed

lemma execution_complete_advances:
  "ends execution_rows h (execution_complete ex out) (executions_advance h)"
proof (rule ex_rows.ends_named)
  assume "\<And>n e. h n = Some e \<Longrightarrow> m_name (ex_meta e) = n"
  then show ?thesis
    by (auto simp: execution_complete_def execution_mark_completing_def execution_mark_completed_def
        advances_def with_update_at_def
        intro!: ending executions_advance_alter split: option.split sum.split)
qed

lemma execution_continue_terminate_advances:
  "ends execution_rows h (execution_continue_terminate ex) (executions_advance h)"
proof (rule ex_rows.ends_named)
  assume "\<And>n e. h n = Some e \<Longrightarrow> m_name (ex_meta e) = n"
  then show ?thesis
    by (auto simp: execution_continue_terminate_def execution_mark_terminated_def advances_def with_update_at_def
        intro!: ending executions_advance_alter split: option.split sum.split lifecycle.split)
qed

lemma execution_continue_complete_advances:
  "ends execution_rows h (execution_continue_complete ex) (executions_advance h)"
proof (rule ex_rows.ends_named)
  assume "\<And>n e. h n = Some e \<Longrightarrow> m_name (ex_meta e) = n"
  then show ?thesis
    by (auto simp: execution_continue_complete_def execution_mark_completed_def advances_def with_update_at_def
        intro!: ending executions_advance_alter split: option.split sum.split)
qed

lemma execution_create_advances:
  "ends execution_rows h (execution_create rid n fv input) (executions_advance h)"
  by (auto simp: execution_create_def Let_def build_meta_def executions_advance_def
      intro!: ending split: option.split sum.split)

lemma flow_create_advances: "ends execution_rows h (flow_create rid n def) (executions_advance h)"
  by (auto simp: flow_create_def intro!: ending split: option.split sum.split)

lemmas execution_handlers_advance =
  execution_terminate_advances execution_complete_advances execution_continue_terminate_advances
  execution_continue_complete_advances execution_create_advances flow_create_advances

lemma handle_continue_advances:
  "ends execution_rows h (handle_continue_complete owner) (executions_advance h)"
  "ends execution_rows h (handle_continue_terminate owner) (executions_advance h)"
  by (auto simp: execution_handlers_advance handle_continue_complete_def handle_continue_terminate_def
      intro!: ending split: object_kind.split)

lemma dispatch_command_advances: "ends execution_rows h (dispatch_command c) (executions_advance h)"
  by (cases c) (auto simp: execution_handlers_advance handle_continue_advances intro!: ends_frame pres)

section \<open>From a command to the leader's runs\<close>

lemma process_command_work:
  assumes "process_command i c db l = (Done (es, work), l')"
  shows "work = begin_txn db \<or> (\<exists>l0 s. dispatch_command c (handler_start i l0 db) = (Done (), s) \<and> work = p_work s)"
proof (cases "\<exists>e l1. retry_attempts 1 (dispatch_once i c db) l = (Err e, l1)")
  case True
  then show ?thesis using assms
    by (auto simp: process_command_def reject_command_def Let_def split: prod.splits)
next
  case False
  then obtain l0 where "dispatch_once i c db l0 = (Done (es, work), l')"
    using assms retry_attempts_Done
    by (fastforce simp: process_command_def split: prod.splits outcome.splits)
  then show ?thesis
    by (auto simp: dispatch_once_def split: prod.splits outcome.splits unit.splits if_splits)
qed

lemma process_command_ends:
  assumes "process_command i c db l = (Done (es, work), l')" "wf_db db"
    and "\<And>h. ends rows h (dispatch_command c) (H h)" "\<And>h. H h h"
  shows "wf_txn work \<and> H (rows (begin_txn db)) (rows work)"
  using process_command_work [OF assms(1)]
proof (elim disjE exE conjE)
  fix l0 s assume s: "dispatch_command c (handler_start i l0 db) = (Done (), s)" "work = p_work s"
  have "holding rows (rows (begin_txn db)) (handler_start i l0 db)"
    using assms(2) by (simp add: holding_def wf_work_def handler_start_def wf_db_def)
  then obtain h' where "H (rows (begin_txn db)) h'" "holding rows h' s"
    using assms(3) [of "rows (begin_txn db)"] s(1) unfolding ends_def by fastforce
  then show ?thesis using s(2) by (auto simp: holding_def wf_work_def)
qed (use assms(2,4) in \<open>auto simp: wf_db_def\<close>)

lemma execution_rows_db:
  "execution_rows (begin_txn db) (o_name r) = db_get_execution db r"
  "execution_rows (begin_txn (commit w t)) = execution_rows t"
  by (auto simp: execution_rows_def fun_eq_iff executions.get_open executions.get_commit)
     (simp add: db_get_execution_def)

lemma task_rows_db:
  "task_rows (begin_txn db) (o_name r) = db_get_task db r"
  "task_rows (begin_txn (commit w t)) = task_rows t"
  by (auto simp: task_rows_def fun_eq_iff tasks.get_open tasks.get_commit) (simp add: db_get_task_def)

text \<open>What every command keeps of a table, every step of a node keeps of its storage.\<close>

lemma leader_step_keeps:
  assumes "leader_step n n'" "wf_db (n_db n)"
    and "\<And>e c h. log_read (n_log n) (n_pos n) = Some e \<Longrightarrow> en_payload e = PCommand c \<Longrightarrow>
      ends rows h (dispatch_command c) (H h)"
    and "\<And>h. H h h" "\<And>w t. rows (begin_txn (commit w t)) = rows t"
  shows "wf_db (n_db n') \<and> H (rows (begin_txn (n_db n))) (rows (begin_txn (n_db n')))"
proof -
  obtain e m where m: "log_read (n_log n) (n_pos n) = Some e" "leader_entry e n = Some m" "n_db n' = n_db m"
    using assms(1) by (auto elim: leader_step.cases)
  show ?thesis
  proof (cases "\<exists>c. en_payload e = PCommand c")
    case True
    then obtain c es work l where c: "en_payload e = PCommand c"
      "process_command (en_entry_id e) c (n_db n) (n_leader n) = (Done (es, work), l)"
      "m = settle_command (en_entry_id e) (es, work) l n"
      using m(2) by (auto simp: leader_entry_def split: prod.splits outcome.splits)
    from process_command_ends [OF c(2) assms(2), of rows H] assms(3) [OF m(1) c(1)] assms(4)
    have "wf_txn work \<and> H (rows (begin_txn (n_db n))) (rows work)" by blast
    moreover have "n_db m = n_db n \<or> (\<exists>w. n_db m = commit (Some w) work)"
      using c(3) by (auto simp: settle_command_def Let_def split: prod.splits)
    ultimately show ?thesis using m(3) assms(2,4,5) wf_commit by auto
  next
    case False
    then have "m = n" using m(2) by (auto simp: leader_entry_def split: entry_payload.splits if_splits)
    then show ?thesis using m(3) assms(2,4) by simp
  qed
qed

lemma node_step_keeps:
  assumes "node_step n n'" "wf_db (n_db n)"
    and "\<And>c h. ends rows h (dispatch_command c) (H h)" "\<And>h. H h h"
    and "\<And>w t. rows (begin_txn (commit w t)) = rows t"
  shows "wf_db (n_db n') \<and> H (rows (begin_txn (n_db n))) (rows (begin_txn (n_db n')))"
  using assms(1)
proof cases
  case lead
  then show ?thesis using leader_step_keeps [of n n' rows H] assms(2-5) by blast
next
  case client
  then show ?thesis using assms(2,4) by (auto simp: client_append_def Let_def split: prod.split)
qed

lemma node_steps_executions:
  assumes "node_step\<^sup>*\<^sup>* n m" "wf_db (n_db n)"
  shows "wf_db (n_db m) \<and>
    executions_advance (execution_rows (begin_txn (n_db n))) (execution_rows (begin_txn (n_db m)))"
  using assms
proof (induction rule: rtranclp_induct)
  case (step y z)
  then show ?case
    using node_step_keeps [OF step(2), of execution_rows executions_advance] dispatch_command_advances
      executions_advance_trans execution_rows_db(2) by blast
qed auto

text \<open>A command that its handler accepts, as a step of the leader.\<close>

lemma process_command_Done:
  assumes "dispatch_command c (handler_start i l db) = (Done (), s)" "p_entries s \<noteq> []"
  shows "process_command i c db l =
    (Done (p_entries s, p_work s), (leader_after s l) \<lparr> l_last_applied := events_of (p_entries s) \<rparr>)"
proof -
  have "dispatch_once i c db l =
      (Done (p_entries s, p_work s), (leader_after s l) \<lparr> l_last_applied := events_of (p_entries s) \<rparr>)"
    using assms by (simp add: dispatch_once_def split: unit.split)
  then show ?thesis by (simp add: process_command_def) (subst retry_attempts.simps, simp)
qed

lemma leader_step_Done:
  assumes "log_read (n_log n) (n_pos n) = Some e" "en_payload e = PCommand c"
    and "dispatch_command c (handler_start (en_entry_id e) (n_leader n) (n_db n)) = (Done (), s)" "p_entries s \<noteq> []"
  shows "\<exists>m w. leader_step n m \<and> n_db m = commit (Some w) (p_work s)"
proof -
  let ?m = "settle_command (en_entry_id e) (p_entries s, p_work s)
     ((leader_after s (n_leader n)) \<lparr> l_last_applied := events_of (p_entries s) \<rparr>) n"
  have "leader_entry e n = Some ?m"
    using assms(2) process_command_Done [OF assms(3,4)] by (simp add: leader_entry_def)
  then have "leader_step n (?m \<lparr> n_pos := n_pos n + 1 \<rparr>)" by (rule leader_step.intros [OF assms(1)])
  moreover have "\<exists>w. n_db ?m = commit (Some w) (p_work s)"
    using assms(4) by (auto simp: settle_command_def Let_def split: prod.split)
  ultimately show ?thesis by fastforce
qed

section \<open>An execution, cancelled\<close>

definition sample_execution :: execution where
  "sample_execution = \<lparr> ex_meta = build_meta 5 (sample_name 5) 1000 (), ex_flow_version = sample_ref 1,
     ex_status = Running, ex_deadline = None, ex_input = JNull, ex_output = None \<rparr>"

definition execution_node :: node where
  "execution_node = client_append (TerminateExecution (sample_name 5) None Cancelled)
     ((new_node sample_env) \<lparr> n_db := commit None (put_execution sample_execution (begin_txn empty_db)) \<rparr>)"

lemma sample_execution_simps [simp]:
  "m_name (ex_meta sample_execution) = sample_name 5" "ex_ref sample_execution = ORef (sample_name 5) 5"
  "ex_status sample_execution = Running"
  by (simp_all add: sample_execution_def build_meta_def ex_ref_def meta_ref_def)

lemma execution_node_db:
  "wf_db (n_db execution_node)" "db_get_execution (n_db execution_node) (ORef (sample_name 5) u) = Some sample_execution"
proof -
  have db: "n_db execution_node = commit None (put_execution sample_execution (begin_txn empty_db))"
    by (simp add: execution_node_def client_append_def Let_def split: prod.split)
  show "db_get_execution (n_db execution_node) (ORef (sample_name 5) u) = Some sample_execution"
    by (simp add: db executions.get_commit)
  have "rows_under n (put_execution sample_execution (begin_txn empty_db))" if "rows_under n (begin_txn empty_db)" for n
    using that by (rule rows_under_writes)
  then have "wf_txn (put_execution sample_execution (begin_txn empty_db))"
    using wf_empty_db by (simp add: wf_db_def wf_txn_def)
  then show "wf_db (n_db execution_node)" unfolding db by (rule wf_commit)
qed

lemma execution_node_step:
  "\<exists>m x. node_step execution_node m \<and> db_get_execution (n_db m) (ORef (sample_name 5) 0) = Some x
     \<and> ex_status x = Terminated Cancelled"
proof -
  have row: "execution_rows (begin_txn (n_db execution_node)) (sample_name 5) = Some sample_execution"
    using execution_rows_db(1) [of "n_db execution_node" "ORef (sample_name 5) 0"] execution_node_db(2) by simp
  obtain e where e: "log_read (n_log execution_node) (n_pos execution_node) = Some e"
    "en_payload e = PCommand (TerminateExecution (sample_name 5) None Cancelled)"
    by (simp add: execution_node_def node_eval)
  have kids: "get_children (begin_txn (n_db execution_node)) p = {}" for p
    by (auto simp: execution_node_def client_append_def Let_def mem_get_children mem_commit_children
        begin_txn_def empty_batch_def put_execution_def empty_db_def split: prod.splits)
  let ?r = "dispatch_command (TerminateExecution (sample_name 5) None Cancelled)
      (handler_start (en_entry_id e) (n_leader execution_node) (n_db execution_node))"
  have "fst ?r = Done () \<and> p_entries (snd ?r) \<noteq> []
     \<and> (\<exists>x. get_execution (p_work (snd ?r)) (ORef (sample_name 5) 0) = Some x \<and> ex_status x = Terminated Cancelled)"
    by (simp add: execution_terminate_def read_execution_def read_children_def run_defs run_primitives
        get_execution_rows put_rows row kids
        execution_mark_terminating_def execution_mark_terminated_def apply_execution_terminating_def
        apply_execution_terminated_def handler_start_def pushed_def)
  then obtain s where s: "?r = (Done (), s)" "p_entries s \<noteq> []"
    "\<exists>x. get_execution (p_work s) (ORef (sample_name 5) 0) = Some x \<and> ex_status x = Terminated Cancelled"
    by (metis prod.collapse)
  obtain m w where "leader_step execution_node m" "n_db m = commit (Some w) (p_work s)"
    using leader_step_Done [OF e s(1,2)] by blast
  then show ?thesis using s(3) node_step.lead by (fastforce simp: executions.get_commit)
qed

section \<open>Properties\<close>

text \<open>C13. An execution only moves forward. Through any run of a node, whatever commands clients append, an
  execution keeps its row, its identity, definition, input and deadline; it goes from \<open>Running\<close> to
  \<open>Completing\<close> and \<open>Completed\<close>, or to \<open>Terminating\<close> and \<open>Terminated\<close> for one reason; its output does not
  change once it is no longer running, and a finished execution never changes at all.\<close>

theorem executions_only_advance:
  assumes "wf_db (n_db n)" "node_step\<^sup>*\<^sup>* n m" "db_get_execution (n_db n) r = Some x"
  shows "\<exists>y. db_get_execution (n_db m) r = Some y \<and> advances x y"
  using node_steps_executions [OF assms(2,1)] assms(3)
  by (auto simp: executions_advance_def execution_rows_db(1) [symmetric])

theorem executions_only_advance_witness:
  "\<exists>m y. node_step\<^sup>*\<^sup>* execution_node m \<and> db_get_execution (n_db m) (ORef (sample_name 5) 0) = Some y
     \<and> ex_status y = Terminated Cancelled \<and> advances sample_execution y"
proof -
  obtain m x where m: "node_step execution_node m" "db_get_execution (n_db m) (ORef (sample_name 5) 0) = Some x"
    "ex_status x = Terminated Cancelled" using execution_node_step by blast
  then show ?thesis
    using executions_only_advance [OF execution_node_db(1) r_into_rtranclp [of node_step, OF m(1)]
        execution_node_db(2) [of 0]] by auto
qed

end
