(* ===== verification/Leases.thy ===== *)
theory Leases
  imports Lifecycle
begin

text \<open>
  Tasks, \<open>src/crates/engine-types/src/types/task.rs\<close> and \<open>src/crates/engine/src/elements/task.rs\<close>: the
  lease a worker holds while it runs a task, the budget of each retrier and the wait before a retry, and
  what the five task commands do to the row of a task.
\<close>

section \<open>Retry budgets\<close>

definition budget :: "retry_policy \<Rightarrow> nat" where
  "budget p = nat (max (rp_max_attempts p) 0 mod 2 ^ 32)"

lemma has_budget_after_budget: "has_budget_after p a \<longleftrightarrow> a < budget p"
  by (simp add: has_budget_after_def budget_def)

lemma find_retrier_index:
  "find_retrier e i ps = Some (j, p) \<Longrightarrow> i \<le> j \<and> j - i < length ps \<and> ps ! (j - i) = p
     \<and> matches_error_names e (rp_error_equals p)
     \<and> (\<forall>k < j - i. \<not> matches_error_names e (rp_error_equals (ps ! k)))"
proof (induction ps arbitrary: i)
  case (Cons q qs)
  show ?case
  proof (cases "matches_error_names e (rp_error_equals q)")
    case False
    then have "find_retrier e (Suc i) qs = Some (j, p)" using Cons.prems by simp
    from Cons.IH [OF this] show ?thesis using False
      by (auto simp: nth_Cons' less_Suc_eq_0_disj) (metis Suc_diff_Suc Suc_le_lessD diff_Suc_1 less_Suc_eq_0_disj nat_neq_iff not_less_eq)
  qed (use Cons.prems in auto)
qed simp

text \<open>Every retrier has used at most its budget, and the count that an execution's context shows is the
  sum of the retriers' counts.\<close>

definition retries_ok :: "task \<Rightarrow> bool" where
  "retries_ok k \<longleftrightarrow>
     length (rs_retrier_attempts (tk_retry_state k)) \<le> length (tk_retry_plan k)
     \<and> (\<forall>i < length (rs_retrier_attempts (tk_retry_state k)).
          attempts_at (tk_retry_state k) i \<le> budget (tk_retry_plan k ! i))
     \<and> rs_attempts (tk_retry_state k) = sum_list (map ra_attempt_count (rs_retrier_attempts (tk_retry_state k)))"

lemma retries_bounded:
  assumes "retries_ok k"
  shows "rs_attempts (tk_retry_state k) \<le> sum_list (map budget (tk_retry_plan k))"
proof -
  let ?as = "rs_retrier_attempts (tk_retry_state k)" and ?ps = "tk_retry_plan k"
  have n: "length ?as \<le> length ?ps" using assms by (simp add: retries_ok_def)
  have "sum_list (map ra_attempt_count ?as) = (\<Sum>i<length ?as. ra_attempt_count (?as ! i))"
    by (simp add: sum_list_sum_nth atLeast0LessThan)
  also have "\<dots> \<le> (\<Sum>i<length ?as. budget (?ps ! i))"
    using assms by (intro sum_mono) (auto simp: retries_ok_def attempts_at_def)
  also have "\<dots> \<le> (\<Sum>i<length ?ps. budget (?ps ! i))"
    using n by (intro sum_mono2) auto
  also have "\<dots> = sum_list (map budget ?ps)" by (simp add: sum_list_sum_nth atLeast0LessThan)
  finally show ?thesis using assms by (simp add: retries_ok_def)
qed

section \<open>Leases\<close>

definition lease_ok :: "task \<Rightarrow> bool" where
  "lease_ok k \<longleftrightarrow>
     (tk_status k = TRunning \<longrightarrow> tk_worker_id k \<noteq> None \<and> tk_lease_expires_at k \<noteq> None)
     \<and> (tk_status k = TPending \<longrightarrow> tk_worker_id k = None \<and> tk_lease_expires_at k = None)"

definition task_advances :: "task \<Rightarrow> task \<Rightarrow> bool" where
  "task_advances k k' \<longleftrightarrow>
     m_name (tk_meta k') = m_name (tk_meta k) \<and> m_uid (tk_meta k') = m_uid (tk_meta k)
     \<and> m_owner (tk_meta k') = m_owner (tk_meta k) \<and> tk_execution k' = tk_execution k
     \<and> tk_resource k' = tk_resource k \<and> tk_arguments k' = tk_arguments k \<and> tk_deadline k' = tk_deadline k
     \<and> tk_retry_plan k' = tk_retry_plan k
     \<and> rs_attempts (tk_retry_state k) \<le> rs_attempts (tk_retry_state k')
     \<and> (task_is_terminal (tk_status k) \<longrightarrow> k' = k)"

lemma task_advances_refl [simp, intro]: "task_advances k k"
  by (simp add: task_advances_def)

lemma task_advances_trans: "task_advances a b \<Longrightarrow> task_advances b c \<Longrightarrow> task_advances a c"
  by (auto simp: task_advances_def)

lemma handle_failure_advances:
  "handle_failure w e t k = Inr (oc, k') \<Longrightarrow> task_advances k k'"
  by (auto simp: handle_failure_def Let_def task_advances_def with_update_at_def split: if_splits option.splits)

lemma handle_failure_released:
  "handle_failure w e t k = Inr (oc, k') \<Longrightarrow> tk_worker_id k' = None \<and> tk_status k' \<noteq> TRunning"
  by (auto simp: handle_failure_def Let_def split: if_splits option.splits)

lemma resize_attempts_simps:
  "length (resize_attempts n xs) = max n (length xs)"
  "i < length (resize_attempts n xs) \<Longrightarrow>
     resize_attempts n xs ! i = (if i < length xs then xs ! i else default_attempt_state)"
  "sum_list (map ra_attempt_count (resize_attempts n xs)) = sum_list (map ra_attempt_count xs)"
  by (auto simp: resize_attempts_def nth_append default_attempt_state_def sum_list_replicate)

lemma sum_list_map_update:
  fixes f :: "'a \<Rightarrow> nat"
  shows "i < length xs \<Longrightarrow> sum_list (map f (xs[i := v])) + f (xs ! i) = sum_list (map f xs) + f v"
  by (induction xs arbitrary: i) (auto simp: nth_Cons' less_Suc_eq_0_disj split: nat.splits)

text \<open>The retried task: the counter of the retrier that matched goes up by one, every other counter stays.\<close>

lemma retry_slots:
  fixes a index :: nat and t :: "timestamp option" and ps :: "retry_policy list" and xs :: "retrier_attempt_state list"
  defines "ys \<equiv> (resize_attempts (index + 1) xs)[index := \<lparr> ra_attempt_count = a + 1, ra_last_retry_at = t \<rparr>]"
  assumes "index < length ps" "length xs \<le> length ps"
    "a = (if index < length xs then ra_attempt_count (xs ! index) else 0)"
  shows "length ys \<le> length ps" "index < length ys"
    "i < length ys \<Longrightarrow> ra_attempt_count (ys ! i) =
       (if i = index then a + 1 else if i < length xs then ra_attempt_count (xs ! i) else 0)"
    "sum_list (map ra_attempt_count ys) = sum_list (map ra_attempt_count xs) + 1"
proof -
  let ?rs = "resize_attempts (index + 1) xs"
  have i: "index < length ?rs" by (simp add: resize_attempts_simps)
  show "length ys \<le> length ps" "index < length ys"
    using assms(2,3) by (simp_all add: ys_def resize_attempts_simps)
  show "i < length ys \<Longrightarrow> ra_attempt_count (ys ! i) =
       (if i = index then a + 1 else if i < length xs then ra_attempt_count (xs ! i) else 0)"
    by (auto simp: ys_def nth_list_update resize_attempts_simps default_attempt_state_def)
  have "ra_attempt_count (?rs ! index) = a"
    using assms(4) i by (simp add: resize_attempts_simps default_attempt_state_def)
  then show "sum_list (map ra_attempt_count ys) = sum_list (map ra_attempt_count xs) + 1"
    using sum_list_map_update [OF i, of ra_attempt_count "\<lparr> ra_attempt_count = a + 1, ra_last_retry_at = t \<rparr>"]
    by (simp add: ys_def resize_attempts_simps(3))
qed

definition task_ok :: "task \<Rightarrow> bool" where
  "task_ok k \<longleftrightarrow> retries_ok k \<and> lease_ok k"

lemma handle_failure_ok:
  assumes "handle_failure w e t k = Inr (oc, k')" "task_ok k"
  shows "task_ok k'"
proof (cases "find_retrier e 0 (tk_retry_plan k)")
  case None
  then show ?thesis using assms
    by (auto simp: handle_failure_def Let_def task_ok_def retries_ok_def lease_ok_def attempts_at_def split: if_splits)
next
  case (Some ip)
  obtain index p where ip: "ip = (index, p)" by (cases ip)
  then have f: "index < length (tk_retry_plan k)" "tk_retry_plan k ! index = p"
    using find_retrier_index [of e 0 "tk_retry_plan k" index p] Some by auto
  let ?a = "attempts_at (tk_retry_state k) index"
  show ?thesis
  proof (cases "has_budget_after p ?a")
    case False
    then show ?thesis using assms Some ip
      by (auto simp: handle_failure_def Let_def task_ok_def retries_ok_def lease_ok_def attempts_at_def split: if_splits)
  next
    case True
    note slots = retry_slots [OF f(1), where xs = "rs_retrier_attempts (tk_retry_state k)" and a = ?a and t = "Some t"]
    show ?thesis using assms Some ip True f slots
      by (auto simp: handle_failure_def Let_def task_ok_def retries_ok_def lease_ok_def attempts_at_def
          has_budget_after_budget split: if_splits)
  qed
qed

section \<open>The task commands\<close>

definition tasks_ok :: "(object_name \<rightharpoonup> task) \<Rightarrow> bool" where
  "tasks_ok h \<longleftrightarrow> (\<forall>n k. h n = Some k \<longrightarrow> task_ok k)"

definition tasks_advance :: "(object_name \<rightharpoonup> task) \<Rightarrow> (object_name \<rightharpoonup> task) \<Rightarrow> bool" where
  "tasks_advance h h' \<longleftrightarrow> (\<forall>n k. h n = Some k \<longrightarrow> (\<exists>k'. h' n = Some k' \<and> task_advances k k'))"

text \<open>What a command leaves of the tasks: every row advances, and rows stay sound.\<close>

definition tasks_step :: "(object_name \<rightharpoonup> task) \<Rightarrow> (object_name \<rightharpoonup> task) \<Rightarrow> bool" where
  "tasks_step h h' \<longleftrightarrow> tasks_advance h h' \<and> (tasks_ok h \<longrightarrow> tasks_ok h')"

lemma tasks_step_refl [simp, intro]: "tasks_step h h"
  by (auto simp: tasks_step_def tasks_advance_def)

lemma tasks_step_trans: "tasks_step a b \<Longrightarrow> tasks_step b c \<Longrightarrow> tasks_step a c"
  unfolding tasks_step_def tasks_advance_def using task_advances_trans by metis

lemma tasks_step_alter:
  "(\<And>k. h n = Some k \<Longrightarrow> task_advances k (f k) \<and> (task_ok k \<longrightarrow> task_ok (f k))) \<Longrightarrow> tasks_step h (alter n f h)"
  by (auto simp: tasks_step_def tasks_advance_def tasks_ok_def alter_def split: option.split if_splits)

lemma tasks_step_fold:
  "(\<And>k h. k \<in> set ks \<Longrightarrow> tasks_step h (f k h)) \<Longrightarrow> tasks_step h (fold f ks h)"
proof (induction ks arbitrary: h)
  case (Cons k ks)
  then have "tasks_step h (f k h)" "tasks_step (f k h) (fold f ks (f k h))" by auto
  then show ?case using tasks_step_trans by (auto)
qed simp

lemma ends_read_task [ending]:
  "ends task_rows h (f (h (o_name r))) H \<Longrightarrow> ends task_rows h (bnd (read_task r) f) H"
  unfolding read_task_def get_task_rows
  by (rule ends_read [where g = "\<lambda>h. h (o_name r)" and rows = task_rows])

lemmas ends_task_steps [ending] =
  ends_bnd [OF tk_frame.keeps_now] ends_bnd [OF tk_frame.keeps_activity_open]
  ends_bnd [OF tk_frame.keeps_read_activatable_tasks]
  ends_frame [OF tk_frame.keeps_activity_after_child_completed]
  ends_frame [OF tk_frame.keeps_activity_after_child_terminated]

lemma ends_whenp_command [ending]: "H h \<Longrightarrow> ends task_rows h (whenp b (append_command c)) H"
  by (intro ends_frame pres tk_frame.keeps_append_command)

lemma claimed_step:
  "task_advances row (claimed ts (task_claim w x t k) row)"
  "task_ok row \<Longrightarrow> task_ok (claimed ts (task_claim w x t k) row)"
  by (auto simp: claimed_def task_advances_def with_update_at_def task_claim_def is_claimable_at_def
      task_ok_def retries_ok_def lease_ok_def attempts_at_def split: task_status.splits)

lemma task_claim_all_step: "ends task_rows h (task_claim_all p) (tasks_step h)"
  by (auto simp: task_claim_all_def claimed_step
      intro!: ending tasks_step_fold tasks_step_alter split: option.split)

lemma task_complete_step: "ends task_rows h (task_complete rid k w out) (tasks_step h)"
proof (rule tk_rows.ends_named)
  assume "\<And>n k. h n = Some k \<Longrightarrow> m_name (tk_meta k) = n"
  then show ?thesis
    by (auto simp: task_complete_def task_mark_completed_def task_advances_def with_update_at_def task_ok_def
        retries_ok_def lease_ok_def attempts_at_def intro!: ending tasks_step_alter split: option.split sum.split)
qed

lemma task_cancel_step: "ends task_rows h (task_cancel k) (tasks_step h)"
proof (rule tk_rows.ends_named)
  assume "\<And>n k. h n = Some k \<Longrightarrow> m_name (tk_meta k) = n"
  then show ?thesis
    by (auto simp: task_cancel_def task_mark_cancelled_def task_advances_def with_update_at_def task_ok_def
        retries_ok_def lease_ok_def attempts_at_def intro!: ending tasks_step_alter split: option.split sum.split)
qed

lemma task_fail_step: "ends task_rows h (task_fail k w e) (tasks_step h)"
proof (rule tk_rows.ends_named)
  assume "\<And>n k. h n = Some k \<Longrightarrow> m_name (tk_meta k) = n"
  moreover have "handle_failure w e t tk = Inr (oc, tk') \<Longrightarrow> m_name (tk_meta tk') = m_name (tk_meta tk)" for t tk oc tk'
    using handle_failure_advances by (fastforce simp: task_advances_def)
  ultimately show ?thesis
    by (auto simp: task_fail_def handle_failure_advances handle_failure_ok
        intro!: ending tasks_step_alter split: option.split sum.split)
qed

lemma task_activate_ok: "ends task_rows h (task_activate p) (\<lambda>h'. tasks_ok h \<longrightarrow> tasks_ok h')"
  by (auto simp: task_activate_def tasks_ok_def task_ok_def retries_ok_def lease_ok_def default_retry_state_def
      intro!: ending split: if_splits)

lemma task_activate_other:
  "ends task_rows h (task_activate p) (\<lambda>h'. \<forall>n. n \<noteq> o_name (at_task p) \<longrightarrow> h' n = h n)"
  by (auto simp: task_activate_def build_meta_def intro!: ending)

lemmas task_handlers_step = task_claim_all_step task_complete_step task_cancel_step task_fail_step

lemma ends_mono: "ends rows h m H \<Longrightarrow> (\<And>h'. H h' \<Longrightarrow> K h') \<Longrightarrow> ends rows h m K"
  by (auto simp: ends_def)

lemma dispatch_command_tasks:
  assumes "\<And>p. c \<noteq> ActivateTask p"
  shows "ends task_rows h (dispatch_command c) (tasks_step h)"
  using assms by (cases c) (auto simp: task_handlers_step intro!: ends_frame pres)

lemma dispatch_command_tasks_ok: "ends task_rows h (dispatch_command c) (\<lambda>h'. tasks_ok h \<longrightarrow> tasks_ok h')"
proof (cases "\<exists>p. c = ActivateTask p")
  case True
  then show ?thesis using task_activate_ok by auto
next
  case False
  then have "ends task_rows h (dispatch_command c) (tasks_step h)" using dispatch_command_tasks by blast
  then show ?thesis by (rule ends_mono) (simp add: tasks_step_def)
qed

text \<open>A command leaves the row of a task alone or advances it, unless it activates that very task.\<close>

lemma dispatch_command_task_row:
  assumes "\<And>p. c = ActivateTask p \<Longrightarrow> o_name (at_task p) \<noteq> n"
  shows "ends task_rows h (dispatch_command c) (\<lambda>h'. \<forall>k. h n = Some k \<longrightarrow> (\<exists>k'. h' n = Some k' \<and> task_advances k k'))"
proof (cases "\<exists>p. c = ActivateTask p")
  case True
  then obtain p where p: "c = ActivateTask p" by blast
  then show ?thesis using ends_mono [OF task_activate_other [of h p]] assms by fastforce
next
  case False
  then have "ends task_rows h (dispatch_command c) (tasks_step h)" using dispatch_command_tasks by blast
  then show ?thesis by (rule ends_mono) (auto simp: tasks_step_def tasks_advance_def)
qed

lemma reachable_tasks_ok:
  assumes "reachable e n"
  shows "tasks_ok (task_rows (begin_txn (n_db n)))"
  using assms
proof induction
  case start
  show ?case
    by (simp add: new_node_def tasks_ok_def task_rows_def tasks.get_open db_get_task_def) (simp add: empty_db_def)
next
  case (step n n')
  have "wf_db (n_db n)" using synced_reachable [OF step(1)] by (simp add: synced_def)
  from node_step_keeps [OF step(2) this, of task_rows "\<lambda>h h'. tasks_ok h \<longrightarrow> tasks_ok h'"] step.IH
  show ?case using dispatch_command_tasks_ok task_rows_db(2) by blast
qed

section \<open>Claiming\<close>

lemma activatable_rows: "d_tasks (x_db t) ++ b_tasks (x_batch t) = task_rows t"
  by (auto simp: task_rows_def get_task_def map_add_def fun_eq_iff split: option.split)

lemma is_claimable_mono: "is_claimable_at t k \<Longrightarrow> t \<le> u \<Longrightarrow> is_claimable_at u k"
  by (auto simp: is_claimable_at_def split: task_status.splits option.splits)

lemma claimed_is_claim:
  "is_claimable_at ts row \<Longrightarrow> claimed ts (task_claim w x t row) row = task_claim w x t row"
  by (simp add: claimed_def task_claim_def with_update_at_def)

text \<open>Folding claims of distinct tasks over a table overwrites just those rows.\<close>

lemma claims_table:
  assumes "distinct (map (\<lambda>k. m_name (tk_meta k)) rows)"
    and "\<And>row. row \<in> set rows \<Longrightarrow> h (m_name (tk_meta row)) = Some row \<and> is_claimable_at ts row"
  shows "fold (\<lambda>k. alter (m_name (tk_meta k)) (claimed ts k)) (map (task_claim w x t) rows) h =
     h ++ map_of (map (\<lambda>row. (m_name (tk_meta row), task_claim w x t row)) rows)"
  using assms
proof (induction rows arbitrary: h)
  case (Cons row rows)
  let ?n = "m_name (tk_meta row)" and ?m = "map_of (map (\<lambda>row. (m_name (tk_meta row), task_claim w x t row)) rows)"
  have n: "m_name (tk_meta (task_claim w x t row)) = ?n" by (simp add: task_claim_def)
  have upd: "alter ?n (claimed ts (task_claim w x t row)) h = h(?n \<mapsto> task_claim w x t row)"
    using Cons.prems(2) [of row] by (simp add: alter_def claimed_is_claim)
  have "fold (\<lambda>k. alter (m_name (tk_meta k)) (claimed ts k)) (map (task_claim w x t) rows)
      (h(?n \<mapsto> task_claim w x t row)) = (h(?n \<mapsto> task_claim w x t row)) ++ ?m"
    using Cons.prems by (intro Cons.IH) (auto simp: rev_image_eqI)
  moreover have "?n \<notin> dom ?m" using Cons.prems(1) by (auto simp: dom_map_of_conv_image_fst)
  then have "(h(?n \<mapsto> task_claim w x t row)) ++ ?m = h ++ ?m(?n \<mapsto> task_claim w x t row)"
    by (simp add: map_add_upd_left)
  ultimately show ?case by (simp only: list.map fold_simps n upd map_of.simps fst_conv snd_conv)
qed simp

lemma set_map_filter: "y \<in> set (List.map_filter h xs) \<longleftrightarrow> (\<exists>x \<in> set xs. h x = Some y)"
  by (induction xs) (auto simp: List.map_filter_simps split: option.split)

text \<open>The tasks a claim picks from a table whose order lists every key once.\<close>

lemma picked_tasks:
  fixes res :: string and t :: timestamp and limit :: nat
  assumes "distinct (order h)" "set (order h) = dom h" "\<And>n k. h n = Some k \<Longrightarrow> m_name (tk_meta k) = n"
  defines "ks \<equiv> pick_activatable order h res t limit"
  shows "distinct (map (\<lambda>k. m_name (tk_meta k)) ks)"
    "k \<in> set ks \<Longrightarrow> h (m_name (tk_meta k)) = Some k \<and> tk_resource k = res \<and> is_claimable_at t k"
    "length ks = min limit (card {n. \<exists>k. h n = Some k \<and> tk_resource k = res \<and> is_claimable_at t k})"
proof -
  let ?P = "\<lambda>k. tk_resource k = res \<and> is_claimable_at t k"
  let ?vs = "task_values order h" and ?name = "\<lambda>k. m_name (tk_meta k)"
  have "map ?name (List.map_filter h xs) = filter (\<lambda>n. h n \<noteq> None) xs" for xs
    by (induction xs) (auto simp: List.map_filter_simps assms(3) split: option.split)
  then have vs: "map ?name ?vs = order h"
    using assms(2) by (simp add: task_values_def) (auto intro!: filter_True)
  have row: "h (?name k) = Some k" if "k \<in> set ?vs" for k
    using that assms(3) by (auto simp: task_values_def set_map_filter)
  have d: "distinct (map ?name (filter ?P ?vs))"
    using vs assms(1) by (simp add: distinct_map_filter)
  show "distinct (map ?name ks)"
    using distinct_take [OF d, of limit] unfolding ks_def pick_activatable_def take_map .
  show "k \<in> set ks \<Longrightarrow> h (?name k) = Some k \<and> tk_resource k = res \<and> is_claimable_at t k"
    using row by (auto simp: ks_def pick_activatable_def dest!: in_set_takeD)
  have "?name ` set (filter ?P ?vs) = {n. \<exists>k. h n = Some k \<and> ?P k}"
  proof (intro set_eqI iffI)
    fix n assume "n \<in> {n. \<exists>k. h n = Some k \<and> ?P k}"
    then obtain k where k: "h n = Some k" "?P k" by blast
    then have "n \<in> set (order h)" using assms(2) by auto
    then have "k \<in> set ?vs" using k(1) by (auto simp: task_values_def set_map_filter)
    then have "k \<in> set (filter ?P ?vs)" using k(2) by simp
    then show "n \<in> ?name ` set (filter ?P ?vs)" by (rule rev_image_eqI) (simp add: assms(3) [OF k(1)])
  qed (use row in auto)
  then have "card {n. \<exists>k. h n = Some k \<and> ?P k} = length (filter ?P ?vs)"
    using distinct_card [OF d] by simp
  then show "length ks = min limit (card {n. \<exists>k. h n = Some k \<and> ?P k})"
    by (simp add: ks_def pick_activatable_def min.commute)
qed

lemma claim_run:
  assumes "wf_work s" "distinct (e_task_order (p_env s) (task_rows (p_work s)))"
    and "set (e_task_order (p_env s) (task_rows (p_work s))) = dom (task_rows (p_work s))"
    and "e_clock (p_env s) (p_ticks s) \<le> e_clock (p_env s) (Suc (p_ticks s))"
    and "ts_checked_add (e_clock (p_env s) (p_ticks s)) (cl_lease_seconds p * 1000) = Some x"
  defines "rows \<equiv> pick_activatable (e_task_order (p_env s)) (task_rows (p_work s)) (cl_resource p)
      (e_clock (p_env s) (p_ticks s)) (cl_max_tasks p)"
  defines "ks \<equiv> map (task_claim (cl_worker_id p) x (e_clock (p_env s) (p_ticks s))) rows"
  shows "\<exists>s' e. dispatch_command (ClaimTasks p) s = (Done (), s') \<and> p_entries s' = p_entries s @ [e]
     \<and> en_payload e = PEvent (TasksClaimed (cl_request_id p) ks)
     \<and> task_rows (p_work s') = task_rows (p_work s) ++ map_of (map (\<lambda>k. (m_name (tk_meta k), k)) ks)"
proof -
  let ?t = "e_clock (p_env s) (p_ticks s)" and ?ts = "e_clock (p_env s) (Suc (p_ticks s))"
  let ?ev = "TasksClaimed (cl_request_id p) ks"
  have wf: "wf_txn (p_work s)" using assms(1) by (simp add: wf_work_def)
  note picked = picked_tasks [of "e_task_order (p_env s)", OF assms(2,3) rows_named(2) [OF wf], where res = "cl_resource p" and t = ?t
      and limit = "cl_max_tasks p", folded rows_def]
  have "task_rows (apply_tasks_claimed ?ts ks (p_work s)) =
      task_rows (p_work s) ++ map_of (map (\<lambda>row. (m_name (tk_meta row), task_claim (cl_worker_id p) x ?t row)) rows)"
    unfolding ks_def claims_rows [OF wf]
    using picked(1,2) is_claimable_mono [OF _ assms(4)] by (intro claims_table) auto
  also have "map (\<lambda>row. (m_name (tk_meta row), task_claim (cl_worker_id p) x ?t row)) rows = map (\<lambda>k. (m_name (tk_meta k), k)) ks"
    by (simp add: ks_def task_claim_def)
  finally have "task_rows (apply_tasks_claimed ?ts ks (p_work s)) =
      task_rows (p_work s) ++ map_of (map (\<lambda>k. (m_name (tk_meta k), k)) ks)" .
  moreover have "dispatch_command (ClaimTasks p) s = (Done (),
      (pushed (PEvent ?ev) (s \<lparr> p_ticks := Suc (p_ticks s) \<rparr>)) \<lparr> p_work := apply_tasks_claimed ?ts ks (p_work s) \<rparr>)"
    using assms(5) by (simp add: task_claim_all_def run_defs run_primitives read_activatable_tasks_def
        activatable_tasks_def activatable_rows ks_def rows_def)
  ultimately show ?thesis by (auto simp: pushed_def built_def)
qed

section \<open>Repeated failures\<close>

text \<open>A worker takes the task and reports the same error, once per pair of instants.\<close>

fun fail_rounds ::
  "string \<Rightarrow> execution_error \<Rightarrow> (timestamp \<times> timestamp) list \<Rightarrow> task \<Rightarrow> failure_outcome list \<times> task" where
  "fail_rounds w e [] k = ([], k)"
| "fail_rounds w e ((lease, t) # ts) k =
     (case handle_failure w e t (task_claim w lease t k) of
        Inl _ \<Rightarrow> ([], k)
      | Inr (oc, k') \<Rightarrow> (case fail_rounds w e ts k' of (ocs, k'') \<Rightarrow> (oc # ocs, k'')))"

text \<open>One round: the matching retrier decides, and only its counter moves.\<close>

lemma fail_round:
  assumes "w \<noteq> []" "find_retrier e 0 (tk_retry_plan k) = Some (i, p)"
  shows "\<exists>k'. handle_failure w e t (task_claim w lease t k) =
      Inr (if attempts_at (tk_retry_state k) i < budget p then Retried else Terminal, k')
    \<and> tk_retry_plan k' = tk_retry_plan k
    \<and> (if attempts_at (tk_retry_state k) i < budget p
        then tk_status k' = TPending \<and> attempts_at (tk_retry_state k') i = attempts_at (tk_retry_state k) i + 1
          \<and> (\<forall>j. j \<noteq> i \<longrightarrow> attempts_at (tk_retry_state k') j = attempts_at (tk_retry_state k) j)
        else tk_status k' = TFailed)"
proof -
  let ?c = "task_claim w lease t k" and ?rs = "tk_retry_state k"
  have c: "tk_status ?c = TRunning" "tk_worker_id ?c = Some w" "tk_retry_plan ?c = tk_retry_plan k"
    "rs_retrier_attempts (tk_retry_state ?c) = rs_retrier_attempts ?rs" "attempts_at (tk_retry_state ?c) j = attempts_at ?rs j" for j
    by (simp_all add: task_claim_def attempts_at_def)
  have "attempts_at \<lparr> rs_attempts = n, rs_retrier_attempts = (resize_attempts (i + 1) (rs_retrier_attempts ?rs))
        [i := \<lparr> ra_attempt_count = attempts_at ?rs i + 1, ra_last_retry_at = Some t \<rparr>], rs_next_available_at = a \<rparr> j
      = (if j = i then attempts_at ?rs i + 1 else attempts_at ?rs j)" for n a j
    by (auto simp: attempts_at_def resize_attempts_simps nth_list_update default_attempt_state_def)
  then show ?thesis
    using assms c by (auto simp: handle_failure_def Let_def has_budget_after_budget)
qed

lemma fail_rounds_outcomes:
  assumes "w \<noteq> []" "find_retrier e 0 (tk_retry_plan k) = Some (i, p)"
    and "length ts = Suc (budget p - attempts_at (tk_retry_state k) i)"
  shows "fst (fail_rounds w e ts k) = replicate (budget p - attempts_at (tk_retry_state k) i) Retried @ [Terminal]
    \<and> tk_status (snd (fail_rounds w e ts k)) = TFailed"
  using assms(2,3)
proof (induction "budget p - attempts_at (tk_retry_state k) i" arbitrary: k ts)
  case 0
  then obtain lease t where ts: "ts = [(lease, t)]" by (auto simp: length_Suc_conv)
  show ?case using fail_round [OF assms(1) 0(2), of t lease] 0(1) by (auto simp: ts)
next
  case (Suc n)
  then obtain lease t ts' where ts: "ts = (lease, t) # ts'" "length ts' = Suc n" by (auto simp: length_Suc_conv)
  have lt: "attempts_at (tk_retry_state k) i < budget p" using Suc(2) by simp
  obtain k' where k': "handle_failure w e t (task_claim w lease t k) = Inr (Retried, k')"
    "tk_retry_plan k' = tk_retry_plan k" "attempts_at (tk_retry_state k') i = attempts_at (tk_retry_state k) i + 1"
    using fail_round [OF assms(1) Suc(3), of t lease] lt by auto
  have n: "n = budget p - attempts_at (tk_retry_state k') i" using Suc(2) k'(3) by simp
  have "fst (fail_rounds w e ts' k') = replicate n Retried @ [Terminal] \<and> tk_status (snd (fail_rounds w e ts' k')) = TFailed"
    using Suc(1) [OF n, of ts'] Suc(3) k'(2) ts(2) n by simp
  then show ?case using k'(1) by (auto simp: ts(1) Suc(2) [symmetric] split: prod.split)
qed

section \<open>The wait before a retry\<close>

lemma backoff_bounds:
  "1 \<le> backoff_for_attempt p n"
  "rp_max_delay_seconds p = Some m \<Longrightarrow> 0 < m \<Longrightarrow> backoff_for_attempt p n \<le> nat m"
proof -
  show "1 \<le> backoff_for_attempt p n"
    by (simp add: backoff_for_attempt_def Let_def u64_max_def)
  assume m: "rp_max_delay_seconds p = Some m" "0 < m"
  let ?raw = "of_int (rp_interval_seconds p) * rp_backoff_rate p ^ n"
  have "\<lceil>min ?raw (of_int m)\<rceil> \<le> m" by (simp add: ceiling_le_iff)
  then show "backoff_for_attempt p n \<le> nat m"
    using m by (simp add: backoff_for_attempt_def Let_def)
qed

lemma backoff_mono:
  assumes "0 \<le> rp_interval_seconds p" "1 \<le> rp_backoff_rate p" "m \<le> n"
  shows "backoff_for_attempt p m \<le> backoff_for_attempt p n"
proof -
  have "of_int (rp_interval_seconds p) * rp_backoff_rate p ^ m \<le> of_int (rp_interval_seconds p) * rp_backoff_rate p ^ n"
    using assms by (intro mult_left_mono power_increasing) auto
  then show ?thesis
    unfolding backoff_for_attempt_def Let_def
    by (intro min.mono order_refl nat_mono max.mono ceiling_mono) (auto split: option.split)
qed

section \<open>A task, claimed\<close>

definition sample_claim :: claim_tasks where
  "sample_claim = \<lparr> cl_request_id = 9, cl_worker_id = ''w'', cl_resource = ''mail'', cl_max_tasks = 1,
     cl_lease_seconds = 30 \<rparr>"

definition claim_node :: node where
  "claim_node = client_append (ClaimTasks sample_claim) ((new_node sample_env) \<lparr> n_db := commit None sample_work \<rparr>)"

definition claim_state :: pstate where
  "claim_state = handler_start 1 (n_leader claim_node) (n_db claim_node)"

lemma claim_node_db:
  "n_db claim_node = commit None sample_work" "wf_db (n_db claim_node)"
  "task_rows (begin_txn (n_db claim_node)) = [sample_name 2 \<mapsto> sample_row]"
proof -
  have n: "m_name (tk_meta sample_row) = sample_name 2" by (simp add: sample_row_def build_meta_def)
  have e: "task_rows (begin_txn empty_db) = Map.empty"
    by (rule ext) (simp add: task_rows_def tasks.get_open db_get_task_def empty_db_def)
  show db: "n_db claim_node = commit None sample_work"
    by (simp add: claim_node_def client_append_def Let_def split: prod.split)
  show "task_rows (begin_txn (n_db claim_node)) = [sample_name 2 \<mapsto> sample_row]"
    unfolding db task_rows_db(2) sample_work_def by (simp add: apply_task_activated_def put_rows e n)
  have "dispatch_event 0 (TaskActivated sample_row) (begin_txn empty_db) = Some sample_work"
    by (simp add: sample_work_def)
  then have "wf_txn sample_work" using wf_empty_db dispatch_event_wf unfolding wf_db_def by blast
  then show "wf_db (n_db claim_node)" unfolding db by (rule wf_commit)
qed

lemma claim_state_simps [simp]:
  "p_env claim_state = sample_env" "p_ticks claim_state = 2" "p_work claim_state = begin_txn (n_db claim_node)"
  "p_entries claim_state = []"
  by (simp_all add: claim_state_def handler_start_def claim_node_def node_eval)

lemma sample_row_claimable: "is_claimable_at t sample_row" "tk_resource sample_row = ''mail''"
  by (simp_all add: sample_row_def is_claimable_at_def default_retry_state_def)

lemma sample_claim_run:
  "\<exists>s k. dispatch_command (ClaimTasks sample_claim) claim_state = (Done (), s) \<and> p_entries s \<noteq> []
     \<and> get_task (p_work s) (sample_ref 2) = Some k \<and> tk_status k = TRunning \<and> tk_worker_id k = Some ''w''"
proof -
  have h: "task_rows (p_work claim_state) = [sample_name 2 \<mapsto> sample_row]" by (simp add: claim_node_db(3))
  have order: "e_task_order (p_env claim_state) (task_rows (p_work claim_state)) = [sample_name 2]"
    unfolding h by (simp add: sample_env_def)
  have lease: "ts_checked_add (e_clock (p_env claim_state) (p_ticks claim_state)) (cl_lease_seconds sample_claim * 1000) = Some 31002"
    by (simp add: sample_env_def sample_claim_def ts_checked_add_def checked_add_u64_def)
  have "wf_work claim_state" using claim_node_db(2) by (simp add: wf_work_def wf_db_def)
  from claim_run [OF this _ _ _ lease] order h
  obtain s' e where "dispatch_command (ClaimTasks sample_claim) claim_state = (Done (), s')" "p_entries s' = [e]"
    "task_rows (p_work s') = task_rows (p_work claim_state) ++ map_of (map (\<lambda>k. (m_name (tk_meta k), k))
       (map (task_claim ''w'' 31002 1002) (pick_activatable (e_task_order sample_env) (task_rows (p_work claim_state)) ''mail'' 1002 1)))"
    by (auto simp: sample_env_def sample_claim_def word_le_nat_alt)
  moreover have "pick_activatable (e_task_order sample_env) [sample_name 2 \<mapsto> sample_row] ''mail'' 1002 1 = [sample_row]"
    by (simp add: pick_activatable_def task_values_def sample_env_def List.map_filter_def sample_row_claimable)
  ultimately show ?thesis unfolding h
    by (simp add: get_task_rows task_claim_def) (simp add: sample_row_def build_meta_def)
qed

lemma claimed_state:
  "\<exists>s k. wf_work s \<and> get_task (p_work s) (sample_ref 2) = Some k \<and> tk_status k = TRunning \<and> tk_worker_id k = Some ''w''"
proof -
  obtain s k where s: "dispatch_command (ClaimTasks sample_claim) claim_state = (Done (), s)"
    "get_task (p_work s) (sample_ref 2) = Some k" "tk_status k = TRunning" "tk_worker_id k = Some ''w''"
    using sample_claim_run by blast
  have "wf_work claim_state" using claim_node_db(2) by (simp add: wf_work_def wf_db_def)
  then have "wf_work s" by (rule preservesD [OF wf.keeps_dispatch_command s(1)])
  then show ?thesis using s by blast
qed

section \<open>Properties\<close>

text \<open>C14. A claim grants every claimable task of its resource, up to the number asked for, to exactly one
  holder. At the instant of the claim the granted tasks are distinct and claimable; each one's row becomes
  a running task of that worker with the lease of the claim, which no other claim can take before the
  lease ends; no other task changes. The clock does not step back between the two readings of a claim.\<close>

theorem claim_grants:
  assumes "wf_work s" "distinct (e_task_order (p_env s) (task_rows (p_work s)))"
    and "set (e_task_order (p_env s) (task_rows (p_work s))) = dom (task_rows (p_work s))"
    and "e_clock (p_env s) (p_ticks s) \<le> e_clock (p_env s) (Suc (p_ticks s))"
    and "ts_checked_add (e_clock (p_env s) (p_ticks s)) (cl_lease_seconds p * 1000) = Some x"
  shows "\<exists>s' e ks. dispatch_command (ClaimTasks p) s = (Done (), s') \<and> p_entries s' = p_entries s @ [e]
     \<and> en_payload e = PEvent (TasksClaimed (cl_request_id p) ks)
     \<and> distinct (map tk_ref ks)
     \<and> length ks = min (cl_max_tasks p) (card {n. \<exists>k. task_rows (p_work s) n = Some k
          \<and> tk_resource k = cl_resource p \<and> is_claimable_at (e_clock (p_env s) (p_ticks s)) k})
     \<and> (\<forall>k \<in> set ks. tk_status k = TRunning \<and> tk_worker_id k = Some (cl_worker_id p)
          \<and> tk_lease_expires_at k = Some x \<and> tk_resource k = cl_resource p
          \<and> (\<exists>row. get_task (p_work s) (tk_ref k) = Some row \<and> is_claimable_at (e_clock (p_env s) (p_ticks s)) row)
          \<and> get_task (p_work s') (tk_ref k) = Some k \<and> (\<forall>u < x. \<not> is_claimable_at u k))
     \<and> (\<forall>r. (\<forall>k \<in> set ks. o_name r \<noteq> m_name (tk_meta k)) \<longrightarrow> get_task (p_work s') r = get_task (p_work s) r)"
proof -
  let ?t = "e_clock (p_env s) (p_ticks s)" and ?h = "task_rows (p_work s)"
  define rows where "rows = pick_activatable (e_task_order (p_env s)) ?h (cl_resource p) ?t (cl_max_tasks p)"
  define ks where "ks = map (task_claim (cl_worker_id p) x ?t) rows"
  have wf: "wf_txn (p_work s)" using assms(1) by (simp add: wf_work_def)
  note picked = picked_tasks [of "e_task_order (p_env s)", OF assms(2,3) rows_named(2) [OF wf], where res = "cl_resource p" and t = ?t
      and limit = "cl_max_tasks p", folded rows_def]
  obtain s' e where s': "dispatch_command (ClaimTasks p) s = (Done (), s')" "p_entries s' = p_entries s @ [e]"
    "en_payload e = PEvent (TasksClaimed (cl_request_id p) ks)"
    "task_rows (p_work s') = ?h ++ map_of (map (\<lambda>k. (m_name (tk_meta k), k)) ks)"
    using claim_run [OF assms] by (auto simp: ks_def rows_def)
  have name: "m_name (tk_meta (task_claim w x t row)) = m_name (tk_meta row)" for w x t row
    by (simp add: task_claim_def)
  have d: "distinct (map (\<lambda>k. m_name (tk_meta k)) ks)" using picked(1) by (simp add: ks_def name comp_def)
  have "map (\<lambda>k. m_name (tk_meta k)) ks = map o_name (map tk_ref ks)" by simp
  then have dr: "distinct (map tk_ref ks)" using d by (metis distinct_map)
  have row: "get_task (p_work s') (tk_ref k) = Some k" if "k \<in> set ks" for k
    using that d s'(4) by (auto simp: get_task_rows map_add_Some_iff comp_def intro!: map_of_is_SomeI)
  have other: "get_task (p_work s') r = get_task (p_work s) r" if "\<forall>k \<in> set ks. o_name r \<noteq> m_name (tk_meta k)" for r
  proof -
    have "map_of (map (\<lambda>k. (m_name (tk_meta k), k)) ks) (o_name r) = None"
      using that by (auto simp: map_of_eq_None_iff)
    then show ?thesis using s'(4) by (simp add: get_task_rows map_add_def)
  qed
  have held: "tk_status k = TRunning \<and> tk_worker_id k = Some (cl_worker_id p) \<and> tk_lease_expires_at k = Some x
      \<and> tk_resource k = cl_resource p \<and> (\<exists>row. get_task (p_work s) (tk_ref k) = Some row \<and> is_claimable_at ?t row)
      \<and> (\<forall>u < x. \<not> is_claimable_at u k)" if "k \<in> set ks" for k
    using that picked(2) by (auto simp: ks_def task_claim_def get_task_rows is_claimable_at_def)
  show ?thesis
    by (rule exI [of _ s'], rule exI [of _ e], rule exI [of _ ks])
       (use s'(1-3) dr row other held picked(3) in \<open>simp add: ks_def\<close>)
qed


theorem claim_grants_witness:
  "\<exists>s' e k. dispatch_command (ClaimTasks sample_claim) claim_state = (Done (), s') \<and> p_entries s' = [e]
     \<and> en_payload e = PEvent (TasksClaimed 9 [k]) \<and> tk_worker_id k = Some ''w'' \<and> tk_lease_expires_at k = Some 31002
     \<and> get_task (p_work s') (tk_ref k) = Some k"
proof -
  have h: "task_rows (p_work claim_state) = [sample_name 2 \<mapsto> sample_row]" by (simp add: claim_node_db(3))
  have order: "e_task_order (p_env claim_state) (task_rows (p_work claim_state)) = [sample_name 2]"
    unfolding h by (simp add: sample_env_def)
  have lease: "ts_checked_add (e_clock (p_env claim_state) (p_ticks claim_state)) (cl_lease_seconds sample_claim * 1000) = Some 31002"
    by (simp add: sample_env_def sample_claim_def ts_checked_add_def checked_add_u64_def)
  have "{n. \<exists>k. task_rows (p_work claim_state) n = Some k \<and> tk_resource k = ''mail'' \<and> is_claimable_at t k} = {sample_name 2}" for t
    unfolding h using sample_row_claimable by (auto split: if_splits)
  then have card: "card {n. \<exists>k. task_rows (p_work claim_state) n = Some k \<and> tk_resource k = ''mail'' \<and> is_claimable_at t k} = 1" for t
    by simp
  have "wf_work claim_state" using claim_node_db(2) by (simp add: wf_work_def wf_db_def)
  from claim_grants [OF this _ _ _ lease] order h card
  obtain s' e ks where s: "dispatch_command (ClaimTasks sample_claim) claim_state = (Done (), s')" "p_entries s' = [e]"
    "en_payload e = PEvent (TasksClaimed 9 ks)" "length ks = 1"
    "\<forall>k \<in> set ks. tk_worker_id k = Some ''w'' \<and> tk_lease_expires_at k = Some 31002 \<and> get_task (p_work s') (tk_ref k) = Some k"
    by (auto simp: sample_env_def sample_claim_def word_le_nat_alt)
  obtain k where "ks = [k]" using s(4) by (auto simp: length_Suc_conv)
  then show ?thesis using s by auto
qed





definition flaky_task :: task where
  "flaky_task = sample_row \<lparr> tk_retry_plan := [\<lparr> rp_error_equals = [''Boom''], rp_interval_seconds = 2,
     rp_max_attempts = 2, rp_backoff_rate = 3, rp_max_delay_seconds = Some 5 \<rparr>] \<rparr>"

definition boom :: execution_error where
  "boom = Runtime (StateFailed [] ''Boom'' JNull)"

lemma flaky_task_simps:
  "attempts_at (tk_retry_state flaky_task) j = 0"
  "find_retrier boom 0 (tk_retry_plan flaky_task) = Some (0, hd (tk_retry_plan flaky_task))"
  "budget (hd (tk_retry_plan flaky_task)) = 2"
  by (simp_all add: flaky_task_def sample_row_def default_retry_state_def attempts_at_def boom_def
      matches_error_names_def budget_def)

text \<open>C17. Retries end. A task whose attempts keep failing with an error that a retrier matches is put back
  to \<open>Pending\<close> as often as that retrier has budget left, and then fails for good.\<close>

theorem retries_exhaust_budget:
  assumes "w \<noteq> []" "find_retrier e 0 (tk_retry_plan k) = Some (i, p)"
    and "length ts = Suc (budget p - attempts_at (tk_retry_state k) i)"
  shows "fst (fail_rounds w e ts k) = replicate (budget p - attempts_at (tk_retry_state k) i) Retried @ [Terminal]
    \<and> tk_status (snd (fail_rounds w e ts k)) = TFailed"
  by (rule fail_rounds_outcomes [OF assms])

theorem retries_exhaust_budget_witness:
  "fst (fail_rounds ''w'' boom [(60000, 1000), (90000, 40000), (120000, 70000)] flaky_task) = [Retried, Retried, Terminal]"
  using retries_exhaust_budget [of "''w''" boom flaky_task 0 "hd (tk_retry_plan flaky_task)"
      "[(60000, 1000), (90000, 40000), (120000, 70000)]"]
  by (simp add: flaky_task_simps numeral_2_eq_2)



text \<open>C19. Only the holder of a lease reports on a task. A completion by anyone who is not the worker of the
  running task, and a failure reported under a name that is not that worker's, are rejected; nothing is
  emitted and nothing changes.\<close>

theorem only_holder_reports:
  assumes "get_task (p_work s) r = Some k" "\<not> (tk_status k = TRunning \<and> tk_worker_id k = Some w)" "w \<noteq> []"
  shows "(\<exists>s'. dispatch_command (CompleteTask rid r w out) s = (Err (Rejected InvalidState ''task cannot be completed''), s')
      \<and> p_entries s' = p_entries s \<and> p_work s' = p_work s)
    \<and> (\<exists>s'. dispatch_command (FailTask r w e) s = (Err (Rejected InvalidState ''fail_task: task cannot take the failure''), s')
      \<and> p_entries s' = p_entries s \<and> p_work s' = p_work s)"
  using assms
  by (auto simp: task_complete_def task_fail_def read_task_def run_defs run_primitives task_mark_completed_def
      handle_failure_def reject_def throw_def split: sum.split)

theorem only_holder_reports_witness:
  "\<exists>s'. dispatch_command (CompleteTask 4 (sample_ref 2) ''other'' JNull) claim_state =
      (Err (Rejected InvalidState ''task cannot be completed''), s') \<and> p_work s' = p_work claim_state"
proof -
  have "get_task (p_work claim_state) (sample_ref 2) = Some sample_row"
    by (simp add: get_task_rows claim_node_db(3))
  moreover have "tk_status sample_row \<noteq> TRunning" by (simp add: sample_row_def)
  ultimately show ?thesis
    using only_holder_reports [of claim_state "sample_ref 2" sample_row "''other''" 4 JNull boom] by auto
qed




end
