(* ===== verification/Rocksdb.thy ===== *)
theory Rocksdb
  imports "HOL-Library.Sublist" "HOL-Library.List_Lexorder" "HOL-Library.RBT" Prelude
begin

text \<open>
  RocksDB and the JSON codec as the two persistent backends use them
  (\<open>src/crates/storage/src/rocks.rs\<close>, \<open>src/crates/logstream/src/rocks.rs\<close>). Neither crate is part of
  the repository, so both are arguments of the backends: \<open>rocksdb\<close> holds the calls the backends make,
  \<open>serde\<close> the encoder and decoder of one row type. The backends rely on the laws named here:

  \<^item> \<open>healthy\<close>: point reads, writes and deletes act on one ordered key space; a forward iterator
    visits the keys from its start on, in byte order; a transaction reads its own pending writes over
    the committed keys and commits them together. Both databases are opened with the default options,
    without a prefix extractor, and the documentation of \<open>prefix_same_as_start\<close> makes that option
    effective only with one: \<open>prefix_iterator\<close> is then the forward iterator from the prefix.
  \<^item> \<open>codes\<close>: the row is encoded, and its encoding decodes to the row.

  The last section gives a database that satisfies the laws.
\<close>

type_synonym bytes = string
type_synonym item = "string + bytes \<times> bytes"

record ('d, 't) rocksdb =
  rdb_get :: "'d \<Rightarrow> bytes \<Rightarrow> string + bytes option"
  rdb_put :: "bytes \<Rightarrow> bytes \<Rightarrow> 'd \<Rightarrow> string + 'd"
  rdb_delete :: "bytes \<Rightarrow> 'd \<Rightarrow> string + 'd"
  rdb_write :: "(bytes \<times> bytes) list \<Rightarrow> 'd \<Rightarrow> string + 'd"
  rdb_iterator :: "'d \<Rightarrow> bytes \<Rightarrow> item list"
  rdb_prefix_iterator :: "'d \<Rightarrow> bytes \<Rightarrow> item list"
  rdb_transaction :: "'d \<Rightarrow> 't"
  rtx_get :: "'d \<Rightarrow> 't \<Rightarrow> bytes \<Rightarrow> string + bytes option"
  rtx_put :: "bytes \<Rightarrow> bytes \<Rightarrow> 't \<Rightarrow> string + 't"
  rtx_delete :: "bytes \<Rightarrow> 't \<Rightarrow> string + 't"
  rtx_iterator :: "'d \<Rightarrow> 't \<Rightarrow> bytes \<Rightarrow> item list"
  rtx_commit :: "'t \<Rightarrow> 'd \<Rightarrow> string + 'd"

record 'a serde =
  to_vec :: "'a \<Rightarrow> string + bytes"
  from_slice :: "bytes \<Rightarrow> string + 'a"

section \<open>The laws\<close>

type_synonym key_space = "bytes \<rightharpoonup> bytes"
type_synonym pending = "bytes \<rightharpoonup> bytes option"

definition entries_from :: "bytes \<Rightarrow> key_space \<Rightarrow> (bytes \<times> bytes) list" where
  "entries_from start m = map (\<lambda>k. (k, the (m k))) (sorted_list_of_set {k \<in> dom m. start \<le> k})"

definition overlay :: "key_space \<Rightarrow> pending \<Rightarrow> key_space" where
  "overlay m p k = (case p k of Some v \<Rightarrow> v | None \<Rightarrow> m k)"

definition healthy ::
  "('d, 't) rocksdb \<Rightarrow> ('d \<Rightarrow> key_space) \<Rightarrow> ('t \<Rightarrow> pending) \<Rightarrow> bool" where
  "healthy R content pending \<longleftrightarrow>
     (\<forall>d. finite (dom (content d))) \<and> (\<forall>t. finite (dom (pending t))) \<and>
     (\<forall>d k. rdb_get R d k = Inr (content d k)) \<and>
     (\<forall>k v d. \<exists>d'. rdb_put R k v d = Inr d' \<and> content d' = (content d)(k \<mapsto> v)) \<and>
     (\<forall>k d. \<exists>d'. rdb_delete R k d = Inr d' \<and> content d' = (content d)(k := None)) \<and>
     (\<forall>b d. \<exists>d'. rdb_write R b d = Inr d' \<and> content d' = content d ++ map_of (rev b)) \<and>
     (\<forall>d s. rdb_iterator R d s = map Inr (entries_from s (content d))) \<and>
     (\<forall>d s. rdb_prefix_iterator R d s = map Inr (entries_from s (content d))) \<and>
     (\<forall>d. pending (rdb_transaction R d) = Map.empty) \<and>
     (\<forall>d t k. rtx_get R d t k = Inr (overlay (content d) (pending t) k)) \<and>
     (\<forall>k v t. \<exists>t'. rtx_put R k v t = Inr t' \<and> pending t' = (pending t)(k \<mapsto> Some v)) \<and>
     (\<forall>k t. \<exists>t'. rtx_delete R k t = Inr t' \<and> pending t' = (pending t)(k \<mapsto> None)) \<and>
     (\<forall>d t s. rtx_iterator R d t s = map Inr (entries_from s (overlay (content d) (pending t)))) \<and>
     (\<forall>t d. \<exists>d'. rtx_commit R t d = Inr d' \<and> content d' = overlay (content d) (pending t))"

lemma healthyD:
  assumes "healthy R content pending"
  shows "finite (dom (content d))" "finite (dom (pending t))"
    "rdb_get R d k = Inr (content d k)"
    "\<exists>d'. rdb_put R k v d = Inr d' \<and> content d' = (content d)(k \<mapsto> v)"
    "\<exists>d'. rdb_delete R k d = Inr d' \<and> content d' = (content d)(k := None)"
    "\<exists>d'. rdb_write R b d = Inr d' \<and> content d' = content d ++ map_of (rev b)"
    "rdb_iterator R d s = map Inr (entries_from s (content d))"
    "rdb_prefix_iterator R d s = map Inr (entries_from s (content d))"
    "pending (rdb_transaction R d) = Map.empty"
    "rtx_get R d t k = Inr (overlay (content d) (pending t) k)"
    "\<exists>t'. rtx_put R k v t = Inr t' \<and> pending t' = (pending t)(k \<mapsto> Some v)"
    "\<exists>t'. rtx_delete R k t = Inr t' \<and> pending t' = (pending t)(k \<mapsto> None)"
    "rtx_iterator R d t s = map Inr (entries_from s (overlay (content d) (pending t)))"
    "\<exists>d'. rtx_commit R t d = Inr d' \<and> content d' = overlay (content d) (pending t)"
  using assms unfolding healthy_def by simp_all

text \<open>A row survives its encoding.\<close>

definition codes :: "'a serde \<Rightarrow> 'a \<Rightarrow> bool" where
  "codes s v \<longleftrightarrow> (case to_vec s v of Inr b \<Rightarrow> from_slice s b = Inr v | Inl _ \<Rightarrow> False)"

lemma codesE:
  assumes "codes s v"
  obtains b where "to_vec s v = Inr b" "from_slice s b = Inr v"
  using assms by (auto simp: codes_def split: sum.splits)

lemma overlay_empty [simp]: "overlay m Map.empty = m"
  by (rule ext) (simp add: overlay_def)

lemma overlay_upd [simp]: "overlay m (p(k \<mapsto> v)) = (overlay m p)(k := v)"
  by (rule ext) (simp add: overlay_def)

lemma finite_overlay:
  assumes "finite (dom m)" "finite (dom p)"
  shows "finite (dom (overlay m p))"
proof (rule finite_subset)
  show "dom (overlay m p) \<subseteq> dom m \<union> dom p"
    by (auto simp: overlay_def split: option.splits)
qed (use assms in simp)

lemma set_entries_from:
  "finite (dom m) \<Longrightarrow> set (entries_from s m) = {(k, v). m k = Some v \<and> s \<le> k}"
  by (auto simp: entries_from_def)

lemma sorted_entries_from: "sorted_wrt (<) (map fst (entries_from s m))"
  by (simp add: entries_from_def comp_def)

text \<open>The keys with a given prefix are a contiguous range of the order, which starts at the prefix.\<close>

lemma prefix_le: "prefix p k \<Longrightarrow> p \<le> (k :: bytes)"
proof (induction p arbitrary: k)
  case (Cons c p)
  then show ?case by (cases k) simp_all
qed simp

lemma prefix_down: "prefix p y \<Longrightarrow> p \<le> x \<Longrightarrow> x < y \<Longrightarrow> prefix p (x :: bytes)"
proof (induction p arbitrary: x y)
  case (Cons c p)
  obtain z where y: "y = c # z" "prefix p z" using Cons.prems(1) by (cases y) auto
  obtain a w where x: "x = a # w" using Cons.prems(2) by (cases x) simp_all
  have "a = c" using Cons.prems(2,3) unfolding x y by (simp add: Cons_le_Cons Cons_less_Cons) (metis less_asym)
  then show ?case using Cons.IH [of z w] Cons.prems(2,3) y x by (simp add: Cons_le_Cons Cons_less_Cons)
qed simp

lemma takeWhile_sorted:
  assumes "sorted_wrt (<) ks" "\<And>x y. x \<in> set ks \<Longrightarrow> y \<in> set ks \<Longrightarrow> x < y \<Longrightarrow> P y \<Longrightarrow> P x"
  shows "takeWhile P ks = filter P ks"
  using assms
proof (induction ks)
  case (Cons k ks)
  have "filter P ks = []" if "\<not> P k"
    using that Cons.prems by (auto simp: filter_empty_conv)
  moreover have "takeWhile P ks = filter P ks"
    using Cons.prems by (intro Cons.IH) auto
  ultimately show ?case by simp
qed simp

text \<open>A scan from a prefix that stops at the first foreign key visits exactly the keys with the
  prefix.\<close>

lemma takeWhile_entries:
  assumes "finite (dom m)"
  shows "takeWhile (\<lambda>e. prefix p (fst e)) (entries_from p m) = filter (\<lambda>e. prefix p (fst e)) (entries_from p m)"
proof -
  let ?ks = "sorted_list_of_set {k \<in> dom m. p \<le> k}"
  have "takeWhile (prefix p) ?ks = filter (prefix p) ?ks"
    by (rule takeWhile_sorted) (use assms in \<open>auto intro: prefix_down\<close>)
  then show ?thesis
    by (simp add: entries_from_def takeWhile_map filter_map comp_def)
qed

lemma set_prefix_entries:
  "finite (dom m) \<Longrightarrow> set (takeWhile (\<lambda>e. prefix p (fst e)) (entries_from p m)) = {(k, v). m k = Some v \<and> prefix p k}"
  by (auto simp: takeWhile_entries set_entries_from dest: prefix_le)

section \<open>A database that satisfies the laws\<close>

type_synonym tree_db = "(bytes, bytes) rbt"
type_synonym tree_txn = "(bytes \<times> bytes option) list"

fun apply_pending :: "tree_txn \<Rightarrow> tree_db \<Rightarrow> tree_db" where
  "apply_pending [] d = d"
| "apply_pending ((k, Some b) # t) d = RBT.insert k b (apply_pending t d)"
| "apply_pending ((k, None) # t) d = RBT.delete k (apply_pending t d)"

definition tree_items :: "bytes \<Rightarrow> tree_db \<Rightarrow> item list" where
  "tree_items s d = map Inr (filter (\<lambda>e. s \<le> fst e) (RBT.entries d))"

definition tree_rocksdb :: "(tree_db, tree_txn) rocksdb" where
  "tree_rocksdb =
     \<lparr> rdb_get = (\<lambda>d k. Inr (RBT.lookup d k)),
       rdb_put = (\<lambda>k v d. Inr (RBT.insert k v d)),
       rdb_delete = (\<lambda>k d. Inr (RBT.delete k d)),
       rdb_write = (\<lambda>b d. Inr (fold (\<lambda>(k, v). RBT.insert k v) b d)),
       rdb_iterator = (\<lambda>d s. tree_items s d),
       rdb_prefix_iterator = (\<lambda>d s. tree_items s d),
       rdb_transaction = (\<lambda>d. []),
       rtx_get = (\<lambda>d t k. Inr (RBT.lookup (apply_pending t d) k)),
       rtx_put = (\<lambda>k v t. Inr ((k, Some v) # t)),
       rtx_delete = (\<lambda>k t. Inr ((k, None) # t)),
       rtx_iterator = (\<lambda>d t s. tree_items s (apply_pending t d)),
       rtx_commit = (\<lambda>t d. Inr (apply_pending t d)) \<rparr>"

lemma lookup_apply_pending: "RBT.lookup (apply_pending t d) = overlay (RBT.lookup d) (map_of t)"
  by (induction t d rule: apply_pending.induct) (simp_all add: overlay_def fun_eq_iff)

lemma lookup_fold_insert:
  "RBT.lookup (fold (\<lambda>(k, v). RBT.insert k v) b d) = RBT.lookup d ++ map_of (rev b)"
  by (induction b arbitrary: d) (auto simp: map_add_assoc [symmetric])

lemma tree_keys: "RBT.keys d = map fst (RBT.entries d)"
  by (simp add: RBT.keys_impl_of [symmetric] RBT.entries_impl_of [symmetric] RBT_Impl.keys_def)

lemma tree_entries: "filter (\<lambda>e. s \<le> fst e) (RBT.entries d) = entries_from s (RBT.lookup d)"
proof -
  let ?ks = "filter (\<lambda>k. s \<le> k) (RBT.keys d)"
  have "sorted_list_of_set {k \<in> dom (RBT.lookup d). s \<le> k} = ?ks"
  proof (rule sorted_distinct_set_unique)
    show "sorted ?ks" using sorted_filter [of "\<lambda>k. k" "RBT.keys d"] by simp
    show "set (sorted_list_of_set {k \<in> dom (RBT.lookup d). s \<le> k}) = set ?ks"
      by (simp add: RBT.lookup_keys Collect_conj_eq)
  qed simp_all
  moreover have "k = (fst k, the (RBT.lookup d (fst k)))" if "k \<in> set (RBT.entries d)" for k
    using that RBT.lookup_in_tree [of d "fst k" "snd k"] by simp
  then have "map (\<lambda>k. (k, the (RBT.lookup d k))) ?ks = filter (\<lambda>e. s \<le> fst e) (RBT.entries d)"
    unfolding tree_keys filter_map comp_def map_map
    by (intro map_idI) auto
  ultimately show ?thesis by (simp add: entries_from_def)
qed

lemma tree_healthy: "healthy tree_rocksdb RBT.lookup map_of"
  by (simp add: healthy_def tree_rocksdb_def tree_items_def tree_entries lookup_apply_pending
      lookup_fold_insert finite_dom_map_of restrict_map_def fun_eq_iff)

text \<open>Codecs that know one row, or none.\<close>

definition one_row :: "bytes \<Rightarrow> 'a \<Rightarrow> 'a serde" where
  "one_row b v =
     \<lparr> to_vec = (\<lambda>x. if x = v then Inr b else Inl ''unknown row''),
       from_slice = (\<lambda>c. if c = b then Inr v else Inl ''unknown row'') \<rparr>"

definition no_rows :: "'a serde" where
  "no_rows = \<lparr> to_vec = (\<lambda>x. Inl ''unknown row''), from_slice = (\<lambda>c. Inl ''unknown row'') \<rparr>"

end
