(* ===== verification/Keys.thy ===== *)
theory Keys
  imports "HOL-Library.Sublist" Types
begin

text \<open>
  The keys of the persistent backend, \<open>src/crates/storage/src/key.rs\<close>: every row, index entry and
  counter of a scope lives under a path of \<open>/\<close>-separated segments. The lemmas show that a key
  determines what it addresses, and that a range scan by a prefix meets the rows of its own kind and
  parent only.
\<close>

section \<open>Scope and kinds\<close>

record scope =
  sc_tenant :: scope_name
  sc_namespace :: scope_name

definition default_scope :: scope where
  "default_scope = \<lparr> sc_tenant = PlainName ''default'', sc_namespace = PlainName ''default'' \<rparr>"

fun segment :: "object_kind \<Rightarrow> string" where
  "segment KExecution = ''execution''"
| "segment KThread = ''thread''"
| "segment KActivity = ''activity''"
| "segment KTask = ''task''"
| "segment KFlow = ''flow''"
| "segment KFlowVersion = ''flowversion''"

section \<open>Key builder\<close>

fun join :: "string list \<Rightarrow> string" where
  "join [] = []"
| "join (s # ss) = CHR 0x2F # s @ join ss"

definition scoped :: "scope \<Rightarrow> string list \<Rightarrow> string" where
  "scoped sc segs = join (plain_as_str (sc_tenant sc) # plain_as_str (sc_namespace sc) # segs)"

definition row_key :: "scope \<Rightarrow> object_kind \<Rightarrow> string \<Rightarrow> string" where
  "row_key sc k identifier = scoped sc [segment k, identifier]"

definition execution_key :: "scope \<Rightarrow> oref \<Rightarrow> string" where
  "execution_key sc r = row_key sc KExecution (as_str (o_name r))"

definition thread_key :: "scope \<Rightarrow> oref \<Rightarrow> string" where
  "thread_key sc r = row_key sc KThread (as_str (o_name r))"

definition activity_key :: "scope \<Rightarrow> oref \<Rightarrow> string" where
  "activity_key sc r = row_key sc KActivity (as_str (o_name r))"

definition task_key :: "scope \<Rightarrow> oref \<Rightarrow> string" where
  "task_key sc r = row_key sc KTask (as_str (o_name r))"

definition task_prefix :: "scope \<Rightarrow> string" where
  "task_prefix sc = scoped sc [segment KTask, []]"

definition kind_prefix :: "scope \<Rightarrow> object_kind \<Rightarrow> string" where
  "kind_prefix sc k = scoped sc [segment k, []]"

definition flow_key :: "scope \<Rightarrow> flow_name \<Rightarrow> string" where
  "flow_key sc n = row_key sc KFlow (plain_as_str n)"

definition flow_version_key :: "scope \<Rightarrow> object_name \<Rightarrow> string" where
  "flow_version_key sc n = row_key sc KFlowVersion (as_str n)"

definition flow_version_prefix :: "scope \<Rightarrow> flow_name \<Rightarrow> string" where
  "flow_version_prefix sc n = scoped sc [segment KFlowVersion, plain_as_str n @ ''-'']"

definition child_edge_prefix :: "scope \<Rightarrow> raw_object_ref \<Rightarrow> string" where
  "child_edge_prefix sc p =
     scoped sc [''_index'', ''children'', segment (r_kind p), as_str (r_name p), []]"

definition child_edge :: "scope \<Rightarrow> raw_object_ref \<Rightarrow> raw_object_ref \<Rightarrow> string" where
  "child_edge sc p c =
     scoped sc [''_index'', ''children'', segment (r_kind p), as_str (r_name p),
                segment (r_kind c), as_str (r_name c)]"

definition variables_key :: "scope \<Rightarrow> object_name \<Rightarrow> string" where
  "variables_key sc n = scoped sc [''_index'', ''variables'', as_str n]"

definition last_processed_position_key :: "scope \<Rightarrow> string" where
  "last_processed_position_key sc = scoped sc [''_global'', ''last_processed_position'']"

definition next_generated_seq_key :: "scope \<Rightarrow> string" where
  "next_generated_seq_key sc = scoped sc [''_global'', ''next_generated_seq'']"

section \<open>Paths\<close>

lemma join_append [simp]: "join (xs @ ys) = join xs @ join ys"
  by (induction xs) simp_all

lemma join_starts: "join xs \<noteq> [] \<Longrightarrow> hd (join xs) = CHR ''/''"
  by (cases xs) simp_all

text \<open>Two texts that agree up to the first separator after them agree on the part before it.\<close>

lemma segment_split:
  assumes "c \<notin> set s" "c \<notin> set t" "u = [] \<or> hd u = c" "v = [] \<or> hd v = c"
  shows "s @ u = t @ v \<longleftrightarrow> s = t \<and> u = v"
  using assms(1,2)
proof (induction s arbitrary: t)
  case Nil
  then show ?case using assms(3,4) by (cases t; cases u) auto
next
  case (Cons a s)
  then show ?case using assms(3,4) by (cases t; cases v) auto
qed

text \<open>A path determines its segments, and one path is a prefix of another exactly when its segments
  are, the last of them up to a text prefix.\<close>

lemma join_inj:
  "\<forall>s\<in>set xs. CHR ''/'' \<notin> set s \<Longrightarrow> \<forall>s\<in>set ys. CHR ''/'' \<notin> set s
   \<Longrightarrow> join xs = join ys \<longleftrightarrow> xs = ys"
proof (induction xs arbitrary: ys)
  case Nil
  then show ?case by (cases ys) simp_all
next
  case (Cons x xs)
  show ?case
  proof (cases ys)
    case Nil
    then show ?thesis by simp
  next
    case (Cons y zs)
    have "x @ join xs = y @ join zs \<longleftrightarrow> x = y \<and> join xs = join zs"
      by (rule segment_split) (use Cons Cons.prems join_starts in auto)
    then show ?thesis using Cons Cons.prems Cons.IH [of zs] by auto
  qed
qed

lemma prefix_segment:
  assumes "c \<notin> set s" "c \<notin> set t" "v = [] \<or> hd v = c"
  shows "prefix (s @ c # u) (t @ v) \<longleftrightarrow> s = t \<and> prefix (c # u) v"
proof
  assume "prefix (s @ c # u) (t @ v)"
  then obtain w where "s @ (c # u @ w) = t @ v" by (auto simp: prefix_def)
  then have "s = t \<and> c # u @ w = v" using segment_split [of c s t "c # u @ w" v] assms by simp
  then show "s = t \<and> prefix (c # u) v" by auto
qed auto

lemma prefix_join:
  "\<forall>s\<in>set xs. CHR ''/'' \<notin> set s \<Longrightarrow> \<forall>s\<in>set ys. CHR ''/'' \<notin> set s \<Longrightarrow> CHR ''/'' \<notin> set p
   \<Longrightarrow> prefix (join (xs @ [p])) (join ys)
       \<longleftrightarrow> length xs < length ys \<and> take (length xs) ys = xs \<and> prefix p (ys ! length xs)"
proof (induction xs arbitrary: ys)
  case Nil
  show ?case
  proof (cases ys)
    case (Cons y zs)
    have "prefix p (y @ join zs) \<longleftrightarrow> prefix p y"
    proof
      assume *: "prefix p (y @ join zs)"
      show "prefix p y"
      proof (cases zs)
        case (Cons z zs')
        from * obtain q where "p = y @ q" "prefix q (join zs)" if "\<not> prefix p y"
          by (auto simp: prefix_append)
        with Cons Nil.prems show ?thesis by (cases "prefix p y") (auto simp: prefix_Cons)
      qed (use * in simp)
    qed (rule prefix_order.trans, auto)
    then show ?thesis using Cons by simp
  qed simp
next
  case (Cons x xs)
  show ?case
  proof (cases ys)
    case (Cons y zs)
    have starts: "\<exists>u. join (xs @ [p]) = CHR ''/'' # u" by (cases xs) simp_all
    then obtain u where u: "join (xs @ [p]) = CHR ''/'' # u" by blast
    have "prefix (x @ CHR ''/'' # u) (y @ join zs) \<longleftrightarrow> x = y \<and> prefix (CHR ''/'' # u) (join zs)"
      by (rule prefix_segment) (use Cons Cons.prems join_starts in auto)
    then show ?thesis using Cons Cons.prems Cons.IH [of zs] u by auto
  qed simp
qed

section \<open>What a key addresses\<close>

text \<open>The cells of a scope: the rows by kind and name, the ownership edges, the variable scopes and
  the two counters, each with the key the builder gives it.\<close>

datatype cell =
    Row object_kind object_name
  | Edge object_kind object_name object_kind object_name
  | VariablesOf object_name
  | Watermark
  | Sequence

fun cell_segments :: "cell \<Rightarrow> string list" where
  "cell_segments (Row k n) = [segment k, as_str n]"
| "cell_segments (Edge pk pn ck cn) =
     [''_index'', ''children'', segment pk, as_str pn, segment ck, as_str cn]"
| "cell_segments (VariablesOf n) = [''_index'', ''variables'', as_str n]"
| "cell_segments Watermark = [''_global'', ''last_processed_position'']"
| "cell_segments Sequence = [''_global'', ''next_generated_seq'']"

definition cell_key :: "scope \<Rightarrow> cell \<Rightarrow> string" where
  "cell_key sc c = scoped sc (cell_segments c)"

fun wf_cell :: "cell \<Rightarrow> bool" where
  "wf_cell (Row k n) \<longleftrightarrow> wf_name n"
| "wf_cell (Edge pk pn ck cn) \<longleftrightarrow> wf_name pn \<and> wf_name cn"
| "wf_cell (VariablesOf n) \<longleftrightarrow> wf_name n"
| "wf_cell Watermark \<longleftrightarrow> True"
| "wf_cell Sequence \<longleftrightarrow> True"

definition wf_scope :: "scope \<Rightarrow> bool" where
  "wf_scope sc \<longleftrightarrow> valid_plain (plain_as_str (sc_tenant sc)) \<and> valid_plain (plain_as_str (sc_namespace sc))"

lemma wf_default_scope [simp]: "wf_scope default_scope"
  by (simp add: wf_scope_def default_scope_def valid_plain_def is_alnum_def is_digit_def)

lemma cell_keys:
  "execution_key sc r = cell_key sc (Row KExecution (o_name r))"
  "thread_key sc r = cell_key sc (Row KThread (o_name r))"
  "activity_key sc r = cell_key sc (Row KActivity (o_name r))"
  "task_key sc r = cell_key sc (Row KTask (o_name r))"
  "flow_key sc q = cell_key sc (Row KFlow (Plain q))"
  "flow_version_key sc n = cell_key sc (Row KFlowVersion n)"
  "child_edge sc p c = cell_key sc (Edge (r_kind p) (r_name p) (r_kind c) (r_name c))"
  "variables_key sc n = cell_key sc (VariablesOf n)"
  "last_processed_position_key sc = cell_key sc Watermark"
  "next_generated_seq_key sc = cell_key sc Sequence"
  by (simp_all add: cell_key_def row_key_def execution_key_def thread_key_def activity_key_def task_key_def
      flow_key_def flow_version_key_def child_edge_def variables_key_def last_processed_position_key_def
      next_generated_seq_key_def)

lemma segment_inj [simp]: "segment j = segment k \<longleftrightarrow> j = k"
  by (cases j; cases k) simp_all

lemma segment_plain [simp]:
  "segment k \<noteq> ''_index''" "segment k \<noteq> ''_global''" "''_index'' \<noteq> segment k" "''_global'' \<noteq> segment k"
  "CHR ''/'' \<notin> set (segment k)"
  by (cases k; simp)+

lemma cell_segments_no_slash: "wf_cell c \<Longrightarrow> \<forall>s\<in>set (cell_segments c). CHR ''/'' \<notin> set s"
  by (cases c) (auto dest: as_str_no_slash)

lemma scope_no_slash:
  "wf_scope sc \<Longrightarrow> CHR ''/'' \<notin> set (plain_as_str (sc_tenant sc)) \<and> CHR ''/'' \<notin> set (plain_as_str (sc_namespace sc))"
  by (auto simp: wf_scope_def dest: valid_plain_no_sep)

lemma cell_segments_inj:
  "wf_cell c \<Longrightarrow> wf_cell d \<Longrightarrow> cell_segments c = cell_segments d \<longleftrightarrow> c = d"
  by (cases c; cases d) (auto simp: as_str_inj)

lemma cell_key_inj:
  assumes "wf_scope sc" "wf_scope sc'" "wf_cell c" "wf_cell d"
  shows "cell_key sc c = cell_key sc' d \<longleftrightarrow> sc = sc' \<and> c = d"
proof -
  have "cell_key sc c = cell_key sc' d \<longleftrightarrow>
    plain_as_str (sc_tenant sc) # plain_as_str (sc_namespace sc) # cell_segments c =
    plain_as_str (sc_tenant sc') # plain_as_str (sc_namespace sc') # cell_segments d"
    unfolding cell_key_def scoped_def
    by (rule join_inj) (use assms scope_no_slash cell_segments_no_slash in auto)
  then show ?thesis
    by (auto simp: cell_segments_inj assms plain_name_eq_iff [symmetric] intro: scope.equality)
qed

lemma cell_key_inj_default [simp]:
  "wf_cell c \<Longrightarrow> wf_cell d \<Longrightarrow> cell_key default_scope c = cell_key default_scope d \<longleftrightarrow> c = d"
  by (simp add: cell_key_inj)

text \<open>A range scan visits the keys with its prefix.\<close>

lemma prefix_scoped:
  assumes "wf_scope sc" "wf_scope sc'" "wf_cell c" "\<forall>s\<in>set xs. CHR ''/'' \<notin> set s" "CHR ''/'' \<notin> set p"
  shows "prefix (scoped sc (xs @ [p])) (cell_key sc' c) \<longleftrightarrow>
     sc = sc' \<and> length xs < length (cell_segments c) \<and> take (length xs) (cell_segments c) = xs
     \<and> prefix p (cell_segments c ! length xs)"
proof -
  let ?pre = "\<lambda>sc. [plain_as_str (sc_tenant sc), plain_as_str (sc_namespace sc)]"
  have "prefix (join ((?pre sc @ xs) @ [p])) (join (?pre sc' @ cell_segments c)) \<longleftrightarrow>
    length (?pre sc @ xs) < length (?pre sc' @ cell_segments c)
    \<and> take (length (?pre sc @ xs)) (?pre sc' @ cell_segments c) = ?pre sc @ xs
    \<and> prefix p ((?pre sc' @ cell_segments c) ! length (?pre sc @ xs))"
    by (rule prefix_join) (use assms scope_no_slash cell_segments_no_slash in auto)
  then show ?thesis
    unfolding cell_key_def scoped_def
    by (auto simp: plain_name_eq_iff [symmetric] intro: scope.equality)
qed

text \<open>The names that start with a flow's name and a dash are its versions.\<close>

lemma version_prefix:
  assumes "wf_name n" "valid_plain (plain_as_str f)"
  shows "prefix (plain_as_str f @ ''-'') (as_str n) \<longleftrightarrow> (\<exists>i. n = version_name f i)"
proof (cases n)
  case (Plain p)
  then have "CHR ''-'' \<notin> set (as_str n)" using assms(1) valid_plain_no_sep(1) by simp
  then show ?thesis using Plain by (auto simp: prefix_def version_name_def generated_from_key_def)
next
  case (Generated g)
  have "prefix (plain_as_str f @ CHR ''-'' # []) (plain_as_str (g_base g) @ CHR ''-'' # show_nat (g_suffix g))
      \<longleftrightarrow> plain_as_str f = plain_as_str (g_base g) \<and> prefix [CHR ''-''] (CHR ''-'' # show_nat (g_suffix g))"
    by (rule prefix_segment) (use assms Generated valid_plain_no_sep(1) in auto)
  then show ?thesis using Generated
    by (auto simp: version_name_def generated_from_key_def plain_name_eq_iff [symmetric] intro!: exI [of _ "g_suffix g"])
qed

section \<open>Properties\<close>

text \<open>C27. A key says what it addresses. Two row keys are equal only for the same scope, kind and name,
  two ownership edges only for the same scope and the same kinds and names at both ends, two variable
  scopes only for the same thread; and a row, an edge, a variable scope and the two counters never share
  a key.\<close>

theorem keys_unambiguous:
  assumes "wf_scope sc" "wf_scope sc'" "wf_name m" "wf_name n" "wf_name (r_name p)" "wf_name (r_name c)"
    "wf_name (r_name q)" "wf_name (r_name d)"
  shows "(row_key sc k (as_str m) = row_key sc' l (as_str n) \<longleftrightarrow> sc = sc' \<and> k = l \<and> m = n)
    \<and> (child_edge sc p c = child_edge sc' q d \<longleftrightarrow>
       sc = sc' \<and> (r_kind p, r_name p, r_kind c, r_name c) = (r_kind q, r_name q, r_kind d, r_name d))
    \<and> (variables_key sc m = variables_key sc' n \<longleftrightarrow> sc = sc' \<and> m = n)
    \<and> distinct [row_key sc k (as_str m), child_edge sc p c, variables_key sc n, last_processed_position_key sc,
        next_generated_seq_key sc]"
proof -
  have row: "row_key s j (as_str x) = cell_key s (Row j x)" for s j x
    by (simp add: row_key_def cell_key_def)
  show ?thesis using assms by (simp add: row cell_keys(7-10) cell_key_inj)
qed

theorem keys_unambiguous_witness:
  "row_key default_scope KTask ''order-1'' \<noteq> row_key default_scope KTask ''order-10''
   \<and> row_key default_scope KThread ''order'' \<noteq> variables_key default_scope (Plain (PlainName ''order''))"
proof -
  let ?g = "\<lambda>i. Generated \<lparr> g_base = PlainName ''order'', g_suffix = i \<rparr>"
  let ?p = "Plain (PlainName ''order'')"
  let ?r = "\<lparr> r_kind = KThread, r_name = ?p, r_uid = 0 \<rparr>"
  have wf: "wf_name (?g 1)" "wf_name (?g 10)" "wf_name ?p"
    by (simp_all add: valid_plain_def is_alnum_def is_digit_def)
  have str: "as_str (?g 1) = ''order-1''" "as_str (?g 10) = ''order-10''" "as_str ?p = ''order''"
    by code_simp+
  show ?thesis
    using keys_unambiguous [OF wf_default_scope wf_default_scope wf(1,2), of ?r ?r ?r ?r KTask KTask]
      keys_unambiguous [OF wf_default_scope wf_default_scope wf(3,3), of ?r ?r ?r ?r KThread KThread] wf(3)
    unfolding str by simp
qed

text \<open>C28. A range scan meets its own rows only. Among the keys of all cells of all scopes, those that
  start with the prefix of a kind are the rows of that kind in that scope; those that start with the edge
  prefix of a parent are the edges of that parent; and those that start with the version prefix of a flow
  are the version rows named after that flow and a number.\<close>

theorem scans_meet_their_rows:
  assumes "wf_scope sc" "wf_scope sc'" "wf_cell c" "wf_name (r_name p)" "valid_plain (plain_as_str f)"
  shows "(prefix (kind_prefix sc k) (cell_key sc' c) \<longleftrightarrow> sc = sc' \<and> (\<exists>n. c = Row k n))
    \<and> (prefix (child_edge_prefix sc p) (cell_key sc' c) \<longleftrightarrow>
       sc = sc' \<and> (\<exists>ck cn. c = Edge (r_kind p) (r_name p) ck cn))
    \<and> (prefix (flow_version_prefix sc f) (cell_key sc' c) \<longleftrightarrow>
       sc = sc' \<and> (\<exists>i. c = Row KFlowVersion (version_name f i)))"
proof (intro conjI)
  show "prefix (kind_prefix sc k) (cell_key sc' c) \<longleftrightarrow> sc = sc' \<and> (\<exists>n. c = Row k n)"
    using prefix_scoped [OF assms(1-3), of "[segment k]" "[]"]
    by (cases c) (auto simp: kind_prefix_def)
  show "prefix (child_edge_prefix sc p) (cell_key sc' c) \<longleftrightarrow>
      sc = sc' \<and> (\<exists>ck cn. c = Edge (r_kind p) (r_name p) ck cn)"
    using prefix_scoped [OF assms(1-3), of "[''_index'', ''children'', segment (r_kind p), as_str (r_name p)]" "[]"]
      assms(3,4)
    by (cases c) (auto simp: child_edge_prefix_def as_str_inj as_str_no_slash)
  show "prefix (flow_version_prefix sc f) (cell_key sc' c) \<longleftrightarrow>
      sc = sc' \<and> (\<exists>i. c = Row KFlowVersion (version_name f i))"
    using prefix_scoped [OF assms(1-3), of "[segment KFlowVersion]" "plain_as_str f @ ''-''"] assms(3,5)
    by (cases c) (auto simp: flow_version_prefix_def valid_plain_no_sep version_prefix simp del: segment.simps)
qed

theorem scans_meet_their_rows_witness:
  "\<not> prefix (kind_prefix default_scope KTask) (cell_key default_scope (Row KThread (Plain (PlainName ''order''))))
   \<and> prefix (flow_version_prefix default_scope (PlainName ''order''))
       (cell_key default_scope (Row KFlowVersion (version_name (PlainName ''order'') 12)))"
proof -
  let ?o = "PlainName ''order''"
  have wf: "valid_plain ''order''" by (simp add: valid_plain_def is_alnum_def is_digit_def)
  have c: "wf_cell (Row KThread (Plain ?o))" "wf_cell (Row KFlowVersion (version_name ?o 12))"
    using wf by (simp_all add: version_name_def generated_from_key_def)
  show ?thesis
    using scans_meet_their_rows [OF wf_default_scope wf_default_scope c(1), of "\<lparr> r_kind = KThread, r_name = Plain ?o, r_uid = 0 \<rparr>" ?o KTask]
      scans_meet_their_rows [OF wf_default_scope wf_default_scope c(2), of "\<lparr> r_kind = KThread, r_name = Plain ?o, r_uid = 0 \<rparr>" ?o] wf
    by auto
qed

text \<open>C29. References survive their text form. A reference prints as its kind and name and parses back to
  the same kind and name with a nil incarnation id; every name that parses is well formed, prints and
  parses back to itself; and every name whose printed form parses to it is determined by that form.\<close>

theorem references_round_trip:
  assumes "wf_name (r_name r)"
  shows "raw_parse (raw_display r) = Some (r \<lparr> r_uid := 0 \<rparr>)
    \<and> (from_parsed s = Inr n \<longrightarrow> wf_name n \<and> from_parsed (as_str n) = Inr n)
    \<and> (wf_name m \<longrightarrow> raw_display r = kind_as_str k @ ''/'' @ as_str m \<longrightarrow> r_kind r = k \<and> r_name r = m)"
proof (intro conjI impI)
  show parse: "raw_parse (raw_display r) = Some (r \<lparr> r_uid := 0 \<rparr>)" by (rule raw_parse_display [OF assms])
  show "from_parsed s = Inr n \<Longrightarrow> wf_name n" "from_parsed s = Inr n \<Longrightarrow> from_parsed (as_str n) = Inr n"
    using from_parsed_wf from_parsed_as_str by blast+
  have "raw_parse (kind_as_str k @ ''/'' @ as_str m) = Some \<lparr> r_kind = k, r_name = m, r_uid = 0 \<rparr>" if "wf_name m"
    using raw_parse_display [of "\<lparr> r_kind = k, r_name = m, r_uid = 0 \<rparr>"] that by (simp add: raw_display_def)
  then show "r_kind r = k" "r_name r = m" if "wf_name m" "raw_display r = kind_as_str k @ ''/'' @ as_str m"
    using parse that by (cases r; simp)+
qed

theorem references_round_trip_witness:
  "raw_parse ''task/order-7'' = Some \<lparr> r_kind = KTask, r_name = version_name (PlainName ''order'') 7, r_uid = 0 \<rparr>
   \<and> wf_name (version_name (PlainName ''order'') 7)"
proof -
  let ?r = "\<lparr> r_kind = KTask, r_name = version_name (PlainName ''order'') 7, r_uid = 42 \<rparr>"
  have wf: "wf_name (r_name ?r)"
    by (simp add: version_name_def generated_from_key_def valid_plain_def is_alnum_def is_digit_def)
  have "raw_display ?r = ''task/order-7''"
    by code_simp
  then show ?thesis using references_round_trip [OF wf] wf by simp
qed

end
