(* ===== verification/RocksStore.thy ===== *)
theory RocksStore
  imports Rocksdb Keys Storage
begin

text \<open>
  The persistent storage, \<open>src/crates/storage/src/rocks.rs\<close>: \<open>RocksStorage\<close> with its direct
  operations and \<open>RocksTxn\<close>, over the keys of \<open>Keys\<close>. RocksDB and the JSON codec are the arguments
  \<open>rk\<close> and \<open>js_\<close>... of \<open>rocks_env\<close> (theory \<open>Rocksdb\<close>). The database handle is passed along: a
  transaction holds its pending writes only and reads the committed keys through the handle.

  An operation returns a \<open>StorageError\<close> or its result; \<open>put_flow\<close> and \<open>list_kind\<close>, which may panic,
  return an \<open>outcome\<close>. The texts of third-party errors are opaque; the words around them are kept.
\<close>

section \<open>The store\<close>

record ('d, 't) rocks_env =
  rk :: "('d, 't) rocksdb"
  js_execution :: "execution serde"
  js_thread :: "thread serde"
  js_variables :: "variables serde"
  js_activity :: "activity serde"
  js_task :: "task serde"
  js_flow :: "flow serde"
  js_flow_version :: "flow_version serde"
  js_ref :: "raw_object_ref serde"
  js_i64 :: "int serde"

record 'd rocks_storage =
  rs_db :: 'd
  rs_keys :: scope

record 't rocks_txn =
  rt_txn :: 't
  rt_keys :: scope

text \<open>\<open>RocksStorage::open\<close> on an opened database.\<close>

definition rocks_open :: "string + 'd \<Rightarrow> storage_error + 'd rocks_storage" where
  "rocks_open opened =
     (case opened of
        Inl e \<Rightarrow> Inl (Backend (''rocksdb open: '' @ e))
      | Inr d \<Rightarrow> Inr \<lparr> rs_db = d, rs_keys = default_scope \<rparr>)"

definition rocks_get_row ::
  "('d, 't) rocks_env \<Rightarrow> 'a serde \<Rightarrow> bytes \<Rightarrow> 'd rocks_storage \<Rightarrow> storage_error + 'a option" where
  "rocks_get_row B s key st =
     (case rdb_get (rk B) (rs_db st) key of
        Inl e \<Rightarrow> Inl (Backend (''rocksdb read: '' @ e))
      | Inr (Some b) \<Rightarrow>
          (case from_slice s b of
             Inl e \<Rightarrow> Inl (Codec (''deserialize row: '' @ e))
           | Inr v \<Rightarrow> Inr (Some v))
      | Inr None \<Rightarrow> Inr None)"

definition rocks_put_row ::
  "('d, 't) rocks_env \<Rightarrow> 'a serde \<Rightarrow> bytes \<Rightarrow> 'a \<Rightarrow> 'd rocks_storage \<Rightarrow> storage_error + 'd rocks_storage" where
  "rocks_put_row B s key v st =
     (case to_vec s v of
        Inl e \<Rightarrow> Inl (Codec (''serialize row: '' @ e))
      | Inr b \<Rightarrow>
          (case rdb_put (rk B) key b (rs_db st) of
             Inl e \<Rightarrow> Inl (Backend (''rocksdb write: '' @ e))
           | Inr d \<Rightarrow> Inr (st \<lparr> rs_db := d \<rparr>)))"

definition rocks_delete_row ::
  "('d, 't) rocks_env \<Rightarrow> bytes \<Rightarrow> 'd rocks_storage \<Rightarrow> storage_error + 'd rocks_storage" where
  "rocks_delete_row B key st =
     (case rdb_delete (rk B) key (rs_db st) of
        Inl e \<Rightarrow> Inl (Backend (''rocksdb delete: '' @ e))
      | Inr d \<Rightarrow> Inr (st \<lparr> rs_db := d \<rparr>))"

text \<open>\<open>Option::unwrap_or\<close> under a \<open>Result\<close>.\<close>

definition unwrap_or :: "'a \<Rightarrow> 'e + 'a option \<Rightarrow> 'e + 'a" where
  "unwrap_or dflt r =
     (case r of Inl e \<Rightarrow> Inl e | Inr (Some v) \<Rightarrow> Inr v | Inr None \<Rightarrow> Inr dflt)"

section \<open>Direct reads and writes\<close>

definition of_result :: "'e + 'a \<Rightarrow> ('e, 'a) outcome" where
  "of_result r = (case r of Inl e \<Rightarrow> Err e | Inr v \<Rightarrow> Done v)"

definition rocks_get_execution :: "('d, 't) rocks_env \<Rightarrow> oref \<Rightarrow> 'd rocks_storage \<Rightarrow> storage_error + execution option" where
  "rocks_get_execution B r st = rocks_get_row B (js_execution B) (execution_key (rs_keys st) r) st"

definition rocks_get_thread :: "('d, 't) rocks_env \<Rightarrow> oref \<Rightarrow> 'd rocks_storage \<Rightarrow> storage_error + thread option" where
  "rocks_get_thread B r st = rocks_get_row B (js_thread B) (thread_key (rs_keys st) r) st"

definition rocks_get_variables :: "('d, 't) rocks_env \<Rightarrow> oref \<Rightarrow> 'd rocks_storage \<Rightarrow> storage_error + variables" where
  "rocks_get_variables B r st =
     unwrap_or Map.empty (rocks_get_row B (js_variables B) (variables_key (rs_keys st) (o_name r)) st)"

definition rocks_get_activity :: "('d, 't) rocks_env \<Rightarrow> oref \<Rightarrow> 'd rocks_storage \<Rightarrow> storage_error + activity option" where
  "rocks_get_activity B r st = rocks_get_row B (js_activity B) (activity_key (rs_keys st) r) st"

definition rocks_get_task :: "('d, 't) rocks_env \<Rightarrow> oref \<Rightarrow> 'd rocks_storage \<Rightarrow> storage_error + task option" where
  "rocks_get_task B r st = rocks_get_row B (js_task B) (task_key (rs_keys st) r) st"

definition rocks_get_flow_by_name :: "('d, 't) rocks_env \<Rightarrow> flow_name \<Rightarrow> 'd rocks_storage \<Rightarrow> storage_error + flow option" where
  "rocks_get_flow_by_name B n st = rocks_get_row B (js_flow B) (flow_key (rs_keys st) n) st"

definition rocks_get_flow_version :: "('d, 't) rocks_env \<Rightarrow> oref \<Rightarrow> 'd rocks_storage \<Rightarrow> storage_error + flow_version option" where
  "rocks_get_flow_version B r st = rocks_get_row B (js_flow_version B) (flow_version_key (rs_keys st) (o_name r)) st"

definition rocks_flow_version_of ::
  "('d, 't) rocks_env \<Rightarrow> flow_name \<Rightarrow> nat \<Rightarrow> 'd rocks_storage \<Rightarrow> storage_error + flow_version option" where
  "rocks_flow_version_of B n version st =
     rocks_get_row B (js_flow_version B) (flow_version_key (rs_keys st) (version_name n version)) st"

definition rocks_next_generated_seq :: "('d, 't) rocks_env \<Rightarrow> 'd rocks_storage \<Rightarrow> storage_error + int" where
  "rocks_next_generated_seq B st =
     unwrap_or 0 (rocks_get_row B (js_i64 B) (next_generated_seq_key (rs_keys st)) st)"

definition rocks_put_execution ::
  "('d, 't) rocks_env \<Rightarrow> execution \<Rightarrow> 'd rocks_storage \<Rightarrow> storage_error + 'd rocks_storage" where
  "rocks_put_execution B e st = rocks_put_row B (js_execution B) (execution_key (rs_keys st) (meta_ref (ex_meta e))) e st"

definition rocks_put_thread ::
  "('d, 't) rocks_env \<Rightarrow> thread \<Rightarrow> 'd rocks_storage \<Rightarrow> storage_error + 'd rocks_storage" where
  "rocks_put_thread B th st = rocks_put_row B (js_thread B) (thread_key (rs_keys st) (meta_ref (th_meta th))) th st"

definition rocks_put_variables ::
  "('d, 't) rocks_env \<Rightarrow> oref \<Rightarrow> variables \<Rightarrow> 'd rocks_storage \<Rightarrow> storage_error + 'd rocks_storage" where
  "rocks_put_variables B r v st = rocks_put_row B (js_variables B) (variables_key (rs_keys st) (o_name r)) v st"

definition rocks_put_activity ::
  "('d, 't) rocks_env \<Rightarrow> activity \<Rightarrow> 'd rocks_storage \<Rightarrow> storage_error + 'd rocks_storage" where
  "rocks_put_activity B a st = rocks_put_row B (js_activity B) (activity_key (rs_keys st) (meta_ref (ac_meta a))) a st"

definition rocks_put_task ::
  "('d, 't) rocks_env \<Rightarrow> task \<Rightarrow> 'd rocks_storage \<Rightarrow> storage_error + 'd rocks_storage" where
  "rocks_put_task B k st = rocks_put_row B (js_task B) (task_key (rs_keys st) (meta_ref (tk_meta k))) k st"

definition rocks_remove_child ::
  "('d, 't) rocks_env \<Rightarrow> raw_object_ref \<Rightarrow> raw_object_ref \<Rightarrow> 'd rocks_storage \<Rightarrow> storage_error + 'd rocks_storage" where
  "rocks_remove_child B p c st = rocks_delete_row B (child_edge (rs_keys st) p c) st"

definition rocks_add_child ::
  "('d, 't) rocks_env \<Rightarrow> raw_object_ref \<Rightarrow> raw_object_ref \<Rightarrow> 'd rocks_storage \<Rightarrow> storage_error + 'd rocks_storage" where
  "rocks_add_child B p c st = rocks_put_row B (js_ref B) (child_edge (rs_keys st) p c) c st"

text \<open>\<open>expect\<close> panics on a flow whose name is generated.\<close>

definition rocks_put_flow ::
  "('d, 't) rocks_env \<Rightarrow> flow \<Rightarrow> 'd rocks_storage \<Rightarrow> (storage_error, 'd rocks_storage) outcome" where
  "rocks_put_flow B f st =
     (case as_plain (m_name (fl_meta f)) of
        None \<Rightarrow> Panicked ''a Flow is always named by a user FlowName''
      | Some n \<Rightarrow> of_result (rocks_put_row B (js_flow B) (flow_key (rs_keys st) n) f st))"

definition rocks_put_flow_version ::
  "('d, 't) rocks_env \<Rightarrow> flow_version \<Rightarrow> 'd rocks_storage \<Rightarrow> storage_error + 'd rocks_storage" where
  "rocks_put_flow_version B v st = rocks_put_row B (js_flow_version B) (flow_version_key (rs_keys st) (m_name (fv_meta v))) v st"

definition rocks_last_processed_position ::
  "('d, 't) rocks_env \<Rightarrow> 'd rocks_storage \<Rightarrow> storage_error + int" where
  "rocks_last_processed_position B st =
     unwrap_or 0 (rocks_get_row B (js_i64 B) (last_processed_position_key (rs_keys st)) st)"

definition rocks_put_last_processed_position ::
  "('d, 't) rocks_env \<Rightarrow> int \<Rightarrow> 'd rocks_storage \<Rightarrow> storage_error + 'd rocks_storage" where
  "rocks_put_last_processed_position B pos st =
     rocks_put_row B (js_i64 B) (last_processed_position_key (rs_keys st)) pos st"

section \<open>Direct scans\<close>

text \<open>The loop of \<open>activatable_tasks\<close> over what \<open>prefix_iterator\<close> yields: no key is looked at.\<close>

fun rocks_task_scan ::
  "('d, 't) rocks_env \<Rightarrow> string \<Rightarrow> timestamp \<Rightarrow> nat \<Rightarrow> task list \<Rightarrow> item list \<Rightarrow> storage_error + task list" where
  "rocks_task_scan B resource now limit out [] = Inr out"
| "rocks_task_scan B resource now limit out (Inl e # items) = Inl (Backend (''rocksdb task scan: '' @ e))"
| "rocks_task_scan B resource now limit out (Inr (key, v) # items) =
     (case from_slice (js_task B) v of
        Inl e \<Rightarrow> Inl (Codec (''rocksdb task decode: '' @ e))
      | Inr task \<Rightarrow>
          if tk_resource task = resource \<and> is_claimable_at now task then
            if limit \<le> length out then Inr out
            else rocks_task_scan B resource now limit (out @ [task]) items
          else rocks_task_scan B resource now limit out items)"

definition rocks_activatable_tasks ::
  "('d, 't) rocks_env \<Rightarrow> string \<Rightarrow> timestamp \<Rightarrow> nat \<Rightarrow> 'd rocks_storage \<Rightarrow> storage_error + task list" where
  "rocks_activatable_tasks B resource now limit st =
     rocks_task_scan B resource now limit []
       (rdb_prefix_iterator (rk B) (rs_db st) (task_prefix (rs_keys st)))"

text \<open>The loop of \<open>list_kind\<close>: the name is the key past the length of the prefix, a slice that panics
  on a shorter key.\<close>

fun rocks_list_scan ::
  "object_kind \<Rightarrow> nat \<Rightarrow> string option \<Rightarrow> nat \<Rightarrow> (object_name \<times> bytes) list \<Rightarrow> item list
   \<Rightarrow> (storage_error, (object_name \<times> bytes) list) outcome" where
  "rocks_list_scan k plen after limit out [] = Done out"
| "rocks_list_scan k plen after limit out (Inl e # items) = Err (Backend (''rocksdb '' @ kind_debug k @ '' scan: '' @ e))"
| "rocks_list_scan k plen after limit out (Inr (key, v) # items) =
     (if length key < plen then Panicked ''range start index out of range for slice''
      else let name = drop plen key in
        if \<not> valid_utf8 name then Err (InvalidKey (''rocksdb '' @ kind_debug k @ '' name: invalid utf-8''))
        else if (case after of Some a \<Rightarrow> name \<le> a | None \<Rightarrow> False)
        then rocks_list_scan k plen after limit out items
        else case from_parsed name of
          Inl (Invalid e) \<Rightarrow> Err (InvalidKey (''rocksdb '' @ kind_debug k @ '' name: '' @ e))
        | Inr n \<Rightarrow>
            (let out' = out @ [(n, v)] in
             if limit \<le> length out' then Done out'
             else rocks_list_scan k plen after limit out' items))"

definition rocks_list_kind ::
  "('d, 't) rocks_env \<Rightarrow> object_kind \<Rightarrow> object_name option \<Rightarrow> nat \<Rightarrow> 'd rocks_storage
   \<Rightarrow> (storage_error, (object_name \<times> bytes) list) outcome" where
  "rocks_list_kind B k start_after limit st =
     (let p = kind_prefix (rs_keys st) k
      in rocks_list_scan k (length p) (map_option as_str start_after) limit []
           (rdb_prefix_iterator (rk B) (rs_db st) p))"

text \<open>The loop of \<open>get_children\<close>, which stops at the first key outside the prefix; the words name the
  interface that runs it.\<close>

fun edge_scan ::
  "raw_object_ref serde \<Rightarrow> string \<Rightarrow> bytes \<Rightarrow> raw_object_ref set \<Rightarrow> item list
   \<Rightarrow> storage_error + raw_object_ref set" where
  "edge_scan s what p out [] = Inr out"
| "edge_scan s what p out (Inl e # items) = Inl (Backend (what @ '' edge scan: '' @ e))"
| "edge_scan s what p out (Inr (key, v) # items) =
     (if \<not> prefix p key then Inr out
      else case from_slice s v of
        Inl e \<Rightarrow> Inl (Codec (what @ '' edge decode: '' @ e))
      | Inr c \<Rightarrow> edge_scan s what p (insert c out) items)"

definition rocks_get_children ::
  "('d, 't) rocks_env \<Rightarrow> raw_object_ref \<Rightarrow> 'd rocks_storage \<Rightarrow> storage_error + raw_object_ref set" where
  "rocks_get_children B p st =
     (let pre = child_edge_prefix (rs_keys st) p
      in edge_scan (js_ref B) ''rocksdb'' pre {} (rdb_prefix_iterator (rk B) (rs_db st) pre))"

section \<open>Transactions\<close>

definition rocks_begin_txn :: "('d, 't) rocks_env \<Rightarrow> 'd rocks_storage \<Rightarrow> 't rocks_txn" where
  "rocks_begin_txn B st = \<lparr> rt_txn = rdb_transaction (rk B) (rs_db st), rt_keys = rs_keys st \<rparr>"

definition rtxn_get_row ::
  "('d, 't) rocks_env \<Rightarrow> 'a serde \<Rightarrow> bytes \<Rightarrow> 'd \<Rightarrow> 't rocks_txn \<Rightarrow> storage_error + 'a option" where
  "rtxn_get_row B s key d t =
     (case rtx_get (rk B) d (rt_txn t) key of
        Inl e \<Rightarrow> Inl (Backend (''txn read: '' @ e))
      | Inr (Some b) \<Rightarrow>
          (case from_slice s b of
             Inl e \<Rightarrow> Inl (Codec (''deserialize row: '' @ e))
           | Inr v \<Rightarrow> Inr (Some v))
      | Inr None \<Rightarrow> Inr None)"

definition rtxn_put_row ::
  "('d, 't) rocks_env \<Rightarrow> 'a serde \<Rightarrow> bytes \<Rightarrow> 'a \<Rightarrow> 't rocks_txn \<Rightarrow> storage_error + 't rocks_txn" where
  "rtxn_put_row B s key v t =
     (case to_vec s v of
        Inl e \<Rightarrow> Inl (Codec (''serialize row: '' @ e))
      | Inr b \<Rightarrow>
          (case rtx_put (rk B) key b (rt_txn t) of
             Inl e \<Rightarrow> Inl (Backend (''txn write: '' @ e))
           | Inr x \<Rightarrow> Inr (t \<lparr> rt_txn := x \<rparr>)))"

definition rtxn_delete_row ::
  "('d, 't) rocks_env \<Rightarrow> bytes \<Rightarrow> 't rocks_txn \<Rightarrow> storage_error + 't rocks_txn" where
  "rtxn_delete_row B key t =
     (case rtx_delete (rk B) key (rt_txn t) of
        Inl e \<Rightarrow> Inl (Backend (''txn delete: '' @ e))
      | Inr x \<Rightarrow> Inr (t \<lparr> rt_txn := x \<rparr>))"

definition rtxn_get_execution :: "('d, 't) rocks_env \<Rightarrow> oref \<Rightarrow> 'd \<Rightarrow> 't rocks_txn \<Rightarrow> storage_error + execution option" where
  "rtxn_get_execution B r d t = rtxn_get_row B (js_execution B) (execution_key (rt_keys t) r) d t"

definition rtxn_get_thread :: "('d, 't) rocks_env \<Rightarrow> oref \<Rightarrow> 'd \<Rightarrow> 't rocks_txn \<Rightarrow> storage_error + thread option" where
  "rtxn_get_thread B r d t = rtxn_get_row B (js_thread B) (thread_key (rt_keys t) r) d t"

definition rtxn_get_variables :: "('d, 't) rocks_env \<Rightarrow> oref \<Rightarrow> 'd \<Rightarrow> 't rocks_txn \<Rightarrow> storage_error + variables" where
  "rtxn_get_variables B r d t =
     unwrap_or Map.empty (rtxn_get_row B (js_variables B) (variables_key (rt_keys t) (o_name r)) d t)"

definition rtxn_get_activity :: "('d, 't) rocks_env \<Rightarrow> oref \<Rightarrow> 'd \<Rightarrow> 't rocks_txn \<Rightarrow> storage_error + activity option" where
  "rtxn_get_activity B r d t = rtxn_get_row B (js_activity B) (activity_key (rt_keys t) r) d t"

definition rtxn_get_task :: "('d, 't) rocks_env \<Rightarrow> oref \<Rightarrow> 'd \<Rightarrow> 't rocks_txn \<Rightarrow> storage_error + task option" where
  "rtxn_get_task B r d t = rtxn_get_row B (js_task B) (task_key (rt_keys t) r) d t"

definition rtxn_get_flow_by_name :: "('d, 't) rocks_env \<Rightarrow> flow_name \<Rightarrow> 'd \<Rightarrow> 't rocks_txn \<Rightarrow> storage_error + flow option" where
  "rtxn_get_flow_by_name B n d t = rtxn_get_row B (js_flow B) (flow_key (rt_keys t) n) d t"

definition rtxn_get_flow_version :: "('d, 't) rocks_env \<Rightarrow> oref \<Rightarrow> 'd \<Rightarrow> 't rocks_txn \<Rightarrow> storage_error + flow_version option" where
  "rtxn_get_flow_version B r d t = rtxn_get_row B (js_flow_version B) (flow_version_key (rt_keys t) (o_name r)) d t"

definition rtxn_flow_version_of ::
  "('d, 't) rocks_env \<Rightarrow> flow_name \<Rightarrow> nat \<Rightarrow> 'd \<Rightarrow> 't rocks_txn \<Rightarrow> storage_error + flow_version option" where
  "rtxn_flow_version_of B n version d t =
     rtxn_get_row B (js_flow_version B) (flow_version_key (rt_keys t) (version_name n version)) d t"

definition rtxn_next_generated_seq :: "('d, 't) rocks_env \<Rightarrow> 'd \<Rightarrow> 't rocks_txn \<Rightarrow> storage_error + int" where
  "rtxn_next_generated_seq B d t =
     unwrap_or 0 (rtxn_get_row B (js_i64 B) (next_generated_seq_key (rt_keys t)) d t)"

definition rtxn_put_execution ::
  "('d, 't) rocks_env \<Rightarrow> execution \<Rightarrow> 't rocks_txn \<Rightarrow> storage_error + 't rocks_txn" where
  "rtxn_put_execution B e t = rtxn_put_row B (js_execution B) (execution_key (rt_keys t) (meta_ref (ex_meta e))) e t"

definition rtxn_put_thread ::
  "('d, 't) rocks_env \<Rightarrow> thread \<Rightarrow> 't rocks_txn \<Rightarrow> storage_error + 't rocks_txn" where
  "rtxn_put_thread B th t = rtxn_put_row B (js_thread B) (thread_key (rt_keys t) (meta_ref (th_meta th))) th t"

definition rtxn_put_variables ::
  "('d, 't) rocks_env \<Rightarrow> oref \<Rightarrow> variables \<Rightarrow> 't rocks_txn \<Rightarrow> storage_error + 't rocks_txn" where
  "rtxn_put_variables B r v t = rtxn_put_row B (js_variables B) (variables_key (rt_keys t) (o_name r)) v t"

definition rtxn_put_activity ::
  "('d, 't) rocks_env \<Rightarrow> activity \<Rightarrow> 't rocks_txn \<Rightarrow> storage_error + 't rocks_txn" where
  "rtxn_put_activity B a t = rtxn_put_row B (js_activity B) (activity_key (rt_keys t) (meta_ref (ac_meta a))) a t"

definition rtxn_put_task ::
  "('d, 't) rocks_env \<Rightarrow> task \<Rightarrow> 't rocks_txn \<Rightarrow> storage_error + 't rocks_txn" where
  "rtxn_put_task B k t = rtxn_put_row B (js_task B) (task_key (rt_keys t) (meta_ref (tk_meta k))) k t"

definition rtxn_remove_child ::
  "('d, 't) rocks_env \<Rightarrow> raw_object_ref \<Rightarrow> raw_object_ref \<Rightarrow> 't rocks_txn \<Rightarrow> storage_error + 't rocks_txn" where
  "rtxn_remove_child B p c t = rtxn_delete_row B (child_edge (rt_keys t) p c) t"

definition rtxn_add_child ::
  "('d, 't) rocks_env \<Rightarrow> raw_object_ref \<Rightarrow> raw_object_ref \<Rightarrow> 't rocks_txn \<Rightarrow> storage_error + 't rocks_txn" where
  "rtxn_add_child B p c t = rtxn_put_row B (js_ref B) (child_edge (rt_keys t) p c) c t"

text \<open>\<open>expect\<close> panics on a flow whose name is generated.\<close>

definition rtxn_put_flow ::
  "('d, 't) rocks_env \<Rightarrow> flow \<Rightarrow> 't rocks_txn \<Rightarrow> (storage_error, 't rocks_txn) outcome" where
  "rtxn_put_flow B f t =
     (case as_plain (m_name (fl_meta f)) of
        None \<Rightarrow> Panicked ''a Flow is always named by a user FlowName''
      | Some n \<Rightarrow> of_result (rtxn_put_row B (js_flow B) (flow_key (rt_keys t) n) f t))"

definition rtxn_put_flow_version ::
  "('d, 't) rocks_env \<Rightarrow> flow_version \<Rightarrow> 't rocks_txn \<Rightarrow> storage_error + 't rocks_txn" where
  "rtxn_put_flow_version B v t = rtxn_put_row B (js_flow_version B) (flow_version_key (rt_keys t) (m_name (fv_meta v))) v t"

definition rtxn_put_next_generated_seq ::
  "('d, 't) rocks_env \<Rightarrow> int \<Rightarrow> 't rocks_txn \<Rightarrow> storage_error + 't rocks_txn" where
  "rtxn_put_next_generated_seq B s t = rtxn_put_row B (js_i64 B) (next_generated_seq_key (rt_keys t)) s t"

fun rtxn_task_scan ::
  "('d, 't) rocks_env \<Rightarrow> bytes \<Rightarrow> string \<Rightarrow> timestamp \<Rightarrow> nat \<Rightarrow> task list \<Rightarrow> item list
   \<Rightarrow> storage_error + task list" where
  "rtxn_task_scan B p resource now limit out [] = Inr out"
| "rtxn_task_scan B p resource now limit out (Inl e # items) =
     Inl (Backend (''rocksdb txn task scan: '' @ e))"
| "rtxn_task_scan B p resource now limit out (Inr (key, v) # items) =
     (if \<not> prefix p key then Inr out
      else case from_slice (js_task B) v of
        Inl e \<Rightarrow> Inl (Codec (''rocksdb txn task decode: '' @ e))
      | Inr task \<Rightarrow>
          if tk_resource task = resource \<and> is_claimable_at now task then
            if limit \<le> length out then Inr out
            else rtxn_task_scan B p resource now limit (out @ [task]) items
          else rtxn_task_scan B p resource now limit out items)"

definition rtxn_activatable_tasks ::
  "('d, 't) rocks_env \<Rightarrow> string \<Rightarrow> timestamp \<Rightarrow> nat \<Rightarrow> 'd \<Rightarrow> 't rocks_txn \<Rightarrow> storage_error + task list" where
  "rtxn_activatable_tasks B resource now limit d t =
     (let p = task_prefix (rt_keys t)
      in rtxn_task_scan B p resource now limit [] (rtx_iterator (rk B) d (rt_txn t) p))"

definition rtxn_get_children ::
  "('d, 't) rocks_env \<Rightarrow> raw_object_ref \<Rightarrow> 'd \<Rightarrow> 't rocks_txn \<Rightarrow> storage_error + raw_object_ref set" where
  "rtxn_get_children B p d t =
     (let pre = child_edge_prefix (rt_keys t) p
      in edge_scan (js_ref B) ''rocksdb txn'' pre {} (rtx_iterator (rk B) d (rt_txn t) pre))"

definition rocks_commit ::
  "('d, 't) rocks_env \<Rightarrow> int option \<Rightarrow> 't rocks_txn \<Rightarrow> 'd rocks_storage \<Rightarrow> storage_error + 'd rocks_storage" where
  "rocks_commit B watermark t st =
     (case (case watermark of
              Some w \<Rightarrow> rtxn_put_row B (js_i64 B) (last_processed_position_key (rt_keys t)) w t
            | None \<Rightarrow> Inr t) of
        Inl e \<Rightarrow> Inl e
      | Inr t' \<Rightarrow>
          (case rtx_commit (rk B) (rt_txn t') (rs_db st) of
             Inl e \<Rightarrow> Inl (Backend (''rocksdb txn commit: '' @ e))
           | Inr d \<Rightarrow> Inr (st \<lparr> rs_db := d \<rparr>)))"

end
