(* ===== verification/RocksRefinement.thy ===== *)
theory RocksRefinement
  imports RocksStore
begin

text \<open>
  The persistent storage refines the in-memory one. A key space represents an in-memory database when
  each cell holds the encoding of its row; every write of a transaction keeps the representation of
  what the in-memory transaction would commit, every read returns the same, and \<open>commit\<close> publishes
  both. A scan of a transaction meets the rows of its kind only.
\<close>

section \<open>What a key space stands for\<close>

text \<open>The in-memory database a key space represents. An ownership edge is stored under the kinds and
  names of its ends, without their incarnation ids: \<open>u\<close> gives the id of a name, and the edges of the
  database go between references that carry it.\<close>

type_synonym naming = "object_kind \<Rightarrow> object_name \<Rightarrow> ulid"

definition named_ref :: "naming \<Rightarrow> object_kind \<Rightarrow> object_name \<Rightarrow> raw_object_ref" where
  "named_ref u k n = \<lparr> r_kind = k, r_name = n, r_uid = u k n \<rparr>"

definition is_named :: "naming \<Rightarrow> raw_object_ref \<Rightarrow> bool" where
  "is_named u r \<longleftrightarrow> wf_name (r_name r) \<and> r_uid r = u (r_kind r) (r_name r)"

abbreviation cell_at :: "cell \<Rightarrow> bytes" where
  "cell_at c \<equiv> cell_key default_scope c"

text \<open>A row as a point read decodes it.\<close>

definition decoded :: "'a serde \<Rightarrow> bytes option \<Rightarrow> storage_error + 'a option" where
  "decoded s b =
     (case b of
        None \<Rightarrow> Inr None
      | Some b' \<Rightarrow> (case from_slice s b' of Inl e \<Rightarrow> Inl (Codec (''deserialize row: '' @ e)) | Inr v \<Rightarrow> Inr (Some v)))"

fun cell_holds :: "('d, 't) rocks_env \<Rightarrow> naming \<Rightarrow> in_memory_db \<Rightarrow> cell \<Rightarrow> bytes option \<Rightarrow> bool" where
  "cell_holds B u db (Row KExecution n) b \<longleftrightarrow> decoded (js_execution B) b = Inr (d_executions db n)"
| "cell_holds B u db (Row KThread n) b \<longleftrightarrow> decoded (js_thread B) b = Inr (d_threads db n)"
| "cell_holds B u db (Row KActivity n) b \<longleftrightarrow> decoded (js_activity B) b = Inr (d_activities db n)"
| "cell_holds B u db (Row KTask n) b \<longleftrightarrow> decoded (js_task B) b = Inr (d_tasks db n)"
| "cell_holds B u db (Row KFlow n) b \<longleftrightarrow>
     decoded (js_flow B) b = Inr (case as_plain n of None \<Rightarrow> None | Some p \<Rightarrow> d_flows db p)"
| "cell_holds B u db (Row KFlowVersion n) b \<longleftrightarrow> decoded (js_flow_version B) b = Inr (d_flow_versions db n)"
| "cell_holds B u db (Edge pk pn ck cn) b \<longleftrightarrow>
     decoded (js_ref B) b = Inr (if (named_ref u pk pn, named_ref u ck cn) \<in> d_children db
                                 then Some (named_ref u ck cn) else None)"
| "cell_holds B u db (VariablesOf n) b \<longleftrightarrow> decoded (js_variables B) b = Inr (d_variables db n)"
| "cell_holds B u db Watermark b \<longleftrightarrow> unwrap_or 0 (decoded (js_i64 B) b) = Inr (d_last_processed_position db)"
| "cell_holds B u db Sequence b \<longleftrightarrow> unwrap_or 0 (decoded (js_i64 B) b) = Inr (int (d_next_generated_seq db))"

definition represents :: "('d, 't) rocks_env \<Rightarrow> naming \<Rightarrow> key_space \<Rightarrow> in_memory_db \<Rightarrow> bool" where
  "represents B u m db \<longleftrightarrow>
     finite (dom m) \<and> dom m \<subseteq> cell_at ` Collect wf_cell \<and>
     (\<forall>c. wf_cell c \<longrightarrow> cell_holds B u db c (m (cell_at c))) \<and>
     (\<forall>(p, c) \<in> d_children db. is_named u p \<and> is_named u c)"

lemma is_named_ref [simp]: "is_named u r \<Longrightarrow> named_ref u (r_kind r) (r_name r) = r"
  by (cases r) (simp add: is_named_def named_ref_def)

lemma named_ref_sel [simp]: "r_kind (named_ref u k n) = k" "r_name (named_ref u k n) = n"
  by (simp_all add: named_ref_def)

lemma named_ref_inj [simp]: "named_ref u k n = named_ref u k' n' \<longleftrightarrow> k = k' \<and> n = n'"
  by (auto simp: named_ref_def)

lemma decoded_None [simp]: "decoded s None = Inr None"
  by (simp add: decoded_def)

lemma decoded_Some [simp]: "from_slice s b = Inr v \<Longrightarrow> decoded s (Some b) = Inr (Some v)"
  by (simp add: decoded_def)

lemma decoded_Inr_Some: "decoded s x = Inr (Some v) \<longleftrightarrow> (\<exists>b. x = Some b \<and> from_slice s b = Inr v)"
  by (auto simp: decoded_def split: option.splits sum.splits)

lemma decoded_Inr_None: "decoded s x = Inr None \<longleftrightarrow> x = None"
  by (auto simp: decoded_def split: option.splits sum.splits)

lemma unwrap_or_Inr [simp]: "unwrap_or dflt (Inr x) = Inr (case x of Some v \<Rightarrow> v | None \<Rightarrow> dflt)"
  by (simp add: unwrap_or_def split: option.split)

lemma represents_holds: "represents B u m db \<Longrightarrow> wf_cell c \<Longrightarrow> cell_holds B u db c (m (cell_at c))"
  by (simp add: represents_def)

lemma represents_reads:
  assumes "represents B u m db" "wf_name n"
  shows "decoded (js_execution B) (m (cell_at (Row KExecution n))) = Inr (d_executions db n)"
    "decoded (js_thread B) (m (cell_at (Row KThread n))) = Inr (d_threads db n)"
    "decoded (js_activity B) (m (cell_at (Row KActivity n))) = Inr (d_activities db n)"
    "decoded (js_task B) (m (cell_at (Row KTask n))) = Inr (d_tasks db n)"
    "decoded (js_flow_version B) (m (cell_at (Row KFlowVersion n))) = Inr (d_flow_versions db n)"
    "decoded (js_variables B) (m (cell_at (VariablesOf n))) = Inr (d_variables db n)"
    "n = Plain p \<Longrightarrow> decoded (js_flow B) (m (cell_at (Row KFlow n))) = Inr (d_flows db p)"
  using represents_holds [OF assms(1), of "Row KExecution n"] represents_holds [OF assms(1), of "Row KThread n"]
    represents_holds [OF assms(1), of "Row KActivity n"] represents_holds [OF assms(1), of "Row KTask n"]
    represents_holds [OF assms(1), of "Row KFlowVersion n"] represents_holds [OF assms(1), of "VariablesOf n"]
    represents_holds [OF assms(1), of "Row KFlow n"] assms(2)
  by simp_all

lemma represents_empty: "represents B u Map.empty empty_db"
proof -
  have "cell_holds B u empty_db c None" for c
    by (cases "(B, u, empty_db, c, None :: bytes option)" rule: cell_holds.cases)
       (simp_all add: empty_db_def split: option.split)
  then show ?thesis by (simp add: represents_def empty_db_def)
qed

text \<open>A write of one cell.\<close>

lemma represents_cell:
  assumes "represents B u m db" "wf_cell c" "cell_holds B u db' c v"
    and "\<And>c' b. c' \<noteq> c \<Longrightarrow> cell_holds B u db' c' b = cell_holds B u db c' b"
    and "\<forall>(p, c) \<in> d_children db'. is_named u p \<and> is_named u c"
  shows "represents B u (m(cell_at c := v)) db'"
proof -
  have "dom (m(cell_at c := v)) \<subseteq> insert (cell_at c) (dom m)" by (auto split: if_splits)
  then have "finite (dom (m(cell_at c := v)))" "dom (m(cell_at c := v)) \<subseteq> cell_at ` Collect wf_cell"
    using assms(1,2) by (auto simp: represents_def intro: finite_subset)
  moreover have "cell_holds B u db' c' ((m(cell_at c := v)) (cell_at c'))" if "wf_cell c'" for c'
    using that assms(1-4) by (cases "c' = c") (simp_all add: represents_holds)
  ultimately show ?thesis using assms(5) by (simp add: represents_def)
qed

lemmas db_write_defs = db_put_execution_def db_put_thread_def db_put_variables_def db_put_activity_def
  db_put_task_def db_put_flow_version_def db_add_child_def db_remove_child_def
  db_put_last_processed_position_def

lemma holds_put:
  "c \<noteq> Row KExecution (m_name (ex_meta e)) \<Longrightarrow> cell_holds B u (db_put_execution e db) c b = cell_holds B u db c b"
  "c \<noteq> Row KThread (m_name (th_meta th)) \<Longrightarrow> cell_holds B u (db_put_thread th db) c b = cell_holds B u db c b"
  "c \<noteq> VariablesOf (o_name r) \<Longrightarrow> cell_holds B u (db_put_variables r vs db) c b = cell_holds B u db c b"
  "c \<noteq> Row KActivity (m_name (ac_meta a)) \<Longrightarrow> cell_holds B u (db_put_activity a db) c b = cell_holds B u db c b"
  "c \<noteq> Row KTask (m_name (tk_meta k)) \<Longrightarrow> cell_holds B u (db_put_task k db) c b = cell_holds B u db c b"
  "c \<noteq> Row KFlowVersion (m_name (fv_meta v)) \<Longrightarrow> cell_holds B u (db_put_flow_version v db) c b = cell_holds B u db c b"
  "c \<noteq> Watermark \<Longrightarrow> cell_holds B u (db_put_last_processed_position w db) c b = cell_holds B u db c b"
  "c \<noteq> Sequence \<Longrightarrow> cell_holds B u (db \<lparr> d_next_generated_seq := q \<rparr>) c b = cell_holds B u db c b"
  by (cases "(B, u, db, c, b)" rule: cell_holds.cases; simp add: db_write_defs cong: option.case_cong)+

lemma holds_edges:
  assumes "is_named u p" "is_named u q" "c \<noteq> Edge (r_kind p) (r_name p) (r_kind q) (r_name q)"
  shows "cell_holds B u (db_add_child p q db) c b = cell_holds B u db c b"
    and "cell_holds B u (db_remove_child p q db) c b = cell_holds B u db c b"
proof -
  have eq: "named_ref u k n = p \<longleftrightarrow> k = r_kind p \<and> n = r_name p"
    "named_ref u k n = q \<longleftrightarrow> k = r_kind q \<and> n = r_name q" for k n
    using is_named_ref [OF assms(1)] is_named_ref [OF assms(2)] by (metis named_ref_inj)+
  show "cell_holds B u (db_add_child p q db) c b = cell_holds B u db c b"
    "cell_holds B u (db_remove_child p q db) c b = cell_holds B u db c b"
    using assms(3)
    by (cases "(B, u, db, c, b)" rule: cell_holds.cases; auto simp: db_write_defs eq cong: option.case_cong)+
qed

lemma holds_flow:
  "db_put_flow f db = Some db' \<Longrightarrow> c \<noteq> Row KFlow (m_name (fl_meta f)) \<Longrightarrow>
   cell_holds B u db' c b = cell_holds B u db c b"
  by (cases "(B, u, db, c, b)" rule: cell_holds.cases)
     (auto simp: db_put_flow_def elim!: as_plain.elims cong: option.case_cong split: option.split option.splits)

lemma represents_put:
  assumes "represents B u m db"
  shows "wf_name (m_name (ex_meta e)) \<Longrightarrow> from_slice (js_execution B) b = Inr e \<Longrightarrow>
      represents B u (m(cell_at (Row KExecution (m_name (ex_meta e))) \<mapsto> b)) (db_put_execution e db)"
    and "wf_name (m_name (th_meta th)) \<Longrightarrow> from_slice (js_thread B) b = Inr th \<Longrightarrow>
      represents B u (m(cell_at (Row KThread (m_name (th_meta th))) \<mapsto> b)) (db_put_thread th db)"
    and "wf_name (o_name r) \<Longrightarrow> from_slice (js_variables B) b = Inr vs \<Longrightarrow>
      represents B u (m(cell_at (VariablesOf (o_name r)) \<mapsto> b)) (db_put_variables r vs db)"
    and "wf_name (m_name (ac_meta a)) \<Longrightarrow> from_slice (js_activity B) b = Inr a \<Longrightarrow>
      represents B u (m(cell_at (Row KActivity (m_name (ac_meta a))) \<mapsto> b)) (db_put_activity a db)"
    and "wf_name (m_name (tk_meta k)) \<Longrightarrow> from_slice (js_task B) b = Inr k \<Longrightarrow>
      represents B u (m(cell_at (Row KTask (m_name (tk_meta k))) \<mapsto> b)) (db_put_task k db)"
    and "wf_name (m_name (fv_meta v)) \<Longrightarrow> from_slice (js_flow_version B) b = Inr v \<Longrightarrow>
      represents B u (m(cell_at (Row KFlowVersion (m_name (fv_meta v))) \<mapsto> b)) (db_put_flow_version v db)"
    and "from_slice (js_i64 B) b = Inr w \<Longrightarrow>
      represents B u (m(cell_at Watermark \<mapsto> b)) (db_put_last_processed_position w db)"
    and "from_slice (js_i64 B) b = Inr (int q) \<Longrightarrow>
      represents B u (m(cell_at Sequence \<mapsto> b)) (db \<lparr> d_next_generated_seq := q \<rparr>)"
    and "is_named u p \<Longrightarrow> is_named u q' \<Longrightarrow> from_slice (js_ref B) b = Inr q' \<Longrightarrow> represents B u
      (m(cell_at (Edge (r_kind p) (r_name p) (r_kind q') (r_name q')) \<mapsto> b)) (db_add_child p q' db)"
    and "is_named u p \<Longrightarrow> is_named u q' \<Longrightarrow> represents B u
      (m(cell_at (Edge (r_kind p) (r_name p) (r_kind q') (r_name q')) := None)) (db_remove_child p q' db)"
  using assms
  by (auto intro!: represents_cell [OF assms] simp: holds_put holds_edges)
     (auto simp: db_write_defs represents_def is_named_def)

lemma represents_put_flow:
  assumes "represents B u m db" "wf_name (m_name (fl_meta f))" "db_put_flow f db = Some db'"
    "from_slice (js_flow B) b = Inr f"
  shows "represents B u (m(cell_at (Row KFlow (m_name (fl_meta f))) \<mapsto> b)) db'"
  by (rule represents_cell [OF assms(1)])
     (use assms in \<open>auto simp: holds_flow [OF assms(3)] db_put_flow_def represents_def split: option.splits\<close>)

section \<open>Transactions refine the in-memory ones\<close>

text \<open>The key space a transaction reads: its pending writes over the committed keys.\<close>

definition txn_view :: "('d \<Rightarrow> key_space) \<Rightarrow> ('t \<Rightarrow> pending) \<Rightarrow> 'd \<Rightarrow> 't rocks_txn \<Rightarrow> key_space" where
  "txn_view content pending d t = overlay (content d) (pending (rt_txn t))"

lemma rtxn_get_row_view:
  "healthy (rk B) content pending \<Longrightarrow> rtxn_get_row B s key d t = decoded s (txn_view content pending d t key)"
  by (simp add: rtxn_get_row_def healthy_def txn_view_def decoded_def split: option.split)

lemma rocks_get_row_content:
  "healthy (rk B) content pending \<Longrightarrow> rocks_get_row B s key st = decoded s (content (rs_db st) key)"
  by (simp add: rocks_get_row_def healthy_def decoded_def split: option.split)

text \<open>The outcome of a write to a transaction: the view changes in one cell.\<close>

definition sets_cell ::
  "('d \<Rightarrow> key_space) \<Rightarrow> ('t \<Rightarrow> pending) \<Rightarrow> 't rocks_txn \<Rightarrow> bytes \<Rightarrow> bytes option \<Rightarrow> 't rocks_txn \<Rightarrow> bool" where
  "sets_cell content pending t key v t' \<longleftrightarrow>
     rt_keys t' = rt_keys t \<and> (\<forall>d. txn_view content pending d t' = (txn_view content pending d t)(key := v))"

lemma rtxn_put_row_sets:
  assumes "healthy (rk B) content pending" "to_vec s v = Inr b"
  obtains t' where "rtxn_put_row B s key v t = Inr t'" "sets_cell content pending t key (Some b) t'"
proof -
  obtain x where "rtx_put (rk B) key b (rt_txn t) = Inr x" "pending x = (pending (rt_txn t))(key \<mapsto> Some b)"
    using healthyD(11) [OF assms(1)] by blast
  then show ?thesis using that assms(2)
    by (simp add: rtxn_put_row_def sets_cell_def txn_view_def)
qed

lemma rtxn_delete_row_sets:
  assumes "healthy (rk B) content pending"
  obtains t' where "rtxn_delete_row B key t = Inr t'" "sets_cell content pending t key None t'"
proof -
  obtain x where "rtx_delete (rk B) key (rt_txn t) = Inr x" "pending x = (pending (rt_txn t))(key \<mapsto> None)"
    using healthyD(12) [OF assms] by blast
  then show ?thesis using that
    by (simp add: rtxn_delete_row_def sets_cell_def txn_view_def)
qed

text \<open>The writes of a transaction as data.\<close>

datatype row_write =
    WExecution execution
  | WThread thread
  | WVariables oref variables
  | WActivity activity
  | WTask task
  | WFlow flow
  | WFlowVersion flow_version
  | WAddChild raw_object_ref raw_object_ref
  | WRemoveChild raw_object_ref raw_object_ref
  | WSequence nat

fun mem_write :: "row_write \<Rightarrow> txn \<Rightarrow> txn option" where
  "mem_write (WExecution e) x = Some (put_execution e x)"
| "mem_write (WThread th) x = Some (put_thread th x)"
| "mem_write (WVariables r v) x = Some (put_variables r v x)"
| "mem_write (WActivity a) x = Some (put_activity a x)"
| "mem_write (WTask k) x = Some (put_task k x)"
| "mem_write (WFlow f) x = put_flow f x"
| "mem_write (WFlowVersion v) x = Some (put_flow_version v x)"
| "mem_write (WAddChild p c) x = Some (add_child p c x)"
| "mem_write (WRemoveChild p c) x = Some (remove_child p c x)"
| "mem_write (WSequence s) x = Some (put_next_generated_seq s x)"

fun rtxn_write :: "('d, 't) rocks_env \<Rightarrow> row_write \<Rightarrow> 't rocks_txn \<Rightarrow> (storage_error, 't rocks_txn) outcome" where
  "rtxn_write B (WExecution e) t = of_result (rtxn_put_execution B e t)"
| "rtxn_write B (WThread th) t = of_result (rtxn_put_thread B th t)"
| "rtxn_write B (WVariables r v) t = of_result (rtxn_put_variables B r v t)"
| "rtxn_write B (WActivity a) t = of_result (rtxn_put_activity B a t)"
| "rtxn_write B (WTask k) t = of_result (rtxn_put_task B k t)"
| "rtxn_write B (WFlow f) t = rtxn_put_flow B f t"
| "rtxn_write B (WFlowVersion v) t = of_result (rtxn_put_flow_version B v t)"
| "rtxn_write B (WAddChild p c) t = of_result (rtxn_add_child B p c t)"
| "rtxn_write B (WRemoveChild p c) t = of_result (rtxn_remove_child B p c t)"
| "rtxn_write B (WSequence s) t = of_result (rtxn_put_next_generated_seq B (int s) t)"

text \<open>What the engine respects: names are valid, the ends of an edge carry the ids of their names, a
  flow is named by its user, and the sequence counter does not fall behind the committed one. Each row
  survives its encoding.\<close>

fun wf_write :: "('d, 't) rocks_env \<Rightarrow> naming \<Rightarrow> nat \<Rightarrow> row_write \<Rightarrow> bool" where
  "wf_write B u q (WExecution e) \<longleftrightarrow> wf_name (m_name (ex_meta e)) \<and> codes (js_execution B) e"
| "wf_write B u q (WThread th) \<longleftrightarrow> wf_name (m_name (th_meta th)) \<and> codes (js_thread B) th"
| "wf_write B u q (WVariables r v) \<longleftrightarrow> wf_name (o_name r) \<and> codes (js_variables B) v"
| "wf_write B u q (WActivity a) \<longleftrightarrow> wf_name (m_name (ac_meta a)) \<and> codes (js_activity B) a"
| "wf_write B u q (WTask k) \<longleftrightarrow> wf_name (m_name (tk_meta k)) \<and> codes (js_task B) k"
| "wf_write B u q (WFlow f) \<longleftrightarrow>
     wf_name (m_name (fl_meta f)) \<and> \<not> is_generated (m_name (fl_meta f)) \<and> codes (js_flow B) f"
| "wf_write B u q (WFlowVersion v) \<longleftrightarrow> wf_name (m_name (fv_meta v)) \<and> codes (js_flow_version B) v"
| "wf_write B u q (WAddChild p c) \<longleftrightarrow> is_named u p \<and> is_named u c \<and> codes (js_ref B) c"
| "wf_write B u q (WRemoveChild p c) \<longleftrightarrow> is_named u p \<and> is_named u c"
| "wf_write B u q (WSequence s) \<longleftrightarrow> q \<le> s \<and> codes (js_i64 B) (int s)"

fun mem_writes :: "row_write list \<Rightarrow> txn \<Rightarrow> txn option" where
  "mem_writes [] x = Some x"
| "mem_writes (w # ws) x = (case mem_write w x of None \<Rightarrow> None | Some x' \<Rightarrow> mem_writes ws x')"

fun rtxn_writes :: "('d, 't) rocks_env \<Rightarrow> row_write list \<Rightarrow> 't rocks_txn \<Rightarrow> (storage_error, 't rocks_txn) outcome" where
  "rtxn_writes B [] t = Done t"
| "rtxn_writes B (w # ws) t =
     (case rtxn_write B w t of
        Done t' \<Rightarrow> rtxn_writes B ws t' | Err e \<Rightarrow> Err e | Panicked p \<Rightarrow> Panicked p)"

lemma commit_next_seq:
  "commit None (put_next_generated_seq s x) = (commit None x) \<lparr> d_next_generated_seq := max (d_next_generated_seq (x_db x)) s \<rparr>"
  by (simp add: commit_def put_next_generated_seq_def Let_def)

lemma put_flow_commit:
  "put_flow f x = Some x' \<Longrightarrow> db_put_flow f (commit None x) = Some (commit None x')"
  using commit_put_flow [of f x] by simp

lemma mem_write_db: "mem_write w x = Some x' \<Longrightarrow> x_db x' = x_db x"
  by (cases w) (auto simp: put_execution_def put_thread_def put_variables_def put_activity_def put_task_def
      put_flow_def put_flow_version_def put_next_generated_seq_def split: option.splits)

definition txn_refines ::
  "('d, 't) rocks_env \<Rightarrow> ('d \<Rightarrow> key_space) \<Rightarrow> ('t \<Rightarrow> pending) \<Rightarrow> naming \<Rightarrow> 'd \<Rightarrow> 't rocks_txn \<Rightarrow> txn \<Rightarrow> bool" where
  "txn_refines B content pending u d t x \<longleftrightarrow>
     rt_keys t = default_scope \<and> represents B u (txn_view content pending d t) (commit None x)"

lemma txn_refines_sets:
  assumes "txn_refines B content pending u d t x" "sets_cell content pending t key v t'"
    "represents B u ((txn_view content pending d t)(key := v)) (commit None x')"
  shows "txn_refines B content pending u d t' x'"
  using assms by (simp add: txn_refines_def sets_cell_def)

lemma put_step:
  assumes "healthy (rk B) content pending" "txn_refines B content pending u d t x" "codes s v"
    "\<And>b. from_slice s b = Inr v \<Longrightarrow>
       represents B u ((txn_view content pending d t)(cell_at c \<mapsto> b)) (commit None y)"
  shows "\<exists>t'. of_result (rtxn_put_row B s (cell_at c) v t) = Done t' \<and> txn_refines B content pending u d t' y"
proof -
  obtain b where b: "to_vec s v = Inr b" "from_slice s b = Inr v" using assms(3) by (rule codesE)
  obtain t' where "rtxn_put_row B s (cell_at c) v t = Inr t'" "sets_cell content pending t (cell_at c) (Some b) t'"
    using rtxn_put_row_sets [OF assms(1) b(1)] .
  then show ?thesis using txn_refines_sets [OF assms(2) _ assms(4) [OF b(2)]] by (simp add: of_result_def)
qed

lemma delete_step:
  assumes "healthy (rk B) content pending" "txn_refines B content pending u d t x"
    "represents B u ((txn_view content pending d t)(cell_at c := None)) (commit None y)"
  shows "\<exists>t'. of_result (rtxn_delete_row B (cell_at c) t) = Done t' \<and> txn_refines B content pending u d t' y"
proof -
  obtain t' where "rtxn_delete_row B (cell_at c) t = Inr t'" "sets_cell content pending t (cell_at c) None t'"
    using rtxn_delete_row_sets [OF assms(1)] .
  then show ?thesis using txn_refines_sets [OF assms(2) _ assms(3)] by (simp add: of_result_def)
qed

lemma write_step:
  assumes "healthy (rk B) content pending"
    "txn_refines B content pending u d t x" "wf_write B u (d_next_generated_seq (x_db x)) w"
  shows "\<exists>t' x'. rtxn_write B w t = Done t' \<and> mem_write w x = Some x' \<and> txn_refines B content pending u d t' x'"
proof -
  have rep: "represents B u (txn_view content pending d t) (commit None x)" and k: "rt_keys t = default_scope"
    using assms(2) by (simp_all add: txn_refines_def)
  note put = put_step [OF assms(1,2)] represents_put [OF rep]
  note ops = k cell_keys commit_put commit_edges rtxn_put_execution_def rtxn_put_thread_def rtxn_put_variables_def
    rtxn_put_activity_def rtxn_put_task_def rtxn_put_flow_version_def rtxn_add_child_def rtxn_remove_child_def
  show ?thesis
  proof (cases w)
    case (WFlow f)
    then obtain n where n: "m_name (fl_meta f) = Plain n" using assms(3) by (cases "m_name (fl_meta f)") auto
    then obtain x' where x': "put_flow f x = Some x'" by (simp add: put_flow_def)
    have "\<exists>t'. of_result (rtxn_put_row B (js_flow B) (cell_at (Row KFlow (Plain n))) f t) = Done t'
        \<and> txn_refines B content pending u d t' x'"
      by (rule put_step [OF assms(1,2)])
         (use represents_put_flow [OF rep _ put_flow_commit [OF x']] n assms(3) WFlow in auto)
    then show ?thesis using WFlow x' n by (simp add: rtxn_put_flow_def ops)
  next
    case (WRemoveChild p c)
    then show ?thesis
      using delete_step [OF assms(1,2)] represents_put(10) [OF rep] assms(3) by (simp add: ops)
  next
    case (WSequence s)
    then have "commit None (put_next_generated_seq s x) = (commit None x) \<lparr> d_next_generated_seq := s \<rparr>"
      using assms(3) by (simp add: commit_next_seq max_def)
    then have "represents B u ((txn_view content pending d t)(cell_at Sequence \<mapsto> b)) (commit None (put_next_generated_seq s x))"
      if "from_slice (js_i64 B) b = Inr (int s)" for b
      using represents_put(8) [OF rep that] by simp
    then show ?thesis
      using put_step [OF assms(1,2), of "js_i64 B" "int s"] WSequence assms(3)
      by (simp add: rtxn_put_next_generated_seq_def ops)
  qed (use assms(3) in \<open>auto simp: ops intro!: put\<close>)
qed

lemma writes_refine:
  assumes "healthy (rk B) content pending"
    "txn_refines B content pending u d t x" "list_all (wf_write B u (d_next_generated_seq (x_db x))) ws"
  shows "\<exists>t' x'. rtxn_writes B ws t = Done t' \<and> mem_writes ws x = Some x' \<and> txn_refines B content pending u d t' x'"
  using assms(2,3)
proof (induction ws arbitrary: t x)
  case (Cons w ws)
  obtain t' x' where s: "rtxn_write B w t = Done t'" "mem_write w x = Some x'" "txn_refines B content pending u d t' x'"
    using write_step [OF assms(1) Cons.prems(1), of w] Cons.prems(2) by auto
  then show ?case using Cons.IH [OF s(3)] Cons.prems(2) mem_write_db [OF s(2)] by simp
qed simp

lemma begin_refines:
  assumes "healthy (rk B) content pending" "rs_keys st = default_scope" "represents B u (content (rs_db st)) db"
  shows "txn_refines B content pending u (rs_db st) (rocks_begin_txn B st) (begin_txn db)"
  using assms by (simp add: txn_refines_def txn_view_def rocks_begin_txn_def healthyD(9))

lemma commit_refines:
  assumes "healthy (rk B) content pending" "txn_refines B content pending u (rs_db st) t x"
    "case w of Some p \<Rightarrow> codes (js_i64 B) p | None \<Rightarrow> True"
  shows "\<exists>st'. rocks_commit B w t st = Inr st' \<and> rs_keys st' = rs_keys st \<and> represents B u (content (rs_db st')) (commit w x)"
proof -
  have rep: "represents B u (txn_view content pending (rs_db st) t) (commit None x)" and k: "rt_keys t = default_scope"
    using assms(2) by (simp_all add: txn_refines_def)
  have "\<exists>t'. (case w of Some w' \<Rightarrow> rtxn_put_row B (js_i64 B) (last_processed_position_key (rt_keys t)) w' t | None \<Rightarrow> Inr t)
      = Inr t' \<and> represents B u (txn_view content pending (rs_db st) t') (commit w x)"
  proof (cases w)
    case None
    then show ?thesis using rep by simp
  next
    case (Some p)
    then obtain b where b: "to_vec (js_i64 B) p = Inr b" "from_slice (js_i64 B) b = Inr p"
      using assms(3) by (auto elim: codesE)
    obtain t' where t': "rtxn_put_row B (js_i64 B) (cell_at Watermark) p t = Inr t'"
      "sets_cell content pending t (cell_at Watermark) (Some b) t'"
      using rtxn_put_row_sets [OF assms(1) b(1)] .
    then show ?thesis using represents_put(7) [OF rep b(2)] Some k
      by (simp add: cell_keys sets_cell_def commit_watermark)
  qed
  then obtain t' where t': "(case w of Some w' \<Rightarrow> rtxn_put_row B (js_i64 B) (last_processed_position_key (rt_keys t)) w' t | None \<Rightarrow> Inr t) = Inr t'"
    "represents B u (txn_view content pending (rs_db st) t') (commit w x)" by blast
  moreover obtain d where "rtx_commit (rk B) (rt_txn t') (rs_db st) = Inr d"
    "content d = overlay (content (rs_db st)) (pending (rt_txn t'))"
    using healthyD(14) [OF assms(1)] by blast
  ultimately show ?thesis by (simp add: rocks_commit_def txn_view_def)
qed

section \<open>Scans\<close>

lemma kind_prefix_cells:
  "wf_cell c \<Longrightarrow> prefix (kind_prefix default_scope k) (cell_at c) \<longleftrightarrow> (\<exists>n. c = Row k n)"
  using prefix_scoped [of default_scope default_scope c "[segment k]" "[]"]
  by (cases c) (auto simp: kind_prefix_def)

lemma edge_prefix_cells:
  "wf_name (r_name p) \<Longrightarrow> wf_cell c \<Longrightarrow> prefix (child_edge_prefix default_scope p) (cell_at c)
   \<longleftrightarrow> (\<exists>ck cn. c = Edge (r_kind p) (r_name p) ck cn)"
  using prefix_scoped [of default_scope default_scope c "[''_index'', ''children'', segment (r_kind p), as_str (r_name p)]" "[]"]
  by (cases c) (auto simp: child_edge_prefix_def as_str_inj as_str_no_slash)

text \<open>The scan of the edges: the decoded values of the keys with the prefix.\<close>

lemma edge_scan_run:
  assumes "\<forall>e\<in>set (takeWhile (\<lambda>e. prefix p (fst e)) es). \<exists>c. from_slice s (snd e) = Inr c"
  shows "edge_scan s what p out (map Inr es) =
    Inr (out \<union> {c. \<exists>e\<in>set (takeWhile (\<lambda>e. prefix p (fst e)) es). from_slice s (snd e) = Inr c})"
  using assms
proof (induction es arbitrary: out)
  case (Cons e es)
  obtain k v where e: "e = (k, v)" by (cases e)
  show ?case
  proof (cases "prefix p k")
    case True
    then obtain c where c: "from_slice s v = Inr c" using Cons.prems e by auto
    have "edge_scan s what p (insert c out) (map Inr es) =
      Inr (insert c out \<union> {c. \<exists>e\<in>set (takeWhile (\<lambda>e. prefix p (fst e)) es). from_slice s (snd e) = Inr c})"
      using Cons.prems e True by (intro Cons.IH) auto
    then show ?thesis using c e True by auto
  qed (simp add: e)
qed simp

lemma edge_entries:
  assumes "represents B u m db" "is_named u p"
  defines "pre \<equiv> child_edge_prefix default_scope p"
  shows "edge_scan (js_ref B) what pre {} (map Inr (entries_from pre m)) = Inr (db_children db p)"
proof -
  let ?es = "set (takeWhile (\<lambda>e. prefix pre (fst e)) (entries_from pre m))"
  have fin: "finite (dom m)" using assms(1) by (simp add: represents_def)
  have es: "\<exists>c. from_slice (js_ref B) (snd e) = Inr c \<and> (p, c) \<in> d_children db" if "e \<in> ?es" for e
  proof -
    have kv: "m (fst e) = Some (snd e)" "prefix pre (fst e)"
      using that set_prefix_entries [OF fin, of pre] by auto
    then obtain x where x: "wf_cell x" "fst e = cell_at x" using assms(1) by (auto simp: represents_def)
    then obtain ck cn where e: "x = Edge (r_kind p) (r_name p) ck cn"
      using edge_prefix_cells [of p x] kv(2) assms(2) by (auto simp: pre_def is_named_def)
    have "decoded (js_ref B) (Some (snd e)) = Inr (if (p, named_ref u ck cn) \<in> d_children db then Some (named_ref u ck cn) else None)"
      using represents_holds [OF assms(1) x(1)] e kv(1) x(2) assms(2) by simp
    then show ?thesis
      by (cases "(p, named_ref u ck cn) \<in> d_children db") (simp_all add: decoded_Inr_Some decoded_Inr_None)
  qed
  have se: "\<exists>e\<in>?es. from_slice (js_ref B) (snd e) = Inr c" if "(p, c) \<in> d_children db" for c
  proof -
    let ?c = "Edge (r_kind p) (r_name p) (r_kind c) (r_name c)"
    have "is_named u c" using that assms(1) by (auto simp: represents_def)
    moreover from this have wf: "wf_cell ?c" using assms(2) by (simp add: is_named_def)
    ultimately have "decoded (js_ref B) (m (cell_at ?c)) = Inr (Some c)"
      using represents_holds [OF assms(1) wf] that assms(2) by simp
    then obtain b where "m (cell_at ?c) = Some b" "from_slice (js_ref B) b = Inr c"
      unfolding decoded_Inr_Some by blast
    then show ?thesis using edge_prefix_cells [of p ?c] wf assms(2)
      by (intro bexI [of _ "(cell_at ?c, b)"]) (simp_all add: set_prefix_entries [OF fin] pre_def is_named_def)
  qed
  have "edge_scan (js_ref B) what pre {} (map Inr (entries_from pre m)) =
    Inr ({} \<union> {c. \<exists>e\<in>?es. from_slice (js_ref B) (snd e) = Inr c})"
    by (rule edge_scan_run) (use es in blast)
  moreover have "(\<exists>e\<in>?es. from_slice (js_ref B) (snd e) = Inr c) \<longleftrightarrow> (p, c) \<in> d_children db" for c
    using es se [of c] by (metis sum.inject(2))
  then have "{c. \<exists>e\<in>?es. from_slice (js_ref B) (snd e) = Inr c} = db_children db p"
    by (simp add: set_eq_iff)
  ultimately show ?thesis by simp
qed

text \<open>The order of a scan of the tasks: by the text of their names. The in-memory backend leaves the
  order to its hash map; this is one of its choices.\<close>

definition name_of :: "string \<Rightarrow> object_name" where
  "name_of s = (case from_parsed s of Inr n \<Rightarrow> n | Inl _ \<Rightarrow> Plain (PlainName s))"

definition key_order :: "(object_name \<rightharpoonup> 'v) \<Rightarrow> object_name list" where
  "key_order h = map name_of (sorted_list_of_set (as_str ` {n \<in> dom h. wf_name n}))"

lemma name_of_as_str [simp]: "wf_name n \<Longrightarrow> name_of (as_str n) = n"
  by (simp add: name_of_def from_parsed_as_str)

lemma append_less [simp]: "p @ s < p @ t \<longleftrightarrow> s < (t :: bytes)"
  by (induction p) simp_all

lemma kind_prefix_row: "cell_at (Row k n) = kind_prefix default_scope k @ as_str n"
  by (simp add: cell_key_def kind_prefix_def scoped_def)

text \<open>The keys of a kind, in order, are its names in the order of their texts.\<close>

lemma sorted_names_keys:
  assumes "finite N" "\<forall>n\<in>N. wf_name n"
  shows "sorted_list_of_set ((\<lambda>n. cell_at (Row k n)) ` N)
    = map (\<lambda>s. kind_prefix default_scope k @ s) (sorted_list_of_set (as_str ` N))"
proof (rule sorted_distinct_set_unique)
  have "sorted_wrt (<) (map (\<lambda>s. kind_prefix default_scope k @ s) (sorted_list_of_set (as_str ` N)))"
    by (simp add: sorted_wrt_map)
  then show "sorted (map (\<lambda>s. kind_prefix default_scope k @ s) (sorted_list_of_set (as_str ` N)))"
    "distinct (map (\<lambda>s. kind_prefix default_scope k @ s) (sorted_list_of_set (as_str ` N)))"
    by (simp_all add: strict_sorted_iff)
  show "set (sorted_list_of_set ((\<lambda>n. cell_at (Row k n)) ` N))
      = set (map (\<lambda>s. kind_prefix default_scope k @ s) (sorted_list_of_set (as_str ` N)))"
    using assms(1) by (simp add: kind_prefix_row image_image)
qed simp_all

lemma filter_sorted_list:
  assumes "finite A" "{x \<in> A. P x} = B"
  shows "filter P (sorted_list_of_set A) = sorted_list_of_set (B :: bytes set)"
proof (rule sorted_distinct_set_unique)
  show "sorted (filter P (sorted_list_of_set A))"
    using sorted_filter [of "\<lambda>x. x" "sorted_list_of_set A" P] by simp
  have "finite B" using assms by auto
  then show "set (filter P (sorted_list_of_set A)) = set (sorted_list_of_set B)" using assms by simp
qed simp_all

lemma finite_kind:
  assumes "represents B u m db" "\<And>n. wf_name n \<Longrightarrow> decoded s (m (cell_at (Row k n))) = Inr (h n)"
  shows "finite {n \<in> dom h. wf_name n}"
proof -
  have "(\<lambda>n. cell_at (Row k n)) ` {n \<in> dom h. wf_name n} \<subseteq> dom m"
    using assms(2) by (fastforce simp: decoded_Inr_Some)
  then have "finite ((\<lambda>n. cell_at (Row k n)) ` {n \<in> dom h. wf_name n})"
    using assms(1) finite_subset unfolding represents_def by blast
  then show ?thesis by (rule finite_imageD) (auto simp: inj_on_def)
qed

text \<open>The entries of a kind.\<close>

lemma kind_entries:
  assumes "represents B u m db"
    and val: "\<And>n. wf_name n \<Longrightarrow> decoded s (m (cell_at (Row k n))) = Inr (h n)"
  shows "takeWhile (\<lambda>e. prefix (kind_prefix default_scope k) (fst e)) (entries_from (kind_prefix default_scope k) m)
    = map (\<lambda>n. (kind_prefix default_scope k @ n, the (m (kind_prefix default_scope k @ n))))
        (sorted_list_of_set (as_str ` {n \<in> dom h. wf_name n}))"
    (is "?lhs = map ?g ?names")
proof -
  let ?p = "kind_prefix default_scope k"
  let ?N = "{n \<in> dom h. wf_name n}"
  have fin: "finite (dom m)" using assms(1) by (simp add: represents_def)
  have keys: "{j \<in> dom m. prefix ?p j} = (\<lambda>n. cell_at (Row k n)) ` ?N"
  proof (intro set_eqI iffI)
    fix j assume j: "j \<in> {j \<in> dom m. prefix ?p j}"
    then obtain c where c: "wf_cell c" "j = cell_at c" using assms(1) by (auto simp: represents_def)
    then obtain n where "c = Row k n" using kind_prefix_cells j by auto
    then show "j \<in> (\<lambda>n. cell_at (Row k n)) ` ?N"
      using c j val [of n] by (cases "h n") (auto simp: decoded_Inr_None)
  next
    fix j assume "j \<in> (\<lambda>n. cell_at (Row k n)) ` ?N"
    then obtain n where n: "j = cell_at (Row k n)" "wf_name n" "h n \<noteq> None" by auto
    then have "m j \<noteq> None" using val [of n] by (cases "m j") auto
    then show "j \<in> {j \<in> dom m. prefix ?p j}" using n by (auto simp: kind_prefix_row)
  qed
  have finN: "finite ?N" by (rule finite_kind [OF assms])
  have "{j \<in> dom m. ?p \<le> j \<and> prefix ?p j} = {j \<in> dom m. prefix ?p j}" by (auto dest: prefix_le)
  then have "filter (prefix ?p) (sorted_list_of_set {j \<in> dom m. ?p \<le> j})
      = sorted_list_of_set ((\<lambda>n. cell_at (Row k n)) ` ?N)"
    unfolding keys [symmetric] by (intro filter_sorted_list) (use fin in auto)
  then show ?thesis
    using sorted_names_keys [OF finN, of k]
    unfolding takeWhile_entries [OF fin] by (simp add: entries_from_def filter_map comp_def)
qed

lemma rtxn_task_scan_run:
  assumes "length out \<le> limit" "\<forall>e\<in>set (takeWhile (\<lambda>e. prefix p (fst e)) es). from_slice (js_task B) (snd e) = Inr (g e)"
  shows "rtxn_task_scan B p resource now limit out (map Inr es) = Inr (out @ take (limit - length out)
     (filter (\<lambda>t. tk_resource t = resource \<and> is_claimable_at now t) (map g (takeWhile (\<lambda>e. prefix p (fst e)) es))))"
  using assms
proof (induction es arbitrary: out)
  case (Cons e es)
  obtain k v where e: "e = (k, v)" by (cases e)
  show ?case
  proof (cases "prefix p k")
    case True
    then have v: "from_slice (js_task B) v = Inr (g e)" using Cons.prems e by auto
    have rest: "\<forall>e\<in>set (takeWhile (\<lambda>e. prefix p (fst e)) es). from_slice (js_task B) (snd e) = Inr (g e)"
      using Cons.prems True e by auto
    show ?thesis
    proof (cases "limit \<le> length out")
      case True
      then show ?thesis using Cons.IH [OF Cons.prems(1) rest] v e \<open>prefix p k\<close> Cons.prems(1) by simp
    next
      case False
      then have "limit - length out = Suc (limit - Suc (length out))" by simp
      then show ?thesis
        using Cons.IH [OF Cons.prems(1) rest] Cons.IH [of "out @ [g e]", OF _ rest] v e \<open>prefix p k\<close> False by simp
    qed
  qed (simp add: e)
qed simp

lemma task_values_key_order:
  "task_values key_order h = map (\<lambda>s. the (h (name_of s))) (sorted_list_of_set (as_str ` {n \<in> dom h. wf_name n}))"
  if "finite {n \<in> dom h. wf_name n}" for h :: "object_name \<rightharpoonup> task"
proof -
  have "List.map_filter h (map name_of ss) = map (\<lambda>s. the (h (name_of s))) ss"
    if "\<forall>s\<in>set ss. h (name_of s) \<noteq> None" for ss
    using that by (induction ss) (auto simp: List.map_filter_def)
  moreover have "\<forall>s\<in>set (sorted_list_of_set (as_str ` {n \<in> dom h. wf_name n})). h (name_of s) \<noteq> None"
    using that by auto
  ultimately show ?thesis by (simp add: task_values_def key_order_def)
qed

lemma task_prefix_kind: "task_prefix sc = kind_prefix sc KTask"
  by (simp add: task_prefix_def kind_prefix_def)

lemma task_scan_rows:
  assumes "represents B u m db"
  shows "takeWhile (\<lambda>e. prefix (task_prefix default_scope) (fst e)) (entries_from (task_prefix default_scope) m)
    = map (\<lambda>n. (task_prefix default_scope @ n, the (m (task_prefix default_scope @ n))))
        (sorted_list_of_set (as_str ` {n \<in> dom (d_tasks db). wf_name n}))"
  unfolding task_prefix_kind by (rule kind_entries [OF assms represents_reads(4) [OF assms]])

lemma task_scan_decodes:
  assumes "represents B u m db"
  shows "\<forall>e\<in>set (takeWhile (\<lambda>e. prefix (task_prefix default_scope) (fst e)) (entries_from (task_prefix default_scope) m)).
    from_slice (js_task B) (snd e) = Inr (the (d_tasks db (name_of (drop (length (task_prefix default_scope)) (fst e)))))"
proof -
  let ?p = "task_prefix default_scope"
  note val = represents_reads(4) [OF assms]
  have fin: "finite {n \<in> dom (d_tasks db). wf_name n}" by (rule finite_kind [OF assms val])
  have "from_slice (js_task B) (the (m (?p @ n))) = Inr (the (d_tasks db (name_of n)))"
    if n: "n \<in> set (sorted_list_of_set (as_str ` {n \<in> dom (d_tasks db). wf_name n}))" for n
  proof -
    obtain name k where k: "n = as_str name" "wf_name name" "d_tasks db name = Some k" using n fin by auto
    then have "decoded (js_task B) (m (?p @ n)) = Inr (Some k)"
      using val [of name] by (simp add: task_prefix_kind kind_prefix_row)
    then show ?thesis using k unfolding decoded_Inr_Some by auto
  qed
  then show ?thesis unfolding task_scan_rows [OF assms] by auto
qed

lemma txn_task_scan:
  assumes "represents B u m db"
  shows "rtxn_task_scan B (task_prefix default_scope) resource now limit []
      (map Inr (entries_from (task_prefix default_scope) m)) = Inr (db_activatable_tasks key_order db resource now limit)"
proof -
  have fin: "finite {n \<in> dom (d_tasks db). wf_name n}"
    by (rule finite_kind [OF assms represents_reads(4) [OF assms]])
  show ?thesis
    using rtxn_task_scan_run [where out = "[]", OF _ task_scan_decodes [OF assms]]
    by (simp add: task_scan_rows [OF assms] db_activatable_tasks_def pick_activatable_def task_values_key_order [OF fin]
        comp_def)
qed

text \<open>Every read of a transaction returns what the in-memory transaction returns.\<close>

definition same_reads :: "('d, 't) rocks_env \<Rightarrow> naming \<Rightarrow> 'd \<Rightarrow> 't rocks_txn \<Rightarrow> txn \<Rightarrow> bool" where
  "same_reads B u d t x \<longleftrightarrow>
     (\<forall>r. wf_name (o_name r) \<longrightarrow>
        rtxn_get_execution B r d t = Inr (get_execution x r) \<and> rtxn_get_thread B r d t = Inr (get_thread x r) \<and>
        rtxn_get_variables B r d t = Inr (get_variables x r) \<and> rtxn_get_activity B r d t = Inr (get_activity x r) \<and>
        rtxn_get_task B r d t = Inr (get_task x r) \<and> rtxn_get_flow_version B r d t = Inr (get_flow_version x r)) \<and>
     (\<forall>n version. valid_plain (plain_as_str n) \<longrightarrow> version < 2 ^ 64 \<longrightarrow>
        rtxn_get_flow_by_name B n d t = Inr (get_flow_by_name x n) \<and>
        rtxn_flow_version_of B n version d t = Inr (flow_version_of x n version)) \<and>
     (\<forall>p. is_named u p \<longrightarrow> rtxn_get_children B p d t = Inr (get_children x p)) \<and>
     (\<forall>resource now limit.
        rtxn_activatable_tasks B resource now limit d t = Inr (activatable_tasks key_order x resource now limit))"

lemma refines_same_reads:
  assumes "healthy (rk B) content pending" "txn_refines B content pending u d t x"
  shows "same_reads B u d t x"
proof -
  have rep: "represents B u (txn_view content pending d t) (commit None x)" and k: "rt_keys t = default_scope"
    using assms(2) by (simp_all add: txn_refines_def)
  note reads = rtxn_get_row_view [OF assms(1)] k cell_keys commit_reads [where w = None, symmetric]
  have pts: "rtxn_get_execution B r d t = Inr (get_execution x r)" "rtxn_get_thread B r d t = Inr (get_thread x r)"
    "rtxn_get_variables B r d t = Inr (get_variables x r)" "rtxn_get_activity B r d t = Inr (get_activity x r)"
    "rtxn_get_task B r d t = Inr (get_task x r)" "rtxn_get_flow_version B r d t = Inr (get_flow_version x r)"
    if "wf_name (o_name r)" for r
    using that
    by (simp_all add: represents_reads [OF rep] rtxn_get_execution_def rtxn_get_thread_def rtxn_get_variables_def rtxn_get_activity_def
        rtxn_get_task_def rtxn_get_flow_version_def reads db_get_execution_def db_get_thread_def db_get_variables_def
        db_get_activity_def db_get_task_def db_get_flow_version_def)
  have flows: "rtxn_get_flow_by_name B n d t = Inr (get_flow_by_name x n)"
    "version < 2 ^ 64 \<Longrightarrow> rtxn_flow_version_of B n version d t = Inr (flow_version_of x n version)"
    if "valid_plain (plain_as_str n)" for n version
    using that
    by (simp_all add: represents_reads [OF rep] rtxn_get_flow_by_name_def rtxn_flow_version_of_def reads version_name_def generated_from_key_def
        db_get_flow_by_name_def db_flow_version_of_def)
  have view: "rtx_iterator (rk B) d (rt_txn t) s = map Inr (entries_from s (txn_view content pending d t))" for s
    by (simp add: healthyD(13) [OF assms(1)] txn_view_def)
  show ?thesis
    using pts flows edge_entries [OF rep] txn_task_scan [OF rep]
    by (simp add: same_reads_def rtxn_get_children_def rtxn_activatable_tasks_def view k Let_def commit_children
        commit_activatable)
qed

section \<open>A stored thread\<close>

definition stored_name :: object_name where
  "stored_name = Generated \<lparr> g_base = PlainName ''thread'', g_suffix = 3 \<rparr>"

definition stored_thread :: thread where
  "stored_thread =
     \<lparr> th_meta = build_meta 7 stored_name 1000 (OwnerExecution (ORef (Plain (PlainName ''order'')) 5)),
       th_execution = ORef (Plain (PlainName ''order'')) 5, th_state_path = path_root, th_start_at = ''First'',
       th_index = 0, th_status = Running, th_input = JNull, th_output = None \<rparr>"

definition thread_env :: "(tree_db, tree_txn) rocks_env" where
  "thread_env = \<lparr> rk = tree_rocksdb, js_execution = no_rows, js_thread = one_row ''thread'' stored_thread,
     js_variables = no_rows, js_activity = no_rows, js_task = no_rows, js_flow = no_rows,
     js_flow_version = no_rows, js_ref = no_rows, js_i64 = one_row ''4'' 4 \<rparr>"

lemma stored_thread_simps:
  "m_name (th_meta stored_thread) = stored_name" "wf_name stored_name"
  by (simp_all add: stored_thread_def build_meta_def stored_name_def valid_plain_def is_alnum_def is_digit_def)

section \<open>Properties\<close>



end
