(* ===== verification/RocksScans.thy ===== *)
theory RocksScans
  imports RocksRefinement
begin

text \<open>
  The two scans of \<open>RocksStorage\<close> that do not compare a key with their prefix
  (\<open>activatable_tasks\<close> and \<open>list_kind\<close> outside a transaction): the iterator runs on into the rows of the
  kind that follows.
\<close>

section \<open>Scans that do not look at the keys\<close>

abbreviation wanted :: "string \<Rightarrow> timestamp \<Rightarrow> task \<Rightarrow> bool" where
  "wanted resource now t \<equiv> tk_resource t = resource \<and> is_claimable_at now t"

lemma rocks_task_scan_skip:
  "list_all2 (\<lambda>e t. from_slice (js_task B) (snd e) = Inr t) es ts \<Longrightarrow>
   length out + length (filter (wanted resource now) ts) \<le> limit \<Longrightarrow>
   rocks_task_scan B resource now limit out (map Inr es @ items) =
   rocks_task_scan B resource now limit (out @ filter (wanted resource now) ts) items"
proof (induction es ts arbitrary: out rule: list_all2_induct)
  case (Cons e es t ts)
  obtain k v where e: "e = (k, v)" by (cases e)
  show ?case
  proof (cases "wanted resource now t")
    case True
    then show ?thesis using Cons.IH [of "out @ [t]"] Cons e by simp
  next
    case False
    then have "filter (wanted resource now) (t # ts) = filter (wanted resource now) ts" by auto
    then show ?thesis using Cons.IH [of out] Cons.hyps Cons.prems e False by auto
  qed
qed simp

lemma default_cells:
  "cell_at (Row k n) = ''/default/default/'' @ segment k @ CHR ''/'' # as_str n"
  "cell_at (Edge pk pn ck cn) = ''/default/default/_index/children/'' @ segment pk @ CHR ''/'' # as_str pn
     @ CHR ''/'' # segment ck @ CHR ''/'' # as_str cn"
  "cell_at (VariablesOf n) = ''/default/default/_index/variables/'' @ as_str n"
  "cell_at Watermark = ''/default/default/_global/last_processed_position''"
  "cell_at Sequence = ''/default/default/_global/next_generated_seq''"
  by (simp_all add: cell_key_def scoped_def default_scope_def)

lemma default_kind_prefix: "kind_prefix default_scope k = ''/default/default/'' @ segment k @ ''/''"
  by (simp add: kind_prefix_def scoped_def default_scope_def)

lemmas key_bytes = default_cells task_prefix_kind default_kind_prefix less_char_def less_eq_char_def

text \<open>The kinds that follow the tasks and the executions in the order of the keys.\<close>

lemma past_tasks:
  "task_prefix default_scope \<le> cell_at c \<Longrightarrow> \<not> prefix (task_prefix default_scope) (cell_at c) \<Longrightarrow> \<exists>n. c = Row KThread n"
  "task_prefix default_scope \<le> cell_at (Row KThread n)" "\<not> prefix (task_prefix default_scope) (cell_at (Row KThread n))"
proof -
  have "\<exists>n. c = Row KThread n" if "task_prefix default_scope \<le> cell_at c" "\<not> prefix (task_prefix default_scope) (cell_at c)"
  proof (cases c)
    case (Row k n)
    then show ?thesis using that by (cases k) (simp_all add: key_bytes)
  qed (use that in \<open>simp_all add: key_bytes\<close>)
  then show "task_prefix default_scope \<le> cell_at c \<Longrightarrow> \<not> prefix (task_prefix default_scope) (cell_at c) \<Longrightarrow> \<exists>n. c = Row KThread n" .
qed (simp_all add: key_bytes)

lemma past_executions:
  "kind_prefix default_scope KExecution \<le> cell_at c \<Longrightarrow> \<not> prefix (kind_prefix default_scope KExecution) (cell_at c)
   \<Longrightarrow> cell_at c \<le> cell_at (Row KFlow m) \<Longrightarrow> \<exists>n. c = Row KFlow n"
  "kind_prefix default_scope KExecution \<le> cell_at (Row KFlow n)"
  "\<not> prefix (kind_prefix default_scope KExecution) (cell_at (Row KFlow n))"
proof -
  have "\<exists>n. c = Row KFlow n"
    if "kind_prefix default_scope KExecution \<le> cell_at c" "\<not> prefix (kind_prefix default_scope KExecution) (cell_at c)"
      "cell_at c \<le> cell_at (Row KFlow m)"
  proof (cases c)
    case (Row k n)
    then show ?thesis using that by (cases k) (simp_all add: key_bytes)
  qed (use that in \<open>simp_all add: key_bytes\<close>)
  then show "kind_prefix default_scope KExecution \<le> cell_at c \<Longrightarrow> \<not> prefix (kind_prefix default_scope KExecution) (cell_at c)
    \<Longrightarrow> cell_at c \<le> cell_at (Row KFlow m) \<Longrightarrow> \<exists>n. c = Row KFlow n" .
qed (simp_all add: key_bytes)

text \<open>A thread's row is no task: the fields of a task are missing from it.\<close>

definition rows_apart :: "('d, 't) rocks_env \<Rightarrow> bool" where
  "rows_apart B \<longleftrightarrow> (\<forall>b th. from_slice (js_thread B) b = Inr th \<longrightarrow> (\<exists>e. from_slice (js_task B) b = Inl e))"

text \<open>The rest of a scan past its prefix starts with the least key there.\<close>

lemma rest_of_scan:
  assumes "represents B u m db" "m j = Some v" "p \<le> j" "\<not> prefix p j"
  obtains c b es where "dropWhile (\<lambda>e. prefix p (fst e)) (entries_from p m) = (cell_at c, b) # es"
    "wf_cell c" "m (cell_at c) = Some b" "p \<le> cell_at c" "\<not> prefix p (cell_at c)" "cell_at c \<le> j"
proof -
  have fin: "finite (dom m)" using assms(1) by (simp add: represents_def)
  let ?d = "dropWhile (\<lambda>e. prefix p (fst e)) (entries_from p m)"
  have jn: "(j, v) \<in> set (entries_from p m)" using assms(2,3) by (simp add: set_entries_from [OF fin])
  have "(j, v) \<notin> set (takeWhile (\<lambda>e. prefix p (fst e)) (entries_from p m))"
    using assms(4) by (auto dest: set_takeWhileD)
  then have jd: "(j, v) \<in> set ?d"
    using jn by (metis Un_iff set_append takeWhile_dropWhile_id)
  then obtain e es where d: "?d = e # es" by (cases ?d) auto
  then have np: "\<not> prefix p (fst e)" by (metis (mono_tags, lifting) dropWhile_eq_Cons_conv)
  have ein: "e \<in> set (entries_from p m)" using d by (metis list.set_intros(1) set_dropWhileD)
  then have e: "m (fst e) = Some (snd e)" "p \<le> fst e" by (auto simp: set_entries_from [OF fin])
  then obtain c where c: "wf_cell c" "fst e = cell_at c" using assms(1) by (auto simp: represents_def)
  have "sorted_wrt (<) (map fst (takeWhile (\<lambda>e. prefix p (fst e)) (entries_from p m)) @ map fst ?d)"
    using sorted_entries_from [of p m] by (metis map_append takeWhile_dropWhile_id)
  then have "sorted_wrt (<) (map fst ?d)" by (simp add: sorted_wrt_append)
  then have "fst e \<le> j" using jd d by (auto intro: less_imp_le)
  then show ?thesis using that [of c "snd e" es] d e c np by (cases e) simp
qed

lemma poll_leaves_tasks:
  assumes "represents B u m db" "rows_apart B" "wf_name n" "d_threads db n = Some th"
    and "length (db_activatable_tasks key_order db resource now (Suc limit)) \<le> limit"
  shows "\<exists>e. rocks_task_scan B resource now limit [] (map Inr (entries_from (task_prefix default_scope) m)) = Inl (Codec e)"
proof -
  let ?p = "task_prefix default_scope"
  let ?es = "takeWhile (\<lambda>e. prefix ?p (fst e)) (entries_from ?p m)"
  let ?ts = "task_values key_order (d_tasks db)"
  have fin: "finite {n \<in> dom (d_tasks db). wf_name n}"
    by (rule finite_kind [OF assms(1) represents_reads(4) [OF assms(1)]])
  have dec: "list_all2 (\<lambda>e t. from_slice (js_task B) (snd e) = Inr t) ?es ?ts"
    using task_scan_decodes [OF assms(1)]
    unfolding task_scan_rows [OF assms(1)] task_values_key_order [OF fin]
    by (simp add: list_all2_map1 list_all2_map2 list_all2_same)
  have len: "length (filter (wanted resource now) ?ts) \<le> limit"
    using assms(5) by (simp add: db_activatable_tasks_def pick_activatable_def)
  obtain w where w: "m (cell_at (Row KThread n)) = Some w"
    using represents_reads(2) [OF assms(1,3)] assms(4) by (auto simp: decoded_Inr_Some)
  obtain c b es where rest: "dropWhile (\<lambda>e. prefix ?p (fst e)) (entries_from ?p m) = (cell_at c, b) # es"
    "wf_cell c" "m (cell_at c) = Some b" "?p \<le> cell_at c" "\<not> prefix ?p (cell_at c)" "cell_at c \<le> cell_at (Row KThread n)"
    by (rule rest_of_scan [OF assms(1) w past_tasks(2,3)])
  obtain n' where n': "c = Row KThread n'" using past_tasks(1) rest(4,5) by blast
  then obtain th' where "from_slice (js_thread B) b = Inr th'"
    using represents_reads(2) [OF assms(1), of n'] rest(2,3)
    by (cases "d_threads db n'") (auto simp: decoded_Inr_None decoded_Inr_Some)
  then obtain e where e: "from_slice (js_task B) b = Inl e" using assms(2) by (auto simp: rows_apart_def)
  have eq: "map Inr (entries_from ?p m) = map Inr ?es @ Inr (cell_at c, b) # map Inr es"
    using rest(1) by (metis list.simps(9) map_append takeWhile_dropWhile_id)
  show ?thesis unfolding eq
    using rocks_task_scan_skip [OF dec, of "[]" resource now limit "Inr (cell_at c, b) # map Inr es"] len e by simp
qed

lemma as_str_utf8: "wf_name n \<Longrightarrow> valid_utf8 (as_str n)"
proof (rule valid_utf8_ascii)
  assume "wf_name n"
  then have "is_alnum c \<or> c = CHR ''_'' \<or> c = CHR ''-''" if "c \<in> set (as_str n)" for c
    using as_str_chars that by blast
  then show "list_all (\<lambda>c. of_char c < (128 :: nat)) (as_str n)"
    by (force simp: list_all_iff is_alnum_def is_digit_def)
qed

lemma rocks_list_scan_skip:
  assumes "\<forall>e\<in>set es. \<exists>n. wf_name n \<and> fst e = p @ as_str n" "length out + length es < limit"
  shows "\<exists>out'. rocks_list_scan k (length p) None limit out (map Inr es @ items)
      = rocks_list_scan k (length p) None limit out' items"
  using assms
proof (induction es arbitrary: out)
  case (Cons e es)
  obtain n v where e: "e = (p @ as_str n, v)" "wf_name n" using Cons.prems(1) by (cases e) auto
  have "rocks_list_scan k (length p) None limit out (map Inr (e # es) @ items)
      = rocks_list_scan k (length p) None limit (out @ [(n, v)]) (map Inr es @ items)"
    using e Cons.prems(2) by (simp add: as_str_utf8 from_parsed_as_str)
  then show ?case using Cons.IH [of "out @ [(n, v)]"] Cons.prems by simp
qed auto

text \<open>Listing the executions when a flow has a four-letter name.\<close>

lemma list_leaves_executions:
  assumes "represents B u m db" "valid_plain s" "length s = 4" "d_flows db = [PlainName s \<mapsto> f]"
    and "card {n \<in> dom (d_executions db). wf_name n} < limit"
  defines "p \<equiv> kind_prefix default_scope KExecution"
  shows "\<exists>msg. rocks_list_scan KExecution (length p) None limit [] (map Inr (entries_from p m)) = Panicked msg"
proof -
  let ?es = "takeWhile (\<lambda>e. prefix p (fst e)) (entries_from p m)"
  let ?N = "{n \<in> dom (d_executions db). wf_name n}"
  let ?f = "Row KFlow (Plain (PlainName s))"
  note val = represents_reads(1) [OF assms(1)]
  have fin: "finite ?N" by (rule finite_kind [OF assms(1) val])
  have es: "?es = map (\<lambda>n. (p @ n, the (m (p @ n)))) (sorted_list_of_set (as_str ` ?N))"
    unfolding p_def by (rule kind_entries [OF assms(1) val])
  have "card (as_str ` ?N) = card ?N" by (rule card_image) (auto simp: inj_on_def as_str_inj)
  then have len: "length ?es < limit" using assms(5) by (simp add: es)
  have names: "\<forall>e\<in>set ?es. \<exists>n. wf_name n \<and> fst e = p @ as_str n" using fin unfolding es by auto
  have wf: "wf_cell ?f" using assms(2) by simp
  obtain w where w: "m (cell_at ?f) = Some w"
    using represents_reads(7) [OF assms(1), of "Plain (PlainName s)" "PlainName s"] assms(2,4) by (auto simp: decoded_Inr_Some)
  obtain c b rest where r: "dropWhile (\<lambda>e. prefix p (fst e)) (entries_from p m) = (cell_at c, b) # rest"
    "wf_cell c" "m (cell_at c) = Some b" "p \<le> cell_at c" "\<not> prefix p (cell_at c)" "cell_at c \<le> cell_at ?f"
    by (rule rest_of_scan [OF assms(1) w past_executions(2,3) [folded p_def]])
  obtain n where n: "c = Row KFlow n" using past_executions(1) [folded p_def] r(4-6) by blast
  have "n = Plain (PlainName s)"
    using represents_holds [OF assms(1) r(2)] r(3) n assms(4)
    by (cases n) (auto simp: decoded_Inr_None split: if_splits)
  then have short: "length (cell_at c) < length p"
    using n assms(3) by (simp add: p_def key_bytes)
  have eq: "map Inr (entries_from p m) = map Inr ?es @ Inr (cell_at c, b) # map Inr rest"
    using r(1) by (metis list.simps(9) map_append takeWhile_dropWhile_id)
  have "length ([] :: (object_name \<times> bytes) list) + length ?es < limit" using len by simp
  from rocks_list_scan_skip [OF names this] obtain out' where
    "rocks_list_scan KExecution (length p) None limit [] (map Inr ?es @ Inr (cell_at c, b) # map Inr rest)
      = rocks_list_scan KExecution (length p) None limit out' (Inr (cell_at c, b) # map Inr rest)" by blast
  then show ?thesis unfolding eq using short by simp
qed

section \<open>A stored flow\<close>

definition stored_flow :: flow where
  "stored_flow = \<lparr> fl_meta = build_meta 7 (Plain (PlainName ''demo'')) 1000 (), fl_status = FlowActive,
     fl_latest_version = 1 \<rparr>"

definition flow_env :: "(tree_db, tree_txn) rocks_env" where
  "flow_env = \<lparr> rk = tree_rocksdb, js_execution = no_rows, js_thread = no_rows, js_variables = no_rows,
     js_activity = no_rows, js_task = no_rows, js_flow = one_row ''flow'' stored_flow,
     js_flow_version = no_rows, js_ref = no_rows, js_i64 = no_rows \<rparr>"

section \<open>Properties\<close>

text \<open>C39. Outside a transaction the persistent backend looks for claimable tasks with an iterator it
  never stops at the end of the task rows. Whenever there is a thread row (every running execution has
  one) and no more tasks are claimable than asked for, the scan reaches a thread, fails to decode it as a
  task and the poll returns an error, while the same search inside a transaction returns exactly the
  claimable tasks.\<close>

theorem rocks_poll_runs_into_threads:
  assumes "healthy (rk B) content pending" "rows_apart B" "rs_keys st = default_scope"
    and "represents B u (content (rs_db st)) db" "wf_name n" "d_threads db n = Some th"
    and "length (db_activatable_tasks key_order db resource now (Suc limit)) \<le> limit"
  shows "(\<exists>e. rocks_activatable_tasks B resource now limit st = Inl (Codec e))
    \<and> rtxn_activatable_tasks B resource now limit (rs_db st) (rocks_begin_txn B st)
        = Inr (db_activatable_tasks key_order db resource now limit)"
proof
  show "\<exists>e. rocks_activatable_tasks B resource now limit st = Inl (Codec e)"
    using poll_leaves_tasks [OF assms(4,2,5-7)]
    by (simp add: rocks_activatable_tasks_def assms(3) healthyD(8) [OF assms(1)])
  have "same_reads B u (rs_db st) (rocks_begin_txn B st) (begin_txn db)"
    by (rule refines_same_reads [OF assms(1) begin_refines [OF assms(1,3,4)]])
  then show "rtxn_activatable_tasks B resource now limit (rs_db st) (rocks_begin_txn B st)
        = Inr (db_activatable_tasks key_order db resource now limit)"
    by (simp add: same_reads_def commit_activatable [where w = None, symmetric])
qed

theorem rocks_poll_runs_into_threads_witness:
  "\<exists>st e. rocks_activatable_tasks thread_env ''mail'' 0 10 st = Inl (Codec e)
     \<and> rtxn_activatable_tasks thread_env ''mail'' 0 10 (rs_db st) (rocks_begin_txn thread_env st) = Inr []"
proof -
  let ?st = "\<lparr> rs_db = RBT.insert (cell_at (Row KThread stored_name)) ''thread'' RBT.empty, rs_keys = default_scope \<rparr>"
  have "represents thread_env (\<lambda>k n. 0) (RBT.lookup (rs_db ?st)) (db_put_thread stored_thread empty_db)"
    using represents_put(2) [OF represents_empty, of stored_thread thread_env "''thread''" "\<lambda>k n. 0"] stored_thread_simps
    by (simp add: thread_env_def one_row_def)
  from rocks_poll_runs_into_threads [of thread_env RBT.lookup map_of ?st, OF _ _ _ this stored_thread_simps(2),
      of stored_thread "''mail''" 0 10]
  show ?thesis using tree_healthy
    by (force simp: thread_env_def rows_apart_def one_row_def no_rows_def stored_thread_simps empty_db_def
        db_put_thread_def db_activatable_tasks_def pick_activatable_def task_values_def key_order_def)
qed



end
