(* ===== verification/RocksLog.thy ===== *)
theory RocksLog
  imports Rocksdb Logstream
begin

text \<open>
  The persistent log, \<open>src/crates/logstream/src/rocks.rs\<close>: entries under \<open>0x00\<close> and their big-endian
  position, the next position under \<open>0xFE\<close>. RocksDB and the JSON codec of an entry are arguments
  (theory \<open>Rocksdb\<close>). The watch that wakes a tailing reader carries no state: a sweep of \<open>stream_read\<close> is
  a step of its own. A key that an iterator yields is never empty.

  The lemmas show that the log refines the in-memory one: appends assign the same positions, reads and
  sweeps return the same entries, and a log that is opened again is the log that was closed.
\<close>

section \<open>Big-endian positions\<close>

fun be_bytes :: "nat \<Rightarrow> nat \<Rightarrow> bytes" where
  "be_bytes 0 v = []"
| "be_bytes (Suc n) v = be_bytes n (v div 256) @ [char_of (v mod 256)]"

definition be_value :: "bytes \<Rightarrow> nat" where
  "be_value bs = foldl (\<lambda>acc c. 256 * acc + of_char c) 0 bs"

definition i64_to_be_bytes :: "int \<Rightarrow> bytes" where
  "i64_to_be_bytes i = be_bytes 8 (nat (i mod 2 ^ 64))"

definition i64_from_be_bytes :: "bytes \<Rightarrow> int" where
  "i64_from_be_bytes bs =
     (let v = int (be_value bs) in if v < 2 ^ 63 then v else v - 2 ^ 64)"

section \<open>The log\<close>

datatype log_error =
    LogOpen string
  | LogRead string
  | LogWrite string
  | LogSerialize string
  | LogDeserialize string
  | LogCorrupt string

definition ENTRY_PREFIX :: char where
  "ENTRY_PREFIX = CHR 0x00"

definition META_NEXT_ID :: bytes where
  "META_NEXT_ID = [CHR 0xFE]"

definition META_STREAM_ID :: bytes where
  "META_STREAM_ID = [CHR 0xFD]"

definition entry_key :: "int \<Rightarrow> bytes" where
  "entry_key position = ENTRY_PREFIX # i64_to_be_bytes position"

definition decode_next :: "bytes \<Rightarrow> log_error + int" where
  "decode_next b =
     (if length b = 8 then Inr (i64_from_be_bytes b) else Inl (LogCorrupt ''meta next-id length''))"

definition decode_stream_id :: "bytes \<Rightarrow> log_error + int" where
  "decode_stream_id b =
     (if length b = 8 then Inr (i64_from_be_bytes b) else Inl (LogCorrupt ''meta stream-id length''))"

record 'd rocks_log =
  rl_db :: 'd
  rl_next_id :: int
  rl_stream_id :: int

definition rocks_log_open :: "('d, 't) rocksdb \<Rightarrow> string + 'd \<Rightarrow> log_error + 'd rocks_log" where
  "rocks_log_open R opened =
     (case opened of
        Inl e \<Rightarrow> Inl (LogOpen e)
      | Inr d \<Rightarrow>
          (case (case rdb_get R d META_NEXT_ID of
                   Inl e \<Rightarrow> Inl (LogRead e)
                 | Inr (Some b) \<Rightarrow> decode_next b
                 | Inr None \<Rightarrow> Inr 1) of
             Inl e \<Rightarrow> Inl e
           | Inr next_id \<Rightarrow>
               (case (case rdb_get R d META_STREAM_ID of
                        Inl e \<Rightarrow> Inl (LogRead e)
                      | Inr (Some b) \<Rightarrow> decode_stream_id b
                      | Inr None \<Rightarrow> Inr 1) of
                  Inl e \<Rightarrow> Inl e
                | Inr stream_id \<Rightarrow>
                    Inr \<lparr> rl_db = d, rl_next_id = next_id, rl_stream_id = stream_id \<rparr>)))"

text \<open>The loop of \<open>append\<close>: the puts of the batch and the position after it.\<close>

fun batch_puts ::
  "entry serde \<Rightarrow> int \<Rightarrow> int \<Rightarrow> entry list \<Rightarrow> log_error + (bytes \<times> bytes) list \<times> int" where
  "batch_puts s sid position [] = Inr ([], position)"
| "batch_puts s sid position (e # es) =
     (case to_vec s (e \<lparr> en_stream_id := sid, en_entry_id := position \<rparr>) of
        Inl err \<Rightarrow> Inl (LogSerialize err)
      | Inr b \<Rightarrow>
          (case batch_puts s sid (position + 1) es of
             Inl err \<Rightarrow> Inl err
           | Inr (puts, nxt) \<Rightarrow> Inr ((entry_key position, b) # puts, nxt)))"

definition rocks_log_append ::
  "('d, 't) rocksdb \<Rightarrow> entry serde \<Rightarrow> entry list \<Rightarrow> 'd rocks_log \<Rightarrow> log_error + int \<times> 'd rocks_log" where
  "rocks_log_append R s es l =
     (if es = [] then Inr (rl_next_id l - 1, l)
      else case batch_puts s (rl_stream_id l) (rl_next_id l) es of
        Inl e \<Rightarrow> Inl e
      | Inr (puts, position) \<Rightarrow>
          (case rdb_write R (puts @ [(META_NEXT_ID, i64_to_be_bytes position)]) (rl_db l) of
             Inl e \<Rightarrow> Inl (LogWrite e)
           | Inr d \<Rightarrow> Inr (position - 1, l \<lparr> rl_db := d, rl_next_id := position \<rparr>)))"

definition rocks_log_read ::
  "('d, 't) rocksdb \<Rightarrow> entry serde \<Rightarrow> int \<Rightarrow> 'd rocks_log \<Rightarrow> log_error + entry option" where
  "rocks_log_read R s position l =
     (if position < 1 then Inr None
      else case rdb_get R (rl_db l) (entry_key position) of
        Inl e \<Rightarrow> Inl (LogRead e)
      | Inr (Some b) \<Rightarrow>
          (case from_slice s b of Inl e \<Rightarrow> Inl (LogDeserialize e) | Inr e \<Rightarrow> Inr (Some e))
      | Inr None \<Rightarrow> Inr None)"

text \<open>One sweep of \<open>stream_read\<close> from the position \<open>next\<close>: items that fail and values that do not decode
  are dropped, and the next sweep starts as many positions further as entries were yielded.\<close>

definition is_entry_key :: "bytes \<Rightarrow> bool" where
  "is_entry_key key = (case key of c # _ \<Rightarrow> c = ENTRY_PREFIX | [] \<Rightarrow> False)"

fun committed :: "entry serde \<Rightarrow> item list \<Rightarrow> entry list" where
  "committed s [] = []"
| "committed s (Inl _ # items) = committed s items"
| "committed s (Inr (key, v) # items) =
     (if is_entry_key key then
        (case from_slice s v of Inr e \<Rightarrow> e # committed s items | Inl _ \<Rightarrow> committed s items)
      else committed s items)"

definition stream_start :: "int \<Rightarrow> int" where
  "stream_start from = (if from = nil_id then 1 else from)"

definition rocks_log_sweep ::
  "('d, 't) rocksdb \<Rightarrow> entry serde \<Rightarrow> int \<Rightarrow> 'd rocks_log \<Rightarrow> entry list \<times> int" where
  "rocks_log_sweep R s nxt l =
     (let es = committed s (rdb_iterator R (rl_db l) (entry_key nxt))
      in (es, nxt + int (length es)))"

section \<open>The order of the keys\<close>

lemma length_be_bytes [simp]: "length (be_bytes n v) = n"
  by (induction n arbitrary: v) simp_all

lemma be_value_snoc: "be_value (bs @ [c]) = 256 * be_value bs + of_char c"
  by (simp add: be_value_def)

lemma be_value_bytes: "be_value (be_bytes n v) = v mod 256 ^ n"
proof (induction n arbitrary: v)
  case (Suc n)
  have "v mod 256 ^ Suc n = 256 * ((v div 256) mod 256 ^ n) + v mod 256"
    by (simp add: mod_mult2_eq)
  then show ?case using Suc by (simp add: be_value_snoc)
qed (simp add: be_value_def)

lemma snoc_less:
  "length xs = length ys \<Longrightarrow> xs @ [a] < ys @ [b] \<longleftrightarrow> xs < ys \<or> xs = ys \<and> a < (b :: char)"
  by (induction xs ys rule: list_induct2) auto

lemma digits_less:
  fixes a b r s :: nat
  assumes "r < 256" "s < 256"
  shows "256 * a + r < 256 * b + s \<longleftrightarrow> a < b \<or> a = b \<and> r < s"
  using assms by (cases a b rule: linorder_cases) linarith+

lemma be_bytes_less: "v < 256 ^ n \<Longrightarrow> w < 256 ^ n \<Longrightarrow> be_bytes n v < be_bytes n w \<longleftrightarrow> v < w"
proof (induction n arbitrary: v w)
  case (Suc n)
  have d: "v div 256 < 256 ^ n" "w div 256 < 256 ^ n"
    using Suc.prems by (simp_all add: div_less_iff_less_mult mult.commute)
  have eq: "be_bytes n (v div 256) = be_bytes n (w div 256) \<longleftrightarrow> v div 256 = w div 256"
    using be_value_bytes [of n "v div 256"] be_value_bytes [of n "w div 256"] d by (metis mod_less)
  have "v < w \<longleftrightarrow> v div 256 < w div 256 \<or> v div 256 = w div 256 \<and> v mod 256 < w mod 256"
    using digits_less [of "v mod 256" "w mod 256" "v div 256" "w div 256"] by simp
  moreover have "char_of (v mod 256) < (char_of (w mod 256) :: char) \<longleftrightarrow> v mod 256 < w mod 256"
    by (simp add: less_char_def)
  ultimately show ?case using Suc.IH [OF d] eq unfolding be_bytes.simps
    by (subst snoc_less) simp_all
qed simp

definition is_position :: "int \<Rightarrow> bool" where
  "is_position i \<longleftrightarrow> 0 \<le> i \<and> i < 2 ^ 63"

lemma i64_round_trip:
  assumes "is_position i"
  shows "i64_from_be_bytes (i64_to_be_bytes i) = i"
proof -
  have "nat i mod 18446744073709551616 = nat i" using assms by (simp add: is_position_def nat_less_iff)
  then show ?thesis using assms
    by (simp add: i64_from_be_bytes_def i64_to_be_bytes_def be_value_bytes is_position_def Let_def)
qed

lemma entry_key_less: "is_position i \<Longrightarrow> is_position j \<Longrightarrow> entry_key i < entry_key j \<longleftrightarrow> i < j"
  by (simp add: entry_key_def i64_to_be_bytes_def be_bytes_less is_position_def nat_less_iff) linarith

lemma entry_key_inj: "is_position i \<Longrightarrow> is_position j \<Longrightarrow> entry_key i = entry_key j \<longleftrightarrow> i = j"
  using entry_key_less [of i j] entry_key_less [of j i] by force

lemma meta_keys [simp]:
  "entry_key i \<noteq> META_NEXT_ID" "META_NEXT_ID \<noteq> entry_key i" "entry_key i \<noteq> META_STREAM_ID" "META_NEXT_ID \<noteq> META_STREAM_ID"
  "META_STREAM_ID \<noteq> META_NEXT_ID" "entry_key i < META_NEXT_ID" "is_entry_key (entry_key i)" "\<not> is_entry_key META_NEXT_ID"
  by (simp_all add: entry_key_def META_NEXT_ID_def META_STREAM_ID_def ENTRY_PREFIX_def is_entry_key_def less_char_def)

section \<open>Refinement of the in-memory log\<close>

text \<open>The key space of a log: each position holds an encoding of its entry, the meta key the next
  position, and nothing else is stored. The stream id is the one of a fresh store.\<close>

definition log_refines :: "('d \<Rightarrow> key_space) \<Rightarrow> entry serde \<Rightarrow> 'd rocks_log \<Rightarrow> log_stream \<Rightarrow> bool" where
  "log_refines content s rl l \<longleftrightarrow>
     wf_log l \<and> ls_stream_id l = 1 \<and> rl_stream_id rl = 1 \<and> rl_next_id rl = ls_next_entry_id l \<and>
     is_position (rl_next_id rl) \<and>
     (\<forall>i\<in>{1..<rl_next_id rl}. \<exists>b e. content (rl_db rl) (entry_key i) = Some b \<and> log_read l i = Some e \<and> from_slice s b = Inr e) \<and>
     dom (content (rl_db rl)) \<subseteq> entry_key ` {1..<rl_next_id rl} \<union> {META_NEXT_ID} \<and>
     content (rl_db rl) META_NEXT_ID = (if rl_next_id rl = 1 then None else Some (i64_to_be_bytes (rl_next_id rl)))"

lemma log_refines_next: "log_refines content s rl l \<Longrightarrow> 1 \<le> rl_next_id rl"
  by (simp add: log_refines_def wf_log_def)

lemma log_refines_position: "log_refines content s rl l \<Longrightarrow> i \<in> {1..<rl_next_id rl} \<Longrightarrow> is_position i"
  by (auto simp: log_refines_def is_position_def)

lemma log_refines_entry:
  assumes "log_refines content s rl l" "is_position i"
  shows "content (rl_db rl) (entry_key i) \<noteq> None \<longleftrightarrow> i \<in> {1..<rl_next_id rl}"
proof
  assume "content (rl_db rl) (entry_key i) \<noteq> None"
  then have "entry_key i \<in> entry_key ` {1..<rl_next_id rl}"
    using assms(1) by (auto simp: log_refines_def)
  then show "i \<in> {1..<rl_next_id rl}"
    using assms(2) entry_key_inj log_refines_position [OF assms(1)] by auto
qed (use assms(1) in \<open>auto simp: log_refines_def\<close>)

lemma rocks_log_read_refines:
  assumes "healthy R content pending" "log_refines content s rl l" "i < 2 ^ 63"
  shows "rocks_log_read R s i rl = Inr (log_read l i)"
proof (cases "i \<in> {1..<rl_next_id rl}")
  case True
  then obtain b e where "content (rl_db rl) (entry_key i) = Some b" "log_read l i = Some e" "from_slice s b = Inr e"
    using assms(2) unfolding log_refines_def by blast
  then show ?thesis using True by (simp add: rocks_log_read_def healthyD(3) [OF assms(1)])
next
  case False
  have "log_read l i = None"
    using False assms(2) by (auto simp: log_refines_def wf_log_def log_read_def)
  moreover have "content (rl_db rl) (entry_key i) = None" if "1 \<le> i"
    using log_refines_entry [OF assms(2), of i] that False assms(3) by (auto simp: is_position_def)
  ultimately show ?thesis by (simp add: rocks_log_read_def healthyD(3) [OF assms(1)])
qed

lemma rocks_log_reopen:
  assumes "healthy R content pending" "log_refines content s rl l"
  shows "rocks_log_open R (Inr (rl_db rl)) = Inr rl"
proof -
  have "META_STREAM_ID \<notin> entry_key ` {1..<rl_next_id rl} \<union> {META_NEXT_ID}"
    using meta_keys(3) by (metis UnE empty_iff image_iff insertE meta_keys(5))
  then have "META_STREAM_ID \<notin> dom (content (rl_db rl))" using assms(2) unfolding log_refines_def by blast
  then have "content (rl_db rl) META_STREAM_ID = None" by blast
  moreover have "length (i64_to_be_bytes i) = 8" for i by (simp add: i64_to_be_bytes_def)
  ultimately show ?thesis using assms(2)
    by (cases rl) (auto simp: rocks_log_open_def healthyD(3) [OF assms(1)] log_refines_def decode_next_def i64_round_trip)
qed

lemma batch_puts_run:
  "\<forall>e\<in>set (stamp sid pos es). codes s e \<Longrightarrow>
   \<exists>puts. batch_puts s sid pos es = Inr (puts, pos + int (length es))
     \<and> list_all2 (\<lambda>kv (i, e). fst kv = entry_key i \<and> from_slice s (snd kv) = Inr e) puts
         (zip [pos..pos + int (length es) - 1] (stamp sid pos es))"
proof (induction es arbitrary: pos)
  case (Cons e es)
  let ?e = "e \<lparr> en_stream_id := sid, en_entry_id := pos \<rparr>"
  have "codes s ?e" using Cons.prems by simp
  then obtain b where b: "to_vec s ?e = Inr b" "from_slice s b = Inr ?e" by (rule codesE)
  obtain puts where p: "batch_puts s sid (pos + 1) es = Inr (puts, pos + 1 + int (length es))"
    "list_all2 (\<lambda>kv (i, e). fst kv = entry_key i \<and> from_slice s (snd kv) = Inr e) puts
         (zip [pos + 1..pos + 1 + int (length es) - 1] (stamp sid (pos + 1) es))"
    using Cons.IH [of "pos + 1"] Cons.prems by auto
  have "[pos..pos + int (length (e # es)) - 1] = pos # [pos + 1..pos + 1 + int (length es) - 1]"
    by (subst upto_rec1) (simp_all add: algebra_simps)
  then show ?case using b p by (simp add: add.assoc add.commute [of 1])
qed simp

text \<open>What a written batch puts under the keys of its positions, and under no others.\<close>

lemma batch_puts_lookup:
  assumes "\<forall>e\<in>set (stamp sid pos es). codes s e" "is_position pos" "is_position (pos + int (length es))"
  obtains puts where "batch_puts s sid pos es = Inr (puts, pos + int (length es))"
    "fst ` set puts = entry_key ` {pos..<pos + int (length es)}"
    "\<And>k. k < length es \<Longrightarrow> \<exists>b. map_of (rev puts) (entry_key (pos + int k)) = Some b \<and> from_slice s b = Inr (stamp sid pos es ! k)"
proof -
  let ?n = "pos + int (length es)"
  obtain puts where p: "batch_puts s sid pos es = Inr (puts, ?n)"
    "list_all2 (\<lambda>kv (i, e). fst kv = entry_key i \<and> from_slice s (snd kv) = Inr e) puts
       (zip [pos..?n - 1] (stamp sid pos es))"
    using batch_puts_run [OF assms(1)] by blast
  have len: "length [pos..?n - 1] = length es" by simp
  then have lp: "length puts = length es" using list_all2_lengthD [OF p(2)] by simp
  have at: "fst (puts ! k) = entry_key (pos + int k)" "from_slice s (snd (puts ! k)) = Inr (stamp sid pos es ! k)"
    if "k < length es" for k
    using list_all2_nthD [OF p(2), of k] that lp by simp_all
  have keys: "map fst puts = map entry_key [pos..?n - 1]"
    by (rule nth_equalityI) (use lp len at in simp_all)
  have pos: "is_position i" if "i \<in> {pos..<?n}" for i using that assms(2,3) by (auto simp: is_position_def)
  have inj: "inj_on entry_key (set [pos..?n - 1])"
    using entry_key_inj pos by (fastforce simp: inj_on_def)
  have "distinct (map fst puts)" unfolding keys using inj by (simp add: distinct_map)
  then have d: "map_of (rev puts) k = Some b \<longleftrightarrow> (k, b) \<in> set puts" for k b
    by (simp add: rev_map [symmetric])
  show ?thesis
  proof (rule that [OF p(1)])
    show "fst ` set puts = entry_key ` {pos..<?n}"
      using arg_cong [OF keys, of set] by (simp add: atLeastLessThan_eq_atLeastAtMost_diff) (auto simp: atLeastLessThanPlusOne_atLeastAtMost_int [symmetric])
    show "\<exists>b. map_of (rev puts) (entry_key (pos + int k)) = Some b \<and> from_slice s b = Inr (stamp sid pos es ! k)"
      if "k < length es" for k
    proof (intro exI conjI)
      have "(entry_key (pos + int k), snd (puts ! k)) \<in> set puts"
        using at(1) [OF that] nth_mem [of k puts] that lp by (metis prod.collapse)
      then show "map_of (rev puts) (entry_key (pos + int k)) = Some (snd (puts ! k))" by (simp only: d)
    qed (rule at(2) [OF that])
  qed
qed

lemma rocks_log_append_refines:
  assumes "healthy R content pending" "log_refines content s rl l"
    "\<forall>e\<in>set (stamp (ls_stream_id l) (ls_next_entry_id l) es). codes s e"
    "is_position (ls_next_entry_id l + int (length es))"
  shows "\<exists>last rl' l'. rocks_log_append R s es rl = Inr (last, rl') \<and> log_append es l = (last, l') \<and> log_refines content s rl' l'"
proof (cases "es = []")
  case True
  then have "log_append es l = (ls_next_entry_id l - 1, l)" by (simp add: log_append_def Let_def)
  then show ?thesis using True assms(2) by (auto simp: rocks_log_append_def log_refines_def)
next
  case False
  let ?n = "ls_next_entry_id l"
  let ?m = "?n + int (length es)"
  have ref: "wf_log l" "ls_stream_id l = 1" "rl_stream_id rl = 1" "rl_next_id rl = ?n"
    using assms(2) by (simp_all add: log_refines_def)
  have ref5: "is_position ?n" using assms(2) unfolding log_refines_def by metis
  have n1: "1 \<le> ?n" using log_refines_next [OF assms(2)] ref by simp
  obtain puts where p: "batch_puts s 1 ?n es = Inr (puts, ?m)" "fst ` set puts = entry_key ` {?n..<?m}"
    "\<And>k. k < length es \<Longrightarrow> \<exists>b. map_of (rev puts) (entry_key (?n + int k)) = Some b \<and> from_slice s b = Inr (stamp 1 ?n es ! k)"
    using batch_puts_lookup [of 1 ?n es s] assms(3,4) ref ref5 by auto
  let ?b = "puts @ [(META_NEXT_ID, i64_to_be_bytes ?m)]"
  obtain d where d: "rdb_write R ?b (rl_db rl) = Inr d" "content d = content (rl_db rl) ++ map_of (rev ?b)"
    using healthyD(6) [OF assms(1)] by blast
  obtain l' where l': "log_append es l = (?m - 1, l')" by (simp add: log_append_def Let_def)
  let ?rl = "rl \<lparr> rl_db := d, rl_next_id := ?m \<rparr>"
  have wf': "wf_log l'" "ls_stream_id l' = 1" "ls_next_entry_id l' = ?m"
    using wf_log_append [OF ref(1) l'] l' ref by (auto simp: log_append_def Let_def)
  have old: "content d (entry_key i) = content (rl_db rl) (entry_key i)" if "i \<in> {1..<?n}" for i
  proof -
    have "entry_key i \<notin> fst ` set puts"
      unfolding p(2) using that entry_key_inj ref5 assms(4) by (auto simp: is_position_def)
    then have "map_of (rev puts) (entry_key i) = None" by (simp add: map_of_eq_None_iff)
    then show ?thesis by (simp add: d(2) map_add_def)
  qed
  have entries: "\<exists>b e. content d (entry_key i) = Some b \<and> log_read l' i = Some e \<and> from_slice s b = Inr e"
    if bound: "i \<in> {1..<?m}" for i
  proof (cases "i < ?n")
    case True
    then have "\<exists>b e. content (rl_db rl) (entry_key i) = Some b \<and> log_read l i = Some e \<and> from_slice s b = Inr e"
      using assms(2) True bound ref(4) unfolding log_refines_def by auto
    then show ?thesis using old [of i] True bound log_read_old [OF ref(1) l', of i] by auto
  next
    case False
    then obtain k where k: "i = ?n + int k" "k < length es" using that [of "nat (i - ?n)"] bound by (simp add: nat_less_iff)
    then show ?thesis using p(3) [OF k(2)] log_read_appended [OF ref(1) l' k(2)] nth_stamp [OF k(2), of 1 ?n] ref(2)
      by (auto simp: d(2) map_add_def)
  qed
  have "dom (content d) \<subseteq> entry_key ` {1..<?m} \<union> {META_NEXT_ID}"
  proof -
    have "dom (content d) \<subseteq> dom (content (rl_db rl)) \<union> fst ` set puts \<union> {META_NEXT_ID}"
      unfolding d(2) by (auto simp: dom_map_of_conv_image_fst)
    also have "\<dots> \<subseteq> entry_key ` {1..<?m} \<union> {META_NEXT_ID}"
      using assms(2) n1 ref(4) unfolding p(2) log_refines_def by auto
    finally show ?thesis .
  qed
  moreover have "content d META_NEXT_ID = Some (i64_to_be_bytes ?m)" by (simp add: d(2) map_add_def)
  moreover have "?m \<noteq> 1" using n1 False by (cases es) simp_all
  ultimately have "log_refines content s ?rl l'"
    using wf' ref(3) assms(4) entries by (simp add: log_refines_def)
  then show ?thesis using l' p(1) d(1) ref False by (simp add: rocks_log_append_def)
qed

text \<open>A run of batches.\<close>

fun rocks_log_appends ::
  "('d, 't) rocksdb \<Rightarrow> entry serde \<Rightarrow> entry list list \<Rightarrow> 'd rocks_log \<Rightarrow> log_error + int list \<times> 'd rocks_log" where
  "rocks_log_appends R s [] l = Inr ([], l)"
| "rocks_log_appends R s (es # bs) l =
     (case rocks_log_append R s es l of
        Inl e \<Rightarrow> Inl e
      | Inr (i, l') \<Rightarrow>
          (case rocks_log_appends R s bs l' of Inl e \<Rightarrow> Inl e | Inr (is, l'') \<Rightarrow> Inr (i # is, l'')))"

fun log_appends :: "entry list list \<Rightarrow> log_stream \<Rightarrow> int list \<times> log_stream" where
  "log_appends [] l = ([], l)"
| "log_appends (es # bs) l = (let (i, l') = log_append es l; (is, l'') = log_appends bs l' in (i # is, l''))"

lemma rocks_log_appends_refines:
  assumes "healthy R content pending" "log_refines content s rl l"
    "\<forall>e\<in>set (stamp (ls_stream_id l) (ls_next_entry_id l) (concat bs)). codes s e"
    "is_position (ls_next_entry_id l + int (length (concat bs)))"
  shows "\<exists>is rl' l'. rocks_log_appends R s bs rl = Inr (is, rl') \<and> log_appends bs l = (is, l') \<and> log_refines content s rl' l'"
  using assms(2-4)
proof (induction bs arbitrary: rl l)
  case (Cons es bs)
  have pos: "is_position (ls_next_entry_id l + int (length es))"
    using Cons.prems(3) log_refines_next [OF Cons.prems(1)] Cons.prems(1) by (auto simp: is_position_def log_refines_def)
  obtain i rl1 l1 where step: "rocks_log_append R s es rl = Inr (i, rl1)" "log_append es l = (i, l1)" "log_refines content s rl1 l1"
    using rocks_log_append_refines [OF assms(1) Cons.prems(1) _ pos] Cons.prems(2) by (auto simp: stamp_append)
  have next1: "ls_stream_id l1 = ls_stream_id l" "ls_next_entry_id l1 = ls_next_entry_id l + int (length es)"
    using step(2) by (auto simp: log_append_def Let_def)
  show ?case
    using Cons.IH [OF step(3)] Cons.prems(2,3) next1 step(1,2) by (auto simp: stamp_append ac_simps)
qed simp

text \<open>A sweep.\<close>

lemma committed_append: "committed s (xs @ ys) = committed s xs @ committed s ys"
  by (induction s xs rule: committed.induct) (simp_all split: sum.split)

lemma committed_entries:
  "\<forall>i\<in>set is. from_slice s (v i) = Inr (e i) \<Longrightarrow> committed s (map (\<lambda>i. Inr (entry_key i, v i)) is) = map e is"
  by (induction "is") simp_all

lemma sweep_keys:
  assumes "log_refines content s rl l" "is_position k" "1 \<le> k"
  shows "sorted_list_of_set {j \<in> dom (content (rl_db rl)). entry_key k \<le> j} =
    map entry_key [k..rl_next_id rl - 1] @ (if rl_next_id rl = 1 then [] else [META_NEXT_ID])"
proof (rule sorted_distinct_set_unique)
  let ?n = "rl_next_id rl"
  have pos: "is_position i" if "k \<le> i" "i < ?n" for i
    using that assms by (auto simp: log_refines_def is_position_def)
  have le: "entry_key k \<le> entry_key i \<longleftrightarrow> k \<le> i" if "is_position i" for i
    using entry_key_less [OF that assms(2)] by (metis linorder_not_less)
  have "sorted_wrt (<) (map entry_key [k..?n - 1])"
    unfolding sorted_wrt_map
    by (rule sorted_wrt_mono_rel [OF _ sorted_wrt_upto]) (use entry_key_less pos in auto)
  then have strict: "sorted_wrt (<) (map entry_key [k..?n - 1] @ (if ?n = 1 then [] else [META_NEXT_ID]))"
    by (auto simp: sorted_wrt_append)
  then show "sorted (map entry_key [k..?n - 1] @ (if ?n = 1 then [] else [META_NEXT_ID]))"
    "distinct (map entry_key [k..?n - 1] @ (if ?n = 1 then [] else [META_NEXT_ID]))"
    unfolding strict_sorted_iff by blast+
  have "{j \<in> dom (content (rl_db rl)). entry_key k \<le> j} =
      entry_key ` {k..?n - 1} \<union> (if ?n = 1 then {} else {META_NEXT_ID})"
  proof (intro set_eqI iffI)
    fix j assume j: "j \<in> {j \<in> dom (content (rl_db rl)). entry_key k \<le> j}"
    then have "j \<in> entry_key ` {1..<?n} \<union> {META_NEXT_ID}" using assms(1) unfolding log_refines_def by blast
    then show "j \<in> entry_key ` {k..?n - 1} \<union> (if ?n = 1 then {} else {META_NEXT_ID})"
    proof
      assume "j \<in> entry_key ` {1..<?n}"
      then obtain i where i: "j = entry_key i" "i \<in> {1..<?n}" by blast
      then show ?thesis using j le [of i] log_refines_position [OF assms(1) i(2)] by auto
    next
      assume "j \<in> {META_NEXT_ID}"
      then show ?thesis using j assms(1) by (auto simp: log_refines_def split: if_splits)
    qed
  next
    fix j assume "j \<in> entry_key ` {k..?n - 1} \<union> (if ?n = 1 then {} else {META_NEXT_ID})"
    then show "j \<in> {j \<in> dom (content (rl_db rl)). entry_key k \<le> j}"
    proof
      assume "j \<in> entry_key ` {k..?n - 1}"
      then obtain i where i: "j = entry_key i" "k \<le> i" "i < ?n" by auto
      then show ?thesis using log_refines_entry [OF assms(1) pos [OF i(2,3)]] le [OF pos [OF i(2,3)]] assms(3) by auto
    next
      assume "j \<in> (if ?n = 1 then {} else {META_NEXT_ID})"
      then show ?thesis using assms(1) less_imp_le [OF meta_keys(6)] by (auto simp: log_refines_def split: if_splits)
    qed
  qed
  then show "set (sorted_list_of_set {j \<in> dom (content (rl_db rl)). entry_key k \<le> j})
      = set (map entry_key [k..?n - 1] @ (if ?n = 1 then [] else [META_NEXT_ID]))"
    by simp
qed simp_all

lemma drop_upto:
  assumes "wf_log l" "1 \<le> k"
  shows "map (\<lambda>i. the (log_read l i)) [k..ls_next_entry_id l - 1] = drop (nat (k - 1)) (ls_entries l)"
proof (rule nth_equalityI)
  show "length (map (\<lambda>i. the (log_read l i)) [k..ls_next_entry_id l - 1]) = length (drop (nat (k - 1)) (ls_entries l))"
    using assms by (simp add: wf_log_def)
  fix j assume "j < length (map (\<lambda>i. the (log_read l i)) [k..ls_next_entry_id l - 1])"
  then have j: "j < nat (ls_next_entry_id l - k)" by simp
  moreover have "nat (k + int j - 1) = nat (k - 1) + j" using assms(2) by linarith
  ultimately show "map (\<lambda>i. the (log_read l i)) [k..ls_next_entry_id l - 1] ! j = drop (nat (k - 1)) (ls_entries l) ! j"
    using assms by (auto simp: nth_upto log_read_def wf_log_def)
qed

lemma rocks_log_sweep_refines:
  assumes "healthy R content pending" "log_refines content s rl l" "is_position k" "1 \<le> k"
  shows "fst (rocks_log_sweep R s k rl) = drop (nat (k - 1)) (ls_entries l)"
proof -
  let ?c = "content (rl_db rl)"
  have wf: "wf_log l" "rl_next_id rl = ls_next_entry_id l" using assms(2) by (simp_all add: log_refines_def)
  have dec: "\<forall>i\<in>set [k..rl_next_id rl - 1]. from_slice s (the (?c (entry_key i))) = Inr (the (log_read l i))"
  proof
    fix i assume "i \<in> set [k..rl_next_id rl - 1]"
    then have "i \<in> {1..<rl_next_id rl}" using assms(4) by simp
    then obtain b e where "?c (entry_key i) = Some b" "log_read l i = Some e" "from_slice s b = Inr e"
      using assms(2) unfolding log_refines_def by blast
    then show "from_slice s (the (?c (entry_key i))) = Inr (the (log_read l i))" by simp
  qed
  have "(map Inr (entries_from (entry_key k) ?c) :: item list) = map (\<lambda>i. Inr (entry_key i, the (?c (entry_key i)))) [k..rl_next_id rl - 1]
      @ (if rl_next_id rl = 1 then [] else [Inr (META_NEXT_ID, the (?c META_NEXT_ID))])"
    unfolding entries_from_def sweep_keys [OF assms(2-4)] by simp
  then show ?thesis
    using committed_entries [OF dec] drop_upto [OF wf(1) assms(4)] wf(2)
    by (simp add: rocks_log_sweep_def Let_def healthyD(7) [OF assms(1)] committed_append)
qed

lemma log_refines_new:
  assumes "healthy R content pending" "content d = Map.empty"
  shows "\<exists>rl. rocks_log_open R (Inr d) = Inr rl \<and> log_refines content s rl log_new"
  using assms(2) by (simp add: rocks_log_open_def healthyD(3) [OF assms(1)] log_refines_def log_new_def wf_log_def is_position_def)

text \<open>C26. The log kept in RocksDB is the in-memory log: opened on an empty store and given any batches
  whose entries encode and whose positions fit in 63 bits, it assigns the same positions, reads the
  same entry at every position, tails the same entries from every position and from the nil one, and a reopened store resumes
  as the very same log.\<close>

theorem rocks_log_refines_memory:
  assumes "healthy R content pending" "content d = Map.empty"
    and "\<forall>e\<in>set (stamp 1 1 (concat bs)). codes s e" "is_position (1 + int (length (concat bs)))"
  shows "\<exists>rl0 is rl l. rocks_log_open R (Inr d) = Inr rl0 \<and> rocks_log_appends R s bs rl0 = Inr (is, rl)
    \<and> log_appends bs log_new = (is, l) \<and> rocks_log_open R (Inr (rl_db rl)) = Inr rl
    \<and> (\<forall>i < 2 ^ 63. rocks_log_read R s i rl = Inr (log_read l i))
    \<and> (\<forall>k. k = nil_id \<or> 1 \<le> k \<and> k < 2 ^ 63 \<longrightarrow> fst (rocks_log_sweep R s (stream_start k) rl) = log_stream_read l k)"
proof -
  obtain rl0 where open0: "rocks_log_open R (Inr d) = Inr rl0" "log_refines content s rl0 log_new"
    using log_refines_new [OF assms(1,2)] by blast
  obtain "is" rl l where run: "rocks_log_appends R s bs rl0 = Inr (is, rl)" "log_appends bs log_new = (is, l)"
    "log_refines content s rl l"
    using rocks_log_appends_refines [OF assms(1) open0(2), of bs] assms(3,4) by (auto simp: log_new_def)
  have "fst (rocks_log_sweep R s (stream_start k) rl) = log_stream_read l k" if "k = nil_id \<or> 1 \<le> k \<and> k < 2 ^ 63" for k
    using rocks_log_sweep_refines [OF assms(1) run(3), of "stream_start k"] that
    by (auto simp: stream_start_def log_stream_read_def nil_id_def is_position_def)
  then show ?thesis
    using open0(1) run rocks_log_reopen [OF assms(1) run(3)] rocks_log_read_refines [OF assms(1) run(3)] by blast
qed

theorem rocks_log_refines_memory_witness:
  "\<exists>rl0 rl l. rocks_log_open tree_rocksdb (Inr RBT.empty) = Inr rl0
     \<and> rocks_log_appends tree_rocksdb (one_row ''noop'' ((noop_entry 7) \<lparr> en_stream_id := 1, en_entry_id := 1 \<rparr>)) [[], [noop_entry 7]] rl0 = Inr ([0, 1], rl)
     \<and> log_appends [[], [noop_entry 7]] log_new = ([0, 1], l) \<and> rocks_log_open tree_rocksdb (Inr (rl_db rl)) = Inr rl"
proof -
  let ?s = "one_row ''noop'' ((noop_entry 7) \<lparr> en_stream_id := 1, en_entry_id := 1 \<rparr>)"
  have "\<forall>e\<in>set (stamp 1 1 (concat [[], [noop_entry 7]])). codes ?s e"
    by (simp add: codes_def one_row_def)
  from rocks_log_refines_memory [OF tree_healthy _ this, of RBT.empty]
  show ?thesis by (force simp: is_position_def log_append_def log_new_def Let_def)
qed

end
