(* ===== verification/Scheduler.thy ===== *)
theory Scheduler
  imports Types
begin

text \<open>
  The deadline scheduler of \<open>src/crates/scheduler/src/in_memory.rs\<close> and the observer that drives it
  and the acknowledgements, \<open>src/crates/server/src/gateway.rs\<close>.

  A turn of the scheduler's loop drains its inbox, fires what is due and waits; the order in which the
  hash map yields the due targets is the argument \<open>order\<close>. A waiting client is a request id with the
  outcome it expects; what is sent to it is logged in order.
\<close>

section \<open>Scheduler\<close>

datatype scheduler_input = Schedule deadline_target timestamp | Cancel deadline_target | Wake

type_synonym armed = "deadline_target \<rightharpoonup> timestamp"

fun scheduler_apply :: "scheduler_input \<Rightarrow> armed \<Rightarrow> armed" where
  "scheduler_apply (Schedule target deadline) armed = armed(target \<mapsto> deadline)"
| "scheduler_apply (Cancel target) armed = armed(target := None)"
| "scheduler_apply Wake armed = armed"

definition is_due :: "timestamp \<Rightarrow> armed \<Rightarrow> deadline_target \<Rightarrow> bool" where
  "is_due t armed target = (case armed target of Some d \<Rightarrow> d \<le> t | None \<Rightarrow> False)"

definition due_targets :: "(armed \<Rightarrow> deadline_target list) \<Rightarrow> timestamp \<Rightarrow> armed \<Rightarrow> deadline_target list" where
  "due_targets order t armed = filter (is_due t armed) (order armed)"

text \<open>The firing loop: each due target is disarmed and handed to the sink. \<open>None\<close> is the panic of the
  \<open>expect\<close>.\<close>

fun fire_all :: "deadline_target list \<Rightarrow> armed \<Rightarrow> ((deadline_target \<times> timestamp) list \<times> armed) option" where
  "fire_all [] armed = Some ([], armed)"
| "fire_all (target # ts) armed =
     (case armed target of
        None \<Rightarrow> None
      | Some d \<Rightarrow>
          (case fire_all ts (armed(target := None)) of
             None \<Rightarrow> None
           | Some (fired, armed') \<Rightarrow> Some ((target, d) # fired, armed')))"

definition scheduler_turn ::
  "(armed \<Rightarrow> deadline_target list) \<Rightarrow> timestamp \<Rightarrow> scheduler_input list \<Rightarrow> armed
   \<Rightarrow> ((deadline_target \<times> timestamp) list \<times> armed) option" where
  "scheduler_turn order t inbox armed =
     (let armed = fold scheduler_apply inbox armed in fire_all (due_targets order t armed) armed)"

section \<open>Observer\<close>

datatype ack_target = AckFlowVersionCreated | AckExecutionCreated | AckTaskCompleted | AckGrant

record activated_task =
  av_task :: object_name
  av_resource :: string
  av_arguments :: json

datatype ack_outcome = AckApplied event | AckRejected reject | AckGranted "activated_task list"

text \<open>The pending acknowledgements, and what was sent to the waiting clients so far.\<close>

record ack_hook =
  ah_pending :: "request_id \<rightharpoonup> ack_target"
  ah_sent :: "(request_id \<times> ack_outcome) list"

definition ack_register :: "request_id \<Rightarrow> ack_target \<Rightarrow> ack_hook \<Rightarrow> ack_hook" where
  "ack_register key target h = h \<lparr> ah_pending := (ah_pending h)(key \<mapsto> target) \<rparr>"

fun ack_resolves :: "event \<Rightarrow> (request_id \<times> ack_target) option" where
  "ack_resolves (FlowVersionCreated r _) = Some (r, AckFlowVersionCreated)"
| "ack_resolves (ExecutionCreated r _) = Some (r, AckExecutionCreated)"
| "ack_resolves (TaskCompleted r _ _) = Some (r, AckTaskCompleted)"
| "ack_resolves (TasksClaimed r _) = Some (r, AckGrant)"
| "ack_resolves _ = None"

definition granted_from :: "task list \<Rightarrow> activated_task list" where
  "granted_from = map (\<lambda>t. \<lparr> av_task = m_name (tk_meta t), av_resource = tk_resource t,
     av_arguments = tk_arguments t \<rparr>)"

definition ack_outcome_of :: "ack_target \<Rightarrow> event \<Rightarrow> ack_outcome option" where
  "ack_outcome_of target ev =
     (case target of
        AckGrant \<Rightarrow> (case ev of TasksClaimed _ ks \<Rightarrow> Some (AckGranted (granted_from ks)) | _ \<Rightarrow> None)
      | _ \<Rightarrow> Some (AckApplied ev))"

definition ack_on_event_applied :: "event \<Rightarrow> ack_hook \<Rightarrow> ack_hook" where
  "ack_on_event_applied ev h =
     (case ack_resolves ev of
        None \<Rightarrow> h
      | Some (rid, target) \<Rightarrow>
          (case ah_pending h rid of
             None \<Rightarrow> h
           | Some t \<Rightarrow>
               (let h = h \<lparr> ah_pending := (ah_pending h)(rid := None) \<rparr> in
                if t \<noteq> target then h
                else case ack_outcome_of target ev of
                       None \<Rightarrow> h
                     | Some out \<Rightarrow> h \<lparr> ah_sent := ah_sent h @ [(rid, out)] \<rparr>)))"

definition ack_on_command_rejected :: "request_id \<Rightarrow> reject \<Rightarrow> ack_hook \<Rightarrow> ack_hook" where
  "ack_on_command_rejected rid rj h =
     (case ah_pending h rid of
        None \<Rightarrow> h
      | Some _ \<Rightarrow> h \<lparr> ah_pending := (ah_pending h)(rid := None),
                      ah_sent := ah_sent h @ [(rid, AckRejected rj)] \<rparr>)"

text \<open>\<open>CompositeHook::on_event_applied\<close>: the message to the scheduler's inbox, then the
  acknowledgement.\<close>

fun deadline_input :: "event \<Rightarrow> scheduler_input option" where
  "deadline_input (ExecutionCreated _ e) =
     map_option (Schedule (DeadlineExecution (ex_ref e))) (ex_deadline e)"
| "deadline_input (TaskActivated k) =
     map_option (Schedule (DeadlineActivity (m_owner (tk_meta k)))) (tk_deadline k)"
| "deadline_input (StateActivated a) =
     (case ac_activity_state a of
        Some (ActWait w) \<Rightarrow> Some (Schedule (DeadlineActivity (ac_ref a)) (wa_resume_at w))
      | _ \<Rightarrow> None)"
| "deadline_input (StateCompleted a) = Some (Cancel (DeadlineActivity (ac_ref a)))"
| "deadline_input (StateTerminated a) = Some (Cancel (DeadlineActivity (ac_ref a)))"
| "deadline_input (ExecutionCompleted e) = Some (Cancel (DeadlineExecution (ex_ref e)))"
| "deadline_input (ExecutionTerminated e) = Some (Cancel (DeadlineExecution (ex_ref e)))"
| "deadline_input _ = None"

record observer =
  ob_inbox :: "scheduler_input list"
  ob_ack :: ack_hook

definition on_event_applied :: "event \<Rightarrow> observer \<Rightarrow> observer" where
  "on_event_applied ev ob =
     \<lparr> ob_inbox = (case deadline_input ev of None \<Rightarrow> ob_inbox ob | Some i \<Rightarrow> ob_inbox ob @ [i]),
       ob_ack = ack_on_event_applied ev (ob_ack ob) \<rparr>"

definition on_command_rejected :: "request_id \<Rightarrow> reject \<Rightarrow> observer \<Rightarrow> observer" where
  "on_command_rejected rid rj ob = ob \<lparr> ob_ack := ack_on_command_rejected rid rj (ob_ack ob) \<rparr>"

text \<open>\<open>EngineDeadlineSink::trigger\<close> with the engine present.\<close>

definition deadline_sink_command :: "deadline_target \<Rightarrow> timestamp \<Rightarrow> command" where
  "deadline_sink_command target deadline = TriggerDeadline target deadline"

end
