(* ===== verification/Wire.thy ===== *)
theory Wire
  imports Engine Scheduler Rocksdb
begin

text \<open>
  The messages of \<open>src/crates/proto/proto/spica.proto\<close> and how the server makes them from engine values
  (\<open>src/crates/server/src/query.rs\<close>) and reads them back (\<open>src/crates/server/src/common.rs\<close>). Enumeration
  fields carry the numbers of the protocol file.

  The text form of a ULID, the JSON codecs, the text form of a JSON pointer and the names of marker
  types come from outside the repository: they are the fields of \<open>wire_env\<close>. \<open>texts_ulids\<close> is what the
  documentation of the crate \<open>ulid\<close> says of the first: a ULID is a 128-bit number, and its text form of
  26 characters reads back.
\<close>

section \<open>The codecs\<close>

record wire_env =
  we_ulid_to_string :: "ulid \<Rightarrow> string"
  we_ulid_parse :: "string \<Rightarrow> ulid option"
  we_value :: "json serde"
  we_optional :: "json option serde"
  we_activity_state :: "activity_state serde"
  we_retry_state :: "retry_state serde"
  we_retry_plan :: "retry_policy list serde"
  we_pointer :: "state_path \<Rightarrow> string"
  we_type_name :: "object_kind \<Rightarrow> string"

definition texts_ulids :: "wire_env \<Rightarrow> bool" where
  "texts_ulids W \<longleftrightarrow>
     (\<forall>u < 2 ^ 128. length (we_ulid_to_string W u) = 26 \<and> we_ulid_parse W (we_ulid_to_string W u) = Some u)
   \<and> (\<forall>s u. we_ulid_parse W s = Some u \<longrightarrow> u < 2 ^ 128)"

text \<open>\<open>serde_json::to_vec(v).unwrap_or_default()\<close>, and the same over an absent value.\<close>

definition to_vec_or_default :: "'a serde \<Rightarrow> 'a \<Rightarrow> bytes" where
  "to_vec_or_default s v = (case to_vec s v of Inr b \<Rightarrow> b | Inl _ \<Rightarrow> [])"

definition some_vec_or_default :: "'a serde \<Rightarrow> 'a option \<Rightarrow> bytes" where
  "some_vec_or_default s v = (case v of Some x \<Rightarrow> to_vec_or_default s x | None \<Rightarrow> [])"

text \<open>\<open>as_millis() as i64\<close>.\<close>

definition as_i64 :: "timestamp \<Rightarrow> int" where
  "as_i64 t = sint t"

definition millis_or_default :: "timestamp option \<Rightarrow> int" where
  "millis_or_default t = (case t of Some d \<Rightarrow> as_i64 d | None \<Rightarrow> 0)"

section \<open>Status\<close>

datatype grpc_code = CodeInvalidArgument | CodeNotFound | CodeAlreadyExists | CodeFailedPrecondition | CodeInternal

record grpc_status =
  gs_code :: grpc_code
  gs_message :: string

definition grpc :: "grpc_code \<Rightarrow> string \<Rightarrow> grpc_status" where
  "grpc c msg = \<lparr> gs_code = c, gs_message = msg \<rparr>"

fun runtime_display :: "runtime_error \<Rightarrow> string" where
  "runtime_display (StateNotFound s) = ''state not found: '' @ s"
| "runtime_display NoTerminal = ''no terminal state reached (a state is missing Next/End)''"
| "runtime_display (NoChoiceMatched s) = ''choice state '' @ s @ '' matched no rule and has no Default''"
| "runtime_display (StateFailed s err _) = ''Fail state '' @ s @ '' reported error '' @ err"
| "runtime_display (Jsonata fld msg) = ''JSONata error in '' @ fld @ '': '' @ msg"
| "runtime_display (InvalidDefinition why) = ''invalid state definition: '' @ why"
| "runtime_display (TimedOutErr msg) = ''execution timed out: '' @ msg"
| "runtime_display (CancelledErr msg) = ''execution cancelled: '' @ msg"

fun storage_display :: "storage_error \<Rightarrow> string" where
  "storage_display (Backend s) = ''storage backend: '' @ s"
| "storage_display (Codec s) = ''storage row: '' @ s"
| "storage_display (InvalidKey s) = ''storage key: '' @ s"
| "storage_display (Unsupported s) = ''storage operation unsupported: '' @ s"

fun infra_display :: "infra_error \<Rightarrow> string" where
  "infra_display (LogErr s) = ''log/storage error: '' @ s"
| "infra_display (StorageErr e) = storage_display e"

fun to_status :: "execution_error \<Rightarrow> grpc_status" where
  "to_status (RejectedErr r) =
     (case rj_type r of
        AlreadyExists \<Rightarrow> grpc CodeAlreadyExists (rj_reason r)
      | NotFound \<Rightarrow> grpc CodeNotFound (rj_reason r)
      | InvalidArgument \<Rightarrow> grpc CodeInvalidArgument (rj_reason r)
      | InvalidState \<Rightarrow> grpc CodeFailedPrecondition (rj_reason r)
      | ProcessingError \<Rightarrow> grpc CodeInternal (rj_reason r))"
| "to_status (Runtime err) =
     (case err of
        InvalidDefinition _ \<Rightarrow> grpc CodeInvalidArgument (runtime_display err)
      | StateNotFound _ \<Rightarrow> grpc CodeInvalidArgument (runtime_display err)
      | NoTerminal \<Rightarrow> grpc CodeInvalidArgument (runtime_display err)
      | _ \<Rightarrow> grpc CodeInternal (runtime_display err))"
| "to_status (Infra e) = grpc CodeInternal (infra_display e)"

section \<open>References\<close>

record wire_ref =
  wr_kind :: string
  wr_name :: string
  wr_uid :: string

definition parse_ulid :: "wire_env \<Rightarrow> string \<Rightarrow> string \<Rightarrow> grpc_status + ulid" where
  "parse_ulid W s what =
     (case we_ulid_parse W s of
        Some u \<Rightarrow> Inr u
      | None \<Rightarrow> Inl (grpc CodeInvalidArgument (''invalid '' @ what @ '' ULID: '' @ debug_str s)))"

definition proto_ref :: "wire_env \<Rightarrow> raw_object_ref \<Rightarrow> wire_ref" where
  "proto_ref W r =
     \<lparr> wr_kind = kind_as_str (r_kind r), wr_name = as_str (r_name r), wr_uid = we_ulid_to_string W (r_uid r) \<rparr>"

definition kind_mismatch :: "wire_env \<Rightarrow> object_kind \<Rightarrow> object_kind \<Rightarrow> string" where
  "kind_mismatch W seen expected =
     ''reference kind mismatch: the payload carries kind '' @ kind_debug seen
     @ '', but this field admits only '' @ kind_debug expected @ '' ('' @ we_type_name W expected @ '')''"

definition parse_ref :: "wire_env \<Rightarrow> object_kind \<Rightarrow> wire_ref \<Rightarrow> grpc_status + oref" where
  "parse_ref W k r =
     (case kind_parse (wr_kind r) of
        None \<Rightarrow> Inl (grpc CodeInvalidArgument (''unknown object kind: '' @ debug_str (wr_kind r)))
      | Some kind \<Rightarrow>
          (case from_parsed (wr_name r) of
             Inl (Invalid e) \<Rightarrow> Inl (grpc CodeInvalidArgument (''invalid object name: '' @ e))
           | Inr name \<Rightarrow>
               (case we_ulid_parse W (wr_uid r) of
                  None \<Rightarrow> Inl (grpc CodeInvalidArgument (''invalid uid ULID: '' @ debug_str (wr_uid r)))
                | Some uid \<Rightarrow>
                    (case typed_ref k \<lparr> r_kind = kind, r_name = name, r_uid = uid \<rparr> of
                       None \<Rightarrow> Inl (grpc CodeInvalidArgument (kind_mismatch W kind k))
                     | Some o' \<Rightarrow> Inr o'))))"

section \<open>Objects\<close>

record wire_meta =
  wm_kind :: string
  wm_tenant :: string
  wm_namespace :: string
  wm_name :: string
  wm_uid :: string
  wm_created_at_millis :: int
  wm_updated_at_millis :: int
  wm_owner :: "wire_ref option"

record wire_failure =
  wf_error_name :: string
  wf_output :: bytes

record wire_reason =
  wt_failed :: "wire_failure option"
  wt_timed_out :: bool
  wt_cancelled :: bool

record wire_flow =
  wfl_meta :: wire_meta
  wfl_status :: int
  wfl_latest_version :: nat

record wire_flow_version =
  wfv_meta :: wire_meta
  wfv_version :: nat
  wfv_definition :: bytes
  wfv_checksum :: u64

record wire_execution =
  wex_meta :: wire_meta
  wex_flow_version :: wire_ref
  wex_status :: int
  wex_reason :: "wire_reason option"
  wex_input :: bytes
  wex_output :: bytes
  wex_deadline_millis :: int

record wire_thread =
  wth_meta :: wire_meta
  wth_execution :: wire_ref
  wth_state_path :: string
  wth_index :: nat
  wth_status :: int
  wth_reason :: "wire_reason option"
  wth_input :: bytes
  wth_output :: bytes
  wth_variables :: "string \<rightharpoonup> bytes"

record wire_activity =
  wac_meta :: wire_meta
  wac_execution :: wire_ref
  wac_state_path :: string
  wac_status :: int
  wac_reason :: "wire_reason option"
  wac_raw_input :: bytes
  wac_input :: bytes
  wac_raw_output :: bytes
  wac_output :: bytes
  wac_activity_state :: bytes
  wac_retry_state :: bytes

record wire_task =
  wtk_meta :: wire_meta
  wtk_execution :: wire_ref
  wtk_resource :: string
  wtk_arguments :: bytes
  wtk_status :: int
  wtk_deadline_millis :: int
  wtk_worker_id :: string
  wtk_lease_expires_at_millis :: int
  wtk_retry_plan :: bytes
  wtk_retry_state :: bytes

datatype wire_object =
    WFlow wire_flow
  | WFlowVersion wire_flow_version
  | WExecution wire_execution
  | WThread wire_thread
  | WActivity wire_activity
  | WTask wire_task

text \<open>The owner is passed as the raw reference that \<open>to_raw_object_ref\<close> gives, absent for a root.\<close>

definition proto_meta :: "wire_env \<Rightarrow> object_kind \<Rightarrow> raw_object_ref option \<Rightarrow> 'o object_meta \<Rightarrow> wire_meta" where
  "proto_meta W k owner m =
     \<lparr> wm_kind = kind_as_str k, wm_tenant = plain_as_str (m_tenant m), wm_namespace = plain_as_str (m_namespace m),
       wm_name = as_str (m_name m), wm_uid = we_ulid_to_string W (m_uid m),
       wm_created_at_millis = as_i64 (m_created_at m), wm_updated_at_millis = as_i64 (m_updated_at m),
       wm_owner = map_option (proto_ref W) owner \<rparr>"

definition proto_termination_reason :: "wire_env \<Rightarrow> termination_reason \<Rightarrow> wire_reason" where
  "proto_termination_reason W r =
     (let out = \<lparr> wt_failed = None, wt_timed_out = False, wt_cancelled = False \<rparr> in
      case r of
        FailedWith e \<Rightarrow> out \<lparr> wt_failed := Some \<lparr> wf_error_name = error_name e,
                                 wf_output = some_vec_or_default (we_value W) (error_output e) \<rparr> \<rparr>
      | TimedOut \<Rightarrow> out \<lparr> wt_timed_out := True \<rparr>
      | Cancelled \<Rightarrow> out \<lparr> wt_cancelled := True \<rparr>)"

text \<open>The numbers of \<open>ExecutionStatus\<close>, \<open>ThreadStatus\<close> and \<open>ActivityStatus\<close>, which agree, and the reason.\<close>

fun wire_lifecycle :: "lifecycle \<Rightarrow> int \<times> termination_reason option" where
  "wire_lifecycle Running = (1, None)"
| "wire_lifecycle Completing = (2, None)"
| "wire_lifecycle (Terminating r) = (3, Some r)"
| "wire_lifecycle Completed = (4, None)"
| "wire_lifecycle (Terminated r) = (5, Some r)"

fun wire_flow_status :: "flow_status \<Rightarrow> int" where
  "wire_flow_status FlowActive = 1"
| "wire_flow_status FlowDeleted = 2"

fun wire_task_status :: "task_status \<Rightarrow> int" where
  "wire_task_status TPending = 1"
| "wire_task_status TRunning = 2"
| "wire_task_status TCompleted = 3"
| "wire_task_status TFailed = 4"
| "wire_task_status TCancelled = 5"

definition to_proto_flow :: "wire_env \<Rightarrow> flow \<Rightarrow> wire_flow" where
  "to_proto_flow W f =
     \<lparr> wfl_meta = proto_meta W KFlow None (fl_meta f), wfl_status = wire_flow_status (fl_status f),
       wfl_latest_version = fl_latest_version f \<rparr>"

definition to_proto_flow_version :: "wire_env \<Rightarrow> flow_version \<Rightarrow> wire_flow_version" where
  "to_proto_flow_version W v =
     \<lparr> wfv_meta = proto_meta W KFlowVersion (Some (raw_of KFlow (m_owner (fv_meta v)))) (fv_meta v),
       wfv_version = fv_version v, wfv_definition = fv_definition v, wfv_checksum = fv_checksum v \<rparr>"

definition to_proto_execution :: "wire_env \<Rightarrow> execution \<Rightarrow> wire_execution" where
  "to_proto_execution W e =
     (let (status, reason) = wire_lifecycle (ex_status e) in
      \<lparr> wex_meta = proto_meta W KExecution None (ex_meta e),
        wex_flow_version = proto_ref W (raw_of KFlowVersion (ex_flow_version e)),
        wex_status = status, wex_reason = map_option (proto_termination_reason W) reason,
        wex_input = to_vec_or_default (we_value W) (ex_input e),
        wex_output = some_vec_or_default (we_value W) (ex_output e),
        wex_deadline_millis = millis_or_default (ex_deadline e) \<rparr>)"

definition to_proto_thread :: "wire_env \<Rightarrow> thread \<Rightarrow> variables \<Rightarrow> wire_thread" where
  "to_proto_thread W t scope =
     (let (status, reason) = wire_lifecycle (th_status t) in
      \<lparr> wth_meta = proto_meta W KThread (Some (thread_owner_raw (m_owner (th_meta t)))) (th_meta t),
        wth_execution = proto_ref W (raw_of KExecution (th_execution t)),
        wth_state_path = we_pointer W (th_state_path t), wth_index = th_index t,
        wth_status = status, wth_reason = map_option (proto_termination_reason W) reason,
        wth_input = to_vec_or_default (we_value W) (th_input t),
        wth_output = some_vec_or_default (we_value W) (th_output t),
        wth_variables = (\<lambda>k. map_option (to_vec_or_default (we_value W)) (scope k)) \<rparr>)"

definition to_proto_activity :: "wire_env \<Rightarrow> activity \<Rightarrow> wire_activity" where
  "to_proto_activity W a =
     (let (status, reason) = wire_lifecycle (ac_status a) in
      \<lparr> wac_meta = proto_meta W KActivity (Some (raw_of KThread (m_owner (ac_meta a)))) (ac_meta a),
        wac_execution = proto_ref W (raw_of KExecution (ac_execution a)),
        wac_state_path = we_pointer W (ac_state_path a),
        wac_status = status, wac_reason = map_option (proto_termination_reason W) reason,
        wac_raw_input = to_vec_or_default (we_value W) (ac_raw_input a),
        wac_input = to_vec_or_default (we_optional W) (ac_input a),
        wac_raw_output = to_vec_or_default (we_optional W) (ac_raw_output a),
        wac_output = to_vec_or_default (we_optional W) (ac_output a),
        wac_activity_state = some_vec_or_default (we_activity_state W) (ac_activity_state a),
        wac_retry_state = some_vec_or_default (we_retry_state W) (ac_retry_state a) \<rparr>)"

definition to_proto_task :: "wire_env \<Rightarrow> task \<Rightarrow> wire_task" where
  "to_proto_task W t =
     \<lparr> wtk_meta = proto_meta W KTask (Some (raw_of KActivity (m_owner (tk_meta t)))) (tk_meta t),
       wtk_execution = proto_ref W (raw_of KExecution (tk_execution t)),
       wtk_resource = tk_resource t, wtk_arguments = to_vec_or_default (we_value W) (tk_arguments t),
       wtk_status = wire_task_status (tk_status t), wtk_deadline_millis = millis_or_default (tk_deadline t),
       wtk_worker_id = (case tk_worker_id t of Some w \<Rightarrow> w | None \<Rightarrow> []),
       wtk_lease_expires_at_millis = millis_or_default (tk_lease_expires_at t),
       wtk_retry_plan = to_vec_or_default (we_retry_plan W) (tk_retry_plan t),
       wtk_retry_state = to_vec_or_default (we_retry_state W) (tk_retry_state t) \<rparr>"

text \<open>\<open>Svc::to_proto_object\<close>: a thread is joined with its variables.\<close>

definition to_proto_object :: "wire_env \<Rightarrow> node \<Rightarrow> query_object \<Rightarrow> wire_object" where
  "to_proto_object W nd obj =
     (case obj of
        QFlow f \<Rightarrow> WFlow (to_proto_flow W f)
      | QFlowVersion v \<Rightarrow> WFlowVersion (to_proto_flow_version W v)
      | QExecution e \<Rightarrow> WExecution (to_proto_execution W e)
      | QThread t \<Rightarrow> WThread (to_proto_thread W t (engine_get_variables (m_name (th_meta t)) nd))
      | QActivity a \<Rightarrow> WActivity (to_proto_activity W a)
      | QTask t \<Rightarrow> WTask (to_proto_task W t))"

end
