(* ===== verification/Server.thy ===== *)
theory Server
  imports Wire
begin

text \<open>
  The gRPC server over the engine: the blocking operations of the gateway
  (\<open>src/crates/server/src/gateway.rs\<close>) and the request handlers of \<open>workflow.rs\<close>, \<open>execution.rs\<close>,
  \<open>task.rs\<close> and \<open>query.rs\<close>.

  The server's state is the node and the observer its hook feeds. A blocked caller gives the processor
  the turn: what happens until its one-shot channel resolves is the argument \<open>aw\<close>, which gives the
  outcome received (\<open>None\<close> when the sender was dropped) and the state by then. A request id that the
  gateway mints and a time it reads are arguments. The position that the standard library adds to the
  message on a definition that is not UTF-8 is left out.
\<close>

record server =
  sv_node :: node
  sv_observer :: observer

type_synonym await = "request_id \<Rightarrow> server \<Rightarrow> ack_outcome option \<times> server"

section \<open>The processor and its hook\<close>

text \<open>What the hook is told after a command, in this order: the applied events, then the rejections.\<close>

definition tell_hook :: "event list \<Rightarrow> reject list \<Rightarrow> observer \<Rightarrow> observer" where
  "tell_hook evs rjs ob =
     fold (\<lambda>rj. on_command_rejected (rj_request_id rj) rj) rjs (fold on_event_applied evs ob)"

text \<open>One turn of the leader's loop with the hook attached. \<open>None\<close>: nothing to read, or a panic.\<close>

definition server_step :: "server \<Rightarrow> server option" where
  "server_step sv =
     (let nd = sv_node sv in
      case log_read (n_log nd) (n_pos nd) of
        None \<Rightarrow> None
      | Some e \<Rightarrow>
          (case leader_entry e nd of
             None \<Rightarrow> None
           | Some nd' \<Rightarrow>
               Some \<lparr> sv_node = nd' \<lparr> n_pos := n_pos nd + 1 \<rparr>,
                      sv_observer = tell_hook (drop (length (n_applied nd)) (n_applied nd'))
                        (drop (length (n_rejected nd)) (n_rejected nd')) (sv_observer sv) \<rparr>))"

text \<open>A caller that waits through at most so many turns.\<close>

fun await_turns :: "nat \<Rightarrow> await" where
  "await_turns fuel rid sv =
     (case map_of (rev (ah_sent (ob_ack (sv_observer sv)))) rid of
        Some out \<Rightarrow> (Some out, sv)
      | None \<Rightarrow>
          (case fuel of
             0 \<Rightarrow> (None, sv)
           | Suc f \<Rightarrow> (case server_step sv of None \<Rightarrow> (None, sv) | Some sv' \<Rightarrow> await_turns f rid sv')))"

section \<open>The gateway\<close>

datatype ack_failure = AckDropped | AckRefused reject

fun await_event :: "ack_outcome option \<Rightarrow> (ack_failure, event) outcome" where
  "await_event (Some (AckApplied ev)) = Done ev"
| "await_event (Some (AckRejected rj)) = Err (AckRefused rj)"
| "await_event (Some (AckGranted _)) = Panicked ''a task grant is awaited via await_tasks, not await_event''"
| "await_event None = Err AckDropped"

fun await_tasks :: "ack_outcome option \<Rightarrow> (ack_failure, activated_task list) outcome" where
  "await_tasks (Some (AckGranted ts)) = Done ts"
| "await_tasks (Some (AckRejected rj)) = Err (AckRefused rj)"
| "await_tasks (Some (AckApplied _)) = Panicked ''a ClaimTasks ack delivers Granted, never an applied Event''"
| "await_tasks None = Err AckDropped"

fun ack_failure_error :: "ack_failure \<Rightarrow> execution_error" where
  "ack_failure_error AckDropped = bad_definition
     (''no acknowledgement received (engine not started, or its StreamProcessor never applied ''
      @ ''the awaited outcome)'')"
| "ack_failure_error (AckRefused rj) = RejectedErr rj"

definition gw_register :: "request_id \<Rightarrow> ack_target \<Rightarrow> (server, execution_error, unit) proc" where
  "gw_register rid target =
     modify (\<lambda>sv. sv \<lparr> sv_observer := sv_observer sv \<lparr> ob_ack := ack_register rid target (ob_ack (sv_observer sv)) \<rparr> \<rparr>)"

definition engine_call :: "(node \<Rightarrow> execution_error + node) \<Rightarrow> (server, execution_error, unit) proc" where
  "engine_call f sv =
     (case f (sv_node sv) of Inl e \<Rightarrow> (Err e, sv) | Inr nd \<Rightarrow> (Done (), sv \<lparr> sv_node := nd \<rparr>))"

definition awaiting ::
  "await \<Rightarrow> request_id \<Rightarrow> (ack_outcome option \<Rightarrow> (ack_failure, 'a) outcome) \<Rightarrow> (server, execution_error, 'a) proc" where
  "awaiting aw rid receive sv =
     (case aw rid sv of (out, sv') \<Rightarrow>
        (case receive out of
           Done v \<Rightarrow> (Done v, sv')
         | Err f \<Rightarrow> (Err (ack_failure_error f), sv')
         | Panicked w \<Rightarrow> (Panicked w, sv')))"

definition gateway_create_flow ::
  "await \<Rightarrow> request_id \<Rightarrow> flow_name \<Rightarrow> string \<Rightarrow> (server, execution_error, oref) proc" where
  "gateway_create_flow aw rid name def =
     seq (gw_register rid AckFlowVersionCreated)
    (seq (engine_call (engine_create_flow rid name def))
    (bnd (awaiting aw rid await_event) (\<lambda>ev.
     case ev of
       FlowVersionCreated _ v \<Rightarrow> ret (fv_ref v)
     | _ \<Rightarrow> panic ''AckHook routes CreateFlow's ack only to a FlowVersionCreated event'')))"

definition gateway_start_for_revision ::
  "await \<Rightarrow> request_id \<Rightarrow> object_name \<Rightarrow> oref \<Rightarrow> json \<Rightarrow> (server, execution_error, oref) proc" where
  "gateway_start_for_revision aw rid name fv input =
     seq (gw_register rid AckExecutionCreated)
    (seq (engine_call (engine_create_execution rid name fv input))
    (bnd (awaiting aw rid await_event) (\<lambda>ev.
     case ev of
       ExecutionCreated _ e \<Rightarrow> ret (ex_ref e)
     | _ \<Rightarrow> panic ''AckHook only delivers ExecutionCreated to this ack'')))"

definition gateway_poll_tasks ::
  "await \<Rightarrow> request_id \<Rightarrow> timestamp \<Rightarrow> string \<Rightarrow> string \<Rightarrow> nat \<Rightarrow> nat \<Rightarrow> (server, execution_error, activated_task list) proc" where
  "gateway_poll_tasks aw rid t worker resource max_tasks lease_seconds =
     bnd (gets (\<lambda>sv. engine_activatable_tasks resource t max_tasks (sv_node sv))) (\<lambda>claimable.
     if claimable = [] then ret []
     else
       seq (gw_register rid AckGrant)
      (seq (engine_call (\<lambda>nd. Inr (engine_claim_tasks
              \<lparr> cl_request_id = rid, cl_worker_id = worker, cl_resource = resource,
                cl_max_tasks = max_tasks, cl_lease_seconds = lease_seconds \<rparr> nd)))
           (awaiting aw rid await_tasks)))"

definition gateway_complete ::
  "await \<Rightarrow> string \<Rightarrow> object_name \<Rightarrow> request_id \<Rightarrow> json \<Rightarrow> (server, execution_error, unit) proc" where
  "gateway_complete aw worker task rid out =
     seq (gw_register rid AckTaskCompleted)
    (seq (engine_call (\<lambda>nd. Inr (engine_complete_task worker task rid out nd)))
    (bnd (awaiting aw rid await_event) (\<lambda>_. ret ())))"

definition gateway_fail :: "string \<Rightarrow> object_name \<Rightarrow> execution_error \<Rightarrow> (server, execution_error, unit) proc" where
  "gateway_fail worker task err = engine_call (\<lambda>nd. Inr (engine_fail_task worker task err nd))"

section \<open>The request handlers\<close>

type_synonym 'r rpc = "(server, grpc_status, 'r) proc"

text \<open>\<open>map_err(to_status)\<close>, and an early return of a refused request.\<close>

definition with_status :: "(server, execution_error, 'a) proc \<Rightarrow> 'a rpc" where
  "with_status m sv =
     (case m sv of
        (Done v, sv') \<Rightarrow> (Done v, sv')
      | (Err e, sv') \<Rightarrow> (Err (to_status e), sv')
      | (Panicked w, sv') \<Rightarrow> (Panicked w, sv'))"

definition checked :: "grpc_status + 'a \<Rightarrow> 'a rpc" where
  "checked r = (case r of Inl st \<Rightarrow> throw st | Inr v \<Rightarrow> ret v)"

definition engine_read :: "(node \<Rightarrow> execution_error + 'a) \<Rightarrow> 'a rpc" where
  "engine_read f = bnd (gets (\<lambda>sv. f (sv_node sv))) (\<lambda>r.
     case r of Inl e \<Rightarrow> throw (to_status e) | Inr v \<Rightarrow> ret v)"

definition parse_json :: "wire_env \<Rightarrow> string \<Rightarrow> bytes \<Rightarrow> grpc_status + json" where
  "parse_json W what b =
     (case from_slice (we_value W) b of
        Inl e \<Rightarrow> Inl (grpc CodeInvalidArgument (what @ '' is not valid JSON: '' @ e))
      | Inr v \<Rightarrow> Inr v)"

definition parse_flow_name :: "string \<Rightarrow> grpc_status + flow_name" where
  "parse_flow_name s =
     (case plain_new s of
        Inl (Invalid e) \<Rightarrow> Inl (grpc CodeInvalidArgument (''invalid flow name: '' @ e))
      | Inr n \<Rightarrow> Inr n)"

definition parse_execution_name :: "string \<Rightarrow> grpc_status + object_name" where
  "parse_execution_name s =
     (case object_name_plain s of
        Inl (Invalid e) \<Rightarrow> Inl (grpc CodeInvalidArgument (''invalid execution name: '' @ e))
      | Inr n \<Rightarrow> Inr n)"

definition parse_kind :: "string \<Rightarrow> grpc_status + object_kind" where
  "parse_kind s =
     (case kind_parse s of
        None \<Rightarrow> Inl (grpc CodeInvalidArgument (''unknown object kind: '' @ debug_str s))
      | Some k \<Rightarrow> Inr k)"

definition parse_name :: "string \<Rightarrow> grpc_status + object_name" where
  "parse_name s =
     (case from_parsed s of
        Inl (Invalid e) \<Rightarrow> Inl (grpc CodeInvalidArgument (''invalid name: '' @ e))
      | Inr n \<Rightarrow> Inr n)"

definition parse_task_name :: "string \<Rightarrow> string \<Rightarrow> grpc_status + object_name" where
  "parse_task_name s what =
     (case from_parsed s of
        Inl (Invalid e) \<Rightarrow> Inl (grpc CodeInvalidArgument (what @ '': '' @ e))
      | Inr n \<Rightarrow> Inr n)"

subsection \<open>Workflow service\<close>

record create_flow_request =
  cf_name :: string
  cf_definition :: bytes

definition rpc_create_flow :: "wire_env \<Rightarrow> await \<Rightarrow> request_id \<Rightarrow> create_flow_request \<Rightarrow> wire_ref rpc" where
  "rpc_create_flow W aw rid req =
     bnd (checked (parse_flow_name (cf_name req))) (\<lambda>name.
     if \<not> valid_utf8 (cf_definition req)
     then throw (grpc CodeInvalidArgument ''definition is not UTF-8'')
     else
       bnd (with_status (gateway_create_flow aw rid name (cf_definition req))) (\<lambda>flow.
       ret (proto_ref W (raw_of KFlowVersion flow))))"

record resolve_flow_version_request =
  rf_flow_name :: string
  rf_version :: nat

definition rpc_resolve_flow_version :: "wire_env \<Rightarrow> resolve_flow_version_request \<Rightarrow> wire_ref rpc" where
  "rpc_resolve_flow_version W req =
     bnd (checked (parse_flow_name (rf_flow_name req))) (\<lambda>name.
     bnd (engine_read (\<lambda>nd. resolve_version_id name (rf_version req) (n_db nd))) (\<lambda>flow.
     ret (proto_ref W (raw_of KFlowVersion flow))))"

subsection \<open>Execution service\<close>

datatype wire_target = TargetFlowVersion wire_ref | TargetFlowName string

record start_execution_request =
  se_target :: "wire_target option"
  se_version :: nat
  se_input :: bytes
  se_name :: string

record start_execution_response =
  se_execution_id :: string
  se_echoed_name :: string

definition rpc_start_execution ::
  "wire_env \<Rightarrow> await \<Rightarrow> request_id \<Rightarrow> start_execution_request \<Rightarrow> start_execution_response rpc" where
  "rpc_start_execution W aw rid req =
     bnd (checked (parse_json W ''input'' (se_input req))) (\<lambda>input.
     bnd (case se_target req of
            Some (TargetFlowVersion r) \<Rightarrow> checked (parse_ref W KFlowVersion r)
          | Some (TargetFlowName n) \<Rightarrow>
              bnd (checked (parse_flow_name n)) (\<lambda>name.
              engine_read (\<lambda>nd. resolve_version_id name (se_version req) (n_db nd)))
          | None \<Rightarrow> throw (grpc CodeInvalidArgument
                     ''StartExecution: no target (flow_version or flow_name) set'')) (\<lambda>flow_version.
     bnd (checked (parse_execution_name (se_name req))) (\<lambda>name.
     bnd (with_status (gateway_start_for_revision aw rid name flow_version input)) (\<lambda>r.
     ret \<lparr> se_execution_id = we_ulid_to_string W (o_uid r), se_echoed_name = se_name req \<rparr>))))"

record stop_execution_request =
  so_name :: string
  so_uid :: string

definition rpc_stop_execution :: "wire_env \<Rightarrow> stop_execution_request \<Rightarrow> string rpc" where
  "rpc_stop_execution W req =
     bnd (checked (parse_execution_name (so_name req))) (\<lambda>name.
     bnd (if so_uid req = [] then ret None
          else bnd (checked (parse_ulid W (so_uid req) ''uid'')) (\<lambda>u. ret (Some u))) (\<lambda>uid.
     seq (with_status (engine_call (\<lambda>nd. Inr (engine_cancel_execution name uid nd))))
         (ret (so_name req))))"

subsection \<open>Task service\<close>

record wire_activated_task =
  wa_task_name :: string
  wa_resource :: string
  wa_arguments :: bytes

definition to_wire_task :: "wire_env \<Rightarrow> activated_task \<Rightarrow> wire_activated_task" where
  "to_wire_task W t =
     \<lparr> wa_task_name = as_str (av_task t), wa_resource = av_resource t,
       wa_arguments = to_vec_or_default (we_value W) (av_arguments t) \<rparr>"

record poll_tasks_request =
  pt_worker_id :: string
  pt_resource :: string
  pt_max_tasks :: nat
  pt_lease_seconds :: nat

definition rpc_poll_tasks ::
  "wire_env \<Rightarrow> await \<Rightarrow> request_id \<Rightarrow> timestamp \<Rightarrow> poll_tasks_request \<Rightarrow> wire_activated_task list rpc" where
  "rpc_poll_tasks W aw rid t req =
     bnd (with_status (gateway_poll_tasks aw rid t (pt_worker_id req) (pt_resource req) (pt_max_tasks req)
            (pt_lease_seconds req))) (\<lambda>tasks.
     ret (map (to_wire_task W) tasks))"

record complete_task_request =
  ct_worker_id :: string
  ct_task_name :: string
  ct_output :: bytes
  ct_request_id :: string

definition rpc_complete_task :: "wire_env \<Rightarrow> await \<Rightarrow> complete_task_request \<Rightarrow> unit rpc" where
  "rpc_complete_task W aw req =
     bnd (checked (parse_task_name (ct_task_name req) ''task_name'')) (\<lambda>task.
     bnd (checked (parse_ulid W (ct_request_id req) ''request_id'')) (\<lambda>rid.
     bnd (checked (parse_json W ''output'' (ct_output req))) (\<lambda>output.
     with_status (gateway_complete aw (ct_worker_id req) task rid output))))"

record fail_task_request =
  ft_worker_id :: string
  ft_task_name :: string
  ft_error :: "wire_failure option"

definition rpc_fail_task :: "wire_env \<Rightarrow> fail_task_request \<Rightarrow> unit rpc" where
  "rpc_fail_task W req =
     bnd (checked (parse_task_name (ft_task_name req) ''task_name'')) (\<lambda>task.
     case ft_error req of
       None \<Rightarrow> throw (grpc CodeInvalidArgument ''error is required'')
     | Some failure \<Rightarrow>
         bnd (if wf_output failure = [] then ret JNull
              else checked (parse_json W ''error.output'' (wf_output failure))) (\<lambda>output.
         with_status (gateway_fail (ft_worker_id req) task
           (Runtime (StateFailed [] (wf_error_name failure) output)))))"

subsection \<open>Query service\<close>

definition DEFAULT_LIST_LIMIT :: nat where
  "DEFAULT_LIST_LIMIT = 100"

record get_object_request =
  go_kind :: string
  go_name :: string

definition rpc_get_object :: "wire_env \<Rightarrow> get_object_request \<Rightarrow> wire_object rpc" where
  "rpc_get_object W req =
     bnd (checked (parse_kind (go_kind req))) (\<lambda>kind.
     bnd (checked (parse_name (go_name req))) (\<lambda>name.
     bnd (gets (\<lambda>sv. get_object kind name (n_db (sv_node sv)))) (\<lambda>row.
     case row of
       None \<Rightarrow> throw (grpc CodeNotFound (kind_as_str kind @ '' '' @ as_str name @ '' not found''))
     | Some obj \<Rightarrow> gets (\<lambda>sv. to_proto_object W (sv_node sv) obj))))"

record list_objects_request =
  lo_kind :: string
  lo_limit :: nat
  lo_continue_token :: string

record list_objects_response =
  lo_objects :: "wire_object list"
  lo_next_token :: string

definition rpc_list_objects ::
  "wire_env \<Rightarrow> (object_kind \<Rightarrow> object_name list) \<Rightarrow> list_objects_request \<Rightarrow> list_objects_response rpc" where
  "rpc_list_objects W keys req =
     bnd (checked (parse_kind (lo_kind req))) (\<lambda>kind.
     let limit = (if lo_limit req = 0 then DEFAULT_LIST_LIMIT else lo_limit req);
         token = (if lo_continue_token req = [] then None else Some (lo_continue_token req))
     in
     bnd (engine_read (engine_list_objects keys kind limit token)) (\<lambda>page.
     bnd (gets sv_node) (\<lambda>nd.
     ret \<lparr> lo_objects = map (to_proto_object W nd) (ql_objects page),
           lo_next_token = (case ql_continue_token page of Some t \<Rightarrow> t | None \<Rightarrow> []) \<rparr>)))"

end
