(* ===== verification/Client.thy ===== *)
theory Client
  imports Server
begin

text \<open>
  The client library (\<open>src/crates/client/src/lib.rs\<close>), the task worker and its transport
  (\<open>src/crates/client/src/worker/\<close>) and the commands of the command line (\<open>src/crates/cli/src/\<close>).

  The transport is an argument: \<open>transport\<close> holds one call per RPC, over the state \<open>'s\<close> of whatever is
  at the other end. A message field of proto3 may be absent, hence the options in the responses.
  \<open>server_transport\<close> is the transport that hands every request to the server of theory \<open>Server\<close>. The
  futures a worker spawns for its claims are returned as a list of jobs; a run takes them in any order.
\<close>

section \<open>References\<close>

definition ref_to_string :: "wire_ref \<Rightarrow> string" where
  "ref_to_string r = wr_kind r @ ''/'' @ wr_name r @ ''/'' @ wr_uid r"

definition ref_from_str :: "string \<Rightarrow> string + wire_ref" where
  "ref_from_str s =
     (case split_once CHR ''/'' s of
        None \<Rightarrow> Inl (if s = [] then ''missing kind'' else ''missing name'')
      | Some (kind, rest) \<Rightarrow>
          if kind = [] then Inl ''missing kind''
          else case split_once CHR ''/'' rest of
            None \<Rightarrow> Inl (if rest = [] then ''missing name'' else ''missing uid'')
          | Some (name, uid) \<Rightarrow>
              if name = [] then Inl ''missing name''
              else if uid = [] then Inl ''missing uid''
              else Inr \<lparr> wr_kind = kind, wr_name = name, wr_uid = uid \<rparr>)"

section \<open>The client\<close>

record 's transport =
  tp_create_flow :: "create_flow_request \<Rightarrow> ('s, grpc_status, wire_ref option) proc"
  tp_resolve_flow_version :: "resolve_flow_version_request \<Rightarrow> ('s, grpc_status, wire_ref option) proc"
  tp_start_execution :: "start_execution_request \<Rightarrow> ('s, grpc_status, start_execution_response) proc"
  tp_stop_execution :: "stop_execution_request \<Rightarrow> ('s, grpc_status, string) proc"
  tp_poll_tasks :: "poll_tasks_request \<Rightarrow> ('s, grpc_status, wire_activated_task list) proc"
  tp_complete_task :: "complete_task_request \<Rightarrow> ('s, grpc_status, unit) proc"
  tp_fail_task :: "fail_task_request \<Rightarrow> ('s, grpc_status, unit) proc"
  tp_get_object :: "get_object_request \<Rightarrow> ('s, grpc_status, wire_object option option) proc"
  tp_list_objects :: "list_objects_request \<Rightarrow> ('s, grpc_status, wire_object option list \<times> string) proc"

definition mapr :: "('a \<Rightarrow> 'b) \<Rightarrow> ('s, 'e, 'a) proc \<Rightarrow> ('s, 'e, 'b) proc" where
  "mapr f m = bnd m (\<lambda>v. ret (f v))"

definition server_transport ::
  "wire_env \<Rightarrow> await \<Rightarrow> request_id \<Rightarrow> timestamp \<Rightarrow> (object_kind \<Rightarrow> object_name list) \<Rightarrow> server transport" where
  "server_transport W aw rid t keys =
     \<lparr> tp_create_flow = (\<lambda>req. mapr Some (rpc_create_flow W aw rid req)),
       tp_resolve_flow_version = (\<lambda>req. mapr Some (rpc_resolve_flow_version W req)),
       tp_start_execution = rpc_start_execution W aw rid,
       tp_stop_execution = rpc_stop_execution W,
       tp_poll_tasks = rpc_poll_tasks W aw rid t,
       tp_complete_task = rpc_complete_task W aw,
       tp_fail_task = rpc_fail_task W,
       tp_get_object = (\<lambda>req. mapr (\<lambda>o'. Some (Some o')) (rpc_get_object W req)),
       tp_list_objects = (\<lambda>req. mapr (\<lambda>r. (map Some (lo_objects r), lo_next_token r)) (rpc_list_objects W keys req)) \<rparr>"

text \<open>The address that \<open>Client::connect\<close> dials.\<close>

fun contains_str :: "string \<Rightarrow> string \<Rightarrow> bool" where
  "contains_str p [] = (p = [])"
| "contains_str p (c # s) = (starts_with p (c # s) \<or> contains_str p s)"

definition endpoint :: "string \<Rightarrow> string" where
  "endpoint address = (if contains_str ''://'' address then address else ''http://'' @ address)"

text \<open>\<open>ok_or_else\<close> on a field that the response lacks.\<close>

definition require :: "string \<Rightarrow> 'a option \<Rightarrow> ('s, grpc_status, 'a) proc" where
  "require msg v = (case v of None \<Rightarrow> throw (grpc CodeInternal msg) | Some x \<Rightarrow> ret x)"

definition client_create_flow :: "'s transport \<Rightarrow> string \<Rightarrow> bytes \<Rightarrow> ('s, grpc_status, wire_ref) proc" where
  "client_create_flow T name def =
     bnd (tp_create_flow T \<lparr> cf_name = name, cf_definition = def \<rparr>)
       (require ''CreateFlow response missing flow_version'')"

definition client_resolve_flow_version :: "'s transport \<Rightarrow> string \<Rightarrow> nat \<Rightarrow> ('s, grpc_status, wire_ref) proc" where
  "client_resolve_flow_version T name version =
     bnd (tp_resolve_flow_version T \<lparr> rf_flow_name = name, rf_version = version \<rparr>)
       (require ''ResolveFlowVersion response missing flow_version'')"

datatype client_target = ByVersion wire_ref | ByName string nat

definition client_start_execution ::
  "'s transport \<Rightarrow> client_target \<Rightarrow> bytes \<Rightarrow> string \<Rightarrow> ('s, grpc_status, string) proc" where
  "client_start_execution T target input name =
     (let (wire, version) = (case target of
            ByVersion r \<Rightarrow> (TargetFlowVersion r, 0)
          | ByName n v \<Rightarrow> (TargetFlowName n, v))
      in mapr se_echoed_name (tp_start_execution T
           \<lparr> se_target = Some wire, se_version = version, se_input = input, se_name = name \<rparr>))"

definition client_stop_execution :: "'s transport \<Rightarrow> string \<Rightarrow> string option \<Rightarrow> ('s, grpc_status, string) proc" where
  "client_stop_execution T name uid =
     tp_stop_execution T \<lparr> so_name = name, so_uid = (case uid of Some u \<Rightarrow> u | None \<Rightarrow> []) \<rparr>"

definition client_get_object :: "'s transport \<Rightarrow> string \<Rightarrow> string \<Rightarrow> ('s, grpc_status, wire_object option) proc" where
  "client_get_object T kind name =
     bnd (tp_get_object T \<lparr> go_kind = kind, go_name = name \<rparr>) (require ''GetObject response missing object'')"

definition client_list_objects ::
  "'s transport \<Rightarrow> string \<Rightarrow> nat \<Rightarrow> string \<Rightarrow> ('s, grpc_status, wire_object option list \<times> string) proc" where
  "client_list_objects T kind limit token =
     tp_list_objects T \<lparr> lo_kind = kind, lo_limit = limit, lo_continue_token = token \<rparr>"

datatype execution_state = ExActive | ExCompleted | ExTerminated

record execution_snapshot =
  sn_state :: execution_state
  sn_output :: bytes
  sn_error_name :: string
  sn_error_output :: bytes

definition interpret_execution :: "wire_execution \<Rightarrow> execution_snapshot" where
  "interpret_execution e =
     (let (name, out) = (case wex_reason e of
            Some r \<Rightarrow> (case wt_failed r of Some f \<Rightarrow> (wf_error_name f, wf_output f) | None \<Rightarrow> ([], []))
          | None \<Rightarrow> ([], []))
      in \<lparr> sn_state = (if wex_status e = 4 then ExCompleted else if wex_status e = 5 then ExTerminated else ExActive),
           sn_output = wex_output e, sn_error_name = name, sn_error_output = out \<rparr>)"

definition client_get_execution :: "'s transport \<Rightarrow> string \<Rightarrow> ('s, grpc_status, execution_snapshot) proc" where
  "client_get_execution T name =
     bnd (client_get_object T ''execution'' name) (\<lambda>obj.
     case obj of
       Some (WExecution e) \<Rightarrow> ret (interpret_execution e)
     | Some _ \<Rightarrow> throw (grpc CodeInternal ''GetObject kind=execution returned a non-execution'')
     | None \<Rightarrow> throw (grpc CodeInternal ''GetObject returned an empty object''))"

definition client_poll_tasks ::
  "'s transport \<Rightarrow> string \<Rightarrow> string \<Rightarrow> nat \<Rightarrow> nat \<Rightarrow> ('s, grpc_status, wire_activated_task list) proc" where
  "client_poll_tasks T worker resource max_tasks lease =
     tp_poll_tasks T \<lparr> pt_worker_id = worker, pt_resource = resource, pt_max_tasks = max_tasks, pt_lease_seconds = lease \<rparr>"

definition client_complete_task ::
  "'s transport \<Rightarrow> string \<Rightarrow> string \<Rightarrow> string \<Rightarrow> bytes \<Rightarrow> ('s, grpc_status, unit) proc" where
  "client_complete_task T worker task rid output =
     tp_complete_task T \<lparr> ct_worker_id = worker, ct_task_name = task, ct_output = output, ct_request_id = rid \<rparr>"

definition client_fail_task :: "'s transport \<Rightarrow> string \<Rightarrow> string \<Rightarrow> wire_failure \<Rightarrow> ('s, grpc_status, unit) proc" where
  "client_fail_task T worker task failure =
     tp_fail_task T \<lparr> ft_worker_id = worker, ft_task_name = task, ft_error = Some failure \<rparr>"

section \<open>The worker\<close>

record task_failure =
  tf_error_name :: string
  tf_output :: json

record claimed_task =
  cd_task_name :: string
  cd_resource :: string
  cd_arguments :: json

text \<open>A \<open>TaskApiError\<close> is its text.\<close>

record 's task_api =
  ta_poll_tasks :: "string \<Rightarrow> string \<Rightarrow> nat \<Rightarrow> nat \<Rightarrow> ('s, string, claimed_task list) proc"
  ta_complete :: "string \<Rightarrow> string \<Rightarrow> string \<Rightarrow> json \<Rightarrow> ('s, string, unit) proc"
  ta_fail :: "string \<Rightarrow> string \<Rightarrow> task_failure \<Rightarrow> ('s, string, unit) proc"

definition to_rpc_error :: "string \<Rightarrow> ('s, grpc_status, 'a) proc \<Rightarrow> ('s, string, 'a) proc" where
  "to_rpc_error op m s =
     (case m s of
        (Done v, s') \<Rightarrow> (Done v, s')
      | (Err st, s') \<Rightarrow> (Err (op @ '' gRPC call failed: '' @ gs_message st), s')
      | (Panicked w, s') \<Rightarrow> (Panicked w, s'))"

definition from_wire_task :: "wire_env \<Rightarrow> wire_activated_task \<Rightarrow> ('s, string, claimed_task) proc" where
  "from_wire_task W t =
     (case from_slice (we_value W) (wa_arguments t) of
        Inl e \<Rightarrow> throw (''server returned invalid arguments JSON: '' @ e)
      | Inr v \<Rightarrow> ret \<lparr> cd_task_name = wa_task_name t, cd_resource = wa_resource t, cd_arguments = v \<rparr>)"

text \<open>\<open>GrpcTaskApi\<close>; the batch size is cut to 32 bits.\<close>

definition grpc_task_api :: "wire_env \<Rightarrow> 's transport \<Rightarrow> 's task_api" where
  "grpc_task_api W T =
     \<lparr> ta_poll_tasks = (\<lambda>worker resource max_tasks lease.
         bnd (to_rpc_error ''PollTasks'' (client_poll_tasks T worker resource (max_tasks mod 2 ^ 32) lease))
           (mapp (from_wire_task W))),
       ta_complete = (\<lambda>worker task rid out.
         to_rpc_error ''CompleteTask'' (client_complete_task T worker task rid (to_vec_or_default (we_value W) out))),
       ta_fail = (\<lambda>worker task err.
         to_rpc_error ''FailTask'' (client_fail_task T worker task
           \<lparr> wf_error_name = tf_error_name err, wf_output = to_vec_or_default (we_value W) (tf_output err) \<rparr>)) \<rparr>"

text \<open>A registered handler is a function of the resource and the arguments.\<close>

type_synonym task_handler = "string \<Rightarrow> json \<Rightarrow> task_failure + json"

record task_service =
  ts_handlers :: "(string \<times> task_handler) list"
  ts_name :: string
  ts_max_tasks :: nat
  ts_lease_seconds :: nat
  ts_poll_interval :: nat

definition MAX_TASKS :: nat where
  "MAX_TASKS = 10"

definition LEASE_SECONDS :: nat where
  "LEASE_SECONDS = 60"

text \<open>In milliseconds.\<close>

definition POLL_INTERVAL :: nat where
  "POLL_INTERVAL = 10"

definition worker_builder :: task_service where
  "worker_builder =
     \<lparr> ts_handlers = [], ts_name = ''spica-worker'', ts_max_tasks = MAX_TASKS,
       ts_lease_seconds = LEASE_SECONDS, ts_poll_interval = POLL_INTERVAL \<rparr>"

definition worker_resource :: "string \<Rightarrow> task_handler \<Rightarrow> task_service \<Rightarrow> task_service" where
  "worker_resource resource h w = w \<lparr> ts_handlers := AList.update resource h (ts_handlers w) \<rparr>"

definition spawn_named :: "string \<Rightarrow> (string \<times> task_handler) list \<Rightarrow> task_service" where
  "spawn_named name handlers =
     \<lparr> ts_handlers = handlers, ts_name = name, ts_max_tasks = MAX_TASKS,
       ts_lease_seconds = LEASE_SECONDS, ts_poll_interval = POLL_INTERVAL \<rparr>"

text \<open>What a spawned future does with one claim: the handler, then one report. A failed report is only
  logged. The request id of the report is freshly minted.\<close>

definition run_handler :: "task_service \<Rightarrow> claimed_task \<Rightarrow> task_failure + json" where
  "run_handler w t =
     (case map_of (ts_handlers w) (cd_resource t) of
        Some h \<Rightarrow> h (cd_resource t) (cd_arguments t)
      | None \<Rightarrow> Inl \<lparr> tf_error_name = ''States.Runtime'', tf_output = JNull \<rparr>)"

definition worker_job ::
  "'s task_api \<Rightarrow> task_service \<Rightarrow> string \<Rightarrow> string \<Rightarrow> claimed_task \<Rightarrow> ('s, string, unit) proc" where
  "worker_job api w worker_id rid t =
     handle
       (case run_handler w t of
          Inr output \<Rightarrow> ta_complete api worker_id (cd_task_name t) rid output
        | Inl failure \<Rightarrow> ta_fail api worker_id (cd_task_name t) failure)
       (\<lambda>_. ret ())"

text \<open>One round over the served resources: the jobs it spawns, in order. A failed poll is only logged.\<close>

definition worker_poll ::
  "'s task_api \<Rightarrow> task_service \<Rightarrow> string \<Rightarrow> string list \<Rightarrow> ('s, string, claimed_task list) proc" where
  "worker_poll api w worker_id resources =
     mapr concat (mapp (\<lambda>resource.
       handle (ta_poll_tasks api worker_id resource (ts_max_tasks w) (ts_lease_seconds w)) (\<lambda>_. ret []))
       resources)"

text \<open>A round of \<open>run\<close> whose jobs settle, with the request ids they mint, before the next one.\<close>

definition worker_round ::
  "'s task_api \<Rightarrow> task_service \<Rightarrow> string \<Rightarrow> (claimed_task list \<Rightarrow> (string \<times> claimed_task) list) \<Rightarrow> ('s, string, unit) proc" where
  "worker_round api w worker_id order =
     bnd (worker_poll api w worker_id (map fst (ts_handlers w))) (\<lambda>jobs.
     each (\<lambda>(rid, t). worker_job api w worker_id rid t) (order jobs))"

section \<open>The command line\<close>

definition validate_flow_name :: "string \<Rightarrow> bool" where
  "validate_flow_name name \<longleftrightarrow>
     name \<noteq> [] \<and> length name \<le> 64 \<and> list_all (\<lambda>b. is_alnum b \<or> b = CHR ''_'') name"

datatype cli_error =
    CliBadReference string
  | CliBadFlowName string
  | CliStatus grpc_status
  | CliNoProjection string
  | CliBadOutput string
  | CliTerminated string bytes

definition cli_call :: "('s, grpc_status, 'a) proc \<Rightarrow> ('s, cli_error, 'a) proc" where
  "cli_call m s =
     (case m s of
        (Done v, s') \<Rightarrow> (Done v, s')
      | (Err st, s') \<Rightarrow> (Err (CliStatus st), s')
      | (Panicked w, s') \<Rightarrow> (Panicked w, s'))"

definition cli_flows_create :: "'s transport \<Rightarrow> string \<Rightarrow> bytes \<Rightarrow> ('s, cli_error, string) proc" where
  "cli_flows_create T name def =
     (if \<not> validate_flow_name name then throw (CliBadFlowName name)
      else mapr ref_to_string (cli_call (client_create_flow T name def)))"

definition cli_flows_get :: "'s transport \<Rightarrow> string \<Rightarrow> nat \<Rightarrow> ('s, cli_error, string) proc" where
  "cli_flows_get T name version =
     (if \<not> validate_flow_name name then throw (CliBadFlowName name)
      else mapr ref_to_string (cli_call (client_resolve_flow_version T name version)))"

text \<open>\<open>executions start\<close>: exactly one of the two ways to name a revision is given.\<close>

datatype cli_target = CliFlowVersion string | CliFlowName string nat

definition cli_start :: "'s transport \<Rightarrow> cli_target \<Rightarrow> string \<Rightarrow> bytes option \<Rightarrow> ('s, cli_error, string) proc" where
  "cli_start T target name input =
     bnd (case target of
            CliFlowVersion s \<Rightarrow>
              (case ref_from_str s of Inl e \<Rightarrow> throw (CliBadReference e) | Inr r \<Rightarrow> ret (ByVersion r))
          | CliFlowName n v \<Rightarrow>
              if validate_flow_name n then ret (ByName n v) else throw (CliBadFlowName n)) (\<lambda>target.
     cli_call (client_start_execution T target (case input of Some b \<Rightarrow> b | None \<Rightarrow> ''null'') name))"

definition cli_stop :: "'s transport \<Rightarrow> string \<Rightarrow> string option \<Rightarrow> ('s, cli_error, string) proc" where
  "cli_stop T name uid =
     mapr (\<lambda>n. ''termination requested for execution '' @ n) (cli_call (client_stop_execution T name uid))"

text \<open>\<open>executions get\<close>: the label, the output of a completed execution, the error of a terminated one.\<close>

fun state_label :: "execution_state \<Rightarrow> string" where
  "state_label ExCompleted = ''COMPLETED''"
| "state_label ExTerminated = ''TERMINATED''"
| "state_label ExActive = ''ACTIVE''"

definition cli_get ::
  "wire_env \<Rightarrow> 's transport \<Rightarrow> string \<Rightarrow> ('s, cli_error, string \<times> json option \<times> (string \<times> bytes) option) proc" where
  "cli_get W T name =
     bnd (cli_call (client_get_execution T name)) (\<lambda>snap.
     case sn_state snap of
       ExCompleted \<Rightarrow>
         (case from_slice (we_value W) (sn_output snap) of
            Inl e \<Rightarrow> throw (CliBadOutput e)
          | Inr v \<Rightarrow> ret (state_label (sn_state snap), Some v, None))
     | ExTerminated \<Rightarrow> ret (state_label (sn_state snap), None, Some (sn_error_name snap, sn_error_output snap))
     | ExActive \<Rightarrow> ret (state_label (sn_state snap), None, None))"

text \<open>One turn of \<open>executions wait\<close>: the output, an error, or another turn (\<open>None\<close>).\<close>

definition cli_wait_turn :: "wire_env \<Rightarrow> 's transport \<Rightarrow> string \<Rightarrow> ('s, cli_error, json option) proc" where
  "cli_wait_turn W T name s =
     (case client_get_execution T name s of
        (Err st, s') \<Rightarrow>
          (Err (if gs_code st = CodeNotFound then CliNoProjection name else CliStatus st), s')
      | (Panicked w, s') \<Rightarrow> (Panicked w, s')
      | (Done snap, s') \<Rightarrow>
          ((case sn_state snap of
              ExCompleted \<Rightarrow>
                (case from_slice (we_value W) (sn_output snap) of
                   Inl e \<Rightarrow> Err (CliBadOutput e)
                 | Inr v \<Rightarrow> Done (Some v))
            | ExTerminated \<Rightarrow> Err (CliTerminated (sn_error_name snap) (sn_error_output snap))
            | ExActive \<Rightarrow> Done None), s'))"

text \<open>The loop, with what happens during the sleep as an argument. \<open>None\<close>: still waiting when the fuel
  ends.\<close>

fun cli_wait :: "nat \<Rightarrow> ('s \<Rightarrow> 's) \<Rightarrow> wire_env \<Rightarrow> 's transport \<Rightarrow> string \<Rightarrow> 's \<Rightarrow> ((cli_error, json) outcome \<times> 's) option" where
  "cli_wait 0 sleep W T name s = None"
| "cli_wait (Suc fuel) sleep W T name s =
     (case cli_wait_turn W T name s of
        (Done None, s') \<Rightarrow> cli_wait fuel sleep W T name (sleep s')
      | (Done (Some v), s') \<Rightarrow> Some (Done v, s')
      | (Err e, s') \<Rightarrow> Some (Err e, s')
      | (Panicked w, s') \<Rightarrow> Some (Panicked w, s'))"

end
