(* ===== verification/Answers.thy ===== *)
theory Answers
  imports Client Lifecycle
begin

text \<open>
  What a waiting caller is told. Each command a caller waits for emits exactly one event that resolves
  the caller's request, or refuses it; the hook turns that into one message on the caller's channel.
\<close>

section \<open>What a command answers\<close>

fun awaited :: "command \<Rightarrow> (request_id \<times> ack_target) option" where
  "awaited (CreateFlow r _ _) = Some (r, AckFlowVersionCreated)"
| "awaited (CreateExecution r _ _ _) = Some (r, AckExecutionCreated)"
| "awaited (ClaimTasks p) = Some (cl_request_id p, AckGrant)"
| "awaited (CompleteTask r _ _ _) = Some (r, AckTaskCompleted)"
| "awaited _ = None"

definition acks :: "event list \<Rightarrow> event list" where
  "acks = filter (\<lambda>ev. ack_resolves ev \<noteq> None)"

definition refuses :: "request_id \<Rightarrow> reject list \<Rightarrow> bool" where
  "refuses rid rjs \<longleftrightarrow> (\<exists>rj\<in>set rjs. rj_request_id rj = rid)"

definition acked :: "event list \<Rightarrow> pstate \<Rightarrow> bool" where
  "acked k s \<longleftrightarrow> acks (events_of (p_entries s)) = k"

lemma acks_append [simp]: "acks (evs @ evs') = acks evs @ acks evs'"
  by (simp add: acks_def)

lemma events_of_simps [simp]:
  "events_of [] = []" "events_of (es @ es') = events_of es @ events_of es'"
  "events_of [e] = (case event_of (en_payload e) of Some ev \<Rightarrow> [ev] | None \<Rightarrow> [])"
  by (simp_all add: events_of_def List.map_filter_def split: option.split)

lemma rejects_of_simps [simp]:
  "rejects_of [] = []" "rejects_of (es @ es') = rejects_of es @ rejects_of es'"
  "rejects_of [e] = (case reject_of (en_payload e) of Some r \<Rightarrow> [r] | None \<Rightarrow> [])"
  by (simp_all add: rejects_of_def List.map_filter_def split: option.split)

lemma acked_pushed [simp]:
  "acked k (pushed (PCommand c) s) = acked k s" "acked k (pushed (PReject rj) s) = acked k s"
  "acked k (s \<lparr> p_ticks := i \<rparr>) = acked k s" "acked k (s \<lparr> p_mints := i \<rparr>) = acked k s"
  "acked k (s \<lparr> p_work := w \<rparr>) = acked k s" "acked k (s \<lparr> p_definitions := d \<rparr>) = acked k s"
  by (simp_all add: acked_def pushed_def built_def)

lemma acked_event:
  "acked k s \<Longrightarrow> acked (k @ acks [ev]) ((pushed (PEvent ev) s) \<lparr> p_work := w \<rparr>)"
  by (simp add: acked_def pushed_def built_def)

lemma acked_steps: "keeps_steps (acked k)"
  by (auto simp: keeps_steps_def)

lemma keeps_silent_event: "ack_resolves ev = None \<Longrightarrow> preserves (acked k) (append_event ev)"
  using acked_event [of k _ ev]
  by (auto intro!: append_event_preserves [OF acked_steps] keeps_projectionI simp: acks_def)

interpretation quiet: element_invariant "acked k" for k
proof -
  have "preserves (acked k) (append_event ev)" if "group_of ev = StateGroup \<or> group_of ev = ThreadGroup" for ev
    using that by (cases ev) (auto intro: keeps_silent_event)
  then show "element_invariant (acked k)"
    using context_invariantI [OF acked_steps, of k]
    by (simp add: element_invariant_def element_invariant_axioms_def state_invariant_def state_invariant_axioms_def)
qed

lemma post_quiet:
  assumes "preserves (acked k) m" "acked k s" "\<And>x s'. acked k s' \<Longrightarrow> post (f x) Q s'"
  shows "post (bnd m f) Q s"
  using post_mono [OF post_preserves [OF assms(1,2)] assms(3)] by simp

lemma post_event:
  assumes "acked k s" "\<And>s'. acked (k @ acks [ev]) s' \<Longrightarrow> Q () s'"
  shows "post (append_event ev) Q s"
  using assms acked_event [OF assms(1), of ev]
  by (auto simp: post_def run_append_event split: option.split)

lemma post_seq_event:
  assumes "acked k s" "\<And>s'. acked (k @ acks [ev]) s' \<Longrightarrow> post m Q s'"
  shows "post (seq (append_event ev) m) Q s"
  using post_event [OF assms] by simp

declare post_bnd [simp del] post_seq [simp del]

text \<open>The event that answers a command, and what it says.\<close>

definition fulfils :: "command \<Rightarrow> event \<Rightarrow> bool" where
  "fulfils c ev =
     (case c of
        CreateFlow r n def \<Rightarrow>
          (case ev of FlowVersionCreated r' v \<Rightarrow>
             r' = r \<and> fv_definition v = def \<and> m_name (fv_meta v) = version_name n 1 | _ \<Rightarrow> False)
      | CreateExecution r n fv input \<Rightarrow>
          (case ev of ExecutionCreated r' e \<Rightarrow>
             r' = r \<and> m_name (ex_meta e) = n \<and> ex_flow_version e = fv \<and> ex_input e = input \<and> ex_status e = Running
           | _ \<Rightarrow> False)
      | ClaimTasks p \<Rightarrow>
          (case ev of TasksClaimed r' ks \<Rightarrow>
             r' = cl_request_id p \<and> length ks \<le> cl_max_tasks p
             \<and> (\<forall>k\<in>set ks. tk_resource k = cl_resource p \<and> tk_worker_id k = Some (cl_worker_id p) \<and> tk_status k = TRunning)
           | _ \<Rightarrow> False)
      | CompleteTask r k w output \<Rightarrow>
          (case ev of TaskCompleted r' t output' \<Rightarrow> r' = r \<and> output' = output \<and> tk_status t = TCompleted | _ \<Rightarrow> False)
      | _ \<Rightarrow> False)"

lemma fulfils_simps [simp]:
  "fulfils (CreateFlow r n def) (FlowVersionCreated r' v) \<longleftrightarrow>
     r' = r \<and> fv_definition v = def \<and> m_name (fv_meta v) = version_name n 1"
  "fulfils (CreateExecution r m fv input) (ExecutionCreated r' e) \<longleftrightarrow>
     r' = r \<and> m_name (ex_meta e) = m \<and> ex_flow_version e = fv \<and> ex_input e = input \<and> ex_status e = Running"
  "fulfils (ClaimTasks p) (TasksClaimed r' ks) \<longleftrightarrow>
     r' = cl_request_id p \<and> length ks \<le> cl_max_tasks p
     \<and> (\<forall>k\<in>set ks. tk_resource k = cl_resource p \<and> tk_worker_id k = Some (cl_worker_id p) \<and> tk_status k = TRunning)"
  "fulfils (CompleteTask r k w output) (TaskCompleted r' t output') \<longleftrightarrow> r' = r \<and> output' = output \<and> tk_status t = TCompleted"
  by (simp_all add: fulfils_def)

lemma fulfils_iff:
  "fulfils (CreateFlow r n def) ev \<longleftrightarrow>
     (\<exists>v. ev = FlowVersionCreated r v \<and> fv_definition v = def \<and> m_name (fv_meta v) = version_name n 1)"
  "fulfils (CreateExecution r m fv input) ev \<longleftrightarrow> (\<exists>e. ev = ExecutionCreated r e \<and> m_name (ex_meta e) = m
     \<and> ex_flow_version e = fv \<and> ex_input e = input \<and> ex_status e = Running)"
  "fulfils (CompleteTask r k w output) ev \<longleftrightarrow> (\<exists>t. ev = TaskCompleted r t output \<and> tk_status t = TCompleted)"
  by (cases ev; auto simp: fulfils_def)+

lemma fulfils_resolves: "fulfils c ev \<Longrightarrow> ack_resolves ev = awaited c"
  by (auto simp: fulfils_def split: command.splits event.splits)

definition settled :: "command \<Rightarrow> request_id \<Rightarrow> pstate \<Rightarrow> bool" where
  "settled c rid s \<longleftrightarrow> (\<exists>ev. acked [ev] s \<and> fulfils c ev) \<or> acked [] s \<and> refuses rid (rejects_of (p_entries s))"

lemma settledI: "acked [ev] s \<Longrightarrow> fulfils c ev \<Longrightarrow> settled c rid s"
  by (auto simp: settled_def)

lemma post_reject [simp]: "post (reject ty why) Q s"
  by (simp add: reject_def)

lemma post_refused:
  assumes "acked [] s"
  shows "post (append_reject rid ty why) (\<lambda>_. settled c rid) s"
proof -
  let ?s = "pushed (PReject \<lparr> rj_request_id = rid, rj_type = ty, rj_reason = why \<rparr>) s"
  have "refuses rid (rejects_of (p_entries ?s))" by (simp add: refuses_def pushed_def built_def)
  then show ?thesis using assms by (simp add: post_def run_append_reject settled_def)
qed

lemma flow_create_settles:
  assumes "acked [] s"
  shows "post (flow_create rid n def) (\<lambda>_. settled (CreateFlow rid n def) rid) s"
proof -
  have v: "fulfils (CreateFlow rid n def) (FlowVersionCreated rid v)"
    if "flow_version_new crc u (ORef oname fu) (Suc 0) def t = Some v" "object_name_plain (plain_as_str n) = Inr oname" for crc u oname fu t v
    using that by (cases n) (auto simp: flow_version_new_def object_name_plain_def plain_new_def build_meta_def
        split: option.splits sum.splits if_splits)
  show ?thesis
    unfolding flow_create_def
    by (intro post_quiet [OF _ assms] quiet.keeps_ask)
       (auto intro!: post_quiet [where k = "[]"] post_seq_event [where k = "[]"] post_event [where k = "[]"] post_refused
          quiet.keeps_mint quiet.keeps_now quiet.keeps_read_flow_by_name settledI simp: acks_def split: option.split sum.split, auto dest: v)
qed

lemma execution_create_settles:
  assumes "acked [] s"
  shows "post (execution_create rid n fv input) (\<lambda>_. settled (CreateExecution rid n fv input) rid) s"
proof -
  have rest: "post (bnd mint (\<lambda>root_uid. bnd next_generated_seq (\<lambda>i. f root_uid i))) (\<lambda>_. settled c rid) s'"
    if "acked [ev] s'" "\<And>u i. preserves (acked [ev]) (f u i)" "fulfils c ev" for f :: "ulid \<Rightarrow> nat \<Rightarrow> unit handler" and s' ev c
    using that by (auto intro!: post_quiet [where k = "[ev]"] quiet.keeps_mint
        quiet.keeps_next_generated_seq intro: post_mono [OF post_preserves] settledI)
  have made: "fulfils (CreateExecution rid n fv input) (ExecutionCreated rid \<lparr> ex_meta = build_meta uid n t (),
      ex_flow_version = fv, ex_status = Running, ex_deadline = dl, ex_input = input, ex_output = None \<rparr>)" for uid t dl
    by (simp add: build_meta_def)
  show ?thesis
    unfolding execution_create_def Let_def
    by (intro post_quiet [OF _ assms] quiet.keeps_read_execution)
       (auto intro!: post_quiet [where k = "[]"] post_seq_event [where k = "[]"] rest [OF _ _ made] quiet.keeps_mint quiet.keeps_now
          quiet.keeps_machine quiet.keeps_execution_deadline pres quiet.keeps_element_event quiet.keeps_append_command
          simp: acks_def split: option.split sum.split)
qed

lemma task_complete_settles:
  assumes "acked [] s"
  shows "post (task_complete rid k worker out) (\<lambda>_. settled (CompleteTask rid k worker out) rid) s"
proof -
  have "fulfils (CompleteTask rid k worker out) (TaskCompleted rid t' out)" if "task_mark_completed worker now t = Inr t'" for now t t'
    using that by (auto simp: task_mark_completed_def split: if_splits)
  then show ?thesis
    unfolding task_complete_def
    by (intro post_quiet [OF _ assms] quiet.keeps_read_task)
       (auto intro!: post_quiet [where k = "[]"] post_seq_event [where k = "[]"] quiet.keeps_now quiet.keeps_activity_open
          post_mono [OF post_preserves [OF quiet.keeps_activity_after_child_completed]] settledI
          simp: acks_def split: option.split sum.split)
qed

lemma picked_resource: "k \<in> set (activatable_tasks order t resource tm limit) \<Longrightarrow> tk_resource k = resource"
  by (auto simp: activatable_tasks_def pick_activatable_def dest: in_set_takeD)

lemma task_claim_all_settles:
  assumes "acked [] s"
  shows "post (task_claim_all p) (\<lambda>_. settled (ClaimTasks p) (cl_request_id p)) s"
proof -
  have "length (activatable_tasks order t resource now limit) \<le> limit" for order t resource now limit
    by (simp add: activatable_tasks_def pick_activatable_def)
  then show ?thesis
    unfolding task_claim_all_def read_activatable_tasks_def
    by (intro post_quiet [OF _ assms] quiet.keeps_now)
       (auto intro!: post_event [where k = "[]"] settledI simp: post_bnd acks_def task_claim_def picked_resource
          split: option.split)
qed

lemma dispatch_settles:
  assumes "awaited c = Some (rid, target)" "dispatch_command c s = (Done (), s')" "p_entries s = []"
  shows "settled c rid s'"
proof -
  have "acked [] s" using assms(3) by (simp add: acked_def acks_def)
  then show ?thesis
    using assms(1,2) postD [OF flow_create_settles] postD [OF execution_create_settles] postD [OF task_complete_settles]
      postD [OF task_claim_all_settles]
    by (cases c) auto
qed

text \<open>No other command emits an event that resolves a request.\<close>

lemma silent_executions:
  "preserves (acked k) (execution_complete ex out)" "preserves (acked k) (execution_terminate n uid reason)"
  "preserves (acked k) (execution_continue_complete ex)" "preserves (acked k) (execution_continue_terminate ex)"
  by (auto simp: execution_complete_def execution_terminate_def execution_continue_complete_def execution_continue_terminate_def
      intro!: pres keeps_silent_event split: handler_splits)

lemma silent_tasks:
  "preserves (acked k) (task_activate p)" "preserves (acked k) (task_fail t w err)" "preserves (acked k) (task_cancel t)"
  by (auto simp: task_activate_def task_fail_def task_cancel_def intro!: pres keeps_silent_event split: handler_splits)

lemma silent_continues:
  "preserves (acked k) (handle_continue_complete owner)" "preserves (acked k) (handle_continue_terminate owner)"
  by (auto simp: handle_continue_complete_def handle_continue_terminate_def intro!: pres silent_executions
      split: handler_splits object_kind.split)

lemma dispatch_silent: "awaited c = None \<Longrightarrow> preserves (acked k) (dispatch_command c)"
  by (cases c) (auto intro: silent_executions silent_tasks silent_continues pres)

section \<open>What the leader tells the hook\<close>

lemma retry_attempts_Err:
  assumes "retry_attempts k once l = (Err e, l')" "I l" "\<forall>l1 e l2. once l1 = (Err e, l2) \<longrightarrow> I l1 \<longrightarrow> I l2"
  shows "I l'"
  using assms
proof (induction k once l rule: retry_attempts.induct)
  case (1 k once l)
  then show ?case
    by (subst (asm) (2) retry_attempts.simps) (auto split: prod.splits outcome.splits if_splits)
qed

lemma process_command_cases [consumes 1, case_names dispatched refused]:
  assumes "process_command i c db l = (Done (es, work), l')"
  obtains l0 s where "dispatch_command c (handler_start i l0 db) = (Done (), s)" "es = p_entries s" "es \<noteq> []"
      "l_last_applied l' = events_of es"
  | e rj where "es = [e]" "en_payload e = PReject rj" "command_request_id c = None \<or> command_request_id c = Some (rj_request_id rj)"
      "l_last_applied l' = l_last_applied l"
proof (cases "\<exists>e l1. retry_attempts 1 (dispatch_once i c db) l = (Err e, l1)")
  case True
  then obtain e l1 where r: "retry_attempts 1 (dispatch_once i c db) l = (Err e, l1)" by blast
  have "l_last_applied l1 = l_last_applied l"
    by (rule retry_attempts_Err [where I = "\<lambda>l1. l_last_applied l1 = l_last_applied l", OF r])
       (auto simp: dispatch_once_def leader_after_def split: prod.splits outcome.splits unit.splits if_splits)
  then have "\<exists>e rj. es = [e] \<and> en_payload e = PReject rj \<and> (command_request_id c = None \<or> command_request_id c = Some (rj_request_id rj))
      \<and> l_last_applied l' = l_last_applied l"
    using assms r by (cases "command_request_id c") (auto simp: process_command_def reject_command_def Let_def split: prod.splits)
  then show ?thesis using that(2) by blast
next
  case False
  then obtain l0 where "dispatch_once i c db l0 = (Done (es, work), l')"
    using assms by (auto simp: process_command_def split: prod.splits outcome.splits dest!: retry_attempts_Done)
  then show ?thesis using that(1)
    by (auto simp: dispatch_once_def split: prod.splits outcome.splits unit.splits if_splits)
qed

lemma process_command_tells:
  assumes "process_command i c db l = (Done (es, work), l')" "awaited c = Some (rid, target)"
  shows "l_last_applied l' = events_of es \<and> (\<exists>ev. acks (events_of es) = [ev] \<and> fulfils c ev)
    \<or> (l_last_applied l' = l_last_applied l \<or> acks (l_last_applied l') = []) \<and> refuses rid (rejects_of es)"
  using assms(1)
proof (cases rule: process_command_cases)
  case (dispatched l0 s)
  have "p_entries (handler_start i l0 db) = []" by (simp add: handler_start_def)
  from dispatch_settles [OF assms(2) dispatched(1) this] show ?thesis
    using dispatched by (auto simp: settled_def acked_def)
next
  case (refused e rj)
  moreover have "command_request_id c = Some rid" using assms(2) by (cases c) auto
  ultimately show ?thesis by (auto simp: refuses_def)
qed

section \<open>What the hook sends\<close>

text \<open>\<open>sends rid outs\<close>: between the two observers exactly the outcomes \<open>outs\<close> went to the caller \<open>rid\<close>.\<close>

definition sends :: "request_id \<Rightarrow> ack_outcome list \<Rightarrow> observer \<Rightarrow> observer \<Rightarrow> bool" where
  "sends rid outs ob ob' \<longleftrightarrow>
     (\<exists>news. ah_sent (ob_ack ob') = ah_sent (ob_ack ob) @ news \<and> map snd (filter (\<lambda>m. fst m = rid) news) = outs)
     \<and> ah_pending (ob_ack ob') rid = (if outs = [] then ah_pending (ob_ack ob) rid else None)"

lemma sends_refl [simp]: "sends rid [] ob ob"
  by (auto simp: sends_def)

lemma sends_append: "sends rid as ob ob' \<Longrightarrow> sends rid bs ob' ob'' \<Longrightarrow> sends rid (as @ bs) ob ob''"
  by (force simp: sends_def)

lemma hook_event_other:
  assumes "\<forall>t. ack_resolves ev \<noteq> Some (rid, t)"
  shows "sends rid [] ob (on_event_applied ev ob)"
  using assms by (auto simp: sends_def on_event_applied_def ack_on_event_applied_def Let_def split: option.split)

lemma hook_event:
  assumes "ack_resolves ev = Some (rid, target)" "ah_pending (ob_ack ob) rid = Some target"
  shows "\<exists>out. ack_outcome_of target ev = Some out \<and> sends rid [out] ob (on_event_applied ev ob)"
proof -
  have "ack_outcome_of target ev \<noteq> None" using assms(1) by (cases ev) (auto simp: ack_outcome_of_def)
  then show ?thesis using assms by (auto simp: sends_def on_event_applied_def ack_on_event_applied_def Let_def)
qed

lemma hook_events_other:
  "\<forall>ev\<in>set evs. \<forall>t. ack_resolves ev \<noteq> Some (rid, t) \<Longrightarrow> sends rid [] ob (fold on_event_applied evs ob)"
proof (induction evs arbitrary: ob)
  case (Cons ev evs)
  then show ?case using sends_append [OF hook_event_other [of ev rid ob] Cons.IH] by simp
qed simp

lemma acks_Nil: "acks evs = [] \<Longrightarrow> \<forall>ev\<in>set evs. \<forall>t. ack_resolves ev \<noteq> Some (rid, t)"
  by (auto simp: acks_def filter_empty_conv)

lemma refuses_Cons: "refuses rid (rj # rjs) \<longleftrightarrow> rj_request_id rj = rid \<or> refuses rid rjs"
  by (auto simp: refuses_def)

lemma hook_rejects:
  "sends rid (if ah_pending (ob_ack ob) rid \<noteq> None \<and> refuses rid rjs
      then [AckRejected (hd (filter (\<lambda>rj. rj_request_id rj = rid) rjs))] else [])
     ob (fold (\<lambda>rj. on_command_rejected (rj_request_id rj) rj) rjs ob)"
proof (induction rjs arbitrary: ob)
  case (Cons rj rjs)
  let ?ob = "on_command_rejected (rj_request_id rj) rj ob"
  show ?case
  proof (cases "rj_request_id rj = rid \<and> ah_pending (ob_ack ob) rid \<noteq> None")
    case True
    then have one: "sends rid [AckRejected rj] ob ?ob"
      by (auto simp: sends_def on_command_rejected_def ack_on_command_rejected_def)
    then have "ah_pending (ob_ack ?ob) rid = None" by (simp add: sends_def)
    then show ?thesis using sends_append [OF one Cons.IH [of ?ob]] True by (simp add: refuses_Cons)
  next
    case False
    then have none: "sends rid [] ob ?ob"
      by (auto simp: sends_def on_command_rejected_def ack_on_command_rejected_def split: option.split)
    then have "ah_pending (ob_ack ?ob) rid = ah_pending (ob_ack ob) rid" by (simp add: sends_def)
    then show ?thesis using sends_append [OF none Cons.IH [of ?ob]] False
      by (cases "rj_request_id rj = rid") (auto simp: refuses_Cons split: if_splits)
  qed
qed (simp add: refuses_def)

text \<open>What a message says of the command it answers, and the log entry behind it.\<close>

fun answered :: "entry list \<Rightarrow> command \<Rightarrow> ack_outcome \<Rightarrow> bool" where
  "answered es c (AckApplied ev) \<longleftrightarrow> ev \<in> set (events_of es) \<and> fulfils c ev \<and> (\<forall>p. c \<noteq> ClaimTasks p)"
| "answered es c (AckGranted ts) \<longleftrightarrow> (\<exists>p ks. c = ClaimTasks p \<and> TasksClaimed (cl_request_id p) ks \<in> set (events_of es)
     \<and> fulfils c (TasksClaimed (cl_request_id p) ks) \<and> ts = granted_from ks)"
| "answered es c (AckRejected rj) \<longleftrightarrow> rj \<in> set (rejects_of es) \<and> command_request_id c = Some (rj_request_id rj)"

lemma outcome_answers:
  assumes "fulfils c ev" "awaited c = Some (rid, target)" "ack_outcome_of target ev = Some out" "ev \<in> set (events_of es)"
  shows "answered es c out"
proof -
  have "(case out of AckApplied ev' \<Rightarrow> ev' = ev \<and> target \<noteq> AckGrant
      | AckGranted ts \<Rightarrow> target = AckGrant \<and> (\<exists>r ks. ev = TasksClaimed r ks \<and> ts = granted_from ks) | AckRejected rj \<Rightarrow> False)"
    using assms(3) by (auto simp: ack_outcome_of_def split: ack_target.splits event.splits)
  then show "answered es c out" using assms by (cases out; cases c) (auto simp: fulfils_def)
qed

lemma tell_hook_answers:
  assumes "ah_pending (ob_ack ob) rid = Some target"
    and "(\<exists>ev. acks evs = [ev] \<and> ack_resolves ev = Some (rid, target))
      \<or> (\<forall>ev\<in>set evs. \<forall>t. ack_resolves ev \<noteq> Some (rid, t)) \<and> refuses rid rjs"
  shows "\<exists>out. sends rid [out] ob (tell_hook evs rjs ob)
    \<and> ((\<exists>ev\<in>set evs. acks evs = [ev] \<and> ack_resolves ev = Some (rid, target) \<and> ack_outcome_of target ev = Some out)
       \<or> (\<exists>rj\<in>set rjs. rj_request_id rj = rid \<and> out = AckRejected rj))"
  using assms(2)
proof
  assume "\<exists>ev. acks evs = [ev] \<and> ack_resolves ev = Some (rid, target)"
  then obtain xs ev ys where evs: "evs = xs @ ev # ys" "acks evs = [ev]" "ack_resolves ev = Some (rid, target)" "acks xs = []" "acks ys = []"
    by (fastforce simp: acks_def filter_eq_Cons_iff filter_empty_conv eq_commute [of "[]"])
  let ?ob1 = "fold on_event_applied xs ob"
  let ?ob2 = "on_event_applied ev ?ob1"
  let ?ob3 = "fold on_event_applied ys ?ob2"
  have s1: "sends rid [] ob ?ob1" by (rule hook_events_other [OF acks_Nil [OF evs(4)]])
  obtain out where out: "ack_outcome_of target ev = Some out" "sends rid [out] ?ob1 ?ob2"
    using hook_event [OF evs(3), of ?ob1] s1 assms(1) by (auto simp: sends_def)
  have s3: "sends rid [] ?ob2 ?ob3" by (rule hook_events_other [OF acks_Nil [OF evs(5)]])
  have s: "sends rid [out] ob ?ob3" using sends_append [OF sends_append [OF s1 out(2)] s3] by simp
  then have "ah_pending (ob_ack ?ob3) rid = None" by (simp add: sends_def)
  then have "sends rid [] ?ob3 (tell_hook evs rjs ob)"
    using hook_rejects [of rid ?ob3 rjs] by (simp add: tell_hook_def evs(1))
  then show ?thesis using sends_append [OF s] out(1) evs(1-3) by auto
next
  assume r: "(\<forall>ev\<in>set evs. \<forall>t. ack_resolves ev \<noteq> Some (rid, t)) \<and> refuses rid rjs"
  let ?ob = "fold on_event_applied evs ob"
  let ?rj = "hd (filter (\<lambda>rj. rj_request_id rj = rid) rjs)"
  have s: "sends rid [] ob ?ob" by (rule hook_events_other) (use r in blast)
  then have "sends rid [AckRejected ?rj] ?ob (tell_hook evs rjs ob)"
    using hook_rejects [of rid ?ob rjs] r assms(1) by (simp add: tell_hook_def sends_def)
  moreover have "?rj \<in> set (filter (\<lambda>rj. rj_request_id rj = rid) rjs)"
    using r by (intro hd_in_set) (auto simp: refuses_def filter_empty_conv)
  ultimately show ?thesis using sends_append [OF s] by fastforce
qed

lemma stamp_of [simp]: "events_of (stamp sid i es) = events_of es" "rejects_of (stamp sid i es) = rejects_of es"
  by (induction es arbitrary: i) (simp_all add: events_of_def rejects_of_def List.map_filter_def)

lemma server_step_command:
  assumes "log_read (n_log (sv_node sv)) (n_pos (sv_node sv)) = Some e" "en_payload e = PCommand c" "server_step sv = Some sv'"
  obtains es work l where "process_command (en_entry_id e) c (n_db (sv_node sv)) (n_leader (sv_node sv)) = (Done (es, work), l)"
    "es \<noteq> []" "sv_observer sv' = tell_hook (l_last_applied l) (rejects_of es) (sv_observer sv)"
    "events_of (ls_entries (n_log (sv_node sv'))) = events_of (ls_entries (n_log (sv_node sv))) @ events_of es"
    "rejects_of (ls_entries (n_log (sv_node sv'))) = rejects_of (ls_entries (n_log (sv_node sv))) @ rejects_of es"
    "l_last_applied (n_leader (sv_node sv')) = []"
proof -
  let ?n = "sv_node sv"
  obtain es work l where p: "process_command (en_entry_id e) c (n_db ?n) (n_leader ?n) = (Done (es, work), l)"
    "sv' = \<lparr> sv_node = (settle_command (en_entry_id e) (es, work) l ?n) \<lparr> n_pos := n_pos ?n + 1 \<rparr>,
       sv_observer = tell_hook (drop (length (n_applied ?n)) (n_applied (settle_command (en_entry_id e) (es, work) l ?n)))
       (drop (length (n_rejected ?n)) (n_rejected (settle_command (en_entry_id e) (es, work) l ?n))) (sv_observer sv) \<rparr>"
    using assms by (auto simp: server_step_def leader_entry_def Let_def split: prod.splits outcome.splits option.splits)
  have "es \<noteq> []" using p(1) by (cases rule: process_command_cases) auto
  moreover have "events_of [noop_of t i] = []" "rejects_of [noop_of t i] = []" for t i by (simp_all add: noop_of_def)
  ultimately show ?thesis using that [OF p(1)] p(2)
    by (simp add: settle_command_def Let_def log_append_def set_resume_position_def)
qed

section \<open>What a caller may conclude\<close>

text \<open>Every message but a rejection comes from an event that was applied.\<close>

definition from_events :: "event list \<Rightarrow> request_id \<times> ack_outcome \<Rightarrow> bool" where
  "from_events evs m \<longleftrightarrow> (\<exists>rj. snd m = AckRejected rj)
     \<or> (\<exists>ev\<in>set evs. \<exists>t. ack_resolves ev = Some (fst m, t) \<and> ack_outcome_of t ev = Some (snd m))"

lemma hook_events_from:
  "\<exists>news. ah_sent (ob_ack (fold on_event_applied evs ob)) = ah_sent (ob_ack ob) @ news \<and> (\<forall>m\<in>set news. from_events evs m)"
proof (induction evs arbitrary: ob)
  case (Cons ev evs)
  have "\<exists>news. ah_sent (ob_ack (on_event_applied ev ob)) = ah_sent (ob_ack ob) @ news \<and> (\<forall>m\<in>set news. from_events [ev] m)"
    by (auto simp: on_event_applied_def ack_on_event_applied_def from_events_def Let_def split: option.split)
  moreover have "from_events [ev] m \<or> from_events evs m \<Longrightarrow> from_events (ev # evs) m" for m
    by (auto simp: from_events_def)
  ultimately show ?case using Cons.IH [of "on_event_applied ev ob"] by fastforce
qed simp

lemma hook_rejects_from:
  "\<exists>news. ah_sent (ob_ack (fold (\<lambda>rj. on_command_rejected (rj_request_id rj) rj) rjs ob)) = ah_sent (ob_ack ob) @ news
     \<and> (\<forall>m\<in>set news. from_events evs m)"
proof (induction rjs arbitrary: ob)
  case (Cons rj rjs)
  have "\<exists>news. ah_sent (ob_ack (on_command_rejected (rj_request_id rj) rj ob)) = ah_sent (ob_ack ob) @ news \<and> (\<forall>m\<in>set news. from_events evs m)"
    by (auto simp: on_command_rejected_def ack_on_command_rejected_def from_events_def split: option.split)
  then show ?case using Cons.IH [of "on_command_rejected (rj_request_id rj) rj ob"] by fastforce
qed simp

lemma tell_hook_from:
  "\<exists>news. ah_sent (ob_ack (tell_hook evs rjs ob)) = ah_sent (ob_ack ob) @ news \<and> (\<forall>m\<in>set news. from_events evs m)"
  using hook_events_from [of evs ob] hook_rejects_from [of rjs "fold on_event_applied evs ob" evs]
  by (fastforce simp: tell_hook_def)

lemma process_command_acks:
  assumes "process_command i c db l = (Done (es, work), l')" "ev \<in> set (events_of es)" "ack_resolves ev = Some a"
  shows "fulfils c ev"
  using assms(1)
proof (cases rule: process_command_cases)
  case (dispatched l0 s)
  let ?s0 = "handler_start i l0 db"
  have start: "p_entries ?s0 = []" by (simp add: handler_start_def)
  have acks: "ev \<in> set (acks (events_of (p_entries s)))" using assms(2,3) dispatched(2) by (simp add: acks_def)
  show ?thesis
  proof (cases "awaited c")
    case None
    have "acked [] ?s0" using start by (simp add: acked_def acks_def)
    then have "acked [] s" using preservesD [OF dispatch_silent [OF None] dispatched(1)] by simp
    then show ?thesis using acks by (simp add: acked_def)
  next
    case (Some a')
    then show ?thesis using dispatch_settles [of c "fst a'" "snd a'", OF _ dispatched(1) start] acks
      by (auto simp: settled_def acked_def)
  qed
next
  case (refused e rj)
  then show ?thesis using assms(2) by simp
qed

text \<open>A message is true of the command, and in the log.\<close>

definition vouched :: "request_id \<Rightarrow> command \<Rightarrow> entry list \<Rightarrow> ack_outcome \<Rightarrow> bool" where
  "vouched rid c es out \<longleftrightarrow> (\<exists>rj. out = AckRejected rj) \<or> (\<exists>t. awaited c = Some (rid, t)) \<and> answered es c out"

definition entries_in :: "server \<Rightarrow> entry list" where
  "entries_in sv = ls_entries (n_log (sv_node sv))"

lemma answered_append: "answered es c out \<Longrightarrow> answered (es @ es') c out"
  by (cases out) auto

lemma log_read_in: "log_read l i = Some e \<Longrightarrow> e \<in> set (ls_entries l)"
  by (auto simp: log_read_def split: if_splits)

lemma server_step_grows:
  assumes "server_step sv = Some sv'"
  shows "\<exists>es. entries_in sv' = entries_in sv @ es"
  using assms by (auto simp: server_step_def entries_in_def leader_entry_def settle_command_def log_append_def Let_def
      split: option.splits entry_payload.splits prod.splits outcome.splits if_splits)

lemma server_step_vouched:
  assumes "server_step sv = Some sv'" "l_last_applied (n_leader (sv_node sv)) = []"
  shows "l_last_applied (n_leader (sv_node sv')) = []
    \<and> (\<exists>news. ah_sent (ob_ack (sv_observer sv')) = ah_sent (ob_ack (sv_observer sv)) @ news
         \<and> (\<forall>m\<in>set news. \<exists>e\<in>set (entries_in sv). \<exists>c. en_payload e = PCommand c \<and> vouched (fst m) c (entries_in sv') (snd m)))"
proof -
  obtain e where e: "log_read (n_log (sv_node sv)) (n_pos (sv_node sv)) = Some e"
    using assms(1) by (auto simp: server_step_def Let_def split: option.splits)
  show ?thesis
  proof (cases "\<exists>c. en_payload e = PCommand c")
    case False
    then have "leader_entry e (sv_node sv) = Some (sv_node sv)"
      using assms(1) e by (auto simp: server_step_def leader_entry_def Let_def split: entry_payload.splits if_splits)
    then show ?thesis using assms e by (auto simp: server_step_def Let_def tell_hook_def)
  next
    case True
    then obtain c where c: "en_payload e = PCommand c" by blast
    obtain es work l where p: "process_command (en_entry_id e) c (n_db (sv_node sv)) (n_leader (sv_node sv)) = (Done (es, work), l)"
      "sv_observer sv' = tell_hook (l_last_applied l) (rejects_of es) (sv_observer sv)"
      "events_of (entries_in sv') = events_of (entries_in sv) @ events_of es"
      "l_last_applied (n_leader (sv_node sv')) = []"
      by (rule server_step_command [OF e c assms(1)]) (simp add: entries_in_def)
    have evs: "set (l_last_applied l) \<subseteq> set (events_of es)"
      using p(1) assms(2) by (cases rule: process_command_cases) auto
    have "vouched (fst m) c (entries_in sv') (snd m)" if m: "from_events (l_last_applied l) m" for m
    proof -
      consider rj where "snd m = AckRejected rj"
        | ev t where "ev \<in> set (events_of es)" "ack_resolves ev = Some (fst m, t)" "ack_outcome_of t ev = Some (snd m)"
        using m evs by (auto simp: from_events_def)
      then show ?thesis
      proof cases
        case 1
        then show ?thesis by (simp add: vouched_def)
      next
        case 2
        have f: "fulfils c ev" by (rule process_command_acks [OF p(1) 2(1,2)])
        then have a: "awaited c = Some (fst m, t)" using fulfils_resolves 2(2) by metis
        show ?thesis using outcome_answers [OF f a 2(3), of "entries_in sv'"] a 2(1) p(3) by (auto simp: vouched_def)
      qed
    qed
    moreover obtain news where "ah_sent (ob_ack (sv_observer sv')) = ah_sent (ob_ack (sv_observer sv)) @ news"
      "\<forall>m\<in>set news. from_events (l_last_applied l) m"
      using tell_hook_from p(2) by metis
    ultimately show ?thesis using p(4) c log_read_in [OF e] unfolding entries_in_def by blast
  qed
qed

definition sole_request :: "request_id \<Rightarrow> command \<Rightarrow> entry list \<Rightarrow> bool" where
  "sole_request rid c es \<longleftrightarrow>
     (\<forall>e\<in>set es. \<forall>c' t. en_payload e = PCommand c' \<longrightarrow> awaited c' = Some (rid, t) \<longrightarrow> c' = c)"

declare await_turns.simps [simp del]

lemma await_turns_cases:
  assumes "await_turns fuel rid sv = (Some out, sv')"
  obtains "(rid, out) \<in> set (ah_sent (ob_ack (sv_observer sv)))" "sv' = sv"
  | sv1 f where "fuel = Suc f" "server_step sv = Some sv1" "await_turns f rid sv1 = (Some out, sv')"
proof (cases "map_of (rev (ah_sent (ob_ack (sv_observer sv)))) rid")
  case None
  then have "(case fuel of 0 \<Rightarrow> (None, sv) | Suc f \<Rightarrow> (case server_step sv of None \<Rightarrow> (None, sv) | Some sv' \<Rightarrow> await_turns f rid sv'))
      = (Some out, sv')"
    using assms await_turns.simps [of fuel rid sv] by simp
  then show ?thesis using that(2) by (cases fuel; cases "server_step sv") simp_all
next
  case (Some a)
  then have "a = out" "sv' = sv" using assms await_turns.simps [of fuel rid sv] by simp_all
  then show ?thesis using that(1) map_of_SomeD [OF Some] by simp
qed

lemma await_turns_grows: "await_turns fuel rid sv = (Some out, sv') \<Longrightarrow> \<exists>es. entries_in sv' = entries_in sv @ es"
proof (induction fuel arbitrary: sv)
  case 0
  then show ?case by (cases rule: await_turns_cases) auto
next
  case (Suc fuel)
  from Suc.prems show ?case
  proof (cases rule: await_turns_cases)
    case (2 sv1 f)
    then show ?thesis using Suc.IH [of sv1] server_step_grows [OF 2(2)] by auto
  qed simp
qed

lemma vouched_grows: "vouched rid c es out \<Longrightarrow> vouched rid c (es @ es') out"
  by (auto simp: vouched_def answered_append)

lemma await_vouched:
  assumes "await_turns fuel rid sv = (Some out, sv')" "l_last_applied (n_leader (sv_node sv)) = []"
    "sole_request rid c (entries_in sv')"
    "\<forall>m\<in>set (ah_sent (ob_ack (sv_observer sv))). fst m = rid \<longrightarrow> vouched rid c (entries_in sv) (snd m)"
  shows "vouched rid c (entries_in sv') out"
  using assms(1,2,4)
proof (induction fuel arbitrary: sv)
  case 0
  then show ?case by (cases rule: await_turns_cases) auto
next
  case (Suc fuel)
  from Suc.prems(1) show ?case
  proof (cases rule: await_turns_cases)
    case 1
    then show ?thesis using Suc.prems(3) by auto
  next
    case (2 sv1 f)
    obtain es where grows: "entries_in sv' = entries_in sv1 @ es" using await_turns_grows [OF 2(3)] by blast
    obtain es1 where grows1: "entries_in sv1 = entries_in sv @ es1" using server_step_grows [OF 2(2)] by blast
    obtain news where news: "l_last_applied (n_leader (sv_node sv1)) = []"
      "ah_sent (ob_ack (sv_observer sv1)) = ah_sent (ob_ack (sv_observer sv)) @ news"
      "\<forall>m\<in>set news. \<exists>e\<in>set (entries_in sv). \<exists>c. en_payload e = PCommand c \<and> vouched (fst m) c (entries_in sv1) (snd m)"
      using server_step_vouched [OF 2(2) Suc.prems(2)] by blast
    have new: "vouched rid c (entries_in sv1) (snd m)" if m: "m \<in> set news" "fst m = rid" for m
    proof -
      obtain e c' where c': "e \<in> set (entries_in sv)" "en_payload e = PCommand c'" "vouched rid c' (entries_in sv1) (snd m)"
        using news(3) m by blast
      then show ?thesis using assms(3) grows grows1 by (auto simp: vouched_def sole_request_def)
    qed
    have "vouched rid c (entries_in sv1) (snd m)" if "m \<in> set (ah_sent (ob_ack (sv_observer sv)))" "fst m = rid" for m
      using that Suc.prems(3) vouched_grows grows1 by metis
    then have "\<forall>m\<in>set (ah_sent (ob_ack (sv_observer sv1))). fst m = rid \<longrightarrow> vouched rid c (entries_in sv1) (snd m)"
      using new unfolding news(2) by (metis UnE set_append)
    then show ?thesis using Suc.IH [of sv1] 2 news(1) by simp
  qed
qed

text \<open>What a blocking operation of the gateway may conclude from an answer.\<close>

lemma awaiting_vouched:
  assumes "awaiting (await_turns fuel) rid receive sv = (Done v, sv')" "l_last_applied (n_leader (sv_node sv)) = []"
    "sole_request rid c (entries_in sv')" "\<forall>m\<in>set (ah_sent (ob_ack (sv_observer sv))). fst m \<noteq> rid"
    "\<And>rj w. receive (Some (AckRejected rj)) \<noteq> Done w" "\<And>w. receive None \<noteq> Done w"
  shows "\<exists>out. receive (Some out) = Done v \<and> answered (entries_in sv') c out"
proof -
  obtain out where out: "await_turns fuel rid sv = (Some out, sv')" "receive (Some out) = Done v"
    using assms(1,6) by (auto simp: awaiting_def split: prod.splits outcome.splits) (metis option.exhaust)
  have "vouched rid c (entries_in sv') out" by (rule await_vouched [OF out(1) assms(2,3)]) (use assms(4) in auto)
  then show ?thesis using out(2) assms(5) by (auto simp: vouched_def)
qed

text \<open>The request part of an operation: register, then append the command.\<close>

definition appends :: "(node \<Rightarrow> execution_error + node) \<Rightarrow> bool" where
  "appends f \<longleftrightarrow> (\<forall>nd nd'. f nd = Inr nd' \<longrightarrow> (\<exists>c. nd' = client_append c nd))"

lemma request_run:
  assumes "seq (gw_register rid target) (seq (engine_call f) m) sv = (Done v, sv')"
    "appends f"
  obtains sv2 where "m sv2 = (Done v, sv')" "l_last_applied (n_leader (sv_node sv2)) = l_last_applied (n_leader (sv_node sv))"
    "ah_sent (ob_ack (sv_observer sv2)) = ah_sent (ob_ack (sv_observer sv))"
proof -
  let ?sv1 = "sv \<lparr> sv_observer := sv_observer sv \<lparr> ob_ack := ack_register rid target (ob_ack (sv_observer sv)) \<rparr> \<rparr>"
  obtain nd where nd: "f (sv_node sv) = Inr nd" "m (?sv1 \<lparr> sv_node := nd \<rparr>) = (Done v, sv')"
    using assms(1) by (auto simp: seq_def bnd_def gw_register_def modify_def engine_call_def split: sum.splits)
  obtain c where "nd = client_append c (sv_node sv)" using assms(2) nd(1) by (auto simp: appends_def)
  then show ?thesis using that [OF nd(2)] by (simp add: client_append_def Let_def ack_register_def)
qed

lemma engine_appends:
  "appends (engine_create_flow rid n def)" "appends (engine_create_execution rid x fv input)"
  "appends (\<lambda>nd. Inr (engine_complete_task w t rid output nd))" "appends (\<lambda>nd. Inr (engine_claim_tasks p nd))"
  by (auto simp: appends_def engine_create_flow_def engine_create_execution_def engine_complete_task_def engine_claim_tasks_def
      split: if_splits)

lemma bnd_Done: "bnd m f s = (Done v, s') \<longleftrightarrow> (\<exists>x s1. m s = (Done x, s1) \<and> f x s1 = (Done v, s'))"
  by (auto simp: bnd_def split: prod.splits outcome.splits)

lemma receive_event: "await_event (Some out) = Done ev \<longleftrightarrow> out = AckApplied ev"
  by (cases out) auto

lemma receive_tasks: "await_tasks (Some out) = Done ts \<longleftrightarrow> out = AckGranted ts"
  by (cases out) auto

lemma event_answered:
  assumes "seq (gw_register rid target) (seq (engine_call f) (bnd (awaiting (await_turns fuel) rid await_event) g)) sv = (Done v, sv')"
    "appends f" "\<forall>ev s. snd (g ev s) = s"
    "l_last_applied (n_leader (sv_node sv)) = []" "\<forall>m\<in>set (ah_sent (ob_ack (sv_observer sv))). fst m \<noteq> rid"
    "sole_request rid c (entries_in sv')"
  obtains ev where "fulfils c ev" "ev \<in> set (events_of (entries_in sv'))" "fst (g ev sv') = Done v"
proof -
  obtain sv2 where run: "bnd (awaiting (await_turns fuel) rid await_event) g sv2 = (Done v, sv')"
    "l_last_applied (n_leader (sv_node sv2)) = []" "\<forall>m\<in>set (ah_sent (ob_ack (sv_observer sv2))). fst m \<noteq> rid"
    using request_run [OF assms(1,2)] assms(4,5) by metis
  then obtain ev sv3 where ev: "awaiting (await_turns fuel) rid await_event sv2 = (Done ev, sv3)" "g ev sv3 = (Done v, sv')"
    by (auto simp: bnd_Done)
  then have "sv3 = sv'" using assms(3) by (metis snd_conv)
  then have "fulfils c ev \<and> ev \<in> set (events_of (entries_in sv'))"
    using awaiting_vouched [OF ev(1) run(2), of c] run(3) assms(6) by (simp add: receive_event)
  then show ?thesis using that [of ev] ev(2) \<open>sv3 = sv'\<close> by simp
qed

section \<open>A server with a waiting poll\<close>

definition idle_observer :: observer where
  "idle_observer = \<lparr> ob_inbox = [], ob_ack = \<lparr> ah_pending = Map.empty, ah_sent = [] \<rparr> \<rparr>"

definition idle_server :: server where
  "idle_server = \<lparr> sv_node = new_node sample_env, sv_observer = idle_observer \<rparr>"

definition sample_poll :: claim_tasks where
  "sample_poll = \<lparr> cl_request_id = 5, cl_worker_id = ''worker'', cl_resource = ''mail'', cl_max_tasks = 10,
     cl_lease_seconds = 60 \<rparr>"

definition poll_server :: server where
  "poll_server = snd (seq (gw_register 5 AckGrant) (engine_call (\<lambda>nd. Inr (engine_claim_tasks sample_poll nd))) idle_server)"

lemma poll_server_simps [simp]:
  "n_leader (sv_node poll_server) = (leader_new sample_env) \<lparr> l_ticks := 2 \<rparr>" "n_db (sv_node poll_server) = empty_db"
  "\<exists>e. log_read (n_log (sv_node poll_server)) (n_pos (sv_node poll_server)) = Some e \<and> en_payload e = PCommand (ClaimTasks sample_poll)"
  "sv_observer poll_server = \<lparr> ob_inbox = [], ob_ack = \<lparr> ah_pending = [5 \<mapsto> AckGrant], ah_sent = [] \<rparr> \<rparr>"
  by (simp_all add: poll_server_def gw_register_def engine_call_def engine_claim_tasks_def idle_server_def idle_observer_def
      run_defs new_node_def client_append_def noop_append_def close_batch_def log_append_def log_new_def log_read_def Let_def
      leader_new_def ack_register_def)

lemma claim_done:
  assumes "ts_checked_add (e_clock (p_env s) (p_ticks s)) (cl_lease_seconds p * 1000) = Some lease"
  shows "\<exists>s'. dispatch_command (ClaimTasks p) s = (Done (), s') \<and> p_entries s' \<noteq> []"
  using assms
  by (simp add: task_claim_all_def bnd_def run_now read_activatable_tasks_def gets_def run_append_event pushed_def)

lemma poll_server_step: "\<exists>sv. server_step poll_server = Some sv"
proof -
  obtain e where e: "log_read (n_log (sv_node poll_server)) (n_pos (sv_node poll_server)) = Some e"
    "en_payload e = PCommand (ClaimTasks sample_poll)"
    using poll_server_simps(3) by blast
  have "\<exists>lease. ts_checked_add (e_clock (p_env (handler_start i (n_leader (sv_node poll_server)) empty_db))
      (p_ticks (handler_start i (n_leader (sv_node poll_server)) empty_db))) (cl_lease_seconds sample_poll * 1000) = Some lease" for i
    by (simp add: handler_start_def leader_new_def sample_env_def ts_checked_add_def checked_add_u64_def sample_poll_def)
  then obtain s where "dispatch_command (ClaimTasks sample_poll) (handler_start (en_entry_id e) (n_leader (sv_node poll_server))
      (n_db (sv_node poll_server))) = (Done (), s)" "p_entries s \<noteq> []"
    using claim_done by (metis poll_server_simps(2))
  from process_command_Done [OF this] show ?thesis using e
    by (simp add: server_step_def leader_entry_def Let_def)
qed

text \<open>A flow created at an idle server: the first turn is the command's.\<close>

definition sample_create :: command where
  "sample_create = CreateFlow 5 (PlainName ''demo'') ''stop''"

lemma create_flow_runs:
  "case gateway_create_flow (await_turns 1) 5 (PlainName ''demo'') ''stop'' idle_server of
     (Done r, sv) \<Rightarrow> o_name r = version_name (PlainName ''demo'') 1 \<and> o_uid r < 100 \<and> (\<forall>e\<in>set (entries_in sv). case en_payload e of PCommand c \<Rightarrow> awaited c = None \<or> c = sample_create | _ \<Rightarrow> True)
   | _ \<Rightarrow> False"
  by code_simp

section \<open>Properties\<close>

text \<open>C22. A caller who waits is answered once, truthfully and durably. When the processor gets past the
  command of a waiting caller, whose request id no event left over from before resolves, the caller's
  registration is gone and exactly one message went to the caller. It is the event that the command
  asked for, the tasks granted to a poll, or a rejection under the caller's request id, and it is in the
  log. The receiving side therefore never meets the outcome it declares unreachable.\<close>

theorem waiting_caller_answered_once:
  assumes "log_read (n_log (sv_node sv)) (n_pos (sv_node sv)) = Some e" "en_payload e = PCommand c"
    and "awaited c = Some (rid, target)" "ah_pending (ob_ack (sv_observer sv)) rid = Some target"
    and "\<forall>ev\<in>set (l_last_applied (n_leader (sv_node sv))). \<forall>t. ack_resolves ev \<noteq> Some (rid, t)"
    and "server_step sv = Some sv'"
  shows "\<exists>out news. ah_sent (ob_ack (sv_observer sv')) = ah_sent (ob_ack (sv_observer sv)) @ news
    \<and> filter (\<lambda>m. fst m = rid) news = [(rid, out)] \<and> ah_pending (ob_ack (sv_observer sv')) rid = None
    \<and> answered (ls_entries (n_log (sv_node sv'))) c out
    \<and> (\<forall>w. (if target = AckGrant then await_tasks (Some out) \<noteq> Panicked w else await_event (Some out) \<noteq> Panicked w))"
proof -
  obtain es work l where p: "process_command (en_entry_id e) c (n_db (sv_node sv)) (n_leader (sv_node sv)) = (Done (es, work), l)"
    "es \<noteq> []" "sv_observer sv' = tell_hook (l_last_applied l) (rejects_of es) (sv_observer sv)"
    "events_of (ls_entries (n_log (sv_node sv'))) = events_of (ls_entries (n_log (sv_node sv))) @ events_of es"
    "rejects_of (ls_entries (n_log (sv_node sv'))) = rejects_of (ls_entries (n_log (sv_node sv))) @ rejects_of es"
    by (rule server_step_command [OF assms(1,2,6)])
  let ?evs = "l_last_applied l"
  have told: "?evs = events_of es \<and> (\<exists>ev. acks ?evs = [ev] \<and> fulfils c ev)
      \<or> (\<forall>ev\<in>set ?evs. \<forall>t. ack_resolves ev \<noteq> Some (rid, t)) \<and> refuses rid (rejects_of es)"
    using process_command_tells [OF p(1) assms(3)] assms(5) acks_Nil by metis
  then have "(\<exists>ev. acks ?evs = [ev] \<and> ack_resolves ev = Some (rid, target))
      \<or> (\<forall>ev\<in>set ?evs. \<forall>t. ack_resolves ev \<noteq> Some (rid, t)) \<and> refuses rid (rejects_of es)"
    using fulfils_resolves assms(3) by metis
  from tell_hook_answers [OF assms(4) this] obtain out where
    out: "sends rid [out] (sv_observer sv) (sv_observer sv')"
      "(\<exists>ev\<in>set ?evs. acks ?evs = [ev] \<and> ack_resolves ev = Some (rid, target) \<and> ack_outcome_of target ev = Some out) \<or> (\<exists>rj\<in>set (rejects_of es). rj_request_id rj = rid \<and> out = AckRejected rj)"
    using p(3) by auto
  have id: "command_request_id c = Some rid" using assms(3) by (cases c) auto
  have "answered (ls_entries (n_log (sv_node sv'))) c out"
    using out(2)
  proof
    assume "\<exists>ev\<in>set ?evs. acks ?evs = [ev] \<and> ack_resolves ev = Some (rid, target) \<and> ack_outcome_of target ev = Some out"
    then obtain ev where ev: "ev \<in> set ?evs" "ack_resolves ev = Some (rid, target)" "ack_outcome_of target ev = Some out" "acks ?evs = [ev]"
      by blast
    then have "?evs = events_of es" "fulfils c ev" using told by auto
    then show ?thesis using outcome_answers [OF _ assms(3) ev(3), of "ls_entries (n_log (sv_node sv'))"] ev(1) p(4) by auto
  next
    assume "\<exists>rj\<in>set (rejects_of es). rj_request_id rj = rid \<and> out = AckRejected rj"
    then show ?thesis using id p(5) by auto
  qed
  moreover obtain news where "ah_sent (ob_ack (sv_observer sv')) = ah_sent (ob_ack (sv_observer sv)) @ news"
    "map snd (filter (\<lambda>m. fst m = rid) news) = [out]" "ah_pending (ob_ack (sv_observer sv')) rid = None"
    using out(1) by (auto simp: sends_def)
  moreover from this(2) have "filter (\<lambda>m. fst m = rid) news = [(rid, out)]"
    by (auto simp: map_eq_Cons_conv filter_eq_Cons_iff)
  moreover have "if target = AckGrant then await_tasks (Some out) \<noteq> Panicked w else await_event (Some out) \<noteq> Panicked w" for w
    using calculation(1) assms(3) by (cases out) (auto simp: fulfils_def split: command.splits)
  ultimately show ?thesis by blast
qed

theorem waiting_caller_answered_once_witness:
  "\<exists>sv out. server_step poll_server = Some sv \<and> filter (\<lambda>m. fst m = 5) (ah_sent (ob_ack (sv_observer sv))) = [(5, out)]
    \<and> answered (ls_entries (n_log (sv_node sv))) (ClaimTasks sample_poll) out"
proof -
  obtain e where e: "log_read (n_log (sv_node poll_server)) (n_pos (sv_node poll_server)) = Some e"
    "en_payload e = PCommand (ClaimTasks sample_poll)"
    using poll_server_simps(3) by blast
  obtain sv where sv: "server_step poll_server = Some sv" using poll_server_step by blast
  have "awaited (ClaimTasks sample_poll) = Some (5, AckGrant)" by (simp add: sample_poll_def)
  from waiting_caller_answered_once [OF e this _ _ sv] sv show ?thesis by (auto simp: leader_new_def)
qed



end
