(* ===== verification/Requests.thy ===== *)
theory Requests
  imports Answers
begin

text \<open>
  What a client meets at the edge of the system: references on the wire and on the command line, the two
  refusals of a duplicate name, paging through a listing, waiting for an execution, and a worker's report.
\<close>

section \<open>A text form of ULIDs\<close>

text \<open>A concrete codec: twenty-six digits of Crockford's base 32, the most significant first.\<close>

definition crockford :: string where
  "crockford = ''0123456789ABCDEFGHJKMNPQRSTVWXYZ''"

primrec digits32 :: "nat \<Rightarrow> nat \<Rightarrow> nat list" where
  "digits32 0 u = []"
| "digits32 (Suc n) u = digits32 n (u div 32) @ [u mod 32]"

definition ulid_text :: "ulid \<Rightarrow> string" where
  "ulid_text u = map (\<lambda>d. crockford ! d) (digits32 26 u)"

definition ulid_read :: "string \<Rightarrow> ulid option" where
  "ulid_read s =
     (case those (map (map_of (zip crockford [0..<32])) s) of
        None \<Rightarrow> None
      | Some ds \<Rightarrow>
          (let u = foldl (\<lambda>a d. a * 32 + d) 0 ds in if length s = 26 \<and> u < 2 ^ 128 then Some u else None))"

definition sample_wire :: wire_env where
  "sample_wire =
     \<lparr> we_ulid_to_string = ulid_text, we_ulid_parse = ulid_read,
       we_value = \<lparr> to_vec = (\<lambda>v. case v of JString s \<Rightarrow> Inr s | _ \<Rightarrow> Inl ''not a string''), from_slice = (\<lambda>b. Inr (JString b)) \<rparr>,
       we_optional = \<lparr> to_vec = (\<lambda>_. Inr []), from_slice = (\<lambda>_. Inr None) \<rparr>,
       we_activity_state = \<lparr> to_vec = (\<lambda>_. Inr []), from_slice = (\<lambda>_. Inl []) \<rparr>,
       we_retry_state = \<lparr> to_vec = (\<lambda>_. Inr []), from_slice = (\<lambda>_. Inl []) \<rparr>,
       we_retry_plan = \<lparr> to_vec = (\<lambda>_. Inr []), from_slice = (\<lambda>_. Inl []) \<rparr>,
       we_pointer = (\<lambda>_. []), we_type_name = kind_debug \<rparr>"

lemma digits32_length [simp]: "length (digits32 n u) = n"
  by (induction n arbitrary: u) simp_all

lemma digits32_small: "d \<in> set (digits32 n u) \<Longrightarrow> d < 32"
  by (induction n arbitrary: u) auto

lemma digits32_value: "foldl (\<lambda>a d. a * 32 + d) 0 (digits32 n u) = u mod 32 ^ n"
proof (induction n arbitrary: u)
  case (Suc n)
  have "u div 32 mod 32 ^ n * 32 + u mod 32 = u mod (32 * 32 ^ n)"
    by (simp add: mod_mult2_eq)
  then show ?case using Suc by simp
qed simp

lemma crockford_reads: "d < 32 \<Longrightarrow> map_of (zip crockford [0..<32]) (crockford ! d) = Some d"
  using map_of_zip_nth [of crockford "[0..<32]" d] by (simp add: crockford_def)

lemma those_map_Some: "(\<And>x. x \<in> set xs \<Longrightarrow> f x = Some (g x)) \<Longrightarrow> those (map f xs) = Some (map g xs)"
  by (induction xs) simp_all

lemma ulid_read_text: "u < 2 ^ 128 \<Longrightarrow> ulid_read (ulid_text u) = Some u"
proof -
  assume u: "u < 2 ^ 128"
  have "those (map (map_of (zip crockford [0..<32])) (ulid_text u)) = Some (digits32 26 u)"
    unfolding ulid_text_def map_map by (subst those_map_Some [of _ _ id]) (auto simp: crockford_reads digits32_small)
  moreover have "u mod 32 ^ 26 = u" using u by simp
  ultimately show ?thesis using u by (simp add: ulid_read_def ulid_text_def digits32_value)
qed

lemma sample_wire_ulids: "texts_ulids sample_wire"
proof -
  have "length (ulid_text u) = 26" for u by (simp add: ulid_text_def)
  moreover have "u < 2 ^ 128" if "ulid_read s = Some u" for s u
    using that by (auto simp: ulid_read_def Let_def split: option.splits if_splits)
  ultimately show ?thesis using ulid_read_text by (simp add: texts_ulids_def sample_wire_def)
qed

section \<open>References\<close>

lemma kind_text [simp]: "kind_as_str k \<noteq> []"
  by (cases k) simp_all

lemma kind_parse_text: "kind_parse s = Some k \<Longrightarrow> s = kind_as_str k"
  by (auto simp: kind_parse_def split: if_splits)

text \<open>A reference that the engine holds: its name was made by a constructor, its id has 128 bits.\<close>

definition wf_ref :: "oref \<Rightarrow> bool" where
  "wf_ref r \<longleftrightarrow> wf_name (o_name r) \<and> o_uid r < 2 ^ 128"

lemma parse_proto_ref:
  assumes "texts_ulids W" "wf_ref r"
  shows "parse_ref W k (proto_ref W (raw_of k' r))
    = (if k = k' then Inr r else Inl (grpc CodeInvalidArgument (kind_mismatch W k' k)))"
  using assms by (cases r) (auto simp: parse_ref_def proto_ref_def raw_of_def wf_ref_def texts_ulids_def from_parsed_as_str typed_ref_def)

lemma parse_ref_sound:
  assumes "texts_ulids W" "parse_ref W k w = Inr r"
  shows "wr_kind w = kind_as_str k" "wf_ref r"
proof -
  obtain n u where p: "kind_parse (wr_kind w) = Some k" "from_parsed (wr_name w) = Inr n" "we_ulid_parse W (wr_uid w) = Some u" "r = ORef n u"
    using assms(2) by (auto simp: parse_ref_def typed_ref_def split: option.splits sum.splits name_error.splits if_splits)
  then show "wr_kind w = kind_as_str k" "wf_ref r"
    using kind_parse_text from_parsed_wf assms(1) by (auto simp: wf_ref_def texts_ulids_def)
qed

lemma ref_from_to_string:
  assumes "texts_ulids W" "wf_ref r"
  shows "ref_from_str (ref_to_string (proto_ref W (raw_of k r))) = Inr (proto_ref W (raw_of k r))"
proof -
  have "we_ulid_to_string W (o_uid r) \<noteq> []" using assms by (auto simp: texts_ulids_def wf_ref_def)
  moreover have "CHR ''/'' \<notin> set (as_str (o_name r))" "as_str (o_name r) \<noteq> []"
    using assms(2) as_str_no_slash as_str_hd by (auto simp: wf_ref_def)
  ultimately show ?thesis by (simp add: ref_from_str_def ref_to_string_def proto_ref_def raw_of_def)
qed

section \<open>Names\<close>

lemma plain_new_iff [simp]: "plain_new s = Inr n \<longleftrightarrow> valid_plain s \<and> n = PlainName s"
  by (auto simp: plain_new_def)

lemma valid_plain_passes: "valid_plain s \<Longrightarrow> validate_flow_name s"
  by (auto simp: valid_plain_def validate_flow_name_def)

lemma validated_name: "validate_flow_name s \<Longrightarrow> valid_plain s \<or> length s < 4 \<or> s ! 0 = CHR ''_''"
  by (auto simp: valid_plain_def validate_flow_name_def list_all_length)

lemma parse_flow_name_cases:
  "parse_flow_name s = (if valid_plain s then Inr (PlainName s)
     else Inl (grpc CodeInvalidArgument (''invalid flow name: '' @ (case plain_new s of Inl (Invalid e) \<Rightarrow> e))))"
  by (simp add: parse_flow_name_def plain_new_def)

lemma parse_execution_name_valid: "valid_plain s \<Longrightarrow> parse_execution_name s = Inr (Plain (PlainName s))"
  by (simp add: parse_execution_name_def object_name_plain_def plain_new_def)

lemmas call_defs = bnd_def seq_def gets_def modify_def ret_def throw_def mapr_def checked_def with_status_def cli_call_def
  require_def engine_call_def gw_register_def

section \<open>Paging\<close>

text \<open>A client that follows the continue tokens until there is none.\<close>

fun list_pages :: "nat \<Rightarrow> wire_env \<Rightarrow> (object_kind \<Rightarrow> object_name list) \<Rightarrow> object_kind \<Rightarrow> nat \<Rightarrow> string \<Rightarrow> server
  \<Rightarrow> (wire_object list \<times> server) option" where
  "list_pages 0 W keys k limit token sv = None"
| "list_pages (Suc fuel) W keys k limit token sv =
     (case rpc_list_objects W keys \<lparr> lo_kind = kind_as_str k, lo_limit = limit, lo_continue_token = token \<rparr> sv of
        (Done page, sv') \<Rightarrow>
          if lo_next_token page = [] then Some (lo_objects page, sv')
          else map_option (\<lambda>(objs, sv''). (lo_objects page @ objs, sv''))
                 (list_pages fuel W keys k limit (lo_next_token page) sv')
      | _ \<Rightarrow> None)"

definition page_size :: "nat \<Rightarrow> nat" where
  "page_size limit = (if limit = 0 then DEFAULT_LIST_LIMIT else limit)"

text \<open>Rows as the tables hold them: one per name, each under its own name.\<close>

definition wf_rows :: "query_object rows \<Rightarrow> bool" where
  "wf_rows rows \<longleftrightarrow> distinct (map fst rows) \<and> (\<forall>r \<in> set rows. query_name (snd r) = fst r \<and> wf_name (fst r))"

definition in_order :: "query_object rows \<Rightarrow> query_object rows" where
  "in_order rows = sort_key (\<lambda>r. as_str (fst r)) rows"

lemma strict_drop:
  assumes "sorted_wrt (<) (map f xs)" "i < length xs"
  shows "filter (\<lambda>x. f (xs ! i) < (f x :: 'b :: linorder)) xs = drop (Suc i) xs"
  using assms
proof (induction xs arbitrary: i)
  case (Cons x xs)
  show ?case
  proof (cases i)
    case 0
    then show ?thesis using Cons.prems(1) by (auto simp: filter_id_conv)
  next
    case (Suc j)
    then have "f x < f (xs ! j)" using Cons.prems by simp
    then show ?thesis using Cons Suc by (auto simp: less_le_not_le)
  qed
qed simp

lemma in_order_strict:
  assumes "wf_rows rows"
  shows "sorted_wrt (<) (map (\<lambda>r. as_str (fst r)) (in_order rows))"
proof -
  have "inj_on as_str (fst ` set rows)"
    using assms as_str_inj by (intro inj_onI) (metis (no_types, lifting) image_iff wf_rows_def)
  then have "distinct (map (\<lambda>r. as_str (fst r)) rows)"
    using assms distinct_map [of as_str "map fst rows"] by (simp add: wf_rows_def comp_def)
  then show ?thesis by (simp add: in_order_def strict_sorted_iff distinct_map sorted_sort_key)
qed

definition token_at :: "query_object rows \<Rightarrow> nat \<Rightarrow> string" where
  "token_at rows i = (if i = 0 then [] else as_str (fst (in_order rows ! (i - 1))))"

lemma list_kind_at:
  assumes "wf_rows rows" "i \<le> length rows" "0 < limit" "limit < 2 ^ 32"
  shows "list_kind rows limit (if token_at rows i = [] then None else Some (token_at rows i))
    = Inr \<lparr> ql_objects = map snd (take limit (drop i (in_order rows))),
            ql_continue_token = (if i + limit < length rows then Some (token_at rows (i + limit)) else None) \<rparr>"
proof -
  let ?xs = "in_order rows"
  have len: "length ?xs = length rows" and set: "set ?xs = set rows" by (simp_all add: in_order_def)
  have at: "query_name (snd (?xs ! j)) = fst (?xs ! j)" "wf_name (fst (?xs ! j))" if "j < length rows" for j
    using assms(1) nth_mem [of j ?xs] that len set by (auto simp: wf_rows_def)
  have rest: "filter (\<lambda>(n, _). as_str n > as_str (fst (?xs ! j))) ?xs = drop (Suc j) ?xs" if "j < length rows" for j
    using strict_drop [OF in_order_strict [OF assms(1)], of j] that len by (simp add: case_prod_unfold)
  have all: "filter (\<lambda>(n, _). True) ?xs = ?xs" by (simp add: case_prod_unfold)
  have "min u64_max (limit + 1) = limit + 1" using assms(4) by (simp add: u64_max_def)
  then have rows: "(case (if token_at rows i = [] then None else Some (token_at rows i)) of
       Some t \<Rightarrow> (if t \<noteq> [] then (case from_parsed t of
                   Inl (Invalid e) \<Rightarrow> Inl (bad_definition (''invalid continue_token '' @ debug_str t @ '': '' @ e))
                 | Inr n \<Rightarrow> Inr (Some n)) else Inr None)
     | None \<Rightarrow> Inr None) = Inr (if i = 0 then None else Some (fst (?xs ! (i - 1))))"
    using at(2) [of "i - 1"] assms(2) as_str_hd from_parsed_as_str by (auto simp: token_at_def)
  have page: "list_rows rows (if i = 0 then None else Some (fst (?xs ! (i - 1)))) (limit + 1) = take (limit + 1) (drop i ?xs)"
    using rest [of "i - 1"] all assms(2) by (cases i) (simp_all add: list_rows_def flip: in_order_def)
  have "last (map snd (take limit (drop i ?xs))) = snd (?xs ! (i + limit - 1))" if "i + limit < length rows"
    using that assms(3) len by (simp add: last_map last_conv_nth)
  then have "as_str (query_name (last (map snd (take limit (drop i ?xs))))) = token_at rows (i + limit)" if "i + limit < length rows"
    using that at(1) [of "i + limit - 1"] assms(3) by (simp add: token_at_def)
  then show ?thesis
    unfolding list_kind_def rows Let_def sum.case page \<open>min u64_max (limit + 1) = limit + 1\<close>
    using assms(3) len by simp linarith
qed

lemma token_at_nonempty: "wf_rows rows \<Longrightarrow> 0 < i \<Longrightarrow> i \<le> length rows \<Longrightarrow> token_at rows i \<noteq> []"
  using as_str_hd nth_mem [of "i - 1" "in_order rows"] by (auto simp: token_at_def wf_rows_def in_order_def)

lemma list_pages_from:
  assumes "wf_rows (kind_rows keys k (n_db (sv_node sv)))" "limit < 2 ^ 32"
    and "i \<le> length (kind_rows keys k (n_db (sv_node sv)))" "length (kind_rows keys k (n_db (sv_node sv))) - i < fuel"
  shows "list_pages fuel W keys k limit (token_at (kind_rows keys k (n_db (sv_node sv))) i) sv
    = Some (map (\<lambda>r. to_proto_object W (sv_node sv) (snd r)) (drop i (in_order (kind_rows keys k (n_db (sv_node sv))))), sv)"
  using assms(3,4)
proof (induction fuel arbitrary: i)
  case (Suc fuel)
  let ?rows = "kind_rows keys k (n_db (sv_node sv))"
  let ?l = "page_size limit"
  have l: "0 < ?l" "?l < 2 ^ 32" using assms(2) by (simp_all add: page_size_def DEFAULT_LIST_LIMIT_def)
  have len: "length (in_order ?rows) = length ?rows" by (simp add: in_order_def)
  have page: "rpc_list_objects W keys \<lparr> lo_kind = kind_as_str k, lo_limit = limit, lo_continue_token = token_at ?rows i \<rparr> sv
      = (Done \<lparr> lo_objects = map (\<lambda>r. to_proto_object W (sv_node sv) (snd r)) (take ?l (drop i (in_order ?rows))),
           lo_next_token = (if i + ?l < length ?rows then token_at ?rows (i + ?l) else []) \<rparr>, sv)"
    using list_kind_at [OF assms(1) Suc.prems(1) l]
    by (simp add: rpc_list_objects_def engine_list_objects_def engine_read_def parse_kind_def page_size_def call_defs Let_def comp_def
        split: if_splits)
  show ?case
  proof (cases "i + ?l < length ?rows")
    case True
    then have "list_pages fuel W keys k limit (token_at ?rows (i + ?l)) sv
        = Some (map (\<lambda>r. to_proto_object W (sv_node sv) (snd r)) (drop (i + ?l) (in_order ?rows)), sv)"
      using Suc.IH [of "i + ?l"] Suc.prems l(1) by simp
    moreover have "drop i (in_order ?rows) = take ?l (drop i (in_order ?rows)) @ drop (i + ?l) (in_order ?rows)"
      by (metis add.commute append_take_drop_id drop_drop)
    ultimately show ?thesis using page True token_at_nonempty [OF assms(1), of "i + ?l"] l(1)
      by simp (metis map_append)
  next
    case False
    then show ?thesis using page len by simp
  qed
qed simp

lemma encode_rows_get: "(n, q) \<in> set (encode_rows keys m mk) \<longleftrightarrow> n \<in> set keys \<and> map_option mk (m n) = Some q"
  by (induction keys) (auto simp: encode_rows_def List.map_filter_def)

lemma kind_rows_get: "(n, q) \<in> set (kind_rows keys k db) \<longleftrightarrow> n \<in> set (keys k) \<and> get_object k n db = Some q"
  by (cases k) (auto simp: kind_rows_def encode_rows_get get_object_def ref_for_def db_get_flow_by_name_def
      db_get_flow_version_def db_get_execution_def db_get_thread_def db_get_activity_def db_get_task_def
      split: option.splits)

lemma map_filter_fst:
  "map fst (List.map_filter (\<lambda>k. map_option (\<lambda>r. (k, q r)) (m k)) ks) = filter (\<lambda>k. m k \<noteq> None) ks"
  by (induction ks) (auto simp: List.map_filter_def)

lemma kind_rows_distinct: "distinct (keys k) \<Longrightarrow> distinct (map fst (kind_rows keys k db))"
  by (cases k) (simp_all add: kind_rows_def encode_rows_def map_filter_fst)

section \<open>Waiting for an execution\<close>

lemma get_execution_run:
  assumes "from_parsed s = Inr n"
  shows "client_get_execution (server_transport W aw rid t keys) s sv
    = (case d_executions (n_db (sv_node sv)) n of
         Some e \<Rightarrow> (Done (interpret_execution (to_proto_execution W e)), sv)
       | None \<Rightarrow> (Err (grpc CodeNotFound (''execution '' @ as_str n @ '' not found'')), sv))"
proof -
  have "kind_parse ''execution'' = Some KExecution" using kind_parse_as_str [of KExecution] by simp
  then show ?thesis using assms
    by (simp add: client_get_execution_def client_get_object_def server_transport_def rpc_get_object_def parse_kind_def parse_name_def
        get_object_def db_get_execution_def ref_for_def to_proto_object_def call_defs split: option.split)
qed

text \<open>What \<open>executions wait\<close> makes of the row it reads.\<close>

definition wait_outcome :: "wire_env \<Rightarrow> string \<Rightarrow> execution option \<Rightarrow> (cli_error, json option) outcome" where
  "wait_outcome W s row =
     (case row of
        None \<Rightarrow> Err (CliNoProjection s)
      | Some e \<Rightarrow>
          (case ex_status e of
             Completed \<Rightarrow>
               (case from_slice (we_value W) (some_vec_or_default (we_value W) (ex_output e)) of
                  Inl x \<Rightarrow> Err (CliBadOutput x) | Inr v \<Rightarrow> Done (Some v))
           | Terminated (FailedWith err) \<Rightarrow>
               Err (CliTerminated (error_name err) (some_vec_or_default (we_value W) (error_output err)))
           | Terminated _ \<Rightarrow> Err (CliTerminated [] [])
           | _ \<Rightarrow> Done None))"

lemma wait_turn_run:
  assumes "from_parsed s = Inr n"
  shows "cli_wait_turn W (server_transport W aw rid t keys) s sv = (wait_outcome W s (d_executions (n_db (sv_node sv)) n), sv)"
  by (simp add: cli_wait_turn_def get_execution_run [OF assms] wait_outcome_def interpret_execution_def to_proto_execution_def
      proto_termination_reason_def grpc_def Let_def split: option.split)
    (auto simp: proto_termination_reason_def split: lifecycle.split termination_reason.split)

lemma cli_wait_skips:
  assumes "from_parsed s = Inr n"
    and "\<forall>j<i. \<exists>e. d_executions (n_db (sv_node ((sleep ^^ j) sv))) n = Some e \<and> \<not> is_terminal (ex_status e)"
  shows "cli_wait (i + fuel) sleep W (server_transport W aw rid t keys) s sv
    = cli_wait fuel sleep W (server_transport W aw rid t keys) s ((sleep ^^ i) sv)"
  using assms(2)
proof (induction i arbitrary: sv)
  case (Suc i)
  obtain e where e: "d_executions (n_db (sv_node sv)) n = Some e" "\<not> is_terminal (ex_status e)"
    using Suc.prems by force
  have "\<forall>j<i. \<exists>e. d_executions (n_db (sv_node ((sleep ^^ j) (sleep sv)))) n = Some e \<and> \<not> is_terminal (ex_status e)"
    using Suc.prems by (metis Suc_less_eq funpow_Suc_right o_apply)
  then show ?case using Suc.IH [of "sleep sv"] e
    by (cases "ex_status e") (simp_all add: wait_turn_run [OF assms(1)] wait_outcome_def funpow_swap1)
qed simp

section \<open>Deadlines\<close>

lemma fire_all_due:
  assumes "distinct ts" "\<forall>x\<in>set ts. armed x \<noteq> None"
  shows "fire_all ts armed = Some (map (\<lambda>x. (x, the (armed x))) ts, armed |` (- set ts))"
  using assms
proof (induction ts arbitrary: armed)
  case (Cons x ts)
  then obtain d where "armed x = Some d" by auto
  moreover have "fire_all ts (armed(x := None)) = Some (map (\<lambda>y. (y, the (armed y))) ts, armed(x := None) |` (- set ts))"
  proof -
    have "map (\<lambda>y. (y, the ((armed(x := None)) y))) ts = map (\<lambda>y. (y, the (armed y))) ts"
      using Cons.prems(1) by auto
    moreover have "\<forall>y\<in>set ts. (armed(x := None)) y \<noteq> None" using Cons.prems by auto
    ultimately show ?thesis using Cons.IH [of "armed(x := None)"] Cons.prems(1) by (metis distinct.simps(2))
  qed
  moreover have "armed(x := None) |` (- set ts) = armed |` (- set (x # ts))"
    by (auto simp: restrict_map_def)
  ultimately show ?case by simp
qed (simp add: restrict_map_def)

lemma turn_run:
  assumes "distinct (order (fold scheduler_apply inbox armed))"
    "set (order (fold scheduler_apply inbox armed)) = dom (fold scheduler_apply inbox armed)"
  shows "\<exists>fired. scheduler_turn order t inbox armed
      = Some (fired, fold scheduler_apply inbox armed |` {x. \<not> is_due t (fold scheduler_apply inbox armed) x})
    \<and> distinct (map fst fired) \<and> (\<forall>x d. (x, d) \<in> set fired \<longleftrightarrow> fold scheduler_apply inbox armed x = Some d \<and> d \<le> t)"
proof -
  define a where "a = fold scheduler_apply inbox armed"
  let ?ts = "due_targets order t a"
  have ts: "distinct ?ts" "set ?ts = {x. is_due t a x}"
    using assms by (auto simp: a_def due_targets_def is_due_def split: option.splits)
  moreover have "\<forall>x\<in>set ?ts. a x \<noteq> None" using ts(2) by (auto simp: is_due_def split: option.splits)
  ultimately have "fire_all ?ts a = Some (map (\<lambda>x. (x, the (a x))) ?ts, a |` {x. \<not> is_due t a x})"
    using fire_all_due [OF ts(1), of a] by (simp add: Collect_neg_eq)
  moreover have "(x, d) \<in> set (map (\<lambda>x. (x, the (a x))) ?ts) \<longleftrightarrow> a x = Some d \<and> d \<le> t" for x d
    using ts(2) by (auto simp: is_due_def split: option.splits)
  ultimately show ?thesis using ts(1)
    by (intro exI [of _ "map (\<lambda>x. (x, the (a x))) ?ts"]) (simp add: scheduler_turn_def Let_def comp_def flip: a_def)
qed

text \<open>The deadline inputs of a sequence of events, as the observer sends them.\<close>

lemma inbox_of_events: "ob_inbox (fold on_event_applied evs ob) = ob_inbox ob @ List.map_filter deadline_input evs"
  by (induction evs arbitrary: ob) (auto simp: on_event_applied_def List.map_filter_def split: option.split)

definition armed_after :: "event list \<Rightarrow> observer \<Rightarrow> armed \<Rightarrow> armed" where
  "armed_after evs ob armed = fold scheduler_apply (ob_inbox (fold on_event_applied evs ob)) armed"

definition touches :: "deadline_target \<Rightarrow> event \<Rightarrow> bool" where
  "touches target ev \<longleftrightarrow> deadline_input ev = Some (Cancel target) \<or> (\<exists>d. deadline_input ev = Some (Schedule target d))"

lemma untouched: "\<forall>ev\<in>set evs. \<not> touches target ev \<Longrightarrow> fold scheduler_apply (List.map_filter deadline_input evs) armed target = armed target"
proof (induction evs arbitrary: armed)
  case (Cons ev evs)
  have "scheduler_apply i armed target = armed target" if "deadline_input ev = Some i" for i
    using Cons.prems that by (cases i) (auto simp: touches_def)
  then show ?case using Cons by (simp add: List.map_filter_def split: option.split)
qed (simp add: List.map_filter_def)

lemma last_touch:
  assumes "deadline_input ev = Some i" "\<forall>ev\<in>set later. \<not> touches target ev"
  shows "fold scheduler_apply (inputs @ List.map_filter deadline_input (earlier @ ev # later)) armed target
    = scheduler_apply i (fold scheduler_apply (inputs @ List.map_filter deadline_input earlier) armed) target"
  using assms(1) untouched [OF assms(2)] by (simp add: List.map_filter_def)

section \<open>Polls of a worker\<close>

definition remote_api ::
  "wire_env \<Rightarrow> await \<Rightarrow> request_id \<Rightarrow> timestamp \<Rightarrow> (object_kind \<Rightarrow> object_name list) \<Rightarrow> server task_api" where
  "remote_api W aw rid t keys = grpc_task_api W (server_transport W aw rid t keys)"

lemma codes_tasks:
  assumes "\<forall>a\<in>set ts. codes (we_value W) (av_arguments a)"
  shows "mapp (from_wire_task W) (map (to_wire_task W) ts) s = (Done (map (\<lambda>a. \<lparr> cd_task_name = as_str (av_task a),
    cd_resource = av_resource a, cd_arguments = av_arguments a \<rparr>) ts), s)"
  using assms
  by (induction ts) (auto elim!: codesE simp: from_wire_task_def to_wire_task_def to_vec_or_default_def call_defs)

section \<open>Concrete servers\<close>

definition run_name :: "string \<Rightarrow> object_name" where
  "run_name s = Plain (PlainName s)"

definition sample_run :: "string \<Rightarrow> execution_status \<Rightarrow> execution" where
  "sample_run s st = \<lparr> ex_meta = build_meta 7 (run_name s) 1000 (), ex_flow_version = sample_ref 0, ex_status = st,
     ex_deadline = None, ex_input = JNull, ex_output = Some (JString ''done'') \<rparr>"

definition run_server :: "execution_status \<Rightarrow> server" where
  "run_server st = idle_server \<lparr> sv_node := (sv_node idle_server) \<lparr> n_db := empty_db \<lparr> d_executions :=
     [run_name ''first'' \<mapsto> sample_run ''first'' st, run_name ''second'' \<mapsto> sample_run ''second'' st] \<rparr> \<rparr> \<rparr>"

definition flow_server :: server where
  "flow_server = idle_server \<lparr> sv_node := (sv_node idle_server) \<lparr> n_db := empty_db \<lparr> d_flows :=
     [PlainName ''demo'' \<mapsto> \<lparr> fl_meta = build_meta 1 (run_name ''demo'') 1000 (), fl_status = FlowActive, fl_latest_version = 1 \<rparr>] \<rparr> \<rparr> \<rparr>"

section \<open>Properties\<close>

text \<open>C30. References on the wire are typed. A reference that the server sends is read back as itself
  where a reference of its kind is expected, and refused with INVALID_ARGUMENT and the two kinds in the
  message where another kind is expected. Whatever reference is accepted names the expected kind and is
  well formed, so it too reads back as itself.\<close>

theorem wire_references_typed:
  assumes "texts_ulids W" "wf_ref r"
  shows "parse_ref W k (proto_ref W (raw_of k' r))
      = (if k = k' then Inr r else Inl (grpc CodeInvalidArgument (kind_mismatch W k' k)))
    \<and> (parse_ref W k w = Inr q \<longrightarrow>
        wr_kind w = kind_as_str k \<and> wf_ref q \<and> parse_ref W k (proto_ref W (raw_of k q)) = Inr q)"
  using parse_proto_ref [OF assms] parse_proto_ref [OF assms(1)] parse_ref_sound [OF assms(1)] by auto

theorem wire_references_typed_witness:
  "parse_ref sample_wire KTask (proto_ref sample_wire (raw_of KTask (ORef (Plain (PlainName ''demo'')) 5)))
     = Inr (ORef (Plain (PlainName ''demo'')) 5)
   \<and> (\<exists>st. parse_ref sample_wire KThread (proto_ref sample_wire (raw_of KTask (ORef (Plain (PlainName ''demo'')) 5))) = Inl st)"
proof -
  have "wf_ref (ORef (Plain (PlainName ''demo'')) 5)"
    by (simp add: wf_ref_def valid_plain_def is_alnum_def)
  from wire_references_typed [OF sample_wire_ulids this] show ?thesis by simp
qed

text \<open>C31. The reference that \<open>flows create\<close> prints is the one that \<open>executions start\<close> needs. When the
  gateway creates a version of a flow with a valid name, the command prints a text, and starting an
  execution on that text hands exactly the created version, with the parsed input, to the gateway.\<close>

theorem printed_reference_starts_its_version:
  assumes "texts_ulids W" "wf_ref r" "valid_plain name" "valid_utf8 def" "valid_plain x" "from_slice (we_value W) input = Inr v"
    and "gateway_create_flow aw rid (PlainName name) def sv = (Done r, sv1)"
  shows "\<exists>s. cli_flows_create (server_transport W aw rid t keys) name def sv = (Done s, sv1)
    \<and> cli_start (server_transport W aw rid' t' keys') (CliFlowVersion s) x (Some input) sv2
      = cli_call (mapr (\<lambda>_. x) (with_status (gateway_start_for_revision aw rid' (Plain (PlainName x)) r v))) sv2"
proof -
  let ?s = "ref_to_string (proto_ref W (raw_of KFlowVersion r))"
  have "cli_flows_create (server_transport W aw rid t keys) name def sv = (Done ?s, sv1)"
    using assms(3,4,7)
    by (simp add: cli_flows_create_def client_create_flow_def server_transport_def rpc_create_flow_def parse_flow_name_cases
        valid_plain_passes call_defs)
  moreover have "cli_start (server_transport W aw rid' t' keys') (CliFlowVersion ?s) x (Some input) sv2
      = cli_call (mapr (\<lambda>_. x) (with_status (gateway_start_for_revision aw rid' (Plain (PlainName x)) r v))) sv2"
    using assms(5,6)
    by (simp add: cli_start_def ref_from_to_string [OF assms(1,2)] client_start_execution_def server_transport_def
        rpc_start_execution_def parse_proto_ref [OF assms(1,2)] parse_json_def parse_execution_name_valid call_defs
        split: prod.split outcome.split)
  ultimately show ?thesis by blast
qed

theorem printed_reference_starts_its_version_witness:
  "\<exists>r sv s. gateway_create_flow (await_turns 1) 5 (PlainName ''demo'') ''stop'' idle_server = (Done r, sv)
    \<and> cli_flows_create (server_transport sample_wire (await_turns 1) 5 0 (\<lambda>_. [])) ''demo'' ''stop'' idle_server = (Done s, sv)
    \<and> cli_start (server_transport sample_wire (await_turns 1) 6 0 (\<lambda>_. [])) (CliFlowVersion s) ''first'' (Some ''hello'') sv
      = cli_call (mapr (\<lambda>_. ''first'') (with_status (gateway_start_for_revision (await_turns 1) 6 (Plain (PlainName ''first'')) r
          (JString ''hello'')))) sv"
proof -
  obtain r sv where run: "gateway_create_flow (await_turns 1) 5 (PlainName ''demo'') ''stop'' idle_server = (Done r, sv)" "wf_ref r"
    using create_flow_runs
    by (auto simp: wf_ref_def version_name_def generated_from_key_def valid_plain_def is_alnum_def split: prod.splits outcome.splits)
  have "valid_plain ''demo''" "valid_plain ''first''" "valid_utf8 ''stop''" "from_slice (we_value sample_wire) ''hello'' = Inr (JString ''hello'')"
    by (simp_all add: valid_plain_def is_alnum_def byte_in_def sample_wire_def)
  then show ?thesis using printed_reference_starts_its_version [OF sample_wire_ulids run(2) _ _ _ _ run(1)] run(1) by blast
qed

text \<open>C38. The name check of the command line is weaker than the server's. Every name that the server takes
  passes the check. A name that passes may still be too short or start with an underscore; then
  \<open>flows create\<close> ends with the server's INVALID_ARGUMENT, and nothing has changed.\<close>

theorem cli_name_check_weaker:
  "(plain_new s = Inr n \<longrightarrow> validate_flow_name s)
   \<and> (validate_flow_name s \<longrightarrow> (\<exists>m. plain_new s = Inr m) \<or> length s < 4 \<or> s ! 0 = CHR ''_'')
   \<and> (validate_flow_name s \<and> (length s < 4 \<or> s ! 0 = CHR ''_'') \<longrightarrow>
        (\<exists>msg. cli_flows_create (server_transport W aw rid t keys) s def sv
           = (Err (CliStatus (grpc CodeInvalidArgument msg)), sv)))"
proof (intro conjI impI)
  show "plain_new s = Inr n \<Longrightarrow> validate_flow_name s" by (simp add: valid_plain_passes)
  show "validate_flow_name s \<Longrightarrow> (\<exists>m. plain_new s = Inr m) \<or> length s < 4 \<or> s ! 0 = CHR ''_''"
    using validated_name by auto
  assume s: "validate_flow_name s \<and> (length s < 4 \<or> s ! 0 = CHR ''_'')"
  then have "\<not> valid_plain s" by (auto simp: valid_plain_def is_alnum_def is_digit_def)
  then show "\<exists>msg. cli_flows_create (server_transport W aw rid t keys) s def sv = (Err (CliStatus (grpc CodeInvalidArgument msg)), sv)"
    using s by (auto simp: cli_flows_create_def client_create_flow_def server_transport_def rpc_create_flow_def
        parse_flow_name_cases call_defs)
qed

theorem cli_name_check_weaker_witness:
  "\<forall>aw def sv. \<exists>msg. cli_flows_create (server_transport sample_wire aw 5 0 (\<lambda>_. [])) ''abc'' def sv
     = (Err (CliStatus (grpc CodeInvalidArgument msg)), sv)"
proof -
  have "validate_flow_name ''abc''" by (simp add: validate_flow_name_def is_alnum_def)
  then show ?thesis using cli_name_check_weaker [of "''abc''" _ sample_wire _ 5 0 "\<lambda>_. []"] by simp
qed




text \<open>C33. Waiting ends with the outcome of the execution. \<open>executions wait\<close> polls while the row is in flight and
  ends at the first poll that finds it settled: with the output of a completed execution, with the error of
  one that failed, and with an empty error name and output of one that timed out or was cancelled. It ends
  with the missing projection where there is no row. Reading changes nothing.\<close>

theorem wait_ends_with_the_outcome:
  assumes "from_parsed s = Inr n" "i < fuel"
    and "\<forall>j<i. \<exists>e. d_executions (n_db (sv_node ((sleep ^^ j) sv))) n = Some e \<and> \<not> is_terminal (ex_status e)"
    and "d_executions (n_db (sv_node ((sleep ^^ i) sv))) n = row"
  shows "(row = Some e \<and> ex_status e = Completed \<and> ex_output e = Some v \<and> codes (we_value W) v \<longrightarrow>
       cli_wait fuel sleep W (server_transport W aw rid t keys) s sv = Some (Done v, (sleep ^^ i) sv))
    \<and> (row = Some e \<and> ex_status e = Terminated (FailedWith err) \<longrightarrow>
       cli_wait fuel sleep W (server_transport W aw rid t keys) s sv
         = Some (Err (CliTerminated (error_name err) (some_vec_or_default (we_value W) (error_output err))), (sleep ^^ i) sv))
    \<and> (row = Some e \<and> ex_status e \<in> {Terminated TimedOut, Terminated Cancelled} \<longrightarrow>
       cli_wait fuel sleep W (server_transport W aw rid t keys) s sv = Some (Err (CliTerminated [] []), (sleep ^^ i) sv))
    \<and> (row = None \<longrightarrow>
       cli_wait fuel sleep W (server_transport W aw rid t keys) s sv = Some (Err (CliNoProjection s), (sleep ^^ i) sv))"
proof -
  obtain f where "fuel = i + Suc f" using assms(2) less_imp_Suc_add by fastforce
  then have "cli_wait fuel sleep W (server_transport W aw rid t keys) s sv
      = (case wait_outcome W s row of
           Done None \<Rightarrow> cli_wait f sleep W (server_transport W aw rid t keys) s (sleep ((sleep ^^ i) sv))
         | Done (Some v) \<Rightarrow> Some (Done v, (sleep ^^ i) sv)
         | Err x \<Rightarrow> Some (Err x, (sleep ^^ i) sv) | Panicked w \<Rightarrow> Some (Panicked w, (sleep ^^ i) sv))"
    using cli_wait_skips [OF assms(1,3), of "Suc f"] assms(4)
    by (simp add: wait_turn_run [OF assms(1)] split: outcome.split option.split)
  then show ?thesis
    by (auto simp: wait_outcome_def codes_def some_vec_or_default_def to_vec_or_default_def split: sum.splits)
qed

theorem wait_ends_with_the_outcome_witness:
  "cli_wait 2 (\<lambda>_. run_server Completed) sample_wire (server_transport sample_wire (await_turns 0) 5 0 (\<lambda>_. [])) ''first'' (run_server Running)
     = Some (Done (JString ''done''), run_server Completed)
   \<and> cli_wait 1 id sample_wire (server_transport sample_wire (await_turns 0) 5 0 (\<lambda>_. [])) ''first'' (run_server (Terminated Cancelled))
     = Some (Err (CliTerminated [] []), run_server (Terminated Cancelled))"
proof -
  have name: "from_parsed ''first'' = Inr (run_name ''first'')" by (simp add: run_name_def) code_simp
  have row: "d_executions (n_db (sv_node (run_server st))) (run_name ''first'') = Some (sample_run ''first'' st)" for st
    by (simp add: run_server_def run_name_def)
  show ?thesis
    using wait_ends_with_the_outcome [OF name, of 1 2 "\<lambda>_. run_server Completed" "run_server Running" _ "sample_run ''first'' Completed"
        "JString ''done''" sample_wire]
      wait_ends_with_the_outcome [OF name, of 0 1 id "run_server (Terminated Cancelled)" _ "sample_run ''first'' (Terminated Cancelled)" _ sample_wire] row
    by (simp add: sample_run_def codes_def sample_wire_def)
qed


text \<open>C34. The deadline scheduler fires exactly what is due. A turn never panics. It fires every armed target
  whose deadline has passed, once, with its deadline, disarms it, and keeps the others armed.\<close>

theorem scheduler_fires_exactly_the_due:
  assumes "distinct (order (fold scheduler_apply inbox armed))"
    "set (order (fold scheduler_apply inbox armed)) = dom (fold scheduler_apply inbox armed)"
  shows "\<exists>fired armed'. scheduler_turn order t inbox armed = Some (fired, armed') \<and> distinct (map fst fired)
    \<and> (\<forall>target d. (target, d) \<in> set fired \<longleftrightarrow> fold scheduler_apply inbox armed target = Some d \<and> d \<le> t)
    \<and> (\<forall>target. armed' target = (case fold scheduler_apply inbox armed target of
         Some d \<Rightarrow> if d \<le> t then None else Some d | None \<Rightarrow> None))"
proof -
  let ?a = "fold scheduler_apply inbox armed"
  have "(?a |` {x. \<not> is_due t ?a x}) x = (case ?a x of Some d \<Rightarrow> if d \<le> t then None else Some d | None \<Rightarrow> None)" for x
    by (auto simp: restrict_map_def is_due_def split: option.split)
  then show ?thesis using turn_run [where order = order and inbox = inbox and armed = armed and t = t, OF assms]
    by (elim exE conjE) (intro exI conjI; assumption?; blast?)
qed

theorem scheduler_fires_exactly_the_due_witness:
  "\<exists>armed'. scheduler_turn (\<lambda>_. [DeadlineExecution (sample_ref 0), DeadlineActivity (sample_ref 1)]) 7
     [Schedule (DeadlineExecution (sample_ref 0)) 5, Schedule (DeadlineActivity (sample_ref 1)) 9] Map.empty
     = Some ([(DeadlineExecution (sample_ref 0), 5)], armed')
   \<and> armed' (DeadlineExecution (sample_ref 0)) = None \<and> armed' (DeadlineActivity (sample_ref 1)) = Some 9"
proof -
  let ?inbox = "[Schedule (DeadlineExecution (sample_ref 0)) 5, Schedule (DeadlineActivity (sample_ref 1)) 9]"
  let ?order = "\<lambda>_. [DeadlineExecution (sample_ref 0), DeadlineActivity (sample_ref 1)]"
  obtain fired armed' where run: "scheduler_turn ?order 7 ?inbox Map.empty = Some (fired, armed')"
    "\<forall>target. armed' target = (case fold scheduler_apply ?inbox Map.empty target of
         Some d \<Rightarrow> if d \<le> 7 then None else Some d | None \<Rightarrow> None)"
    using scheduler_fires_exactly_the_due [where order = ?order and inbox = ?inbox and armed = Map.empty and t = 7]
    by (auto simp: insert_commute)
  moreover have "fired = [(DeadlineExecution (sample_ref 0), 5)]"
    using run(1) by (simp add: scheduler_turn_def due_targets_def is_due_def)
  ultimately show ?thesis by simp
qed





text \<open>C37. A duplicate flow name looks like a malformed definition. Creating a flow under a name that the
  projection has fails with INVALID_ARGUMENT, the code of a definition that does not parse; only a duplicate
  that the command handler meets is ALREADY_EXISTS. In both refusals before the log nothing is appended, but
  the registration of the request stays behind.\<close>

theorem duplicate_flow_looks_malformed:
  assumes "valid_plain (cf_name req)" "valid_utf8 (cf_definition req)"
    and "d_flows (n_db (sv_node sv)) (PlainName (cf_name req)) \<noteq> None
      \<or> e_parse_machine (l_env (n_leader (sv_node sv))) (cf_definition req) = None"
  shows "(\<exists>msg sv'. rpc_create_flow W aw rid req sv = (Err (grpc CodeInvalidArgument msg), sv') \<and> sv_node sv' = sv_node sv
       \<and> ah_pending (ob_ack (sv_observer sv')) = (ah_pending (ob_ack (sv_observer sv)))(rid \<mapsto> AckFlowVersionCreated))
    \<and> (e_parse_machine (p_env s) def \<noteq> None \<and> get_flow_by_name (p_work s) n \<noteq> None \<longrightarrow>
       (\<exists>rj. flow_create rid n def s = (Done (), pushed (PReject rj) s) \<and> gs_code (to_status (RejectedErr rj)) = CodeAlreadyExists))"
proof
  have "get_object KFlow (Plain (PlainName (cf_name req))) (n_db (sv_node sv)) \<noteq> None
      \<or> e_parse_machine (l_env (n_leader (sv_node sv))) (cf_definition req) = None"
    using assms(3) by (simp add: get_object_def db_get_flow_by_name_def)
  then obtain why where "engine_create_flow rid (PlainName (cf_name req)) (cf_definition req) (sv_node sv) = Inl (bad_definition why)"
    unfolding engine_create_flow_def by metis
  then have "rpc_create_flow W aw rid req sv = (Err (grpc CodeInvalidArgument (runtime_display (InvalidDefinition why))),
      snd (gw_register rid AckFlowVersionCreated sv))"
    using assms(1,2)
    by (simp add: rpc_create_flow_def parse_flow_name_cases gateway_create_flow_def bad_definition_def call_defs del: runtime_display.simps)
  then show "\<exists>msg sv'. rpc_create_flow W aw rid req sv = (Err (grpc CodeInvalidArgument msg), sv') \<and> sv_node sv' = sv_node sv
       \<and> ah_pending (ob_ack (sv_observer sv')) = (ah_pending (ob_ack (sv_observer sv)))(rid \<mapsto> AckFlowVersionCreated)"
    by (auto simp: gw_register_def modify_def ack_register_def)
  show "e_parse_machine (p_env s) def \<noteq> None \<and> get_flow_by_name (p_work s) n \<noteq> None \<longrightarrow>
       (\<exists>rj. flow_create rid n def s = (Done (), pushed (PReject rj) s) \<and> gs_code (to_status (RejectedErr rj)) = CodeAlreadyExists)"
    by (auto simp: flow_create_def ask_def read_flow_by_name_def run_append_reject bnd_def gets_def grpc_def split: option.split)
qed

theorem duplicate_flow_looks_malformed_witness:
  "\<exists>msg sv'. rpc_create_flow sample_wire (await_turns 1) 5 \<lparr> cf_name = ''demo'', cf_definition = ''stop'' \<rparr> flow_server
      = (Err (grpc CodeInvalidArgument msg), sv') \<and> ah_pending (ob_ack (sv_observer sv')) 5 = Some AckFlowVersionCreated
   \<and> (\<exists>rj. flow_create 5 (PlainName ''demo'') ''stop'' (handler_start 1 (leader_new sample_env) (n_db (sv_node flow_server)))
        = (Done (), pushed (PReject rj) (handler_start 1 (leader_new sample_env) (n_db (sv_node flow_server))))
        \<and> gs_code (to_status (RejectedErr rj)) = CodeAlreadyExists)"
proof -
  let ?req = "\<lparr> cf_name = ''demo'', cf_definition = ''stop'' \<rparr>"
  let ?s = "handler_start 1 (leader_new sample_env) (n_db (sv_node flow_server))"
  have "valid_plain (cf_name ?req)" "valid_utf8 (cf_definition ?req)" "d_flows (n_db (sv_node flow_server)) (PlainName (cf_name ?req)) \<noteq> None"
    by (simp_all add: valid_plain_def is_alnum_def byte_in_def flow_server_def)
  moreover have "e_parse_machine (p_env ?s) ''stop'' \<noteq> None" "get_flow_by_name (p_work ?s) (PlainName ''demo'') \<noteq> None"
    by (simp_all add: handler_start_def leader_new_def sample_env_def flow_server_def get_flow_by_name_def begin_txn_def empty_batch_def)
  ultimately show ?thesis
    using duplicate_flow_looks_malformed [of ?req flow_server sample_wire "await_turns 1" 5 ?s "''stop''" "PlainName ''demo''"]
    by (simp del: to_status.simps) fastforce
qed


text \<open>C36. A worker reports what its handler returned. A poll hands the worker the granted tasks with their
  arguments unchanged, for a batch size cut to 32 bits. A failing handler appends one failure command with
  the worker's id, the task's name and the handler's error name and output; a missing handler fails the task
  as States.Runtime. A succeeding one completes the task with its output. A refused report is not the
  worker's failure.\<close>

theorem worker_reports_its_handler:
  "(gateway_poll_tasks aw r tm wid res (mx mod 2 ^ 32) lease sv = (Done ts, sv')
        \<and> (\<forall>a\<in>set ts. codes (we_value W) (av_arguments a)) \<longrightarrow>
        ta_poll_tasks (remote_api W aw r tm keys) wid res mx lease sv = (Done (map (\<lambda>a. \<lparr> cd_task_name = as_str (av_task a),
          cd_resource = av_resource a, cd_arguments = av_arguments a \<rparr>) ts), sv'))
    \<and> (from_parsed (cd_task_name k) = Inr n \<and> run_handler w k = Inl f \<and> codes (we_value W) (tf_output f)
        \<and> to_vec (we_value W) (tf_output f) \<noteq> Inr [] \<longrightarrow>
        worker_job (remote_api W aw r tm keys) w wid x k sv = (Done (), sv \<lparr> sv_node := engine_fail_task wid n
          (Runtime (StateFailed [] (tf_error_name f) (tf_output f))) (sv_node sv) \<rparr>))
    \<and> (map_of (ts_handlers w) (cd_resource k) = None \<longrightarrow> run_handler w k = Inl \<lparr> tf_error_name = ''States.Runtime'', tf_output = JNull \<rparr>)
    \<and> (from_parsed (cd_task_name k) = Inr n \<and> run_handler w k = Inr v \<and> codes (we_value W) v \<and> we_ulid_parse W x = Some q
        \<and> gateway_complete aw wid n q v sv = (res', sv') \<and> (\<forall>p. res' \<noteq> Panicked p) \<longrightarrow>
        worker_job (remote_api W aw r tm keys) w wid x k sv = (Done (), sv'))"
proof (intro conjI impI; (elim conjE)?)
  note defs = remote_api_def grpc_task_api_def server_transport_def to_rpc_error_def call_defs
  show "ta_poll_tasks (remote_api W aw r tm keys) wid res mx lease sv = (Done (map (\<lambda>a. \<lparr> cd_task_name = as_str (av_task a),
      cd_resource = av_resource a, cd_arguments = av_arguments a \<rparr>) ts), sv')"
    if run: "gateway_poll_tasks aw r tm wid res (mx mod 2 ^ 32) lease sv = (Done ts, sv')" and codes: "\<forall>a\<in>set ts. codes (we_value W) (av_arguments a)"
    using run codes_tasks [OF codes] by (simp add: defs client_poll_tasks_def rpc_poll_tasks_def)
  show "worker_job (remote_api W aw r tm keys) w wid x k sv = (Done (), sv \<lparr> sv_node := engine_fail_task wid n
      (Runtime (StateFailed [] (tf_error_name f) (tf_output f))) (sv_node sv) \<rparr>)"
    if "from_parsed (cd_task_name k) = Inr n" "run_handler w k = Inl f" "codes (we_value W) (tf_output f)" "to_vec (we_value W) (tf_output f) \<noteq> Inr []"
    using that by (auto elim!: codesE simp: defs worker_job_def handle_def client_fail_task_def rpc_fail_task_def parse_task_name_def parse_json_def
        gateway_fail_def to_vec_or_default_def)
  show "run_handler w k = Inl \<lparr> tf_error_name = ''States.Runtime'', tf_output = JNull \<rparr>" if "map_of (ts_handlers w) (cd_resource k) = None"
    using that by (simp add: run_handler_def)
  show "worker_job (remote_api W aw r tm keys) w wid x k sv = (Done (), sv')"
    if "from_parsed (cd_task_name k) = Inr n" "run_handler w k = Inr v" "codes (we_value W) v" "we_ulid_parse W x = Some q"
      "gateway_complete aw wid n q v sv = (res', sv')" "\<forall>p. res' \<noteq> Panicked p"
    using that by (cases res') (auto elim!: codesE simp: defs worker_job_def handle_def client_complete_task_def rpc_complete_task_def
        parse_task_name_def parse_json_def parse_ulid_def to_vec_or_default_def)
qed

theorem worker_reports_its_handler_witness:
  "worker_job (remote_api sample_wire (await_turns 1) 5 0 (\<lambda>_. [])) (spawn_named ''pool'' [(''mail'', \<lambda>_ _. Inl \<lparr> tf_error_name = ''Bounced'', tf_output = JString ''full'' \<rparr>)])
     ''pool-1'' ''x'' \<lparr> cd_task_name = ''first'', cd_resource = ''mail'', cd_arguments = JNull \<rparr> idle_server
   = (Done (), idle_server \<lparr> sv_node := engine_fail_task ''pool-1'' (run_name ''first'')
       (Runtime (StateFailed [] ''Bounced'' (JString ''full''))) (sv_node idle_server) \<rparr>)"
proof -
  have name: "from_parsed ''first'' = Inr (run_name ''first'')" by (simp add: run_name_def) code_simp
  have codes: "codes (we_value sample_wire) (JString ''full'')" "to_vec (we_value sample_wire) (JString ''full'') \<noteq> Inr []"
    by (simp_all add: codes_def sample_wire_def)
  show ?thesis
    using worker_reports_its_handler [where W = sample_wire and aw = "await_turns 1" and r = 5 and tm = 0 and keys = "\<lambda>_. []"
      and k = "\<lparr> cd_task_name = ''first'', cd_resource = ''mail'', cd_arguments = JNull \<rparr>" and n = "run_name ''first''"
      and w = "spawn_named ''pool'' [(''mail'', \<lambda>_ _. Inl \<lparr> tf_error_name = ''Bounced'', tf_output = JString ''full'' \<rparr>)]"
      and f = "\<lparr> tf_error_name = ''Bounced'', tf_output = JString ''full'' \<rparr>" and wid = "''pool-1''" and x = "''x''" and sv = idle_server] name codes
    by (simp add: run_handler_def spawn_named_def)
qed


end
