(* ===== verification/MapItems.thy ===== *)
theory MapItems
  imports Dispatch Sample
begin

text \<open>
  What a settled item makes a \<open>Map\<close> state do (\<open>map_child_completed\<close> in
  \<open>src/crates/engine/src/elements/states/map.rs\<close>): how many items it starts, which ones, and what happens
  when a second item settles before the first refill has been carried out.
\<close>

section \<open>Running the refill\<close>

definition items_settled :: "txn \<Rightarrow> map_activity_state \<Rightarrow> nat" where
  "items_settled w p = length (filter (\<lambda>e. thread_succeeded (get_thread w e)) (map snd (DAList.impl_of (ma_children p))))"

definition items_started :: "map_activity_state \<Rightarrow> nat" where
  "items_started p = length (DAList.impl_of (ma_children p))"

lemma run_each_append:
  "\<exists>s'. each append_command cs s = (Done (), s') \<and> p_work s' = p_work s
     \<and> map en_payload (p_entries s') = map en_payload (p_entries s) @ map PCommand cs"
proof (induction cs arbitrary: s)
  case (Cons c cs)
  show ?case using Cons.IH [of "pushed (PCommand c) s"]
    by (auto simp: run_append_command run_defs pushed_def built_def)
qed (simp add: run_defs)

lemma run_read_threads: "mapp read_thread es s = (Done (map (get_thread (p_work s)) es), s)"
  by (induction es) (simp_all add: read_thread_def run_defs)

lemma child_found:
  assumes "c \<in> snd ` set xs"
  shows "find (\<lambda>e. raw_of KThread e = raw_of KThread c) (map snd xs) = Some c"
  using assms by (induction xs) auto

lemma items_settled_le: "items_settled w p \<le> items_started p"
  by (metis items_settled_def items_started_def length_filter_le length_map)

lemma replenish_bounds:
  "replenish_count p m \<le> ma_total p - items_started p"
  "0 < ma_max_concurrency p \<Longrightarrow> items_started p - m \<le> ma_max_concurrency p \<Longrightarrow>
     items_started p - m + replenish_count p m \<le> ma_max_concurrency p"
  by (simp_all add: replenish_count_def items_started_def Let_def)

lemma refill_run:
  assumes "get_activity (p_work s) r = Some row" "ac_activity_state row = Some (ActMap p)"
    and "c \<in> snd ` set (DAList.impl_of (ma_children p))" "thread_succeeded (get_thread (p_work s) c)"
    and "items_settled (p_work s) p \<noteq> ma_total p"
  shows "\<exists>s'. map_child_completed ip r a (raw_of KThread c) s = (Done (), s') \<and> p_work s' = p_work s
    \<and> map en_payload (p_entries s') = map en_payload (p_entries s)
        @ map (\<lambda>i. PCommand (item_spawn ip a p i))
            [items_started p..<items_started p + replenish_count p (items_settled (p_work s) p)]"
proof -
  let ?k = "replenish_count p (items_settled (p_work s) p)"
  have settled: "length (filter thread_succeeded (map (get_thread (p_work s)) (map snd (DAList.impl_of (ma_children p)))))
      = items_settled (p_work s) p"
    by (simp add: items_settled_def filter_map comp_def)
  have "map_child_completed ip r a (raw_of KThread c) s
      = each append_command (map (\<lambda>k. item_spawn ip a p (items_started p + k)) [0..<?k]) s"
    using assms child_found [OF assms(3)] settled
    by (simp add: map_child_completed_def read_activity_def read_thread_def [of c] run_read_threads run_defs items_started_def Let_def)
  moreover have "map (\<lambda>k. item_spawn ip a p (items_started p + k)) [0..<?k] = map (item_spawn ip a p) [items_started p..<items_started p + ?k]"
    by (rule nth_equalityI) simp_all
  ultimately show ?thesis
    using run_each_append [of "map (item_spawn ip a p) [items_started p..<items_started p + ?k]" s] by (simp add: comp_def)
qed

section \<open>A concrete plan\<close>

text \<open>Two of four items at a time; the first has succeeded, then both have.\<close>

definition sample_plan :: map_activity_state where
  "sample_plan = \<lparr> ma_items = [JNull, JNull, JNull, JNull], ma_total = 4, ma_max_concurrency = 2,
     ma_children = DAList.update 1 (sample_ref 2) (DAList.update 0 (sample_ref 0) DAList.empty) \<rparr>"

definition plan_state :: "thread_status \<Rightarrow> pstate" where
  "plan_state st = sample_state \<lparr> p_work := put_activity (sample_activity \<lparr> ac_activity_state := Some (ActMap sample_plan) \<rparr>)
     (put_thread (sample_thread \<lparr> th_status := Completed \<rparr>)
     (put_thread (sample_thread \<lparr> th_meta := build_meta 2 (sample_name 2) 1000 (OwnerExecution (sample_ref 0)), th_status := st \<rparr>) sample_txn)) \<rparr>"

section \<open>Properties\<close>



end
