(* ===== verification/Spec2Isabelle.thy ===== *)
theory Spec2Isabelle
  imports Leases RocksScans RocksLog Requests MapItems
begin

text \<open>
  Spica is a durable workflow engine for the JSONata dialect of the Amazon States Language
  (\<open>src/crates/\<close>). A client sends commands; each is appended to a log. One leader reads the log in
  order, dispatches every command to a handler, and the handler answers with events, follow-up commands
  and rejections. The events are projected onto rows in storage while the handler runs; the batch is
  appended to the log, closed by a Noop, and only then is the transaction committed. Followers and a
  restarted leader rebuild storage from the events of the log. Around this core stand two storage
  backends, two log backends, a deadline scheduler, a gRPC server whose gateway matches answers to waiting
  callers, a client with a task worker, and a command line.

  \<^bold>\<open>Parts and theories.\<close>

  \<^item> \<open>Prelude\<close>: decimal, UTF-8 and debug text of Rust values; the procedures of the model (\<open>proc\<close>: a state
    in, an outcome \<open>Done\<close>, \<open>Err\<close> or \<open>Panicked\<close> and a state out), their loops and the rules for what a
    procedure preserves.
  \<^item> \<open>Names\<close> (\<open>machinery/\<close>): object names, timestamps, the manual clock, the counting ids.
  \<^item> \<open>Asl\<close> (\<open>asl/\<close>): JSON, state machines, field deserializers, state paths.
  \<^item> \<open>Types\<close> (\<open>engine-types/\<close>): kinds, references, metadata, the rows of the six entities with their status
    machines, leases and retry plans, commands, events, rejections, entries.
  \<^item> \<open>Storage\<close> (\<open>storage/src/memory.rs\<close>): the database and the buffered transaction. \<open>Appliers\<close>
    (\<open>engine/src/applier/\<close>): one projection per event. \<open>Logstream\<close> (\<open>logstream/src/memory.rs\<close>,
    \<open>engine/src/log.rs\<close>): the log and the batches.
  \<^item> \<open>Handler\<close> (\<open>engine/src/handler.rs\<close>, \<open>working.rs\<close>, \<open>eval_env.rs\<close>): what a handler runs in.
    \<open>Containers\<close>, \<open>LeafStates\<close>, \<open>TaskState\<close>, \<open>FanoutStates\<close>, \<open>StateHandler\<close>, \<open>Elements\<close>
    (\<open>engine/src/elements/\<close>, \<open>engine/src/handlers/\<close>): all eight states, the containers, tasks, flows,
    executions, and \<open>dispatch_command\<close>.
  \<^item> \<open>Leader\<close> (\<open>engine/src/leader.rs\<close>, \<open>follower.rs\<close>, \<open>stream_processor.rs\<close>): retries and refusals of a
    command, the leader's loop as a step relation and as a run, recovery, the follower. \<open>Engine\<close>
    (\<open>engine/src/engine.rs\<close>, \<open>query.rs\<close>): reads, listings, and the commands that clients append.
  \<^item> \<open>Rocksdb\<close>, \<open>Keys\<close>, \<open>RocksStore\<close>, \<open>RocksLog\<close> (\<open>storage/src/key.rs\<close>, \<open>storage/src/rocks.rs\<close>,
    \<open>logstream/src/rocks.rs\<close>): the persistent backends over the database as a parameter.
  \<^item> \<open>Scheduler\<close> (\<open>scheduler/src/in_memory.rs\<close>, the hooks of \<open>server/src/gateway.rs\<close>): deadlines, waiting
    callers. \<open>Wire\<close> (\<open>proto/proto/spica.proto\<close>, \<open>server/src/common.rs\<close>, \<open>query.rs\<close>): messages and status
    codes. \<open>Server\<close> (\<open>server/src/\<close>): the processor with its hook attached, the gateway, every request
    handler. \<open>Client\<close> (\<open>client/src/\<close>, \<open>cli/src/\<close>): the client over any transport, the worker, the commands
    of the command line.

  A struct is a record and an enum a datatype with the constructors of the code; a handler is one
  definition with every guard, early return, panic and emitted entry of the code in its order. State is
  passed explicitly: \<open>pstate\<close> in a handler run, \<open>node\<close> in the processor, \<open>server\<close> at the edge. Timestamps are
  64-bit words with checked addition written out; positions of the log are integers; counters that cannot
  overflow before storage does are natural numbers.

  \<^bold>\<open>What the lemmas show.\<close>

  \<^item> \<open>Invariance\<close> states the contract of a handler once, as locales over the primitives of a run: whatever
    they keep, every handler keeps. \<open>Projections\<close>, \<open>Dispatch\<close>, \<open>Emission\<close>, \<open>Lifecycle\<close> and \<open>Answers\<close>
    interpret it: the working transaction is the replay of the emitted events, rows stand under their own
    names below the name counter, every accepted command leaves an entry, and rows and acknowledgements are
    touched only where they should be. The locales of \<open>Storage\<close> state the same for tables and edges.
  \<^item> \<open>Processing\<close>: a follower's storage and a recovered leader's storage are the storage of the leader that
    wrote the log; a rejected command keeps every row; retries end after three attempts; and two gaps of the
    restart, a pending command that is skipped and an event that is delivered twice.
  \<^item> \<open>Lifecycle\<close>: an execution only moves forward. \<open>Leases\<close>: claims, leases, reports of workers, retry
    budgets and waits of tasks. \<open>MapItems\<close>: how a Map refills its slots, and how it can repeat an item.
  \<^item> \<open>Keys\<close>: storage keys are unambiguous, scans meet exactly their rows, references print and parse.
    \<open>RocksRefinement\<close> and \<open>RocksLog\<close>: the persistent transaction and log refine the in-memory ones.
    \<open>RocksScans\<close>: two scans outside a transaction that run past their rows.
  \<^item> \<open>Answers\<close>: a waiting caller gets exactly one message, true of its command and in the log; an OK of the
    gateway is backed by the durable event. \<open>Requests\<close>: references on the wire are typed, printed references
    work as arguments, paging is complete, waiting ends with the outcome, due deadlines fire once and settled
    ones never, workers report their handlers, and where refusals of names disagree.

  \<open>Sample\<close> and the last sections of the other theories hold the concrete objects of the witnesses.

  \<^bold>\<open>Parameters, bounds and fuel.\<close> What is not in the repository is an argument. The record \<open>env\<close> has the
  clock, the ids, the JSONata engine, the parser of definitions, the RFC 3339 parser, the CRC, the build
  profile and the iteration orders of hash maps; \<open>rocksdb\<close> and \<open>serde\<close> have the database and the codec, with
  the laws \<open>healthy\<close> and \<open>codes\<close>; \<open>wire_env\<close> has the text form of a ULID, with the law \<open>texts_ulids\<close>. Each law
  has an instance that satisfies it. Loops over data are structural or measured. Three loops wait for
  something else and take fuel: \<open>run_leader\<close>, one unit per entry of the log, for which the step relation
  \<open>leader_step\<close> is the unbounded form; \<open>await_turns\<close>, one unit per turn of the leader while a caller waits;
  \<open>cli_wait\<close>, one unit per poll, for which a property shows that one unit more than the polls before the
  execution settles is enough. \<open>list_pages\<close> needs one unit more than there are objects.

  \<^bold>\<open>Not modelled.\<close> Pure I/O and assembly: \<open>server/src/main.rs\<close>, connecting, argument parsing, files,
  logging. Generated code: derived (de)serializers, the protocol compiler's output. Trait declarations and
  re-exports. Real time: the sleeps of the scheduler, of the worker, of retries and of polling, and the
  cancellation of loops. Concurrency inside a process: the leader is the only writer of storage, so turns of
  the loop are atomic; the jobs that a worker spawns are a list that may be run in any order. The JSON text of
  definitions is parsed by a parameter; fields that the engine never reads are not kept. A rejection keeps
  the fixed words of its message.
\<close>

end
